(* ===== verification/Prelude.thy ===== *)
theory Prelude
  imports Main "HOL-Library.Sublist"
begin

text \<open>
  Shared vocabulary of the development. The program is written in TypeScript, whose strings are
  sequences of UTF-16 code units; a string is therefore a list of natural numbers here
  (\<open>ustring\<close>), and the string primitives the sources call (\<open>indexOf\<close>,
  \<open>lastIndexOf\<close>, \<open>slice\<close>, \<open>split\<close>, \<open>join\<close>, \<open>trim\<close>,
  \<open>toString(radix)\<close>, \<open>parseInt\<close>) are given executable definitions with the laws
  the component theories use. Facts that only rewrite are declared \<open>[simp]\<close>; the
  splitting and joining laws are collected in \<open>js_laws\<close>.
\<close>

named_theorems js_laws \<open>laws of the string primitives\<close>

type_synonym ustring = "nat list"

text \<open>A literal of the source, as code units.\<close>

definition str :: "string \<Rightarrow> ustring" where
  "str s = map of_char s"

text \<open>The two pieces most messages contain: a quoted text and the em dash.\<close>

definition quoted :: "ustring \<Rightarrow> ustring" where
  "quoted s = [39] @ s @ [39]"

definition dash :: ustring where
  "dash = [8212]"

subsection \<open>Character classes\<close>

definition is_digit :: "nat \<Rightarrow> bool" where
  "is_digit c \<longleftrightarrow> 48 \<le> c \<and> c \<le> 57"

definition is_upper :: "nat \<Rightarrow> bool" where
  "is_upper c \<longleftrightarrow> 65 \<le> c \<and> c \<le> 90"

definition is_lower :: "nat \<Rightarrow> bool" where
  "is_lower c \<longleftrightarrow> 97 \<le> c \<and> c \<le> 122"

definition is_alpha :: "nat \<Rightarrow> bool" where
  "is_alpha c \<longleftrightarrow> is_upper c \<or> is_lower c"

definition is_hex :: "nat \<Rightarrow> bool" where
  "is_hex c \<longleftrightarrow> is_digit c \<or> (65 \<le> c \<and> c \<le> 70) \<or> (97 \<le> c \<and> c \<le> 102)"

text \<open>
  ECMAScript WhiteSpace and LineTerminator code units: what \<open>trim\<close> removes and what the
  regular-expression class \<open>\s\<close> matches.
\<close>

definition is_space :: "nat \<Rightarrow> bool" where
  "is_space c \<longleftrightarrow> c \<in> {9, 10, 11, 12, 13, 32, 160, 5760, 8232, 8233, 8239, 8287, 12288, 65279}
     \<or> (8192 \<le> c \<and> c \<le> 8202)"

definition ascii_lower :: "nat \<Rightarrow> nat" where
  "ascii_lower c = (if is_upper c then c + 32 else c)"

text \<open>
  \<open>toLowerCase\<close> on a string of ASCII code units. The sources call it on strings that a
  regular expression has already restricted to ASCII.
\<close>

definition lower :: "ustring \<Rightarrow> ustring" where
  "lower s = map ascii_lower s"

subsection \<open>Searching and slicing\<close>

fun indexOf :: "'a \<Rightarrow> 'a list \<Rightarrow> nat option" where
  "indexOf c [] = None"
| "indexOf c (x # xs) = (if x = c then Some 0 else map_option Suc (indexOf c xs))"

fun lastIndexOf :: "'a \<Rightarrow> 'a list \<Rightarrow> nat option" where
  "lastIndexOf c [] = None"
| "lastIndexOf c (x # xs) =
     (case lastIndexOf c xs of Some i \<Rightarrow> Some (Suc i) | None \<Rightarrow> if x = c then Some 0 else None)"

fun indexWhere :: "('a \<Rightarrow> bool) \<Rightarrow> 'a list \<Rightarrow> nat option" where
  "indexWhere P [] = None"
| "indexWhere P (x # xs) = (if P x then Some 0 else map_option Suc (indexWhere P xs))"

text \<open>
  Cutting a string at the first occurrence of a code unit: the part before it, and the part after
  it when there is one (\<open>indexOf\<close> followed by the two \<open>slice\<close> calls).
\<close>

definition cut_at :: "'a \<Rightarrow> 'a list \<Rightarrow> 'a list \<times> 'a list option" where
  "cut_at c s = (case indexOf c s of None \<Rightarrow> (s, None) | Some i \<Rightarrow> (take i s, Some (drop (i + 1) s)))"

fun startsWith :: "ustring \<Rightarrow> ustring \<Rightarrow> bool" where
  "startsWith [] s = True"
| "startsWith (x # xs) [] = False"
| "startsWith (x # xs) (y # ys) = (x = y \<and> startsWith xs ys)"

definition endsWith :: "ustring \<Rightarrow> ustring \<Rightarrow> bool" where
  "endsWith p s \<longleftrightarrow> startsWith (rev p) (rev s)"

fun split_on :: "'a \<Rightarrow> 'a list \<Rightarrow> 'a list list" where
  "split_on c [] = [[]]"
| "split_on c (x # xs) =
     (if x = c then [] # split_on c xs
      else (case split_on c xs of [] \<Rightarrow> [[x]] | y # ys \<Rightarrow> (x # y) # ys))"

fun join :: "'a list \<Rightarrow> 'a list list \<Rightarrow> 'a list" where
  "join sep [] = []"
| "join sep [x] = x"
| "join sep (x # y # ys) = x @ sep @ join sep (y # ys)"

text \<open>\<open>s.includes(p)\<close> for a text \<open>p\<close>.\<close>

fun includesStr :: "ustring \<Rightarrow> ustring \<Rightarrow> bool" where
  "includesStr p [] = (p = [])"
| "includesStr p (c # s) = (startsWith p (c # s) \<or> includesStr p s)"

definition trim :: "ustring \<Rightarrow> ustring" where
  "trim s = rev (dropWhile is_space (rev (dropWhile is_space s)))"

subsection \<open>Numerals in a radix\<close>

definition digit_char :: "nat \<Rightarrow> nat" where
  "digit_char d = (if d < 10 then d + 48 else d + 87)"

definition digit_val :: "nat \<Rightarrow> nat" where
  "digit_val c = (if is_digit c then c - 48 else if is_lower c then c - 87
     else if is_upper c then c - 55 else 0)"

text \<open>\<open>n.toString(b)\<close> for \<open>2 \<le> b \<le> 36\<close>; other radices are not used.\<close>

function to_radix :: "nat \<Rightarrow> nat \<Rightarrow> ustring" where
  "to_radix b n =
     (if b < 2 \<or> n < b then [digit_char n] else to_radix b (n div b) @ [digit_char (n mod b)])"
  by pat_completeness auto
termination
  by (relation "measure (\<lambda>(b, n). n)") auto

declare to_radix.simps [simp del]

text \<open>The value of a digit string: what \<open>parseInt\<close> and \<open>Number\<close> compute on one.\<close>

definition radix_val :: "nat \<Rightarrow> ustring \<Rightarrow> nat" where
  "radix_val b s = foldl (\<lambda>a c. a * b + digit_val c) 0 s"

subsection \<open>Laws\<close>

lemma str_inject: "str a = str b \<longleftrightarrow> a = b"
  unfolding str_def by (rule inj_map_eq_map) (auto intro: injI)

lemma str_Nil [simp]: "str [] = []"
  by (simp add: str_def)

lemma length_str [simp]: "length (str s) = length s"
  by (simp add: str_def)

lemma lower_Nil [simp]: "lower [] = []" and
  length_lower [simp]: "length (lower s) = length s" and
  lower_append [simp]: "lower (s @ t) = lower s @ lower t"
  by (simp_all add: lower_def)

lemma ascii_lower_idem [simp]: "ascii_lower (ascii_lower c) = ascii_lower c"
  by (auto simp: ascii_lower_def is_upper_def)

lemma lower_idem [simp]: "lower (lower s) = lower s"
  by (simp add: lower_def)

lemma indexOf_None [js_laws]: "indexOf c s = None \<longleftrightarrow> c \<notin> set s"
  by (induction s) auto

lemma indexOf_Some [js_laws]:
  "indexOf c s = Some i \<Longrightarrow> i < length s \<and> s ! i = c \<and> c \<notin> set (take i s)
     \<and> s = take i s @ c # drop (Suc i) s"
proof (induction s arbitrary: i)
  case (Cons x xs)
  then show ?case by (cases i) (auto split: if_splits)
qed simp

lemma indexOf_cut: "indexOf c s = Some i \<Longrightarrow> take i s @ c # drop (Suc i) s = s"
  using indexOf_Some [of c s i] by simp

lemma cut_at_spec:
  assumes "cut_at c s = (p, q)"
  shows "p @ (case q of None \<Rightarrow> [] | Some t \<Rightarrow> c # t) = s" and "c \<notin> set p"
  using assms indexOf_cut [of c s] indexOf_Some [of c s]
  by (auto simp: cut_at_def indexOf_None split: option.split_asm)

lemma takeWhile_drop [simp]: "takeWhile P s @ drop (length (takeWhile P s)) s = s"
  by (simp add: dropWhile_eq_drop [symmetric])

lemma lastIndexOf_None [js_laws]: "lastIndexOf c s = None \<longleftrightarrow> c \<notin> set s"
  by (induction s) (auto split: option.splits)

lemma lastIndexOf_Some [js_laws]:
  "lastIndexOf c s = Some i \<Longrightarrow> i < length s \<and> s ! i = c \<and> c \<notin> set (drop (Suc i) s)
     \<and> s = take i s @ c # drop (Suc i) s"
proof (induction s arbitrary: i)
  case (Cons x xs)
  then show ?case
    by (cases i) (auto simp: lastIndexOf_None split: if_splits option.splits)
qed simp

lemma lastIndexOf_cut: "lastIndexOf c s = Some i \<Longrightarrow> take i s @ c # drop (Suc i) s = s"
  using lastIndexOf_Some [of c s i] by simp

lemma indexWhere_None [js_laws]: "indexWhere P s = None \<longleftrightarrow> (\<forall>c \<in> set s. \<not> P c)"
  by (induction s) auto

lemma indexWhere_Some [js_laws]:
  "indexWhere P s = Some i \<Longrightarrow> i < length s \<and> P (s ! i) \<and> (\<forall>c \<in> set (take i s). \<not> P c)"
proof (induction s arbitrary: i)
  case (Cons x xs)
  then show ?case by (cases i) (auto split: if_splits)
qed simp

lemma startsWith_iff [js_laws]: "startsWith p s \<longleftrightarrow> (\<exists>r. s = p @ r)"
  by (induction p s rule: startsWith.induct) auto

lemma endsWith_iff [js_laws]: "endsWith p s \<longleftrightarrow> (\<exists>r. s = r @ p)"
proof
  assume "endsWith p s"
  then obtain r where "rev s = rev p @ r"
    by (auto simp: endsWith_def startsWith_iff)
  then have "s = rev r @ p"
    by (metis rev_append rev_rev_ident)
  then show "\<exists>r. s = r @ p" ..
qed (auto simp: endsWith_def startsWith_iff)

lemma split_on_nonempty [simp]: "split_on c s \<noteq> []"
  by (induction s) (auto split: list.splits)

lemma join_Cons: "xs \<noteq> [] \<Longrightarrow> join sep (x # xs) = x @ sep @ join sep xs"
  by (cases xs) auto

lemma join_Cons_Cons [simp]: "join sep ((a # x) # xs) = a # join sep (x # xs)"
  by (cases xs) auto

lemma join_split_on [js_laws]: "join [c] (split_on c s) = s"
  by (induction s) (auto simp: join_Cons split: list.splits)

lemma split_on_no_sep [js_laws]: "p \<in> set (split_on c s) \<Longrightarrow> c \<notin> set p"
  by (induction s arbitrary: p) (auto split: if_splits list.splits)

lemma split_on_single [simp]: "c \<notin> set s \<Longrightarrow> split_on c s = [s]"
  by (induction s) auto

lemma split_on_append [js_laws]: "c \<notin> set p \<Longrightarrow> split_on c (p @ c # s) = p # split_on c s"
  by (induction p) auto

lemma split_on_last [simp]: "split_on c (s @ [c]) = split_on c s @ [[]]"
  by (induction s) (auto split: list.split)

lemma split_on_snoc: "d \<noteq> c \<Longrightarrow> \<exists>ps q. split_on c (s @ [d]) = ps @ [q @ [d]]"
proof (induction s)
  case (Cons x xs)
  then obtain ps q where "split_on c (xs @ [d]) = ps @ [q @ [d]]" by blast
  then show ?case by (cases ps) (auto intro: exI [of _ "[] # _"] exI [of _ "(x # _) # _"] exI [of _ "[]"])
qed auto

lemma split_on_join [js_laws]:
  "xs \<noteq> [] \<Longrightarrow> \<forall>x \<in> set xs. c \<notin> set x \<Longrightarrow> split_on c (join [c] xs) = xs"
  by (induction "[c]" xs rule: join.induct) (auto simp: split_on_append)

lemma set_split_on [js_laws]: "p \<in> set (split_on c s) \<Longrightarrow> set p \<subseteq> set s"
proof (induction s arbitrary: p)
  case (Cons x xs)
  then show ?case
    by (cases "split_on c xs") (fastforce split: if_splits)+
qed simp

lemma dropWhile_hd: "dropWhile P s = x # xs \<Longrightarrow> \<not> P x"
  by (metis hd_dropWhile list.distinct(1) list.sel(1))

lemma digit_val_char [simp]: "d < 36 \<Longrightarrow> digit_val (digit_char d) = d"
  by (auto simp: digit_val_def digit_char_def is_digit_def is_lower_def is_upper_def)

lemma radix_val_Nil [simp]: "radix_val b [] = 0"
  by (simp add: radix_val_def)

lemma radix_val_snoc [simp]: "radix_val b (s @ [c]) = radix_val b s * b + digit_val c"
  by (simp add: radix_val_def)

lemma radix_val_to_radix [simp]: "2 \<le> b \<Longrightarrow> b \<le> 36 \<Longrightarrow> radix_val b (to_radix b n) = n"
proof (induction b n rule: to_radix.induct)
  case (1 b n)
  show ?case
  proof (cases "n < b")
    case True
    with 1 show ?thesis
      by (simp add: to_radix.simps [of b n] radix_val_def)
  next
    case False
    with 1 have "radix_val b (to_radix b (n div b)) = n div b" by simp
    moreover have "n mod b < 36"
      using 1(2,3) mod_less_divisor [of b n] by linarith
    ultimately show ?thesis using False 1
      by (simp add: to_radix.simps [of b n])
  qed
qed

lemma to_radix_nonempty [simp]: "to_radix b n \<noteq> []"
  by (subst to_radix.simps) simp

lemma set_to_radix: "2 \<le> b \<Longrightarrow> c \<in> set (to_radix b n) \<Longrightarrow> \<exists>d < b. c = digit_char d"
proof (induction b n rule: to_radix.induct)
  case (1 b n)
  show ?case
  proof (cases "n < b")
    case True
    with 1 show ?thesis by (auto simp: to_radix.simps [of b n])
  next
    case False
    moreover from 1 have "\<exists>d < b. digit_char (n mod b) = digit_char d"
      by (intro exI [of _ "n mod b"]) simp
    ultimately show ?thesis using 1 by (auto simp: to_radix.simps [of b n])
  qed
qed

lemma to_radix_10_digits: "c \<in> set (to_radix 10 n) \<Longrightarrow> is_digit c"
  using set_to_radix [of 10 c n] by (auto simp: digit_char_def is_digit_def split: if_splits)

lemma to_radix_16_hex: "c \<in> set (to_radix 16 n) \<Longrightarrow> is_hex c \<and> \<not> is_upper c"
  using set_to_radix [of 16 c n] by (auto simp: digit_char_def is_hex_def is_digit_def is_upper_def
      split: if_splits)

lemma to_radix_inject: "2 \<le> b \<Longrightarrow> b \<le> 36 \<Longrightarrow> to_radix b m = to_radix b n \<longleftrightarrow> m = n"
  by (metis radix_val_to_radix)

lemma digit_char_inj: "d < 36 \<Longrightarrow> e < 36 \<Longrightarrow> digit_char d = digit_char e \<longleftrightarrow> d = e"
  by (metis digit_val_char)

text \<open>No leading zero: only the numeral of zero starts with the digit zero.\<close>

lemma hd_to_radix: "2 \<le> b \<Longrightarrow> b \<le> 36 \<Longrightarrow> 0 < n \<Longrightarrow> hd (to_radix b n) \<noteq> 48"
proof (induction b n rule: to_radix.induct)
  case (1 b n)
  show ?case
  proof (cases "n < b")
    case True
    with 1 show ?thesis
      by (auto simp: to_radix.simps [of b n] digit_char_def)
  next
    case False
    with 1 have "hd (to_radix b (n div b)) \<noteq> 48"
      by (simp add: div_greater_zero_iff)
    with False 1 show ?thesis
      by (simp add: to_radix.simps [of b n])
  qed
qed

lemma length_to_radix: "2 \<le> b \<Longrightarrow> n < b ^ k \<Longrightarrow> 0 < k \<Longrightarrow> length (to_radix b n) \<le> k"
proof (induction b n arbitrary: k rule: to_radix.induct)
  case (1 b n)
  show ?case
  proof (cases "n < b")
    case True
    with 1 show ?thesis by (simp add: to_radix.simps [of b n])
  next
    case False
    with 1 obtain j where k: "k = Suc j" "0 < j"
      by (cases k; cases "k - 1") auto
    with 1 have "n div b < b ^ j"
      by (simp add: less_mult_imp_div_less mult.commute)
    with False 1 k have "length (to_radix b (n div b)) \<le> j" by simp
    with False 1 k show ?thesis by (simp add: to_radix.simps [of b n])
  qed
qed

lemma to_radix_single: "length (to_radix b n) > 1 \<Longrightarrow> b \<le> n"
  by (cases "n < b") (auto simp: to_radix.simps [of b n])

lemma to_radix_no_leading_zero:
  "2 \<le> b \<Longrightarrow> b \<le> 36 \<Longrightarrow> length (to_radix b n) > 1 \<Longrightarrow> to_radix b n ! 0 \<noteq> 48"
  using hd_to_radix [of b n] to_radix_single [of b n] by (simp add: hd_conv_nth)

lemma those_map_Some: "(\<And>x. x \<in> set xs \<Longrightarrow> f x = Some (g x)) \<Longrightarrow> those (map f xs) = Some (map g xs)"
  by (induction xs) auto

lemma those_Some: "those xs = Some ys \<longleftrightarrow> xs = map Some ys"
  by (induction xs arbitrary: ys) (auto split: option.splits)

lemma those_None: "those xs = None \<longleftrightarrow> None \<in> set xs"
  by (induction xs) (auto split: option.splits)

lemma radix_val_less:
  "\<forall>c \<in> set s. digit_val c < b \<Longrightarrow> radix_val b s < b ^ length s"
proof (induction s rule: rev_induct)
  case (snoc c s)
  then have "radix_val b s + 1 \<le> b ^ length s" "digit_val c < b" by auto
  then have "(radix_val b s + 1) * b \<le> b ^ length s * b" by (intro mult_right_mono) auto
  with \<open>digit_val c < b\<close> show ?case by (simp add: algebra_simps)
qed simp

lemma digit_val_hex: "is_hex c \<Longrightarrow> digit_val c < 16"
  by (auto simp: is_hex_def digit_val_def is_digit_def is_lower_def is_upper_def)

text \<open>A decimal numeral without a redundant leading zero is the rendering of its value.\<close>

lemma to_radix_radix_val_10:
  "list_all is_digit s \<Longrightarrow> s \<noteq> [] \<Longrightarrow> length s = 1 \<or> s ! 0 \<noteq> 48 \<Longrightarrow>
     to_radix 10 (radix_val 10 s) = s \<and> (s ! 0 \<noteq> 48 \<longrightarrow> 0 < radix_val 10 s)"
proof (induction s rule: rev_induct)
  case (snoc c s)
  then have c: "digit_val c < 10" "digit_char (digit_val c) = c" "c \<noteq> 48 \<Longrightarrow> 0 < digit_val c"
    by (auto simp: digit_val_def digit_char_def is_digit_def)
  show ?case
  proof (cases "s = []")
    case True
    with c show ?thesis
      by (auto simp: radix_val_def to_radix.simps [of 10 "digit_val c"])
  next
    case False
    with snoc.prems have z: "s ! 0 \<noteq> 48" by (auto simp: nth_append)
    with snoc False have "to_radix 10 (radix_val 10 s) = s" "0 < radix_val 10 s" by auto
    with c False z show ?thesis
      by (simp add: to_radix.simps [of 10 "radix_val 10 s * 10 + digit_val c"] nth_append)
  qed
qed simp

text \<open>What the simplifier needs to evaluate the primitives on literals.\<close>

lemmas js_eval = str_def is_digit_def is_upper_def is_lower_def is_alpha_def is_hex_def is_space_def
  ascii_lower_def lower_def endsWith_def trim_def digit_char_def digit_val_def radix_val_def
  to_radix.simps cut_at_def Let_def

end
