(* ===== verification/Tokens.thy ===== *)
theory Tokens
  imports Prelude
begin

text \<open>
  The syntax primitives of \<open>parse/syntax.ts\<close>, the validation-free tokenizer of
  \<open>parse/raw-tokens.ts\<close> and its projection \<open>parse/authority-region.ts\<close>. The main results:
  tokenization loses nothing (the tokens concatenate back to the input), each token stops at its
  delimiter, and the scheme is the lower-cased raw scheme.
\<close>

subsection \<open>syntax.ts\<close>

definition KNOWN_SCHEMES :: "ustring list" where
  "KNOWN_SCHEMES = map str [''http'', ''https'', ''ftp'', ''ftps'', ''ws'', ''wss'', ''file'',
     ''mailto'', ''tel'', ''about'', ''chrome'', ''view-source'', ''javascript'', ''data'',
     ''vbscript'', ''blob'']"

definition OPAQUE_SCHEMES :: "ustring list" where
  "OPAQUE_SCHEMES = map str [''javascript'', ''data'', ''vbscript'', ''blob'', ''mailto'', ''tel'',
     ''about'']"

definition isKnownScheme :: "ustring \<Rightarrow> bool" where
  "isKnownScheme candidate \<longleftrightarrow> candidate \<in> set KNOWN_SCHEMES"

definition isOpaqueScheme :: "ustring \<Rightarrow> bool" where
  "isOpaqueScheme candidate \<longleftrightarrow> candidate \<in> set OPAQUE_SCHEMES"

definition is_scheme_char :: "nat \<Rightarrow> bool" where
  "is_scheme_char c \<longleftrightarrow> is_alpha c \<or> is_digit c \<or> c = 43 \<or> c = 46 \<or> c = 45"

text \<open>
  \<open>SCHEME_RE\<close> = \<open>/^([a-zA-Z][a-zA-Z0-9+.\-]*):/\<close>. The class does not contain the colon, so
  the greedy run of class characters is the only candidate for the group.
\<close>

definition SCHEME_RE :: "ustring \<Rightarrow> ustring option" where
  "SCHEME_RE s =
     (let run = takeWhile is_scheme_char s in
      case run of [] \<Rightarrow> None
      | c # _ \<Rightarrow> if is_alpha c \<and> startsWith [58] (drop (length run) s) then Some run else None)"

text \<open>\<open>/^\d+([/?#]|$)/\<close>: a digit run that ends at a delimiter or at the end of the input.\<close>

definition digits_then_end :: "ustring \<Rightarrow> bool" where
  "digits_then_end s =
     (let run = takeWhile is_digit s; rest = drop (length run) s in
      run \<noteq> [] \<and> (case rest of [] \<Rightarrow> True | c # _ \<Rightarrow> c \<in> {47, 63, 35}))"

definition looksLikeHostPort :: "ustring \<Rightarrow> ustring \<Rightarrow> bool" where
  "looksLikeHostPort candidate after \<longleftrightarrow>
     (46 \<in> set candidate \<or> digits_then_end after) \<and> candidate \<notin> set KNOWN_SCHEMES"

definition firstIndexOf :: "ustring \<Rightarrow> ustring \<Rightarrow> nat option" where
  "firstIndexOf s chars = indexWhere (\<lambda>c. c \<in> set chars) s"

subsection \<open>raw-tokens.ts\<close>

record RawUrlTokens =
  tk_prepared :: ustring
  tk_rawScheme :: "ustring option"
  tk_scheme :: "ustring option"
  tk_protocolRelative :: bool
  tk_opaque :: bool
  tk_authorityIntroducer :: ustring
  tk_authority :: ustring
  tk_path :: ustring
  tk_query :: "ustring option"
  tk_fragment :: "ustring option"

definition is_slash :: "nat \<Rightarrow> bool" where
  "is_slash c \<longleftrightarrow> c = 47 \<or> c = 92"

text \<open>\<open>/^[/\\]{2}/\<close>\<close>

fun two_slashes :: "ustring \<Rightarrow> bool" where
  "two_slashes (a # b # _) = (is_slash a \<and> is_slash b)"
| "two_slashes _ = False"

definition leadingAuthorityIntroducer :: "ustring \<Rightarrow> ustring option \<Rightarrow> bool \<Rightarrow> ustring" where
  "leadingAuthorityIntroducer rest scheme protocolRelative =
     (if scheme = None \<and> \<not> protocolRelative then []
      else if \<not> two_slashes rest then []
      else takeWhile is_slash rest)"

definition hostlessFileBody :: "ustring \<Rightarrow> (ustring \<times> ustring) option" where
  "hostlessFileBody rest =
     (if rest = [] \<or> startsWith [47] rest \<or> startsWith [92] rest then
        (if two_slashes rest then
           (let afterEmptyAuthority = drop 2 rest in
            if afterEmptyAuthority = [] \<or> startsWith [47] afterEmptyAuthority
            then Some (take 2 rest, afterEmptyAuthority) else None)
         else Some ([], rest))
      else None)"

definition splitPathQueryFragment :: "ustring \<Rightarrow> ustring \<times> ustring option \<times> ustring option" where
  "splitPathQueryFragment input =
     (let (work, fragment) = cut_at 35 input; (path, query) = cut_at 63 work
      in (path, query, fragment))"

text \<open>The scheme part of \<open>tokenizeRawUrl\<close>: raw scheme, scheme and the text after it.\<close>

definition splitScheme :: "ustring \<Rightarrow> ustring option \<times> ustring option \<times> ustring" where
  "splitScheme prepared =
     (case SCHEME_RE prepared of
        None \<Rightarrow> (None, None, prepared)
      | Some candidateRaw \<Rightarrow>
          (let candidate = lower candidateRaw; after = drop (length candidateRaw + 1) prepared in
           if looksLikeHostPort candidate after then (None, None, prepared)
           else (Some candidateRaw, Some candidate, after)))"

definition mkTokens :: "ustring \<Rightarrow> ustring option \<Rightarrow> ustring option \<Rightarrow> bool \<Rightarrow> bool \<Rightarrow> ustring \<Rightarrow>
    ustring \<Rightarrow> ustring \<Rightarrow> RawUrlTokens" where
  "mkTokens prepared rawScheme scheme protocolRelative opaque introducer authority tail =
     (let (path, query, fragment) = splitPathQueryFragment tail in
      \<lparr>tk_prepared = prepared, tk_rawScheme = rawScheme, tk_scheme = scheme,
       tk_protocolRelative = protocolRelative, tk_opaque = opaque,
       tk_authorityIntroducer = introducer, tk_authority = authority,
       tk_path = path, tk_query = query, tk_fragment = fragment\<rparr>)"

definition isOpaqueBody :: "ustring option \<Rightarrow> ustring \<Rightarrow> bool" where
  "isOpaqueBody scheme rest =
     (case scheme of None \<Rightarrow> False | Some s \<Rightarrow> isOpaqueScheme s \<and> \<not> two_slashes rest)"

definition tokenizeRawUrl :: "ustring \<Rightarrow> RawUrlTokens" where
  "tokenizeRawUrl prepared =
     (let (rawScheme, scheme, rest) = splitScheme prepared;
          protocolRelative = (scheme = None \<and> two_slashes prepared);
          opaque = isOpaqueBody scheme rest in
      if opaque then mkTokens prepared rawScheme scheme protocolRelative opaque [] [] rest
      else case (if scheme = Some (str ''file'') then hostlessFileBody rest else None) of
        Some (introducer, path) \<Rightarrow>
          mkTokens prepared rawScheme scheme protocolRelative opaque introducer [] path
      | None \<Rightarrow>
          (let introducer = leadingAuthorityIntroducer rest scheme protocolRelative;
               authorityAndRemainder = drop (length introducer) rest in
           case firstIndexOf authorityAndRemainder (str ''/?#'') of
             None \<Rightarrow> mkTokens prepared rawScheme scheme protocolRelative opaque introducer
                       authorityAndRemainder []
           | Some delimIdx \<Rightarrow> mkTokens prepared rawScheme scheme protocolRelative opaque introducer
                       (take delimIdx authorityAndRemainder) (drop delimIdx authorityAndRemainder)))"

subsection \<open>authority-region.ts\<close>

record AuthorityRegion =
  ar_scheme :: "ustring option"
  ar_protocolRelative :: bool
  ar_separator :: ustring
  ar_authority :: ustring
  ar_path :: ustring
  ar_fragment :: "ustring option"
  ar_opaque :: bool

definition authorityRegion :: "RawUrlTokens \<Rightarrow> AuthorityRegion" where
  "authorityRegion tokens =
     \<lparr>ar_scheme = tk_scheme tokens, ar_protocolRelative = tk_protocolRelative tokens,
      ar_separator = tk_authorityIntroducer tokens, ar_authority = tk_authority tokens,
      ar_path = tk_path tokens, ar_fragment = tk_fragment tokens, ar_opaque = tk_opaque tokens\<rparr>"

subsection \<open>The concatenation of the tokens\<close>

text \<open>The string the tokens stand for: every region with its delimiter, in order.\<close>

definition opt_prefix :: "nat \<Rightarrow> ustring option \<Rightarrow> ustring" where
  "opt_prefix c x = (case x of None \<Rightarrow> [] | Some s \<Rightarrow> c # s)"

definition untokenize :: "RawUrlTokens \<Rightarrow> ustring" where
  "untokenize t =
     (case tk_rawScheme t of None \<Rightarrow> [] | Some s \<Rightarrow> s @ [58]) @ tk_authorityIntroducer t
     @ tk_authority t @ tk_path t @ opt_prefix 63 (tk_query t) @ opt_prefix 35 (tk_fragment t)"

subsection \<open>Lemmas\<close>

lemma splitPathQueryFragment_spec:
  assumes "splitPathQueryFragment s = (p, q, f)"
  shows "p @ opt_prefix 63 q @ opt_prefix 35 f = s"
    and "63 \<notin> set p" and "35 \<notin> set p" and "q = Some x \<Longrightarrow> 35 \<notin> set x"
proof -
  obtain w where w: "cut_at 35 s = (w, f)" and p: "cut_at 63 w = (p, q)"
    using assms by (auto simp: splitPathQueryFragment_def split: prod.splits)
  note cuts = cut_at_spec [OF w] cut_at_spec [OF p]
  show "p @ opt_prefix 63 q @ opt_prefix 35 f = s" "63 \<notin> set p" "35 \<notin> set p"
    using cuts by (auto simp: opt_prefix_def split: option.splits)
  show "35 \<notin> set x" if "q = Some x"
    using cuts that by (auto split: option.splits)
qed

lemma mkTokens_untokenize:
  "untokenize (mkTokens p rs sc pr op i a tail) =
     (case rs of None \<Rightarrow> [] | Some s \<Rightarrow> s @ [58]) @ i @ a @ tail"
  by (auto simp: mkTokens_def untokenize_def Let_def dest: splitPathQueryFragment_spec(1)
      split: prod.splits)

lemma mkTokens_sel [simp]:
  "tk_prepared (mkTokens p rs sc pr op i a tail) = p"
  "tk_rawScheme (mkTokens p rs sc pr op i a tail) = rs"
  "tk_scheme (mkTokens p rs sc pr op i a tail) = sc"
  "tk_protocolRelative (mkTokens p rs sc pr op i a tail) = pr"
  "tk_opaque (mkTokens p rs sc pr op i a tail) = op"
  "tk_authorityIntroducer (mkTokens p rs sc pr op i a tail) = i"
  "tk_authority (mkTokens p rs sc pr op i a tail) = a"
  by (simp_all add: mkTokens_def split: prod.splits)

lemma mkTokens_free:
  "63 \<notin> set (tk_path (mkTokens p rs sc pr op i a tail))"
  "35 \<notin> set (tk_path (mkTokens p rs sc pr op i a tail))"
  "tk_query (mkTokens p rs sc pr op i a tail) = Some q \<Longrightarrow> 35 \<notin> set q"
  by (auto simp: mkTokens_def dest: splitPathQueryFragment_spec split: prod.splits)

lemma SCHEME_RE_Some:
  assumes "SCHEME_RE s = Some r"
  shows "s = r @ 58 # drop (Suc (length r)) s" and "r \<noteq> []" and "\<forall>c \<in> set r. is_scheme_char c"
proof -
  define w where "w = takeWhile is_scheme_char s"
  have rw: "r = w" and ne: "w \<noteq> []" and c: "startsWith [58] (drop (length w) s)"
    using assms unfolding w_def [symmetric] SCHEME_RE_def Let_def
    by (cases w; auto split: if_splits)+
  from c rw obtain t where t: "drop (length r) s = 58 # t"
    by (auto simp: startsWith_iff)
  have "s = r @ drop (length r) s"
    using rw by (simp add: w_def)
  moreover from t have "drop (Suc (length r)) s = t"
    by (metis drop_Suc list.sel(3) tl_drop)
  ultimately show "s = r @ 58 # drop (Suc (length r)) s"
    using t by simp
  show "r \<noteq> []" using ne rw by simp
  show "\<forall>c \<in> set r. is_scheme_char c"
    using rw by (auto simp: w_def dest: set_takeWhileD)
qed

lemma splitScheme_spec:
  assumes "splitScheme s = (rs, sc, rest)"
  shows "(case rs of None \<Rightarrow> [] | Some r \<Rightarrow> r @ [58]) @ rest = s" and "sc = map_option lower rs"
proof -
  have "(case rs of None \<Rightarrow> [] | Some r \<Rightarrow> r @ [58]) @ rest = s \<and> sc = map_option lower rs"
  proof (cases "SCHEME_RE s")
    case (Some r)
    note cut = SCHEME_RE_Some(1) [OF Some]
    show ?thesis
    proof (cases "looksLikeHostPort (lower r) (drop (Suc (length r)) s)")
      case False
      with assms Some have "rs = Some r" "sc = Some (lower r)" "rest = drop (Suc (length r)) s"
        by (simp_all add: splitScheme_def Let_def)
      with cut show ?thesis by simp
    qed (use assms Some in \<open>auto simp: splitScheme_def Let_def\<close>)
  qed (use assms in \<open>auto simp: splitScheme_def\<close>)
  then show "(case rs of None \<Rightarrow> [] | Some r \<Rightarrow> r @ [58]) @ rest = s" "sc = map_option lower rs"
    by simp_all
qed

lemma introducer_prefix:
  "leadingAuthorityIntroducer rest sc pr @ drop (length (leadingAuthorityIntroducer rest sc pr)) rest
     = rest"
  by (simp add: leadingAuthorityIntroducer_def)

lemma hostlessFileBody_concat: "hostlessFileBody rest = Some (i, p) \<Longrightarrow> i @ p = rest"
  by (auto simp: hostlessFileBody_def Let_def split: if_splits)

text \<open>The exits of the tokenizer, as one elimination rule.\<close>

lemma tokenizeRawUrl_cases:
  assumes sp: "splitScheme p = (rs, sc, rest)"
  obtains (opaque) s where "sc = Some s" "isOpaqueScheme s" "\<not> two_slashes rest"
      "tokenizeRawUrl p = mkTokens p rs sc False True [] [] rest"
    | (hostless) i b where "sc = Some (str ''file'')" "hostlessFileBody rest = Some (i, b)"
      "tokenizeRawUrl p = mkTokens p rs sc False False i [] b"
    | (authority) i a tail where
        "i = leadingAuthorityIntroducer rest sc (sc = None \<and> two_slashes p)"
        "i @ a @ tail = rest" "\<forall>c \<in> set a. c \<notin> {47, 63, 35}"
        "tail = [] \<or> hd tail \<in> {47, 63, 35}"
        "tokenizeRawUrl p = mkTokens p rs sc (sc = None \<and> two_slashes p) False i a tail"
proof -
  let ?pr = "sc = None \<and> two_slashes p"
  let ?op = "isOpaqueBody sc rest"
  let ?i = "leadingAuthorityIntroducer rest sc ?pr"
  let ?f = "if sc = Some (str ''file'') then hostlessFileBody rest else None"
  have delims: "set (str ''/?#'') = {47, 63, 35}" by (auto simp: str_def)
  consider "?op" | i b where "\<not> ?op" "?f = Some (i, b)" | "\<not> ?op" "?f = None"
    by (cases ?f) auto
  then show thesis
  proof cases
    case 1
    then obtain s where "sc = Some s" "isOpaqueScheme s" "\<not> two_slashes rest"
      by (auto simp: isOpaqueBody_def split: option.splits)
    with sp 1 show ?thesis by (intro opaque) (auto simp: tokenizeRawUrl_def Let_def)
  next
    case 2
    then have "sc = Some (str ''file'')" "hostlessFileBody rest = Some (i, b)"
      by (auto split: if_splits)
    with sp 2(1) show ?thesis by (intro hostless) (auto simp: tokenizeRawUrl_def Let_def)
  next
    case 3
    define r where "r = drop (length ?i) rest"
    have pre: "?i @ r = rest" unfolding r_def by (rule introducer_prefix)
    have tok: "tokenizeRawUrl p = (case firstIndexOf r (str ''/?#'') of
        None \<Rightarrow> mkTokens p rs sc ?pr False ?i r []
      | Some k \<Rightarrow> mkTokens p rs sc ?pr False ?i (take k r) (drop k r))"
      using sp 3 unfolding r_def tokenizeRawUrl_def by (simp add: Let_def split: option.split)
    show ?thesis
    proof (cases "firstIndexOf r (str ''/?#'')")
      case None
      with pre delims have "?i @ r @ [] = rest" "\<forall>c \<in> set r. c \<notin> {47, 63, 35}"
        by (simp_all add: firstIndexOf_def indexWhere_None)
      moreover have "tokenizeRawUrl p = mkTokens p rs sc ?pr False ?i r []"
        using None tok by simp
      ultimately show ?thesis using authority [OF refl] by blast
    next
      case (Some k)
      then have k: "k < length r" "r ! k \<in> {47, 63, 35}" "\<forall>c \<in> set (take k r). c \<notin> {47, 63, 35}"
        using indexWhere_Some [of _ r k] unfolding firstIndexOf_def delims by blast+
      from k pre have "?i @ take k r @ drop k r = rest" "hd (drop k r) \<in> {47, 63, 35}"
        by (simp_all add: hd_drop_conv_nth)
      moreover have "tokenizeRawUrl p = mkTokens p rs sc ?pr False ?i (take k r) (drop k r)"
        using Some tok by simp
      ultimately show ?thesis using authority [OF refl] k(3) by blast
    qed
  qed
qed

lemma tokenizeRawUrl_untokenize: "untokenize (tokenizeRawUrl p) = p"
proof -
  obtain rs sc rest where sp: "splitScheme p = (rs, sc, rest)" by (cases "splitScheme p") auto
  note [simp] = mkTokens_untokenize splitScheme_spec(1) [OF sp]
  from sp show ?thesis
    by (cases rule: tokenizeRawUrl_cases) (auto simp: hostlessFileBody_concat)
qed

subsection \<open>Properties\<close>

text \<open>
  C24: Tokenization is lossless. For every input the raw scheme with its colon, the authority
  introducer, the authority, the path, the query with its question mark and the fragment with its
  hash concatenate back to exactly the prepared input, so no part of a URL escapes the scans that
  read the tokens.
\<close>

theorem tokenizeRawUrl_lossless: "untokenize (tokenizeRawUrl prepared) = prepared"
  by (rule tokenizeRawUrl_untokenize)

text \<open>
  Every token ends at its own delimiter: the authority holds no slash, question mark or hash,
  the path no question mark or hash and the query no hash; the scheme is the lower-cased raw
  scheme; an opaque input has an empty authority and an empty introducer.
\<close>

lemma tokenizeRawUrl_regions:
  "let t = tokenizeRawUrl prepared in
     set (tk_authority t) \<inter> {47, 63, 35} = {} \<and> set (tk_path t) \<inter> {63, 35} = {}
     \<and> (case tk_query t of None \<Rightarrow> True | Some q \<Rightarrow> 35 \<notin> set q)
     \<and> tk_scheme t = map_option lower (tk_rawScheme t)
     \<and> (if tk_opaque t then tk_authority t = [] \<and> tk_authorityIntroducer t = [] else True)"
proof -
  obtain rs sc rest where sp: "splitScheme prepared = (rs, sc, rest)"
    by (cases "splitScheme prepared") auto
  note facts = splitScheme_spec(2) [OF sp] mkTokens_free
  from sp show ?thesis
    by (cases rule: tokenizeRawUrl_cases) (auto simp: Let_def facts split: option.split)
qed

end
