(* ===== verification/Ip.thy ===== *)
theory Ip
  imports Prelude "HOL-Library.Word"
begin

unbundle bit_operations_syntax

text \<open>
  Address-literal recognition, \<open>parse/ip.ts\<close>. The 32-bit arithmetic of the source
  (\<open>>>>\<close>, \<open>&\<close>, \<open><<\<close>, \<open>|\<close> after \<open>ToUint32\<close>) is done on \<open>32 word\<close>.
  Digit strings have their exact value as a natural number: every decision in the source compares
  a value with a bound of at most \<open>2\<^sup>3\<^sup>2\<close>, below which doubles are exact and above which rounding
  is monotone (an overflow to \<open>Infinity\<close>, rejected by \<open>Number.isFinite\<close>, is rejected by the same
  bounds). The main results: canonical forms are fixed points of both analyses, and the
  canonical form identifies the address.
\<close>

subsection \<open>IPv4\<close>

record Ipv4Analysis =
  v4_obfuscated :: bool
  v4_canonical :: ustring

definition is_octal :: "nat \<Rightarrow> bool" where
  "is_octal c \<longleftrightarrow> 48 \<le> c \<and> c \<le> 55"

text \<open>The three alternatives \<open>/^0[xX][0-9a-fA-F]+$/\<close>, \<open>/^0[0-7]+$/\<close>, \<open>/^[0-9]+$/\<close>.\<close>

fun hex_form :: "ustring \<Rightarrow> bool" where
  "hex_form (z # x # ds) = (z = 48 \<and> x \<in> {88, 120} \<and> ds \<noteq> [] \<and> list_all is_hex ds)"
| "hex_form _ = False"

fun octal_form :: "ustring \<Rightarrow> bool" where
  "octal_form (z # ds) = (z = 48 \<and> ds \<noteq> [] \<and> list_all is_octal ds)"
| "octal_form _ = False"

text \<open>
  \<open>Number.isFinite\<close> on a value read from digits: from \<open>2\<^sup>1\<^sup>0\<^sup>2\<^sup>4 - 2\<^sup>9\<^sup>7\<^sup>0\<close> on, the nearest
  double is \<open>Infinity\<close>. A finite value above \<open>2\<^sup>5\<^sup>3\<close> is kept exact here where the code has its nearest
  double; the caller compares it only with bounds of at most \<open>2\<^sup>3\<^sup>2\<close>, so no test can tell.
\<close>

definition isFinite :: "nat \<Rightarrow> bool" where
  "isFinite v \<longleftrightarrow> v < 2 ^ 1024 - 2 ^ 970"

definition parsePart :: "ustring \<Rightarrow> (nat \<times> bool) option" where
  "parsePart part =
     (if part = [] then None
      else case
        (if hex_form part then Some (radix_val 16 (drop 2 part), True)
         else if octal_form part then Some (radix_val 8 part, True)
         else if list_all is_digit part then
           Some (radix_val 10 part, length part > 1 \<and> part ! 0 = 48)
         else None) of
        None \<Rightarrow> None
      | Some (value, nonDecimal) \<Rightarrow>
          if \<not> isFinite value then None else Some (value, nonDecimal))"

definition toDotted :: "32 word \<Rightarrow> ustring" where
  "toDotted n = join [46] (map (\<lambda>w. to_radix 10 (unat w))
     [drop_bit 24 n AND 255, drop_bit 16 n AND 255, drop_bit 8 n AND 255, n AND 255])"

definition stripTrailingRootDot :: "ustring \<Rightarrow> ustring" where
  "stripTrailingRootDot host =
     (if length host > 1 \<and> endsWith [46] host then butlast host else host)"

text \<open>The packing loop over the leading parts: each must be a single byte.\<close>

fun packBytes :: "nat \<Rightarrow> nat list \<Rightarrow> nat option" where
  "packBytes full [] = Some full"
| "packBytes full (v # vs) = (if v > 255 then None else packBytes (full * 256 + v) vs)"

definition analyzeIpv4 :: "ustring \<Rightarrow> Ipv4Analysis option" where
  "analyzeIpv4 host =
     (let parts = split_on 46 (stripTrailingRootDot host) in
      if length parts = 0 \<or> length parts > 4 then None
      else case those (map parsePart parts) of
        None \<Rightarrow> None
      | Some vals \<Rightarrow>
          (let nonDecimal = list_ex snd vals;
               lst = fst (last vals);
               remainingBytes = 4 - (length vals - 1) in
           if lst \<ge> 2 ^ (8 * remainingBytes) then None
           else case packBytes 0 (map fst (butlast vals)) of
             None \<Rightarrow> None
           | Some lead \<Rightarrow>
               (let full = lead * 2 ^ (8 * remainingBytes) + lst in
                if full > 0xffffffff then None
                else Some \<lparr>v4_obfuscated = (nonDecimal \<or> length vals \<noteq> 4),
                           v4_canonical = toDotted (word_of_nat full)\<rparr>)))"

subsection \<open>IPv6\<close>

record Ipv6Analysis =
  v6_obfuscated :: bool
  v6_canonical :: ustring
  v6_embeddedIpv4 :: "ustring option"
  v6_embeddedIpv4Via :: "string option"

record Low32Wrapper =
  lw_hextets :: "nat list"
  lw_mechanism :: string
  lw_excludeLow :: "32 word list"

definition LOW32_WRAPPERS :: "Low32Wrapper list" where
  "LOW32_WRAPPERS =
     [\<lparr>lw_hextets = [0, 0, 0, 0, 0, 0xffff],
       lw_mechanism = ''IPv4-mapped prefix ::ffff:0:0/96'', lw_excludeLow = []\<rparr>,
      \<lparr>lw_hextets = [0x64, 0xff9b, 0, 0, 0, 0],
       lw_mechanism = ''NAT64 well-known prefix 64:ff9b::/96 (RFC 6052)'', lw_excludeLow = []\<rparr>,
      \<lparr>lw_hextets = [0x64, 0xff9b, 0x1, 0, 0, 0],
       lw_mechanism = ''NAT64 local-use prefix 64:ff9b:1::/48 (RFC 8215)'', lw_excludeLow = []\<rparr>,
      \<lparr>lw_hextets = [0, 0, 0, 0, 0, 0],
       lw_mechanism = ''IPv4-compatible prefix ::/96 (deprecated by RFC 4291)'',
       lw_excludeLow = [0, 1]\<rparr>]"

definition low32 :: "nat list \<Rightarrow> 32 word" where
  "low32 groups = push_bit 16 (word_of_nat (groups ! 6)) OR word_of_nat (groups ! 7)"

text \<open>The first wrapper whose six hextets match decides; an excluded low half is \<open>null\<close>.\<close>

fun unwrapWith :: "Low32Wrapper list \<Rightarrow> nat list \<Rightarrow> (ustring \<times> string) option" where
  "unwrapWith [] groups = None"
| "unwrapWith (w # ws) groups =
     (if take 6 groups = lw_hextets w then
        (if low32 groups \<in> set (lw_excludeLow w) then None
         else Some (toDotted (low32 groups), lw_mechanism w))
      else unwrapWith ws groups)"

definition unwrapLow32Ipv4 :: "nat list \<Rightarrow> (ustring \<times> string) option" where
  "unwrapLow32Ipv4 groups = unwrapWith LOW32_WRAPPERS groups"

fun strictQuad :: "nat \<Rightarrow> ustring list \<Rightarrow> nat option" where
  "strictQuad value [] = Some value"
| "strictQuad value (part # ps) =
     (if \<not> (list_all is_digit part \<and> 1 \<le> length part \<and> length part \<le> 3) then None
      else if length part > 1 \<and> part ! 0 = 48 then None
      else if radix_val 10 part > 255 then None
      else strictQuad (value * 256 + radix_val 10 part) ps)"

definition parseStrictDottedQuad :: "ustring \<Rightarrow> 32 word option" where
  "parseStrictDottedQuad s =
     (let parts = split_on 46 s in
      if length parts \<noteq> 4 then None else map_option word_of_nat (strictQuad 0 parts))"

fun hextetLoop :: "ustring list \<Rightarrow> nat list option" where
  "hextetLoop [] = Some []"
| "hextetLoop (p # ps) =
     (if 46 \<in> set p then
        (if ps \<noteq> [] then None
         else map_option (\<lambda>v4. [unat (drop_bit 16 v4 AND 0xffff), unat (v4 AND 0xffff)])
                (parseStrictDottedQuad p))
      else if \<not> (list_all is_hex p \<and> 1 \<le> length p \<and> length p \<le> 4) then None
      else map_option ((#) (radix_val 16 p)) (hextetLoop ps))"

definition parseHextets :: "ustring \<Rightarrow> nat list option" where
  "parseHextets s = (if s = [] then Some [] else hextetLoop (split_on 58 s))"

text \<open>
  The scan for the longest zero run: \<open>(bestStart, bestLen, curStart, curLen)\<close>. A start of
  \<open>-1\<close> in the source is \<open>None\<close>.
\<close>

type_synonym zero_scan = "nat option \<times> nat \<times> nat option \<times> nat"

fun zeroStep :: "nat list \<Rightarrow> zero_scan \<Rightarrow> nat \<Rightarrow> zero_scan" where
  "zeroStep groups (bestStart, bestLen, curStart, curLen) i =
     (if groups ! i = 0 then
        (let curStart' = (if curStart = None then Some i else curStart); curLen' = curLen + 1 in
         if curLen' > bestLen then (curStart', curLen', curStart', curLen')
         else (bestStart, bestLen, curStart', curLen'))
      else (bestStart, bestLen, None, 0))"

definition zeroScan :: "nat list \<Rightarrow> nat \<Rightarrow> zero_scan" where
  "zeroScan groups n = foldl (zeroStep groups) (None, 0, None, 0) [0..<n]"

definition hexJoin :: "nat list \<Rightarrow> ustring" where
  "hexJoin gs = join [58] (map (to_radix 16) gs)"

definition canonicalizeIpv6 :: "nat list \<Rightarrow> ustring" where
  "canonicalizeIpv6 groups =
     (case zeroScan groups 8 of (bestStart, bestLen, _, _) \<Rightarrow>
        if bestLen < 2 then hexJoin groups
        else let s = the bestStart in
          hexJoin (take s groups) @ [58, 58] @ hexJoin (drop (s + bestLen) groups))"

definition mixedCanonicalIpv6 :: "nat list \<Rightarrow> ustring \<Rightarrow> ustring" where
  "mixedCanonicalIpv6 groups dotted =
     (case zeroScan groups 6 of (bestStart, bestLen, _, _) \<Rightarrow>
        let hex = take 6 groups in
        if bestLen < 2 then hexJoin hex @ [58] @ dotted
        else let s = the bestStart; tail = hexJoin (drop (s + bestLen) hex) in
          hexJoin (take s hex) @ [58, 58] @ (if tail = [] then [] else tail @ [58]) @ dotted)"

text \<open>\<open>(host.match(/::/g) ?? []).length\<close>: non-overlapping occurrences.\<close>

fun countDbl :: "ustring \<Rightarrow> nat" where
  "countDbl (a # b # s) = (if a = 58 \<and> b = 58 then Suc (countDbl s) else countDbl (b # s))"
| "countDbl _ = 0"

text \<open>\<open>host.indexOf("::")\<close> with the text on both sides.\<close>

fun cutDbl :: "ustring \<Rightarrow> (ustring \<times> ustring) option" where
  "cutDbl (a # b # s) =
     (if a = 58 \<and> b = 58 then Some ([], s)
      else map_option (\<lambda>(l, r). (a # l, r)) (cutDbl (b # s)))"
| "cutDbl _ = None"

definition parseGroups :: "ustring \<Rightarrow> nat list option" where
  "parseGroups host =
     (case cutDbl host of
        Some (leftText, rightText) \<Rightarrow>
          (if 46 \<in> set leftText then None
           else case (parseHextets leftText, parseHextets rightText) of
             (Some left, Some right) \<Rightarrow>
               (let missing = 8 - int (length left + length right) in
                if missing < 1 then None else Some (left @ replicate (nat missing) 0 @ right))
           | _ \<Rightarrow> None)
      | None \<Rightarrow> parseHextets host)"

definition analyzeIpv6 :: "ustring \<Rightarrow> Ipv6Analysis option" where
  "analyzeIpv6 host =
     (if host = [] \<or> 58 \<notin> set host \<or> 37 \<in> set host then None
      else if countDbl host > 1 then None
      else case parseGroups host of
        None \<Rightarrow> None
      | Some groups \<Rightarrow>
          if length groups \<noteq> 8 then None
          else
            (let canonical = canonicalizeIpv6 groups;
                 embedded = unwrapLow32Ipv4 groups;
                 low = lower host;
                 obfuscated = (low \<noteq> canonical \<and>
                   \<not> (case embedded of None \<Rightarrow> False
                       | Some (address, _) \<Rightarrow> low = mixedCanonicalIpv6 groups address))
             in Some \<lparr>v6_obfuscated = obfuscated, v6_canonical = canonical,
                      v6_embeddedIpv4 = map_option fst embedded,
                      v6_embeddedIpv4Via = map_option snd embedded\<rparr>))"

subsection \<open>IPv4 lemmas\<close>

lemma decimal_not_hex: "list_all is_digit s \<Longrightarrow> \<not> hex_form s"
  by (cases s rule: hex_form.cases) (auto simp: is_digit_def)

lemma isFinite_byte: "n < 2 ^ 32 \<Longrightarrow> isFinite n"
  unfolding isFinite_def by simp

lemma parsePart_decimal:
  assumes "n < 2 ^ 32"
  shows "parsePart (to_radix 10 n) = Some (n, False)"
proof -
  let ?s = "to_radix 10 n"
  have d: "list_all is_digit ?s" by (auto simp: list_all_iff dest: to_radix_10_digits)
  have z: "length ?s > 1 \<Longrightarrow> ?s ! 0 \<noteq> 48" by (rule to_radix_no_leading_zero) auto
  have "\<not> octal_form ?s"
    using z by (cases ?s) auto
  with d z decimal_not_hex [OF d] isFinite_byte [OF assms] show ?thesis by (auto simp: parsePart_def)
qed

lemma unat_byte: "unat (drop_bit k (n :: 32 word) AND 255) = unat n div 2 ^ k mod 256"
proof -
  have "drop_bit k n AND 255 = take_bit 8 (drop_bit k n)"
    using take_bit_eq_mask [of 8 "drop_bit k n"] by (simp add: mask_eq_exp_minus_1)
  then show ?thesis
    by (simp only: unsigned_take_bit_eq unat_drop_bit_eq)
      (simp add: take_bit_eq_mod drop_bit_eq_div)
qed

lemma unat_less_2_32: "unat (n :: 32 word) < 2 ^ 32"
  using unsigned_less [of n, where 'a = nat] by simp

text \<open>The four octets of an address, most significant first.\<close>

definition octets :: "32 word \<Rightarrow> nat list" where
  "octets n = [unat n div 2 ^ 24 mod 256, unat n div 2 ^ 16 mod 256, unat n div 2 ^ 8 mod 256,
     unat n mod 256]"

lemma toDotted_octets: "toDotted n = join [46] (map (to_radix 10) (octets n))"
  using unat_byte [of 0 n] unat_byte [of 8 n] unat_byte [of 16 n] unat_byte [of 24 n]
  by (simp add: toDotted_def octets_def)

lemma octets_less: "v \<in> set (octets n) \<Longrightarrow> v < 256"
  by (auto simp: octets_def)

lemma octets_value:
  "packBytes 0 (butlast (octets n)) = Some (unat n div 256)" "last (octets n) = unat n mod 256"
  "length (octets n) = 4"
proof -
  define a where "a = unat n div 256"
  have byte: "x mod 256 \<le> 255" for x :: nat
    using mod_less_divisor [of 256 x] by linarith
  have "unat n < 2 ^ 32" by (rule unat_less_2_32)
  then have top: "unat n div 16777216 mod 256 = unat n div 16777216" by simp
  have "(a div 256 div 256 * 256 + a div 256 mod 256) * 256 + a mod 256 = a"
    by simp
  then have "(unat n div 2 ^ 24 mod 256 * 256 + unat n div 2 ^ 16 mod 256) * 256
      + unat n div 2 ^ 8 mod 256 = unat n div 256"
    unfolding a_def by (simp only: div_mult2_eq [symmetric]) (simp add: top)
  then show "packBytes 0 (butlast (octets n)) = Some (unat n div 256)"
    using top byte [of "unat n div 16777216"] by (simp add: octets_def not_less byte)
qed (simp_all add: octets_def)

lemma split_toDotted: "split_on 46 (toDotted n) = map (to_radix 10) (octets n)"
  unfolding toDotted_octets
  by (rule split_on_join) (auto simp: octets_def is_digit_def dest: to_radix_10_digits)

lemma toDotted_no_root_dot: "stripTrailingRootDot (toDotted n) = toDotted n"
proof -
  have "\<not> endsWith [46] (toDotted n)"
  proof
    assume "endsWith [46] (toDotted n)"
    then have "last (toDotted n) = 46" by (auto simp: endsWith_iff)
    moreover have "last (toDotted n) = last (to_radix 10 (unat n mod 256))"
      by (simp add: toDotted_octets octets_def)
    ultimately show False
      using to_radix_10_digits [of 46 "unat n mod 256"] last_in_set [of "to_radix 10 (unat n mod 256)"]
      by (simp add: is_digit_def)
  qed
  then show ?thesis by (simp add: stripTrailingRootDot_def)
qed

text \<open>A canonical dotted quad is read back as the address it renders, and is not obfuscated.\<close>

lemma analyzeIpv4_toDotted:
  "analyzeIpv4 (toDotted n) = Some \<lparr>v4_obfuscated = False, v4_canonical = toDotted n\<rparr>"
proof -
  have parts: "those (map parsePart (split_on 46 (toDotted n))) = Some (map (\<lambda>v. (v, False)) (octets n))"
    unfolding split_toDotted map_map using octets_less
    by (intro those_map_Some) (fastforce intro!: parsePart_decimal)
  have val: "unat n div 256 * 256 + unat n mod 256 = unat n" by simp
  have bound: "unat n \<le> 0xffffffff" using unat_less_2_32 [of n] by simp
  have len: "length (split_on 46 (toDotted n)) = 4"
    by (simp add: split_toDotted octets_value)
  have lst: "fst (last (map (\<lambda>v. (v, False)) (octets n))) = unat n mod 256"
    by (simp add: octets_def)
  have lead: "map fst (butlast (map (\<lambda>v. (v, False)) (octets n))) = butlast (octets n)"
    by (simp add: map_butlast [symmetric] comp_def)
  show ?thesis
    using parts len lst lead val bound
    by (simp add: analyzeIpv4_def toDotted_no_root_dot octets_value list_ex_iff Let_def)
qed

lemma toDotted_inject: "toDotted a = toDotted b \<longleftrightarrow> a = b"
proof
  assume "toDotted a = toDotted b"
  then have "octets a = octets b"
    using split_toDotted [of a] split_toDotted [of b] by (auto simp: octets_def to_radix_inject)
  then have "unat a = unat b"
    using octets_value(1,2) [of a] octets_value(1,2) [of b] by (metis option.inject mult_div_mod_eq)
  then show "a = b" by (rule word_unat_eq_iff [THEN iffD2])
qed simp

lemma analyzeIpv4_canonical: "analyzeIpv4 h = Some r \<Longrightarrow> \<exists>n. v4_canonical r = toDotted n"
  by (auto simp: analyzeIpv4_def Let_def split: if_splits option.splits)

subsection \<open>The zero-run scan\<close>

definition zeros :: "nat list \<Rightarrow> nat \<Rightarrow> nat \<Rightarrow> bool" where
  "zeros g a l \<longleftrightarrow> (\<forall>i. a \<le> i \<and> i < a + l \<longrightarrow> g ! i = 0)"

text \<open>
  The state of the scan after \<open>n\<close> groups: the current run is the maximal zero run ending at
  \<open>n\<close>, and the best run is a zero run no other one is longer than.
\<close>

fun scan_inv :: "nat list \<Rightarrow> nat \<Rightarrow> zero_scan \<Rightarrow> bool" where
  "scan_inv g n (bs, bl, cs, cl) \<longleftrightarrow>
     (case cs of None \<Rightarrow> cl = 0 \<and> (n = 0 \<or> g ! (n - 1) \<noteq> 0)
      | Some c \<Rightarrow> c + cl = n \<and> zeros g c cl \<and> (c = 0 \<or> g ! (c - 1) \<noteq> 0))
     \<and> cl \<le> bl
     \<and> (0 < bl \<longrightarrow> (\<exists>s. bs = Some s \<and> s + bl \<le> n \<and> zeros g s bl))
     \<and> (\<forall>a l. a + l \<le> n \<and> zeros g a l \<longrightarrow> l \<le> bl)"

lemma zeros_Suc: "zeros g a (Suc l) \<longleftrightarrow> zeros g a l \<and> g ! (a + l) = 0"
  by (auto simp: zeros_def less_Suc_eq)

lemma zeros_run_start:
  assumes "zeros g a l" "a + l = Suc n" "c \<le> n" "c = 0 \<or> g ! (c - 1) \<noteq> 0"
  shows "l \<le> Suc n - c"
proof (rule ccontr)
  assume "\<not> l \<le> Suc n - c"
  with assms(2,3) have "a \<le> c - 1" "c - 1 < a + l" "0 < c" by auto
  with assms(1) have "g ! (c - 1) = 0" by (auto simp: zeros_def)
  with assms(4) \<open>0 < c\<close> show False by simp
qed

lemma scan_inv_step:
  assumes "scan_inv g n st"
  shows "scan_inv g (Suc n) (zeroStep g st n)"
proof -
  obtain bs bl cs cl where st: "st = (bs, bl, cs, cl)" by (cases st)
  note inv = assms [unfolded st scan_inv.simps]
  show ?thesis
  proof (cases "g ! n = 0")
    case False
    have "l \<le> bl" if "a + l \<le> Suc n" "zeros g a l" for a l
    proof (cases "a + l \<le> n")
      case False
      with that(1) have "a + l = Suc n" by simp
      with that(2) \<open>g ! n \<noteq> 0\<close> have "l = 0" by (cases l) (auto simp: zeros_Suc)
      then show ?thesis by simp
    qed (use inv that in blast)
    with False inv show ?thesis by (auto simp: st)
  next
    case True
    define c where "c = (case cs of None \<Rightarrow> n | Some c \<Rightarrow> c)"
    have c: "c + cl = n" "zeros g c (Suc cl)" "c = 0 \<or> g ! (c - 1) \<noteq> 0" "c \<le> n"
      using inv True by (auto simp: c_def zeros_Suc split: option.splits) (auto simp: zeros_def)
    have cs': "(if cs = None then Some n else cs) = Some c"
      by (auto simp: c_def)
    have step: "zeroStep g st n =
        (if bl < Suc cl then (Some c, Suc cl, Some c, Suc cl) else (bs, bl, Some c, Suc cl))"
      using True cs' by (simp add: st Let_def)
    have max: "l \<le> max bl (Suc cl)" if "a + l \<le> Suc n" "zeros g a l" for a l
    proof (cases "a + l \<le> n")
      case False
      with that(1) have "a + l = Suc n" by simp
      from zeros_run_start [OF that(2) this c(4,3)] c(1) show ?thesis by simp
    next
      case True
      with inv that(2) have "l \<le> bl" by blast
      then show ?thesis by simp
    qed
    show ?thesis
    proof (cases "bl < Suc cl")
      case True
      with max have "\<forall>a l. a + l \<le> Suc n \<and> zeros g a l \<longrightarrow> l \<le> Suc cl" by fastforce
      with True c step show ?thesis by simp
    next
      case False
      with max have "\<forall>a l. a + l \<le> Suc n \<and> zeros g a l \<longrightarrow> l \<le> bl" by fastforce
      with False c step inv show ?thesis by (auto intro: le_SucI)
    qed
  qed
qed

lemma zeroScan_inv: "scan_inv g n (zeroScan g n)"
proof (induction n)
  case 0
  show ?case by (auto simp: zeroScan_def)
next
  case (Suc n)
  then show ?case
    by (simp add: zeroScan_def scan_inv_step del: scan_inv.simps zeroStep.simps)
qed

lemma zeroScan_best:
  assumes "zeroScan g n = (bs, bl, cs, cl)" "2 \<le> bl"
  obtains s where "bs = Some s" "s + bl \<le> n" "zeros g s bl"
  using zeroScan_inv [of g n] assms by auto

subsection \<open>IPv6 lemmas\<close>

definition groups_ok :: "nat list \<Rightarrow> bool" where
  "groups_ok g \<longleftrightarrow> (\<forall>x \<in> set g. x < 65536)"

lemma hextet_text:
  assumes "x < 65536"
  shows "list_all is_hex (to_radix 16 x)" "1 \<le> length (to_radix 16 x)" "length (to_radix 16 x) \<le> 4"
    "46 \<notin> set (to_radix 16 x)" "58 \<notin> set (to_radix 16 x)"
  using assms length_to_radix [of 16 x 4]
  by (auto simp: list_all_iff Suc_le_eq is_hex_def is_digit_def dest: to_radix_16_hex)

lemmas hextet_text' = hextet_text(1,3-5) hextet_text(2) [simplified]

lemma hextetLoop_hex: "groups_ok g \<Longrightarrow> hextetLoop (map (to_radix 16) g) = Some g"
  by (induction g) (auto simp: groups_ok_def hextet_text')

lemma hexJoin_nonempty [simp]: "hexJoin g = [] \<longleftrightarrow> g = []"
  unfolding hexJoin_def by (cases g rule: list.exhaust; cases "tl g") auto

lemma hexJoin_simps [simp]: "hexJoin [] = []" "hexJoin [x] = to_radix 16 x"
  by (simp_all add: hexJoin_def)

lemma hexJoin_Cons: "xs \<noteq> [] \<Longrightarrow> hexJoin (x # xs) = to_radix 16 x @ 58 # hexJoin xs"
  by (simp add: hexJoin_def join_Cons)

lemma parseHextets_hexJoin:
  assumes "groups_ok g"
  shows "parseHextets (hexJoin g) = Some g"
proof (cases "g = []")
  case True
  then show ?thesis by (simp add: parseHextets_def hexJoin_def)
next
  case False
  have "split_on 58 (hexJoin g) = map (to_radix 16) g"
    unfolding hexJoin_def using assms False
    by (intro split_on_join) (auto simp: groups_ok_def hextet_text)
  moreover have "hexJoin g \<noteq> []" using False by simp
  ultimately show ?thesis
    by (simp add: parseHextets_def hextetLoop_hex [OF assms])
qed

text \<open>Texts without an empty field: no double colon and no colon at either end.\<close>

definition plain :: "ustring \<Rightarrow> bool" where
  "plain s \<longleftrightarrow> countDbl s = 0 \<and> (s = [] \<or> hd s \<noteq> 58 \<and> last s \<noteq> 58)"

lemma countDbl_Cons: "c \<noteq> 58 \<Longrightarrow> countDbl (c # s) = countDbl s"
  by (cases s) auto

lemma countDbl_append_free: "58 \<notin> set p \<Longrightarrow> countDbl (p @ s) = countDbl s"
  by (induction p) (auto simp: countDbl_Cons)

lemma countDbl_join:
  "\<forall>x \<in> set xs. x \<noteq> [] \<and> 58 \<notin> set x \<Longrightarrow> countDbl (join [58] xs) = 0"
proof (induction "[58 :: nat]" xs rule: join.induct)
  case (2 x)
  then show ?case using countDbl_append_free [of x "[]"] by simp
next
  case (3 x y ys)
  then have "countDbl (join [58] (y # ys)) = 0" by simp
  moreover obtain c t where "join [58] (y # ys) = c # t" "c \<noteq> 58"
    using 3(2) by (cases y; cases ys) auto
  ultimately show ?case
    using 3(2) by (simp add: countDbl_append_free)
qed simp

lemma plain_hexJoin:
  assumes "groups_ok g"
  shows "plain (hexJoin g)"
proof -
  have h: "58 \<notin> set (to_radix 16 x)" if "x \<in> set g" for x
    using assms that by (auto simp: groups_ok_def hextet_text)
  have "countDbl (hexJoin g) = 0"
    unfolding hexJoin_def using h by (intro countDbl_join) auto
  moreover have "g \<noteq> [] \<Longrightarrow> hd (hexJoin g) \<noteq> 58"
    using h unfolding hexJoin_def
    by (cases g rule: list.exhaust; cases "tl g") (auto simp: hd_append, (metis hd_in_set to_radix_nonempty)+)
  moreover have "g \<noteq> [] \<Longrightarrow> last (hexJoin g) \<noteq> 58"
    using h
  proof (induction g)
    case (Cons x xs)
    show ?case
    proof (cases "xs = []")
      case True
      have "58 \<notin> set (to_radix 16 x)" using Cons.prems(2) by simp
      then have "last (to_radix 16 x) \<noteq> 58" using last_in_set to_radix_nonempty by metis
      with True show ?thesis by (simp add: hexJoin_def)
    next
      case False
      then have "hexJoin (x # xs) = to_radix 16 x @ 58 # hexJoin xs" "hexJoin xs \<noteq> []"
        by (simp_all add: hexJoin_Cons)
      with Cons False show ?thesis by simp
    qed
  qed simp
  ultimately show ?thesis by (cases "g = []") (auto simp: plain_def hexJoin_def)
qed

lemma dbl_in_middle:
  assumes "countDbl l = 0" "l = [] \<or> last l \<noteq> 58" "plain r"
  shows "countDbl (l @ 58 # 58 # r) = 1" "cutDbl (l @ 58 # 58 # r) = Some (l, r)"
proof -
  have "countDbl (l @ 58 # 58 # r) = 1 \<and> cutDbl (l @ 58 # 58 # r) = Some (l, r)"
    using assms
  proof (induction l rule: countDbl.induct)
    case (1 a b s)
    then have "\<not> (a = 58 \<and> b = 58)" "countDbl (b # s) = 0" "last (b # s) \<noteq> 58"
      by (auto split: if_splits)
    with 1 show ?case by (auto simp del: last.simps)
  qed (auto simp: plain_def countDbl_Cons)
  then show "countDbl (l @ 58 # 58 # r) = 1" "cutDbl (l @ 58 # 58 # r) = Some (l, r)"
    by simp_all
qed

lemma cutDbl_None: "countDbl s = 0 \<Longrightarrow> cutDbl s = None"
  by (induction s rule: countDbl.induct) (auto split: if_splits)

lemma canonicalizeIpv6_cases:
  assumes "length g = 8" "groups_ok g"
  obtains (full) "canonicalizeIpv6 g = hexJoin g"
    | (run) s l where "canonicalizeIpv6 g = hexJoin (take s g) @ [58, 58] @ hexJoin (drop (s + l) g)"
        "g = take s g @ replicate l 0 @ drop (s + l) g" "2 \<le> l" "s + l \<le> 8"
proof -
  obtain bs bl cs cl where sc: "zeroScan g 8 = (bs, bl, cs, cl)" by (cases "zeroScan g 8")
  show thesis
  proof (cases "bl < 2")
    case True
    with sc show ?thesis by (intro full) (simp add: canonicalizeIpv6_def)
  next
    case False
    with sc obtain s where s: "bs = Some s" "s + bl \<le> 8" "zeros g s bl"
      by (auto elim: zeroScan_best)
    have mid: "take bl (drop s g) = replicate bl 0"
      using s assms(1) by (intro nth_equalityI) (auto simp: zeros_def)
    have "g = take s g @ take bl (drop s g) @ drop (s + bl) g"
      by (metis append_take_drop_id drop_drop add.commute)
    with mid sc s False show ?thesis
      by (intro run [of s bl]) (simp_all add: canonicalizeIpv6_def)
  qed
qed

lemma groups_ok_sub: "groups_ok g \<Longrightarrow> groups_ok (take n g)" "groups_ok g \<Longrightarrow> groups_ok (drop n g)"
  by (auto simp: groups_ok_def dest: in_set_takeD in_set_dropD)

lemma dot_free_hexJoin: "groups_ok g \<Longrightarrow> 46 \<notin> set (hexJoin g)"
proof (induction g)
  case (Cons x xs)
  then show ?case
    by (cases "xs = []") (auto simp: hexJoin_Cons groups_ok_def hextet_text)
qed simp

lemma parseGroups_canonical:
  assumes "length g = 8" "groups_ok g"
  shows "parseGroups (canonicalizeIpv6 g) = Some g" "countDbl (canonicalizeIpv6 g) \<le> 1"
proof -
  have "parseGroups (canonicalizeIpv6 g) = Some g \<and> countDbl (canonicalizeIpv6 g) \<le> 1"
    using assms
  proof (cases rule: canonicalizeIpv6_cases)
    case full
    then show ?thesis
      using plain_hexJoin [OF assms(2)] cutDbl_None [of "hexJoin g"]
      by (simp add: parseGroups_def plain_def parseHextets_hexJoin [OF assms(2)])
  next
    case (run s l)
    let ?l = "take s g" and ?r = "drop (s + l) g"
    note ok = groups_ok_sub [OF assms(2)]
    have "plain (hexJoin ?l)" "plain (hexJoin ?r)" by (simp_all add: plain_hexJoin ok)
    then have dbl: "countDbl (canonicalizeIpv6 g) = 1"
      "cutDbl (canonicalizeIpv6 g) = Some (hexJoin ?l, hexJoin ?r)"
      using dbl_in_middle [of "hexJoin ?l" "hexJoin ?r"] run(1) by (auto simp: plain_def)
    moreover have "8 - int (length ?l + length ?r) = int l"
      using run(4) assms(1) by auto
    ultimately show ?thesis
      using run(2,3) by (simp add: parseGroups_def dot_free_hexJoin parseHextets_hexJoin ok)
  qed
  then show "parseGroups (canonicalizeIpv6 g) = Some g" "countDbl (canonicalizeIpv6 g) \<le> 1"
    by simp_all
qed

lemma hextetLoop_ok: "hextetLoop ps = Some g \<Longrightarrow> groups_ok g"
proof (induction ps arbitrary: g)
  case (Cons p ps)
  have w: "unat (w AND 0xffff :: 32 word) < 65536" for w
  proof -
    have "unat (w AND 0xffff) \<le> unat (0xffff :: 32 word)"
      by (rule word_and_le1 [THEN word_le_nat_alt [THEN iffD1]])
    then show ?thesis by simp
  qed
  show ?case
  proof (cases "46 \<in> set p")
    case True
    with Cons.prems w show ?thesis by (auto simp: groups_ok_def split: if_splits)
  next
    case False
    with Cons.prems obtain h where p: "list_all is_hex p" "length p \<le> 4" and h: "hextetLoop ps = Some h"
      and g: "g = radix_val 16 p # h" by (auto split: if_splits)
    have "radix_val 16 p < 16 ^ length p"
      using p(1) by (intro radix_val_less) (auto simp: list_all_iff digit_val_hex)
    also have "(16 :: nat) ^ length p \<le> 16 ^ 4" using p(2) by (intro power_increasing) auto
    finally show ?thesis using Cons.IH [OF h] g by (simp add: groups_ok_def)
  qed
qed (simp add: groups_ok_def)

lemma parseGroups_ok: "parseGroups s = Some g \<Longrightarrow> groups_ok g"
  by (auto simp: parseGroups_def parseHextets_def groups_ok_def [of "_ @ _"] Let_def
      groups_ok_def [of "[]"] split: option.splits if_splits dest!: hextetLoop_ok)
    (auto simp: groups_ok_def)

lemma canonicalizeIpv6_text:
  assumes "length g = 8" "groups_ok g"
  shows "58 \<in> set (canonicalizeIpv6 g)" "37 \<notin> set (canonicalizeIpv6 g)"
    "lower (canonicalizeIpv6 g) = canonicalizeIpv6 g"
proof -
  have h: "c = 58 \<or> (is_hex c \<and> \<not> is_upper c)" if "c \<in> set (hexJoin gs)" for c gs
    using that
  proof (induction gs)
    case (Cons x xs)
    then show ?case
      by (cases "xs = []") (auto simp: hexJoin_Cons dest: to_radix_16_hex)
  qed simp
  have all: "c = 58 \<or> (is_hex c \<and> \<not> is_upper c)" if "c \<in> set (canonicalizeIpv6 g)" for c
    using assms that by (cases rule: canonicalizeIpv6_cases) (auto dest: h)
  from all show "37 \<notin> set (canonicalizeIpv6 g)" by (fastforce simp: is_hex_def is_digit_def)
  have "ascii_lower c = c" if "c \<in> set (canonicalizeIpv6 g)" for c
    using all [OF that] by (auto simp: ascii_lower_def is_upper_def)
  then show "lower (canonicalizeIpv6 g) = canonicalizeIpv6 g"
    unfolding lower_def by (rule map_idI)
  have "58 \<in> set (hexJoin g)"
    using assms(1) by (cases g; cases "tl g") (auto simp: hexJoin_Cons)
  with assms show "58 \<in> set (canonicalizeIpv6 g)" by (cases rule: canonicalizeIpv6_cases) auto
qed

text \<open>The analysis of a literal, in terms of the eight groups it denotes.\<close>

definition analysisOf :: "nat list \<Rightarrow> bool \<Rightarrow> Ipv6Analysis" where
  "analysisOf g obf = \<lparr>v6_obfuscated = obf, v6_canonical = canonicalizeIpv6 g,
     v6_embeddedIpv4 = map_option fst (unwrapLow32Ipv4 g),
     v6_embeddedIpv4Via = map_option snd (unwrapLow32Ipv4 g)\<rparr>"

lemma analyzeIpv6_Some:
  assumes "analyzeIpv6 h = Some r"
  obtains g where "parseGroups h = Some g" "length g = 8" "groups_ok g"
    "r = analysisOf g (v6_obfuscated r)"
proof -
  from assms obtain g where "parseGroups h = Some g" "length g = 8"
      "r = analysisOf g (v6_obfuscated r)"
    by (auto simp: analyzeIpv6_def analysisOf_def Let_def split: if_splits option.splits)
  with parseGroups_ok show thesis by (intro that)
qed

lemma analyzeIpv6_canonical:
  assumes "length g = 8" "groups_ok g"
  shows "analyzeIpv6 (canonicalizeIpv6 g) = Some (analysisOf g False)"
proof -
  note txt_facts = canonicalizeIpv6_text [OF assms]
  then have "canonicalizeIpv6 g \<noteq> []" by auto
  with txt_facts parseGroups_canonical [OF assms] assms show ?thesis
    by (simp add: analyzeIpv6_def analysisOf_def Let_def)
qed

lemma canonicalizeIpv6_inject:
  "length a = 8 \<Longrightarrow> groups_ok a \<Longrightarrow> length b = 8 \<Longrightarrow> groups_ok b \<Longrightarrow>
     canonicalizeIpv6 a = canonicalizeIpv6 b \<longleftrightarrow> a = b"
  by (metis option.inject parseGroups_canonical(1))

lemma parsePart_plain:
  "parsePart p = Some (v, False) \<Longrightarrow> to_radix 10 v = p"
  using to_radix_radix_val_10 [of p] by (auto simp: parsePart_def Suc_le_eq split: if_splits)
    (metis One_nat_def length_0_conv less_one nat_neq_iff)

lemma packBytes_octets:
  assumes "packBytes 0 [a, b, c] = Some lead" "d < 256"
  shows "octets (word_of_nat (lead * 256 + d)) = [a, b, c, d]" "lead * 256 + d < 2 ^ 32"
proof -
  from assms(1) have abc: "a < 256" "b < 256" "c < 256" and lead: "lead = (a * 256 + b) * 256 + c"
    by (auto split: if_splits)
  show less: "lead * 256 + d < 2 ^ 32" using abc assms(2) lead by simp
  then have "unat (word_of_nat (lead * 256 + d) :: 32 word) = lead * 256 + d"
    by (simp only: unat_of_nat take_bit_eq_mod) simp
  moreover have "(lead * 256 + d) div 2 ^ 24 = a" "(lead * 256 + d) div 2 ^ 16 = a * 256 + b"
    "(lead * 256 + d) div 2 ^ 8 = lead"
    using abc assms(2) by (auto simp: lead)
  moreover have "lead mod 256 = c"
    using abc mod_mult_self3 [of "a * 256 + b" 256 c] by (simp only: lead mod_less)
  ultimately show "octets (word_of_nat (lead * 256 + d)) = [a, b, c, d]"
    using abc assms(2) by (simp add: octets_def)
qed

lemma analyzeIpv4_plain:
  assumes "analyzeIpv4 h = Some r" "\<not> v4_obfuscated r"
  shows "stripTrailingRootDot h = v4_canonical r"
proof -
  let ?parts = "split_on 46 (stripTrailingRootDot h)"
  from assms obtain vals lead where vals: "those (map parsePart ?parts) = Some vals"
    and len: "length vals = 4" and dec: "\<not> list_ex snd vals" and lst: "fst (last vals) < 256"
    and lead: "packBytes 0 (map fst (butlast vals)) = Some lead"
    and canon: "v4_canonical r = toDotted (word_of_nat (lead * 256 + fst (last vals)))"
    by (auto simp: analyzeIpv4_def Let_def not_le split: if_splits option.splits)
  from len obtain p q x y where v: "vals = [p, q, x, y]"
    by (auto simp: length_Suc_conv numeral_eq_Suc)
  with lst lead have "octets (word_of_nat (lead * 256 + fst y)) = map fst vals"
    using packBytes_octets(1) [of "fst p" "fst q" "fst x" lead "fst y"] by simp
  moreover have "map (to_radix 10 \<circ> fst) vals = ?parts"
  proof (rule nth_equalityI)
    from vals have ps: "map parsePart ?parts = map Some vals" by (simp add: those_Some)
    then show l: "length (map (to_radix 10 \<circ> fst) vals) = length ?parts"
      by (metis length_map)
    fix i assume i: "i < length (map (to_radix 10 \<circ> fst) vals)"
    with ps l have "parsePart (?parts ! i) = Some (vals ! i)"
      by (metis length_map nth_map)
    moreover have "snd (vals ! i) = False"
      using dec i by (auto simp: list_ex_iff)
    ultimately have "to_radix 10 (fst (vals ! i)) = ?parts ! i"
      by (metis parsePart_plain prod.collapse)
    with i show "map (to_radix 10 \<circ> fst) vals ! i = ?parts ! i" by simp
  qed
  ultimately have "v4_canonical r = join [46] ?parts"
    by (simp add: canon v toDotted_octets)
  then show ?thesis by (simp add: join_split_on)
qed

text \<open>A root label: it does not hide an IPv4 address, and no IPv6 literal has one.\<close>

lemma strictQuad_empty: "strictQuad v (ps @ [[]]) = None"
  by (induction ps arbitrary: v) auto

lemma hextetLoop_trailing_dot: "hextetLoop (ps @ [q @ [46]]) = None"
  by (induction ps) (auto simp: parseStrictDottedQuad_def Let_def strictQuad_empty)

lemma parseHextets_trailing_dot: "parseHextets (s @ [46]) = None"
  using split_on_snoc [of 46 58 s] by (auto simp: parseHextets_def hextetLoop_trailing_dot)

lemma cutDbl_Some: "cutDbl s = Some (l, r) \<Longrightarrow> s = l @ [58, 58] @ r"
  by (induction s arbitrary: l rule: cutDbl.induct) (auto split: if_splits)

lemma parseGroups_trailing_dot: "parseGroups (s @ [46]) = None"
proof (cases "cutDbl (s @ [46])")
  case (Some p)
  then obtain l r where p: "p = (l, r)" "s @ [46] = (l @ [58, 58]) @ r" using cutDbl_Some by (cases p) fastforce
  then obtain r' where "r = r' @ [46]" by (cases r rule: rev_cases) auto
  with Some p show ?thesis by (simp add: parseGroups_def parseHextets_trailing_dot split: option.split)
qed (simp add: parseGroups_def parseHextets_trailing_dot)

lemma stripTrailingRootDot_analyzed:
  assumes "analyzeIpv4 h = Some r"
  shows "analyzeIpv4 (stripTrailingRootDot h) = Some r"
proof -
  have "\<not> endsWith [46] (stripTrailingRootDot h)"
  proof
    assume "endsWith [46] (stripTrailingRootDot h)"
    then obtain pre where "stripTrailingRootDot h = pre @ [46]" by (auto simp: endsWith_iff)
    then have "[] \<in> set (split_on 46 (stripTrailingRootDot h))" by simp
    then have "None \<in> set (map parsePart (split_on 46 (stripTrailingRootDot h)))"
      by (force simp: parsePart_def)
    then have "those (map parsePart (split_on 46 (stripTrailingRootDot h))) = None"
      by (simp only: those_None)
    with assms show False by (simp add: analyzeIpv4_def Let_def split: if_splits)
  qed
  then have "stripTrailingRootDot (stripTrailingRootDot h) = stripTrailingRootDot h"
    by (simp add: stripTrailingRootDot_def)
  with assms show ?thesis by (simp add: analyzeIpv4_def)
qed

lemma stripTrailingRootDot_analyzed6: "analyzeIpv6 h \<noteq> None \<Longrightarrow> stripTrailingRootDot h = h"
  using parseGroups_trailing_dot
  by (auto simp: stripTrailingRootDot_def endsWith_iff analyzeIpv6_def split: if_splits)


text \<open>What the simplifier needs to evaluate the analyses on a literal host.\<close>

lemmas ip_eval = js_eval analyzeIpv4_def parsePart_def isFinite_def stripTrailingRootDot_def is_octal_def
  toDotted_octets octets_def analyzeIpv6_def parseGroups_def parseHextets_def
  parseStrictDottedQuad_def canonicalizeIpv6_def mixedCanonicalIpv6_def zeroScan_def hexJoin_def
  unwrapLow32Ipv4_def LOW32_WRAPPERS_def low32_def upt_conv_Cons

subsection \<open>Properties\<close>

text \<open>
  The canonical form of an IPv4 host is a fixed point of the analysis: analysing the dotted
  quad that was reported for any accepted spelling (decimal, octal, hexadecimal, dotless) yields
  the same canonical form and does not flag it as obfuscated.
\<close>

lemma analyzeIpv4_canonical_fixpoint:
  assumes "analyzeIpv4 host = Some r"
  shows "analyzeIpv4 (v4_canonical r) = Some (r\<lparr>v4_obfuscated := False\<rparr>)"
proof -
  from analyzeIpv4_canonical [OF assms] obtain n where n: "v4_canonical r = toDotted n" ..
  show ?thesis
    using analyzeIpv4_toDotted [of n] n by (cases r) simp
qed

text \<open>The dotless decimal \<open>2130706433\<close> is loopback in disguise.\<close>

lemma analyzeIpv4_canonical_fixpoint_witness:
  "analyzeIpv4 (str ''2130706433'')
     = Some \<lparr>v4_obfuscated = True, v4_canonical = str ''127.0.0.1''\<rparr>
   \<and> analyzeIpv4 (str ''127.0.0.1'')
     = Some \<lparr>v4_obfuscated = False, v4_canonical = str ''127.0.0.1''\<rparr>"
proof -
  have h: "analyzeIpv4 (str ''2130706433'')
     = Some \<lparr>v4_obfuscated = True, v4_canonical = str ''127.0.0.1''\<rparr>"
    by (simp add: ip_eval)
  show ?thesis using h analyzeIpv4_canonical_fixpoint [OF h] by simp
qed

text \<open>
  The obfuscation flag of an IPv4 host is exact: an accepted host is reported as not
  obfuscated precisely when, apart from one trailing root dot, it is written as its own canonical
  dotted quad.
\<close>

lemma analyzeIpv4_obfuscated_iff:
  assumes "analyzeIpv4 host = Some r"
  shows "v4_obfuscated r \<longleftrightarrow> stripTrailingRootDot host \<noteq> v4_canonical r"
proof -
  have "\<not> v4_obfuscated r" if eq: "stripTrailingRootDot host = v4_canonical r"
  proof -
    from analyzeIpv4_canonical [OF assms] obtain n where n: "v4_canonical r = toDotted n" ..
    have "analyzeIpv4 host = analyzeIpv4 (toDotted n)"
      using eq n toDotted_no_root_dot [of n] by (simp add: analyzeIpv4_def)
    with assms show ?thesis by (auto simp: analyzeIpv4_toDotted)
  qed
  with analyzeIpv4_plain [OF assms] show ?thesis by blast
qed

lemma analyzeIpv4_obfuscated_iff_witness:
  "v4_obfuscated \<lparr>v4_obfuscated = False, v4_canonical = str ''10.0.0.7''\<rparr>
     = (stripTrailingRootDot (str ''10.0.0.7.'') \<noteq> str ''10.0.0.7'')"
proof -
  have h: "analyzeIpv4 (str ''10.0.0.7.'')
     = Some \<lparr>v4_obfuscated = False, v4_canonical = str ''10.0.0.7''\<rparr>"
    by (simp add: ip_eval)
  show ?thesis using analyzeIpv4_obfuscated_iff [OF h] by simp
qed

text \<open>
  C25: The RFC 5952 canonical form of an IPv6 literal is a fixed point: re-analysing it reports the
  same canonical form and the same embedded IPv4 address with the same wrapper, and no
  obfuscation. The loop that finds the run to compress and the parser that expands it are inverse.
\<close>

theorem analyzeIpv6_canonical_fixpoint:
  assumes "analyzeIpv6 host = Some r"
  shows "analyzeIpv6 (v6_canonical r) = Some (r\<lparr>v6_obfuscated := False\<rparr>)"
proof -
  from assms obtain g where g: "length g = 8" "groups_ok g" "r = analysisOf g (v6_obfuscated r)"
    by (rule analyzeIpv6_Some)
  then have "v6_canonical r = canonicalizeIpv6 g"
    by (metis Ipv6Analysis.select_convs(2) analysisOf_def)
  moreover from g(3) have "r\<lparr>v6_obfuscated := False\<rparr> = analysisOf g False"
    by (metis (no_types) Ipv6Analysis.update_convs(1) analysisOf_def)
  ultimately show ?thesis using analyzeIpv6_canonical [OF g(1,2)] by simp
qed

theorem analyzeIpv6_canonical_fixpoint_witness:
  "analyzeIpv6 (str ''0:0:0:0:0:FFFF:7f00:1'') = Some \<lparr>v6_obfuscated = True,
     v6_canonical = str ''::ffff:7f00:1'', v6_embeddedIpv4 = Some (str ''127.0.0.1''),
     v6_embeddedIpv4Via = Some ''IPv4-mapped prefix ::ffff:0:0/96''\<rparr>
   \<and> analyzeIpv6 (str ''::ffff:7f00:1'') = Some \<lparr>v6_obfuscated = False,
     v6_canonical = str ''::ffff:7f00:1'', v6_embeddedIpv4 = Some (str ''127.0.0.1''),
     v6_embeddedIpv4Via = Some ''IPv4-mapped prefix ::ffff:0:0/96''\<rparr>"
proof -
  have h: "analyzeIpv6 (str ''0:0:0:0:0:FFFF:7f00:1'') = Some \<lparr>v6_obfuscated = True,
     v6_canonical = str ''::ffff:7f00:1'', v6_embeddedIpv4 = Some (str ''127.0.0.1''),
     v6_embeddedIpv4Via = Some ''IPv4-mapped prefix ::ffff:0:0/96''\<rparr>"
    by (simp add: ip_eval)
  show ?thesis using h analyzeIpv6_canonical_fixpoint [OF h] by simp
qed

text \<open>
  The run that the canonical form compresses is a longest one: whenever the scan over the
  eight groups reports a run of at least two, that run consists of zero groups only, and no zero
  run of the address is longer.
\<close>

lemma zeroScan_longest:
  assumes "zeroScan groups 8 = (bestStart, bestLen, cur)" "2 \<le> bestLen"
  shows "\<exists>s. bestStart = Some s \<and> s + bestLen \<le> 8 \<and> zeros groups s bestLen
     \<and> (\<forall>a l. a + l \<le> 8 \<and> zeros groups a l \<longrightarrow> l \<le> bestLen)"
  using zeroScan_inv [of groups 8] assms by (cases cur) auto

lemma zeroScan_longest_witness:
  "zeros [0x2001, 0, 0, 0, 0, 0, 1, 0] 1 5
   \<and> \<not> (\<exists>a l. a + l \<le> 8 \<and> zeros [0x2001, 0, 0, 0, 0, 0, 1, 0] a l \<and> 5 < l)"
proof -
  have h: "zeroScan [0x2001, 0, 0, 0, 0, 0, 1, 0] 8 = (Some 1, 5, Some 7, 1)" by code_simp
  show ?thesis using zeroScan_longest [OF h] by (auto simp: not_less [symmetric])
qed

end
