(* ===== verification/Platform.thy ===== *)
theory Platform
  imports Prelude
begin

text \<open>
  What the sources take from outside the repository: the Unicode tables of the JavaScript engine
  (general categories behind \<open>\p{Cf}\<close>, \<open>\p{M}\<close>, \<open>[\p{L}\p{M}\p{N}]\<close> and \<open>[\p{S}\p{P}\p{Z}]\<close>, the
  scripts behind \<open>\p{Script=...}\<close>, \<open>normalize\<close>, the full \<open>toLowerCase\<close>), the host name of the
  engine's \<open>URL\<close> class (\<open>None\<close> when the constructor throws), the Public Suffix List lookup of the package \<open>tldts\<close> and the UTS-46
  processing of the package \<open>tr46\<close>. They are fields of one record, an argument of every
  definition that uses them. Surrogate decoding and the code-point iteration of
  \<open>for (const ch of s)\<close> are part of the language and defined here, with the helpers of
  \<open>unicode/format-chars.ts\<close>.
\<close>

text \<open>The result of \<open>tldts.parse\<close>, the fields the sources read.\<close>

record tldts_result =
  td_domain :: "ustring option"
  td_publicSuffix :: "ustring option"
  td_subdomain :: "ustring option"
  td_isIp :: "bool option"
  td_isIcann :: "bool option"

text \<open>
  \<open>tr46.toASCII\<close> and \<open>tr46.toUnicode\<close>; an exception of the package is the outer
  \<open>None\<close>. The boolean argument is \<open>transitionalProcessing\<close>; \<open>pf_toASCII_joiners\<close> is the call with
  \<open>checkJoiners\<close>.
\<close>

datatype normal_form = NFC | NFD | NFKC

text \<open>
  A row of the confusables table of Unicode UTS 39: the code point, the prototype it is confused with
  and the name of the prototype.
\<close>

type_synonym ConfusableRow = "nat \<times> ustring \<times> ustring"

record platform =
  pf_Cf :: "nat \<Rightarrow> bool"
  pf_LMN :: "nat \<Rightarrow> bool"
  pf_toLowerCase :: "ustring \<Rightarrow> ustring"
  pf_tldts :: "bool \<Rightarrow> ustring \<Rightarrow> tldts_result"
  pf_toASCII :: "bool \<Rightarrow> ustring \<Rightarrow> ustring option option"
  pf_toUnicode :: "ustring \<Rightarrow> (ustring \<times> bool) option"
  pf_toASCII_joiners :: "ustring \<Rightarrow> ustring option option"
  pf_M :: "nat \<Rightarrow> bool"
  pf_SPZ :: "nat \<Rightarrow> bool"
  pf_script :: "string \<Rightarrow> nat \<Rightarrow> bool"
  pf_normalize :: "normal_form \<Rightarrow> ustring \<Rightarrow> ustring"
  pf_urlHostname :: "ustring \<Rightarrow> ustring option"

text \<open>A platform for witnesses: ASCII letters and digits, no format characters, no known suffix.\<close>

definition ascii_platform :: platform where
  "ascii_platform =
     \<lparr>pf_Cf = (\<lambda>_. False), pf_LMN = (\<lambda>c. is_alpha c \<or> is_digit c), pf_toLowerCase = lower,
      pf_tldts = (\<lambda>_ _. \<lparr>td_domain = None, td_publicSuffix = None, td_subdomain = None,
        td_isIp = None, td_isIcann = None\<rparr>),
      pf_toASCII = (\<lambda>_ s. Some (Some s)), pf_toUnicode = (\<lambda>s. Some (s, False)),
      pf_toASCII_joiners = (\<lambda>s. Some (Some s)), pf_M = (\<lambda>_. False), pf_SPZ = (\<lambda>_. False),
      pf_script = (\<lambda>name c. name = ''Latin'' \<and> is_alpha c), pf_normalize = (\<lambda>_ s. s),
      pf_urlHostname = (\<lambda>_. None)\<rparr>"

subsection \<open>Code points\<close>

definition is_high :: "nat \<Rightarrow> bool" where
  "is_high c \<longleftrightarrow> 0xD800 \<le> c \<and> c \<le> 0xDBFF"

definition is_low :: "nat \<Rightarrow> bool" where
  "is_low c \<longleftrightarrow> 0xDC00 \<le> c \<and> c \<le> 0xDFFF"

fun codePoints :: "ustring \<Rightarrow> nat list" where
  "codePoints (h # l # s) =
     (if is_high h \<and> is_low l then ((h - 0xD800) * 0x400 + (l - 0xDC00) + 0x10000) # codePoints s
      else h # codePoints (l # s))"
| "codePoints s = s"

definition utf16 :: "nat \<Rightarrow> ustring" where
  "utf16 c = (if c < 0x10000 then [c]
     else [0xD800 + (c - 0x10000) div 0x400, 0xDC00 + (c - 0x10000) mod 0x400])"

subsection \<open>unicode/format-chars.ts\<close>

definition isBidiControl :: "nat \<Rightarrow> bool" where
  "isBidiControl c \<longleftrightarrow> (0x202A \<le> c \<and> c \<le> 0x202E) \<or> (0x2066 \<le> c \<and> c \<le> 0x2069)
     \<or> c = 0x061C \<or> c = 0x200E \<or> c = 0x200F"

text \<open>\<open>\p{Cc}\<close> is the two control blocks; \<open>\p{Cf}\<close> is the engine's table.\<close>

definition isInvisible :: "platform \<Rightarrow> nat \<Rightarrow> bool" where
  "isInvisible E c \<longleftrightarrow> c < 0x20 \<or> (0x7F \<le> c \<and> c < 0xA0) \<or> pf_Cf E c"

definition isLineSeparator :: "nat \<Rightarrow> bool" where
  "isLineSeparator c \<longleftrightarrow> c = 0x2028 \<or> c = 0x2029"

definition isInvisibleNonBidi :: "platform \<Rightarrow> nat \<Rightarrow> bool" where
  "isInvisibleNonBidi E c \<longleftrightarrow> (isInvisible E c \<or> isLineSeparator c) \<and> \<not> isBidiControl c"

definition stripInvisible :: "platform \<Rightarrow> ustring \<Rightarrow> ustring" where
  "stripInvisible E s = concat (map utf16 (filter (\<lambda>c. \<not> isInvisible E c) (codePoints s)))"

definition upper_hex :: "nat \<Rightarrow> ustring" where
  "upper_hex n = map (\<lambda>c. if is_lower c then c - 32 else c) (to_radix 16 n)"

definition codepointOf :: "nat \<Rightarrow> ustring" where
  "codepointOf c = str ''U+'' @ replicate (4 - length (upper_hex c)) 48 @ upper_hex c"

subsection \<open>unicode/idna.ts\<close>

definition toAscii :: "platform \<Rightarrow> ustring \<Rightarrow> ustring" where
  "toAscii E host = (case pf_toASCII E False host of Some (Some ace) \<Rightarrow> ace | _ \<Rightarrow> host)"

definition toAsciiUnder :: "platform \<Rightarrow> ustring \<Rightarrow> bool \<Rightarrow> ustring option" where
  "toAsciiUnder E host transitional =
     (case pf_toASCII E transitional host of Some r \<Rightarrow> r | None \<Rightarrow> None)"

definition toUnicode :: "platform \<Rightarrow> ustring \<Rightarrow> ustring" where
  "toUnicode E host =
     (case pf_toUnicode E host of Some (domain, _) \<Rightarrow> if domain = [] then host else domain
      | None \<Rightarrow> host)"

text \<open>\<open>/^xn--/i\<close> on a label, and \<open>/(^|\.)xn--/i\<close> on a host.\<close>

definition ace_label :: "ustring \<Rightarrow> bool" where
  "ace_label l \<longleftrightarrow> startsWith (str ''xn--'') (lower l)"

definition has_ace_label :: "ustring \<Rightarrow> bool" where
  "has_ace_label host \<longleftrightarrow> list_ex ace_label (split_on 46 host)"

definition hasMalformedPunycode :: "platform \<Rightarrow> ustring \<Rightarrow> bool" where
  "hasMalformedPunycode E host =
     (if host = [] then False
      else if \<not> has_ace_label host then False
      else case pf_toUnicode E host of Some (_, err) \<Rightarrow> err | None \<Rightarrow> False)"

definition hasNormalizationDelta :: "ustring \<Rightarrow> bool" where
  "hasNormalizationDelta host \<longleftrightarrow>
     host \<noteq> [] \<and> (list_ex (\<lambda>c. c > 0x7f) (codePoints host) \<or> has_ace_label host)"

subsection \<open>Lemmas\<close>

lemma utf16_pair:
  assumes "is_high h" "is_low l"
  shows "utf16 ((h - 0xD800) * 0x400 + (l - 0xDC00) + 0x10000) = [h, l]"
proof -
  obtain a where a: "h = 0xD800 + a" using assms(1) by (auto simp: is_high_def le_iff_add)
  obtain b where b: "l = 0xDC00 + b" "b < 0x400"
    using assms(2) le_iff_add [of "0xDC00" l] by (auto simp: is_low_def)
  then show ?thesis by (simp add: a utf16_def)
qed

lemma utf16_unit: "c < 0x10000 \<Longrightarrow> utf16 c = [c]"
  by (simp add: utf16_def)

lemma concat_utf16_codePoints:
  "\<forall>c \<in> set s. c < 0x10000 \<Longrightarrow> concat (map utf16 (codePoints s)) = s"
  by (induction s rule: codePoints.induct) (auto simp: utf16_pair utf16_unit)

lemma set_codePoints_ascii: "\<forall>c \<in> set s. c < 0xD800 \<Longrightarrow> codePoints s = s"
  by (induction s rule: codePoints.induct) (auto simp: is_high_def)

text \<open>On visible ASCII text stripping changes nothing.\<close>

lemma stripInvisible_ascii:
  assumes "\<forall>c \<in> set s. c < 0xD800 \<and> \<not> isInvisible E c"
  shows "stripInvisible E s = s"
proof -
  have "concat (map utf16 s) = s"
    using assms by (induction s) (auto simp: utf16_def)
  with assms show ?thesis
    by (simp add: stripInvisible_def set_codePoints_ascii filter_id_conv)
qed

end
