(* ===== verification/RawParts.thy ===== *)
theory RawParts
  imports Tokens Ip Platform
begin

text \<open>
  The validating parser \<open>parse/raw-parts.ts\<close>, its input preparation \<open>parse/prepare.ts\<close> and the
  naming of a parse failure \<open>parse/failure.ts\<close>. The main results: a reported port is below
  \<open>2\<^sup>1\<^sup>6\<close>, the reported host is the text between the last at sign and the port of the authority,
  and an input without a scheme is accepted only when it names a dotted host or an address.
\<close>

subsection \<open>Definitions\<close>

definition prepare :: "ustring \<Rightarrow> ustring" where
  "prepare input = trim input"

text \<open>\<open>ILLEGAL_HOST_RE\<close> = \<open>/[\s<>"{}|\\^`]/\<close> and \<open>HOST_CHARS_RE\<close> = \<open>/^[\p{L}\p{M}\p{N}._%\-]+$/u\<close>.\<close>

definition ILLEGAL_HOST_RE :: "ustring \<Rightarrow> bool" where
  "ILLEGAL_HOST_RE s \<longleftrightarrow>
     list_ex (\<lambda>c. is_space c \<or> c \<in> {60, 62, 34, 123, 125, 124, 92, 94, 96}) s"

definition HOST_CHARS_RE :: "platform \<Rightarrow> ustring \<Rightarrow> bool" where
  "HOST_CHARS_RE E s \<longleftrightarrow>
     s \<noteq> [] \<and> list_all (\<lambda>c. pf_LMN E c \<or> c \<in> {46, 95, 37, 45}) (codePoints s)"

definition PORT_DIGITS_RE :: "ustring \<Rightarrow> bool" where
  "PORT_DIGITS_RE s \<longleftrightarrow> s \<noteq> [] \<and> list_all is_digit s"

definition MAX_PORT :: nat where
  "MAX_PORT = 65535"

definition toPort :: "ustring \<Rightarrow> nat option" where
  "toPort digits = (let value = radix_val 10 digits in if value > MAX_PORT then None else Some value)"

record RawParts =
  rp_scheme :: "ustring option"
  rp_userinfo :: "ustring option"
  rp_rawHost :: ustring
  rp_port :: "nat option"
  rp_path :: ustring
  rp_query :: "ustring option"
  rp_fragment :: "ustring option"

record SplitParts =
  sp_parts :: RawParts
  sp_bracketed :: bool

definition hasParseableAuthorityIntroducer :: "RawUrlTokens \<Rightarrow> bool" where
  "hasParseableAuthorityIntroducer tokens =
     (if tk_scheme tokens = None then \<not> tk_protocolRelative tokens
      else tk_authorityIntroducer tokens = [] \<or> tk_authorityIntroducer tokens = str ''//'')"

definition opaqueBody :: "RawUrlTokens \<Rightarrow> ustring" where
  "opaqueBody tokens =
     tk_path tokens @ opt_prefix 63 (tk_query tokens) @ opt_prefix 35 (tk_fragment tokens)"

definition hostIsValid :: "platform \<Rightarrow> ustring \<Rightarrow> bool" where
  "hostIsValid E rawHost =
     (let clean = stripInvisible E rawHost in
      if clean = [] then False
      else if ILLEGAL_HOST_RE clean then False
      else if \<not> HOST_CHARS_RE E clean then False
      else (let labels = split_on 46 (if endsWith [46] clean then butlast clean else clean) in
            [] \<notin> set labels))"

text \<open>The split of the authority at the last at sign.\<close>

definition splitUserinfo :: "ustring \<Rightarrow> ustring option \<times> ustring" where
  "splitUserinfo authority =
     (case lastIndexOf 64 authority of None \<Rightarrow> (None, authority)
      | Some atIdx \<Rightarrow> (Some (take atIdx authority), drop (atIdx + 1) authority))"

text \<open>Host, port and whether the host was bracketed; \<open>None\<close> where the source returns null.\<close>

definition splitHostPort :: "ustring \<Rightarrow> (ustring \<times> nat option \<times> bool) option" where
  "splitHostPort hostport =
     (if startsWith [91] hostport then
        (case indexOf 93 hostport of
           None \<Rightarrow> None
         | Some close \<Rightarrow>
             (let rawHost = drop 1 (take close hostport); portPart = drop (close + 1) hostport in
              if startsWith [58] portPart then
                (let p = drop 1 portPart in
                 if \<not> PORT_DIGITS_RE p then None
                 else case toPort p of None \<Rightarrow> None | Some port \<Rightarrow> Some (rawHost, Some port, True))
              else if portPart \<noteq> [] then None
              else Some (rawHost, None, True)))
      else
        (case lastIndexOf 58 hostport of
           None \<Rightarrow> Some (hostport, None, False)
         | Some colon \<Rightarrow>
             if PORT_DIGITS_RE (drop (colon + 1) hostport) then
               (case toPort (drop (colon + 1) hostport) of
                  None \<Rightarrow> None | Some port \<Rightarrow> Some (take colon hostport, Some port, False))
             else Some (hostport, None, False)))"

definition splitRawParts :: "platform \<Rightarrow> RawUrlTokens \<Rightarrow> SplitParts option" where
  "splitRawParts E tokens =
     (if tk_opaque tokens then
        Some \<lparr>sp_parts = \<lparr>rp_scheme = tk_scheme tokens, rp_userinfo = None, rp_rawHost = [],
                rp_port = None, rp_path = opaqueBody tokens, rp_query = None, rp_fragment = None\<rparr>,
              sp_bracketed = False\<rparr>
      else if tk_scheme tokens = Some (str ''file'') \<and> tk_authority tokens = [] then
        Some \<lparr>sp_parts = \<lparr>rp_scheme = tk_scheme tokens, rp_userinfo = None, rp_rawHost = [],
                rp_port = None, rp_path = tk_path tokens, rp_query = tk_query tokens,
                rp_fragment = tk_fragment tokens\<rparr>,
              sp_bracketed = False\<rparr>
      else if \<not> hasParseableAuthorityIntroducer tokens then None
      else
        (let (userinfo, hostport) = splitUserinfo (tk_authority tokens) in
         case splitHostPort hostport of
           None \<Rightarrow> None
         | Some (rawHost, port, bracketed) \<Rightarrow>
             if (if bracketed then analyzeIpv6 rawHost = None else \<not> hostIsValid E rawHost) then None
             else Some \<lparr>sp_parts = \<lparr>rp_scheme = tk_scheme tokens, rp_userinfo = userinfo,
                          rp_rawHost = rawHost, rp_port = port, rp_path = tk_path tokens,
                          rp_query = tk_query tokens, rp_fragment = tk_fragment tokens\<rparr>,
                        sp_bracketed = bracketed\<rparr>))"

definition isBareSingleLabel :: "platform \<Rightarrow> SplitParts \<Rightarrow> bool" where
  "isBareSingleLabel E sp =
     (if rp_scheme (sp_parts sp) \<noteq> None \<or> sp_bracketed sp then False
      else (let host = stripInvisible E (rp_rawHost (sp_parts sp)) in
            if host = [] \<or> 46 \<in> set host then False else analyzeIpv4 host = None))"

definition parseRawParts :: "platform \<Rightarrow> RawUrlTokens \<Rightarrow> RawParts option" where
  "parseRawParts E tokens =
     (case splitRawParts E tokens of
        None \<Rightarrow> None
      | Some split \<Rightarrow> if isBareSingleLabel E split then None else Some (sp_parts split))"

definition bareSingleLabelHost :: "platform \<Rightarrow> RawUrlTokens \<Rightarrow> ustring option" where
  "bareSingleLabelHost E tokens =
     (case splitRawParts E tokens of
        None \<Rightarrow> None
      | Some split \<Rightarrow> if isBareSingleLabel E split then Some (rp_rawHost (sp_parts split)) else None)"

subsection \<open>failure.ts\<close>

definition MAX_ECHO :: nat where
  "MAX_ECHO = 40"

definition echo :: "ustring \<Rightarrow> ustring" where
  "echo region = (if length region > MAX_ECHO then take MAX_ECHO region @ [0x2026] else region)"

definition describeSchemelessFailure :: "platform \<Rightarrow> RawUrlTokens \<Rightarrow> ustring option" where
  "describeSchemelessFailure E tokens =
     (case bareSingleLabelHost E tokens of
        None \<Rightarrow> None
      | Some host \<Rightarrow> Some (str ''no scheme, and the host '' @ [39] @ echo host @ [39]
          @ str '' is a single label with no dot '' @ [0x2014]
          @ str '' input without a scheme must name a dotted host or carry a scheme such as ''
          @ [39] @ str ''http://'' @ [39] @ str ''; the input was not inspected''))"

definition describeParseFailure :: "platform \<Rightarrow> RawUrlTokens \<Rightarrow> ustring option" where
  "describeParseFailure E tokens =
     (case tk_scheme tokens of
        None \<Rightarrow> describeSchemelessFailure E tokens
      | Some scheme \<Rightarrow>
          (let recognition = (if isKnownScheme scheme then str ''is a scheme linklint recognizes''
                 else str ''is not a scheme linklint recognizes'');
               failure = (if tk_authority tokens = [] then str ''no authority follows it''
                 else str ''the authority region '' @ [39] @ echo (tk_authority tokens) @ [39]
                   @ str '' is not a host'')
           in Some (str ''scheme '' @ [39] @ scheme @ str '':'' @ [39] @ str '' '' @ recognition
                @ str '', and '' @ failure @ str '' '' @ [0x2014] @ str '' the body after '' @ [39]
                @ scheme @ str '':'' @ [39] @ str '' was not inspected'')))"

subsection \<open>Lemmas\<close>

lemma splitUserinfo_spec:
  assumes "splitUserinfo a = (u, hp)"
  shows "(case u of None \<Rightarrow> hp | Some x \<Rightarrow> x @ [64] @ hp) = a" "64 \<notin> set hp"
  using assms lastIndexOf_cut [of 64 a] lastIndexOf_Some [of 64 a]
  by (auto simp: splitUserinfo_def lastIndexOf_None split: option.split_asm)

lemma toPort_bound: "toPort d = Some n \<Longrightarrow> n \<le> 65535 \<and> n = radix_val 10 d"
  by (auto simp: toPort_def MAX_PORT_def Let_def split: if_splits)

text \<open>The written form of a port: empty, or a colon and a digit string of that value.\<close>

definition port_text :: "nat option \<Rightarrow> ustring \<Rightarrow> bool" where
  "port_text port s =
     (case port of None \<Rightarrow> s = []
      | Some n \<Rightarrow> \<exists>ds. s = 58 # ds \<and> PORT_DIGITS_RE ds \<and> radix_val 10 ds = n \<and> n \<le> 65535)"

text \<open>The written form of a host: an IPv6 literal stands in brackets.\<close>

definition host_text :: "bool \<Rightarrow> ustring \<Rightarrow> ustring" where
  "host_text bracketed h = (if bracketed then [91] @ h @ [93] else h)"

lemma splitHostPort_spec:
  assumes "splitHostPort hp = Some (h, port, br)"
  obtains t where "hp = host_text br h @ t" "port_text port t"
    "br \<Longrightarrow> 93 \<notin> set h"
proof (cases "startsWith [91] hp")
  case True
  then obtain r where hp: "hp = 91 # r" by (auto simp: startsWith_iff)
  with assms True obtain close where close: "indexOf 93 hp = Some close"
    by (auto simp: splitHostPort_def split: option.splits)
  with hp obtain k where k: "close = Suc k" "indexOf 93 r = Some k" by auto
  define tl where "tl = drop (Suc k) r"
  have r: "r = take k r @ 93 # tl" using indexOf_cut [OF k(2)] by (simp add: tl_def)
  have h: "h = take k r" and br: "br" and port: "port_text port tl"
    using assms True close hp k(1) toPort_bound
    by (auto simp: splitHostPort_def port_text_def tl_def [symmetric] Let_def startsWith_iff
        split: if_splits option.splits) metis+
  show ?thesis
  proof (rule that [OF _ port])
    show "hp = host_text br h @ tl" using r hp h br by (simp add: host_text_def)
    show "93 \<notin> set h" using indexOf_Some [OF k(2)] h by simp
  qed
next
  case False
  have br: "\<not> br"
    using assms False by (auto simp: splitHostPort_def split: option.splits if_splits)
  show ?thesis
  proof (cases "lastIndexOf 58 hp")
    case None
    with assms False show ?thesis
      by (intro that [of "[]"]) (auto simp: splitHostPort_def port_text_def host_text_def)
  next
    case (Some c)
    note cut = lastIndexOf_cut [OF Some]
    define ds where "ds = drop (Suc c) hp"
    show ?thesis
    proof (cases "PORT_DIGITS_RE ds")
      case True
      with assms False Some obtain n where "toPort ds = Some n" "h = take c hp" "port = Some n"
        by (auto simp: splitHostPort_def ds_def split: option.splits)
      with cut br True toPort_bound [of ds n] show ?thesis
        by (intro that [of "58 # ds"]) (auto simp: port_text_def ds_def host_text_def)
    next
      case False
      with assms Some \<open>\<not> startsWith [91] hp\<close> show ?thesis
        by (intro that [of "[]"]) (auto simp: splitHostPort_def ds_def port_text_def host_text_def)
    qed
  qed
qed

lemma splitRawParts_host:
  assumes "splitRawParts E tokens = Some sp" "rp_rawHost (sp_parts sp) \<noteq> []"
  obtains hp where "splitUserinfo (tk_authority tokens) = (rp_userinfo (sp_parts sp), hp)"
    "splitHostPort hp = Some (rp_rawHost (sp_parts sp), rp_port (sp_parts sp), sp_bracketed sp)"
    "if sp_bracketed sp then analyzeIpv6 (rp_rawHost (sp_parts sp)) \<noteq> None
     else hostIsValid E (rp_rawHost (sp_parts sp))"
  using assms by (auto simp: splitRawParts_def split: if_splits option.splits prod.splits)

lemma splitRawParts_scheme: "splitRawParts E tokens = Some sp \<Longrightarrow> rp_scheme (sp_parts sp) = tk_scheme tokens"
  by (auto simp: splitRawParts_def split: if_splits option.splits prod.splits)

lemma parseRawParts_Some:
  assumes "parseRawParts E tokens = Some parts"
  obtains sp where "splitRawParts E tokens = Some sp" "sp_parts sp = parts" "\<not> isBareSingleLabel E sp"
  using assms by (auto simp: parseRawParts_def split: option.splits if_splits)

lemma hostIsValid_nonempty: "hostIsValid E h \<Longrightarrow> stripInvisible E h \<noteq> []"
  by (auto simp: hostIsValid_def Let_def)

lemma analyzeIpv6_Nil [simp]: "analyzeIpv6 [] = None"
  by (simp add: analyzeIpv6_def)

lemma stripInvisible_Nil [simp]: "stripInvisible E [] = []"
  by (simp add: stripInvisible_def)

lemma tokenize_opaque_scheme: "tk_opaque (tokenizeRawUrl p) \<Longrightarrow> tk_scheme (tokenizeRawUrl p) \<noteq> None"
proof -
  obtain rs sc rest where sp: "splitScheme p = (rs, sc, rest)" by (cases "splitScheme p") auto
  then show "tk_opaque (tokenizeRawUrl p) \<Longrightarrow> tk_scheme (tokenizeRawUrl p) \<noteq> None"
    by (cases rule: tokenizeRawUrl_cases) auto
qed

lemma tokenize_authority_free: "c \<in> set (tk_authority (tokenizeRawUrl p)) \<Longrightarrow> c \<notin> {47, 63, 35}"
proof -
  obtain rs sc rest where sp: "splitScheme p = (rs, sc, rest)" by (cases "splitScheme p") auto
  then show "c \<in> set (tk_authority (tokenizeRawUrl p)) \<Longrightarrow> c \<notin> {47, 63, 35}"
    by (cases rule: tokenizeRawUrl_cases) auto
qed

lemma splitHostPort_bracketed: "splitHostPort hp = Some (h, port, br) \<Longrightarrow> br = startsWith [91] hp"
  by (auto simp: splitHostPort_def Let_def split: if_splits option.splits)

text \<open>
  The rule on an unbracketed host, on what is left after the invisible characters are stripped: not
  empty, no white space or delimiter, only letters, marks, numbers and the four punctuation
  characters, no empty label (one trailing dot aside).
\<close>

lemma hostIsValid_iff:
  "hostIsValid E h \<longleftrightarrow>
     (let clean = stripInvisible E h in
      clean \<noteq> [] \<and> (\<forall>c \<in> set clean. \<not> is_space c \<and> c \<notin> {60, 62, 34, 123, 125, 124, 92, 94, 96})
      \<and> (\<forall>c \<in> set (codePoints clean). pf_LMN E c \<or> c \<in> {46, 95, 37, 45})
      \<and> [] \<notin> set (split_on 46 (if endsWith [46] clean then butlast clean else clean)))"
  by (auto simp: hostIsValid_def ILLEGAL_HOST_RE_def HOST_CHARS_RE_def Let_def list_ex_iff list_all_iff)

text \<open>The authority of an accepted input, spelled by the components.\<close>

lemma authority_text:
  assumes parse: "parseRawParts E (tokenizeRawUrl prepared) = Some parts"
    and host: "rp_rawHost parts \<noteq> []"
  shows "\<exists>hostport t. tk_authority (tokenizeRawUrl prepared) =
      (case rp_userinfo parts of None \<Rightarrow> [] | Some u \<Rightarrow> u @ [64]) @ hostport
    \<and> 64 \<notin> set hostport
    \<and> (if startsWith [91] hostport then hostport = [91] @ rp_rawHost parts @ [93] @ t \<and> analyzeIpv6 (rp_rawHost parts) \<noteq> None
       else hostport = rp_rawHost parts @ t \<and> hostIsValid E (rp_rawHost parts))
    \<and> port_text (rp_port parts) t \<and> set (rp_rawHost parts) \<inter> {64, 47, 63, 35} = {}"
proof -
  let ?t = "tokenizeRawUrl prepared"
  from parse obtain sp where sp: "splitRawParts E ?t = Some sp" "sp_parts sp = parts"
    by (rule parseRawParts_Some)
  with host obtain hp where u: "splitUserinfo (tk_authority ?t) = (rp_userinfo parts, hp)"
    and h: "splitHostPort hp = Some (rp_rawHost parts, rp_port parts, sp_bracketed sp)"
    and valid: "if sp_bracketed sp then analyzeIpv6 (rp_rawHost parts) \<noteq> None else hostIsValid E (rp_rawHost parts)"
    by (auto elim: splitRawParts_host)
  obtain t where t: "hp = host_text (sp_bracketed sp) (rp_rawHost parts) @ t" "port_text (rp_port parts) t"
    using splitHostPort_spec [OF h] .
  note ui = splitUserinfo_spec [OF u]
  have sub: "set (rp_rawHost parts) \<subseteq> set hp" using t(1) by (auto simp: host_text_def)
  moreover have "set hp \<subseteq> set (tk_authority ?t)"
    using arg_cong [OF ui(1), of set] by (auto split: option.splits)
  ultimately have "c \<notin> {47, 63, 35}" if "c \<in> set (rp_rawHost parts)" for c
    using that tokenize_authority_free [of c prepared] by blast
  moreover have "64 \<notin> set (rp_rawHost parts)" using sub ui(2) by blast
  ultimately have "set (rp_rawHost parts) \<inter> {64, 47, 63, 35} = {}" by blast
  moreover have "tk_authority ?t = (case rp_userinfo parts of None \<Rightarrow> [] | Some u \<Rightarrow> u @ [64]) @ hp"
    using ui(1) by (auto split: option.splits)
  moreover have "if startsWith [91] hp then hp = [91] @ rp_rawHost parts @ [93] @ t \<and> analyzeIpv6 (rp_rawHost parts) \<noteq> None
      else hp = rp_rawHost parts @ t \<and> hostIsValid E (rp_rawHost parts)"
    using t(1) valid unfolding splitHostPort_bracketed [OF h] host_text_def by (simp split: if_splits)
  ultimately show ?thesis using t(2) ui(2) by blast
qed

lemmas parts_eval = js_eval prepare_def ILLEGAL_HOST_RE_def HOST_CHARS_RE_def PORT_DIGITS_RE_def
  MAX_PORT_def toPort_def hasParseableAuthorityIntroducer_def opaqueBody_def hostIsValid_def
  splitUserinfo_def splitHostPort_def splitRawParts_def isBareSingleLabel_def parseRawParts_def
  stripInvisible_def utf16_def is_high_def isInvisible_def ascii_platform_def
  tokenizeRawUrl_def splitScheme_def SCHEME_RE_def is_scheme_char_def looksLikeHostPort_def
  digits_then_end_def KNOWN_SCHEMES_def OPAQUE_SCHEMES_def isOpaqueBody_def isOpaqueScheme_def
  leadingAuthorityIntroducer_def is_slash_def firstIndexOf_def mkTokens_def
  splitPathQueryFragment_def

subsection \<open>Properties\<close>

text \<open>
  C26: The host the parser reports is the host of the authority as written. Whenever an input parses
  with a host, its authority is the reported userinfo and an at sign (when there is one), then the part
  after the last at sign: if that part opens with a bracket, the host in brackets, a valid IPv6 literal;
  otherwise the host itself, which, its invisible characters stripped, is not empty, has no white space
  or delimiter, only letters, marks, numbers, dots, hyphens, underscores and percent signs, and no empty
  label but for one trailing dot. Then follows the written port: nothing, or a colon and a digit string
  whose value is the reported port and at most 65535. The host contains no at sign, slash, question mark
  or hash, so no part of the userinfo or of the path can be taken for it.
\<close>

theorem parseRawParts_authority:
  assumes parse: "parseRawParts E (tokenizeRawUrl prepared) = Some parts"
    and host: "rp_rawHost parts \<noteq> []"
  shows "\<exists>hostport t. tk_authority (tokenizeRawUrl prepared) =
      (case rp_userinfo parts of None \<Rightarrow> [] | Some u \<Rightarrow> u @ [64]) @ hostport
    \<and> 64 \<notin> set hostport
    \<and> (if startsWith [91] hostport
       then hostport = [91] @ rp_rawHost parts @ [93] @ t \<and> analyzeIpv6 (rp_rawHost parts) \<noteq> None
       else hostport = rp_rawHost parts @ t \<and>
         (let clean = stripInvisible E (rp_rawHost parts) in
          clean \<noteq> [] \<and> (\<forall>c \<in> set clean. \<not> is_space c \<and> c \<notin> {60, 62, 34, 123, 125, 124, 92, 94, 96})
          \<and> (\<forall>c \<in> set (codePoints clean). pf_LMN E c \<or> c \<in> {46, 95, 37, 45})
          \<and> [] \<notin> set (split_on 46 (if endsWith [46] clean then butlast clean else clean))))
    \<and> port_text (rp_port parts) t \<and> set (rp_rawHost parts) \<inter> {64, 47, 63, 35} = {}"
  unfolding hostIsValid_iff [symmetric] by (rule authority_text [OF assms])

text \<open>In \<open>https://paypal.com@evil.com:8443/login\<close> the host is \<open>evil.com\<close>.\<close>

theorem parseRawParts_authority_witness:
  "\<exists>hostport t. tk_authority (tokenizeRawUrl (str ''https://paypal.com@evil.com:8443/login''))
     = str ''paypal.com@'' @ hostport \<and> 64 \<notin> set hostport \<and> port_text (Some 8443) t
     \<and> (hostport = [91] @ str ''evil.com'' @ [93] @ t \<or> hostport = str ''evil.com'' @ t)"
proof -
  have h: "parseRawParts ascii_platform (tokenizeRawUrl (str ''https://paypal.com@evil.com:8443/login''))
     = Some \<lparr>rp_scheme = Some (str ''https''), rp_userinfo = Some (str ''paypal.com''),
         rp_rawHost = str ''evil.com'', rp_port = Some 8443, rp_path = str ''/login'',
         rp_query = None, rp_fragment = None\<rparr>"
    by (simp add: parts_eval)
  have "str ''paypal.com@'' = str ''paypal.com'' @ [64]" "str ''evil.com'' \<noteq> []"
    by (simp_all add: str_def)
  then show ?thesis using parseRawParts_authority [OF h] by (auto split: if_splits)
qed

text \<open>
  Input without a scheme is accepted only with evidence that it is a URL: whenever such an input
  parses, its host is a valid IPv6 literal, or contains a dot once invisible characters are
  removed, or is an IPv4 address in one of the accepted spellings.
\<close>

lemma parseRawParts_schemeless:
  assumes parse: "parseRawParts E (tokenizeRawUrl prepared) = Some parts"
    and scheme: "rp_scheme parts = None"
  shows "analyzeIpv6 (rp_rawHost parts) \<noteq> None
    \<or> (let host = stripInvisible E (rp_rawHost parts) in 46 \<in> set host \<or> analyzeIpv4 host \<noteq> None)"
proof -
  let ?t = "tokenizeRawUrl prepared"
  from parse obtain sp where sp: "splitRawParts E ?t = Some sp" "sp_parts sp = parts"
    and nb: "\<not> isBareSingleLabel E sp"
    by (rule parseRawParts_Some)
  have tk: "tk_scheme ?t = None" using splitRawParts_scheme [OF sp(1)] sp(2) scheme by simp
  then have "\<not> tk_opaque ?t" using tokenize_opaque_scheme by blast
  with tk sp have "rp_rawHost parts \<noteq> []"
    by (auto simp: splitRawParts_def dest: hostIsValid_nonempty
        split: if_splits option.splits prod.splits)
  with sp obtain hp where v: "if sp_bracketed sp then analyzeIpv6 (rp_rawHost parts) \<noteq> None
     else hostIsValid E (rp_rawHost parts)"
    by (auto elim: splitRawParts_host)
  show ?thesis
  proof (cases "sp_bracketed sp")
    case False
    with v have "stripInvisible E (rp_rawHost parts) \<noteq> []" by (simp add: hostIsValid_nonempty)
    with nb sp(2) scheme False show ?thesis
      by (auto simp: isBareSingleLabel_def Let_def split: if_splits)
  qed (use v in simp)
qed

lemma parseRawParts_schemeless_witness:
  "46 \<in> set (stripInvisible ascii_platform (str ''example.com''))"
proof -
  have h: "parseRawParts ascii_platform (tokenizeRawUrl (str ''example.com/a''))
     = Some \<lparr>rp_scheme = None, rp_userinfo = None, rp_rawHost = str ''example.com'',
         rp_port = None, rp_path = str ''/a'', rp_query = None, rp_fragment = None\<rparr>"
    by (simp add: parts_eval)
  have "analyzeIpv6 (str ''example.com'') = None"
    "analyzeIpv4 (stripInvisible ascii_platform (str ''example.com'')) = None"
    by (simp_all add: parts_eval ip_eval)
  then show ?thesis using parseRawParts_schemeless [OF h] by (simp add: Let_def)
qed

text \<open>
  A parse failure is named exactly when there is a name to give: the failure description exists
  precisely for inputs with a scheme token and for scheme-less inputs rejected by the single-label
  rule alone; in that last case the input is otherwise parseable and the parser returns null.
\<close>

lemma describeParseFailure_named:
  "(describeParseFailure E tokens = None
      \<longleftrightarrow> tk_scheme tokens = None \<and> bareSingleLabelHost E tokens = None)
   \<and> (bareSingleLabelHost E tokens \<noteq> None
      \<longleftrightarrow> splitRawParts E tokens \<noteq> None \<and> parseRawParts E tokens = None)"
  by (auto simp: describeParseFailure_def describeSchemelessFailure_def bareSingleLabelHost_def
      parseRawParts_def Let_def split: option.splits)

end
