(* ===== verification/Numbers.thy ===== *)
theory Numbers
  imports Complex_Main "HOL-Library.Log_Nat"
begin

text \<open>
  JavaScript numbers, as far as the program computes with fractions: a number is a rational, and
  every arithmetic operation of the source is followed by \<open>fl\<close>, the rounding of IEEE 754 binary64
  to the nearest representable value, ties to even, subnormals included. (None of the modelled
  computations leaves the finite range.) The laws the clients use are the locale \<open>rounding\<close>;
  \<open>fl\<close> is shown to satisfy them.
\<close>

subsection \<open>Rounding to binary64\<close>

text \<open>The exponent of the leading bit of a positive rational: \<open>2\<^sup>k \<le> x < 2\<^sup>k\<^sup>+\<^sup>1\<close>.\<close>

definition ilog2 :: "rat \<Rightarrow> int" where
  "ilog2 x = (case quotient_of x of (p, q) \<Rightarrow>
     (let k = int (floorlog 2 (nat p)) - int (floorlog 2 (nat q)) in
      if 2 powi k \<le> x then k else k - 1))"

text \<open>Round to the nearest integer, ties to even.\<close>

definition rne :: "rat \<Rightarrow> int" where
  "rne y = (let f = \<lfloor>y\<rfloor>; r = y - of_int f in
     if r < 1 / 2 then f else if r > 1 / 2 then f + 1 else if even f then f else f + 1)"

text \<open>The exponent of the last place of the binary64 value nearest to \<open>x > 0\<close>.\<close>

definition ulp_exp :: "rat \<Rightarrow> int" where
  "ulp_exp x = max (- 1074) (ilog2 x - 52)"

definition fl_pos :: "rat \<Rightarrow> rat" where
  "fl_pos x = of_int (rne (x / 2 powi ulp_exp x)) * 2 powi ulp_exp x"

definition fl :: "rat \<Rightarrow> rat" where
  "fl x = (if x = 0 then 0 else if x > 0 then fl_pos x else - fl_pos (- x))"

text \<open>
  \<open>Number(x.toFixed(10))\<close>: the nearest multiple of \<open>10\<^sup>-\<^sup>1\<^sup>0\<close>, ties upwards (ECMAScript,
  \<open>Number.prototype.toFixed\<close>), read back as a binary64 value.
\<close>

definition toFixed10 :: "rat \<Rightarrow> rat" where
  "toFixed10 x = fl (of_int \<lfloor>x * 10 ^ 10 + 1 / 2\<rfloor> / 10 ^ 10)"

subsection \<open>The interface\<close>

locale rounding =
  fixes rnd :: "rat \<Rightarrow> rat"
  assumes rnd_mono: "x \<le> y \<Longrightarrow> rnd x \<le> rnd y"
    and rnd_idem: "rnd (rnd x) = rnd x"
    and rnd_0: "rnd 0 = 0"
    and rnd_1: "rnd 1 = 1"
begin

lemma rnd_nonneg: "0 \<le> x \<Longrightarrow> 0 \<le> rnd x"
  using rnd_mono [of 0 x] by (simp add: rnd_0)

lemma rnd_le_1: "x \<le> 1 \<Longrightarrow> rnd x \<le> 1"
  using rnd_mono [of x 1] by (simp add: rnd_1)

lemma rnd_le_fixed: "rnd y = y \<Longrightarrow> x \<le> y \<Longrightarrow> rnd x \<le> y"
  using rnd_mono [of x y] by simp

text \<open>Multiplying a representable value by a factor of at most one does not increase it.\<close>

lemma rnd_mult_le: "rnd y = y \<Longrightarrow> 0 \<le> y \<Longrightarrow> c \<le> 1 \<Longrightarrow> rnd (y * c) \<le> y"
  by (rule rnd_le_fixed) (auto simp: mult_left_le)

end

subsection \<open>Nearest-integer rounding\<close>

lemma rne_of_int [simp]: "rne (of_int z) = z"
  by (simp add: rne_def)

lemma rne_error: "\<bar>of_int (rne y) - y\<bar> \<le> 1 / 2"
proof -
  define r where "r = y - of_int \<lfloor>y\<rfloor>"
  have y: "y = of_int \<lfloor>y\<rfloor> + r" by (simp add: r_def)
  have "0 \<le> r" "r < 1" unfolding r_def by linarith+
  moreover have "rne y = (if r < 1 / 2 then \<lfloor>y\<rfloor> else if r > 1 / 2 then \<lfloor>y\<rfloor> + 1
      else if even \<lfloor>y\<rfloor> then \<lfloor>y\<rfloor> else \<lfloor>y\<rfloor> + 1)"
    by (simp add: rne_def r_def)
  ultimately have "of_int (rne y) - of_int \<lfloor>y\<rfloor> - r \<le> 1 / 2"
    "- (1 / 2) \<le> of_int (rne y) - of_int \<lfloor>y\<rfloor> - r"
    by auto
  then show ?thesis using y by linarith
qed

lemma rne_mono:
  assumes "x \<le> y"
  shows "rne x \<le> rne y"
proof (cases "\<lfloor>x\<rfloor> = \<lfloor>y\<rfloor>")
  case True
  with assms show ?thesis by (auto simp: rne_def Let_def)
next
  case False
  with floor_mono [OF assms] have "\<lfloor>x\<rfloor> + 1 \<le> \<lfloor>y\<rfloor>" by simp
  moreover have "rne x \<le> \<lfloor>x\<rfloor> + 1" "\<lfloor>y\<rfloor> \<le> rne y" by (simp_all add: rne_def Let_def)
  ultimately show ?thesis by simp
qed

subsection \<open>The leading bit\<close>

lemma floorlog_2_bounds:
  assumes "0 < n"
  shows "2 powi (int (floorlog 2 n) - 1) \<le> (of_nat n :: rat)"
    and "(of_nat n :: rat) < 2 powi int (floorlog 2 n)"
proof -
  have b: "2 ^ (floorlog 2 n - 1) \<le> n" "n < 2 ^ floorlog 2 n"
    using floorlog_bounds [of n 2] assms by auto
  have pos: "0 < floorlog 2 n" using assms by (simp add: floorlog_def)
  then have "(2 :: rat) powi (int (floorlog 2 n) - 1) = 2 ^ (floorlog 2 n - 1)"
    by (simp add: power_int_def nat_diff_distrib')
  also have "\<dots> = of_nat (2 ^ (floorlog 2 n - 1))" by simp
  finally show "2 powi (int (floorlog 2 n) - 1) \<le> (of_nat n :: rat)"
    using b(1) by (simp only: of_nat_le_iff)
  have "(of_nat n :: rat) < of_nat (2 ^ floorlog 2 n)"
    using b(2) by (simp only: of_nat_less_iff)
  then show "(of_nat n :: rat) < 2 powi int (floorlog 2 n)" by simp
qed

lemma ilog2_bounds:
  assumes "0 < x"
  shows "2 powi ilog2 x \<le> x" "x < 2 powi (ilog2 x + 1)"
proof -
  obtain p q where pq: "quotient_of x = (p, q)" by (cases "quotient_of x")
  then have q: "0 < q" and x: "x = of_int p / of_int q"
    by (simp_all add: quotient_of_denom_pos quotient_of_div)
  with assms have p: "0 < p" by (simp add: zero_less_divide_iff)
  define a b where "a = floorlog 2 (nat p)" and "b = floorlog 2 (nat q)"
  have P: "2 powi (int a - 1) \<le> (of_int p :: rat)" "(of_int p :: rat) < 2 powi int a"
    using floorlog_2_bounds [of "nat p"] p by (simp_all add: a_def)
  have Q: "2 powi (int b - 1) \<le> (of_int q :: rat)" "(of_int q :: rat) < 2 powi int b"
    using floorlog_2_bounds [of "nat q"] q by (simp_all add: b_def)
  have up: "x < 2 powi (int a - int b + 1)"
  proof -
    have "x < 2 powi int a / of_int q" using P(2) q by (simp add: x divide_strict_right_mono)
    also have "\<dots> \<le> 2 powi int a / 2 powi (int b - 1)" using Q(1) by (simp add: frac_le)
    also have "\<dots> = 2 powi (int a - (int b - 1))" by (subst power_int_diff) auto
    finally show ?thesis by (simp add: algebra_simps)
  qed
  have low: "2 powi (int a - int b - 1) \<le> x"
  proof -
    have "2 powi (int a - int b - 1) = (2 powi (int a - 1) / 2 powi int b :: rat)"
      by (subst power_int_diff [symmetric]) (auto simp: algebra_simps)
    also have "\<dots> \<le> 2 powi (int a - 1) / of_int q" using Q(2) q by (simp add: frac_le)
    also have "\<dots> \<le> x" using P(1) q by (simp add: x divide_right_mono)
    finally show ?thesis .
  qed
  have "ilog2 x = (if 2 powi (int a - int b) \<le> x then int a - int b else int a - int b - 1)"
    by (simp add: ilog2_def pq a_def b_def Let_def)
  with up low show "2 powi ilog2 x \<le> x" "x < 2 powi (ilog2 x + 1)"
    by (auto split: if_splits)
qed

lemma ilog2_less:
  assumes "0 < x" "x < 2 powi k"
  shows "ilog2 x < k"
proof (rule ccontr)
  assume "\<not> ilog2 x < k"
  then have "(2 :: rat) powi k \<le> 2 powi ilog2 x" by (intro power_int_increasing) auto
  with ilog2_bounds(1) [OF assms(1)] assms(2) show False by simp
qed

lemma ilog2_mono: "0 < x \<Longrightarrow> x \<le> y \<Longrightarrow> ilog2 x \<le> ilog2 y"
  using ilog2_less [of x "ilog2 y + 1"] ilog2_bounds(2) [of y] by force

subsection \<open>Laws of the rounding\<close>

lemma ulp_pos [simp]: "(0 :: rat) < 2 powi e"
  by simp

lemma ulp_exp_mono: "0 < x \<Longrightarrow> x \<le> y \<Longrightarrow> ulp_exp x \<le> ulp_exp y"
  using ilog2_mono [of x y] by (simp add: ulp_exp_def)

text \<open>A multiple of its own last place is representable, and rounding leaves it alone.\<close>

lemma fl_pos_exact:
  assumes "x = of_int z * 2 powi e" "ulp_exp x \<le> e"
  shows "fl_pos x = x"
proof -
  have "x / 2 powi ulp_exp x = of_int z * 2 powi (e - ulp_exp x)"
    using assms(1) by (simp add: power_int_diff)
  also have "\<dots> = of_int (z * 2 ^ nat (e - ulp_exp x))"
    using assms(2) by (simp add: power_int_def)
  finally have int: "x / 2 powi ulp_exp x = of_int (z * 2 ^ nat (e - ulp_exp x))" .
  then have "of_int (rne (x / 2 powi ulp_exp x)) = x / 2 powi ulp_exp x" by (simp only: rne_of_int)
  then show ?thesis by (simp add: fl_pos_def)
qed

lemma scaled_bounds:
  assumes "0 < x"
  shows "x / 2 powi ulp_exp x < 2 ^ 53"
proof -
  have "x < 2 powi (ilog2 x + 1)" by (rule ilog2_bounds(2) [OF assms])
  also have "\<dots> \<le> 2 powi (ulp_exp x + 53)" by (intro power_int_increasing) (auto simp: ulp_exp_def)
  finally show ?thesis by (simp add: power_int_add divide_less_eq mult.commute)
qed

lemma fl_pos_nonneg: "0 < x \<Longrightarrow> 0 \<le> fl_pos x"
  using rne_mono [of 0 "x / 2 powi ulp_exp x"] rne_of_int [of 0] by (simp add: fl_pos_def)

lemma fl_pos_upper: "0 < x \<Longrightarrow> fl_pos x \<le> 2 powi (ulp_exp x + 53)"
proof -
  assume "0 < x"
  then have "rne (x / 2 powi ulp_exp x) \<le> rne (of_int (2 ^ 53))"
    using scaled_bounds [of x] by (intro rne_mono) simp
  then have "(of_int (rne (x / 2 powi ulp_exp x)) :: rat) \<le> of_int (2 ^ 53)"
    by (simp only: rne_of_int of_int_le_iff)
  then show ?thesis by (simp add: fl_pos_def power_int_add mult.commute)
qed

lemma fl_pos_lower:
  assumes "0 < y" "- 1074 < ulp_exp y"
  shows "2 powi (ulp_exp y + 52) \<le> fl_pos y"
proof -
  have e: "ulp_exp y + 52 = ilog2 y" using assms(2) by (simp add: ulp_exp_def)
  have "2 powi (ulp_exp y + 52) \<le> y" using ilog2_bounds(1) [OF assms(1)] e by simp
  then have "of_int (2 ^ 52) \<le> y / 2 powi ulp_exp y"
    by (simp add: power_int_add le_divide_eq mult.commute)
  then have "2 ^ 52 \<le> rne (y / 2 powi ulp_exp y)"
    using rne_mono [of "of_int (2 ^ 52)"] rne_of_int [of "2 ^ 52"] by metis
  then have "(of_int (2 ^ 52) :: rat) \<le> of_int (rne (y / 2 powi ulp_exp y))"
    by (simp only: of_int_le_iff)
  then show ?thesis by (simp add: fl_pos_def power_int_add mult.commute)
qed

lemma fl_pos_mono:
  assumes "0 < x" "x \<le> y"
  shows "fl_pos x \<le> fl_pos y"
proof (cases "ulp_exp x = ulp_exp y")
  case True
  have "rne (x / 2 powi ulp_exp x) \<le> rne (y / 2 powi ulp_exp y)"
    using assms(2) True by (intro rne_mono) (simp add: divide_right_mono)
  with True show ?thesis by (simp add: fl_pos_def)
next
  case False
  with ulp_exp_mono [OF assms] have lt: "ulp_exp x < ulp_exp y" by simp
  have "fl_pos x \<le> 2 powi (ulp_exp x + 53)" by (rule fl_pos_upper [OF assms(1)])
  also have "\<dots> \<le> 2 powi (ulp_exp y + 52)" using lt by (intro power_int_increasing) auto
  also have "\<dots> \<le> fl_pos y"
    using assms lt by (intro fl_pos_lower) (auto simp: ulp_exp_def)
  finally show ?thesis .
qed

lemma fl_mono:
  assumes "x \<le> y"
  shows "fl x \<le> fl y"
proof -
  consider "0 < x" | "x \<le> 0" "0 \<le> y" | "y < 0" by linarith
  then show ?thesis
  proof cases
    case 1
    with assms show ?thesis by (simp add: fl_def fl_pos_mono)
  next
    case 2
    then have "fl x \<le> 0" "0 \<le> fl y"
      using fl_pos_nonneg [of "- x"] fl_pos_nonneg [of y] by (auto simp: fl_def)
    then show ?thesis by simp
  next
    case 3
    with assms show ?thesis using fl_pos_mono [of "- y" "- x"] by (simp add: fl_def)
  qed
qed

lemma fl_exact:
  assumes "x = of_int z * 2 powi e" "\<bar>z\<bar> < 2 ^ 53" "- 1074 \<le> e"
  shows "fl x = x"
proof -
  have pos: "fl_pos y = y" if y: "y = of_int w * 2 powi e" "0 < y" "\<bar>w\<bar> < 2 ^ 53" for y w
  proof (rule fl_pos_exact [OF y(1)])
    have "(of_int w :: rat) < of_int (2 ^ 53)" using y(3) by (simp only: of_int_less_iff)
    then have "y < 2 powi (e + 53)" using y(1) by (simp add: power_int_add mult.commute)
    with ilog2_less [OF y(2)] assms(3) show "ulp_exp y \<le> e" by (fastforce simp: ulp_exp_def)
  qed
  consider "x = 0" | "0 < x" | "0 < - x" by linarith
  then show ?thesis
  proof cases
    case 2
    with pos [OF assms(1)] assms(2) show ?thesis by (simp add: fl_def)
  next
    case 3
    with pos [of "- x" "- z"] assms(1,2) show ?thesis by (simp add: fl_def)
  qed (simp add: fl_def)
qed

lemma fl_pos_idem:
  assumes "0 < x"
  shows "fl (fl_pos x) = fl_pos x"
proof -
  define z where "z = rne (x / 2 powi ulp_exp x)"
  have e: "- 1074 \<le> ulp_exp x" by (simp add: ulp_exp_def)
  have "0 \<le> x / 2 powi ulp_exp x" using assms by simp
  then have z: "0 \<le> z" "z \<le> 2 ^ 53"
    using rne_mono [of 0] rne_of_int [of 0] rne_mono [of "x / 2 powi ulp_exp x" "of_int (2 ^ 53)"]
      scaled_bounds [OF assms] rne_of_int [of "2 ^ 53"] by (simp_all add: z_def)
  show ?thesis
  proof (cases "z = 2 ^ 53")
    case True
    then have "fl_pos x = of_int (2 ^ 52) * 2 powi (ulp_exp x + 1)"
      by (simp add: fl_pos_def z_def [symmetric] power_int_add)
    then show ?thesis using e by (intro fl_exact [of _ "2 ^ 52" "ulp_exp x + 1"]) auto
  next
    case False
    with z show ?thesis
      using e by (intro fl_exact [of _ z "ulp_exp x"]) (auto simp: fl_pos_def z_def)
  qed
qed

lemma fl_minus: "fl (- x) = - fl x"
  by (auto simp: fl_def)

lemma fl_idem: "fl (fl x) = fl x"
proof -
  consider "x = 0" | "0 < x" | "0 < - x" by linarith
  then show ?thesis
  proof cases
    case 2
    then show ?thesis using fl_pos_idem [OF 2] by (simp add: fl_def)
  next
    case 3
    then have "fl x = - fl_pos (- x)" by (simp add: fl_def)
    then show ?thesis using fl_pos_idem [OF 3] by (simp add: fl_minus)
  qed (simp add: fl_def)
qed

lemma fl_of_int: "\<bar>z\<bar> < 2 ^ 53 \<Longrightarrow> fl (of_int z) = of_int z"
  using fl_exact [of "of_int z" z 0] by simp

lemma fl_0 [simp]: "fl 0 = 0" and fl_1 [simp]: "fl 1 = 1"
  using fl_of_int [of 0] fl_of_int [of 1] by simp_all

text \<open>The distance to the rounded value is at most half a unit in the last place.\<close>

lemma fl_error_unit: "0 \<le> x \<Longrightarrow> x \<le> 1 \<Longrightarrow> \<bar>fl x - x\<bar> \<le> 1 / 2 ^ 53"
proof (cases "x = 0")
  case False
  assume "0 \<le> x" "x \<le> 1"
  with False have x: "0 < x" by simp
  then have "ilog2 x < 1" using \<open>x \<le> 1\<close> ilog2_less [of x 1] by simp
  then have e: "ulp_exp x \<le> - 52" by (simp add: ulp_exp_def)
  let ?u = "2 powi ulp_exp x :: rat"
  have "fl x - x = (of_int (rne (x / ?u)) - x / ?u) * ?u"
    using x by (simp add: fl_def fl_pos_def algebra_simps)
  then have "\<bar>fl x - x\<bar> = \<bar>of_int (rne (x / ?u)) - x / ?u\<bar> * ?u" by (simp add: abs_mult)
  also have "\<dots> \<le> 1 / 2 * ?u" by (intro mult_right_mono rne_error) simp
  also have "\<dots> \<le> 1 / 2 * 2 powi (- 52)" using e by (intro mult_left_mono power_int_increasing) auto
  finally show ?thesis by (simp add: power_int_minus)
qed simp

interpretation b64: rounding fl
  by unfold_locales (auto intro: fl_mono simp: fl_idem)

text \<open>Subtracting one from a representable number of ordinary size is exact.\<close>

lemma fl_minus_one:
  assumes "fl x = x" "1 \<le> x" "x < 2 ^ 53"
  shows "fl (x - 1) = x - 1"
proof -
  define e where "e = ulp_exp x"
  define z where "z = rne (x / 2 powi e)"
  have x: "x = of_int z * 2 powi e" using assms(1,2) by (simp add: fl_def fl_pos_def e_def z_def)
  have "ilog2 x < 53" using assms(2,3) by (intro ilog2_less) (simp_all add: power_int_def)
  then have e: "e \<le> 0" "- 1074 \<le> e" by (auto simp: e_def ulp_exp_def)
  define k where "k = nat (- e)"
  have k: "(2 :: rat) powi e * 2 ^ k = 1" using e(1) by (simp add: k_def power_int_def flip: power_mult_distrib)
  have "x < 2 ^ 53 * 2 powi e" using scaled_bounds [of x] assms(2) by (simp add: e_def field_simps)
  then have "(of_int z :: rat) < of_int (2 ^ 53)" unfolding x by simp
  then have z: "z < 2 ^ 53" by (simp only: of_int_less_iff)
  have "x - 1 = of_int (z - 2 ^ k) * 2 powi e" using k by (simp add: x algebra_simps)
  moreover have "0 \<le> z - 2 ^ k"
  proof -
    have "(2 :: rat) ^ k * 2 powi e \<le> of_int z * 2 powi e" using k assms(2) x by (simp add: mult.commute)
    then have "(of_int (2 ^ k) :: rat) \<le> of_int z" by simp
    then show ?thesis by (simp only: of_int_le_iff diff_ge_0_iff_ge)
  qed
  moreover have "z - 2 ^ k < 2 ^ 53" using z zero_less_power [of "2 :: int" k] by linarith
  ultimately show ?thesis using fl_exact [of "x - 1" "z - 2 ^ k" e] e(2) by simp
qed

lemma toFixed10_mono: "x \<le> y \<Longrightarrow> toFixed10 x \<le> toFixed10 y"
  unfolding toFixed10_def by (intro fl_mono divide_right_mono) (simp_all add: floor_mono)

lemma toFixed10_0 [simp]: "toFixed10 0 = 0"
proof -
  have "\<lfloor>1 / 2 :: rat\<rfloor> = 0" by (rule floor_unique) auto
  then show ?thesis by (simp add: toFixed10_def)
qed

lemma toFixed10_1 [simp]: "toFixed10 1 = 1"
proof -
  have "\<lfloor>10 ^ 10 + 1 / 2 :: rat\<rfloor> = 10 ^ 10" by (rule floor_unique) auto
  then show ?thesis by (simp add: toFixed10_def)
qed

end
