(* ===== verification/Reasons.thy ===== *)
theory Reasons
  imports Prelude Numbers "HOL-Library.Multiset"
begin

text \<open>
  The reason-code registry of \<open>schema/reason-codes.ts\<close>: an ordered association list from codes to
  layer, correlation family, scoring flag and weight (the one-line summaries are documentation and
  left out), with its lookups and the total order in which reasons are reported. Weights are
  decimal constants of the source, hence rounded to binary64.
\<close>

subsection \<open>schema/base.ts and the families\<close>

datatype Layer = Lexical | Resolution | Reputation | Policy

datatype Status = Ok | Invalid

datatype Severity = Info | Low | Medium | High | Critical

datatype ReasonFamily =
    character_identity
  | idn_form
  | percent_escapes
  | decoded_bytes
  | authority_delimiters
  | host_label_arrangement
  | address_literal
  | dns_name_status
  | url_scheme
  | file_shape
  | query_payload
  | response_content
  | reputation_listing
  | policy_tld
  | policy_host
  | policy_port
  | parse_failure

datatype ReasonCode =
    fqdn_root_label | normalization_delta | confusable_char | confusable_in_path
  | idna_mapping_ambiguity | locale_case_ambiguity | mixed_script | invisible_char
  | bidi_override | userinfo_present | ip_obfuscation | ip_loopback | ip_private
  | ip_link_local | ip_cloud_metadata | ssrf_cloud_metadata | ip_reserved
  | ambiguous_numeric_host | embedded_domain_in_subdomain | file_extension_tld
  | encoding_obfuscation | dangerous_scheme | punycode_malformed
  | idna_protocol_violation | percent_encoding_malformed | header_shaped_token
  | best_fit_mapping | ambiguous_authority | separator_lookalike | control_char
  | host_length_unresolvable | special_use_name | low_byte_truncation | ascii_homoglyph
  | brand_homoglyph | homograph_skeleton_collision | brand_locale_collapse
  | brand_idna_collapse | idn_host | homograph_latin_skeleton | open_redirect_param
  | suspicious_extension | excessive_subdomain_depth | prompt_injection_url
  | credential_harvesting | data_exfiltration | open_redirect_observed
  | content_type_mismatch | https_downgrade_observed | young_domain_brand_risk
  | malware_url_listed | verified_phish_listed | tld_denied | tld_not_allowlisted
  | host_denied | host_not_allowlisted | scheme_denied | port_denied | parse_error

record ReasonCodeMeta =
  rm_layer :: Layer
  rm_family :: ReasonFamily
  rm_scoring :: bool
  rm_weight :: rat

definition meta :: "Layer \<Rightarrow> ReasonFamily \<Rightarrow> bool \<Rightarrow> rat \<Rightarrow> ReasonCodeMeta" where
  "meta l f s w = \<lparr>rm_layer = l, rm_family = f, rm_scoring = s, rm_weight = w\<rparr>"

subsection \<open>The registry, in source order\<close>

definition informational_codes :: "(ReasonCode \<times> ReasonCodeMeta) list" where
  "informational_codes =
     [(fqdn_root_label, meta Lexical dns_name_status False 0),
      (normalization_delta, meta Lexical idn_form False 0),
      (confusable_char, meta Lexical character_identity False 0),
      (confusable_in_path, meta Lexical character_identity False 0),
      (idna_mapping_ambiguity, meta Lexical character_identity False 0),
      (locale_case_ambiguity, meta Lexical character_identity False 0)]"

definition script_and_authority_codes :: "(ReasonCode \<times> ReasonCodeMeta) list" where
  "script_and_authority_codes =
     [(mixed_script, meta Lexical character_identity True 1),
      (invisible_char, meta Lexical decoded_bytes True 1),
      (bidi_override, meta Lexical decoded_bytes True 1),
      (userinfo_present, meta Lexical authority_delimiters True (fl (1 / 2))),
      (ip_obfuscation, meta Lexical address_literal True (fl (2 / 5))),
      (ip_loopback, meta Lexical address_literal False 0),
      (ip_private, meta Lexical address_literal False 0),
      (ip_link_local, meta Lexical address_literal False 0),
      (ip_cloud_metadata, meta Lexical address_literal False 0),
      (ssrf_cloud_metadata, meta Lexical address_literal True 1),
      (ip_reserved, meta Lexical address_literal False 0),
      (ambiguous_numeric_host, meta Lexical address_literal True (fl (3 / 10)))]"

definition structure_codes :: "(ReasonCode \<times> ReasonCodeMeta) list" where
  "structure_codes =
     [(embedded_domain_in_subdomain, meta Lexical host_label_arrangement True (fl (1 / 2))),
      (file_extension_tld, meta Lexical file_shape True (fl (2 / 5))),
      (encoding_obfuscation, meta Lexical percent_escapes True (fl (7 / 20))),
      (dangerous_scheme, meta Lexical url_scheme True (fl (9 / 10))),
      (punycode_malformed, meta Lexical idn_form True (fl (1 / 5))),
      (idna_protocol_violation, meta Lexical idn_form True (fl (7 / 20))),
      (percent_encoding_malformed, meta Lexical percent_escapes True (fl (1 / 5))),
      (header_shaped_token, meta Lexical decoded_bytes True (fl (1 / 2))),
      (best_fit_mapping, meta Lexical decoded_bytes True (fl (1 / 2))),
      (ambiguous_authority, meta Lexical authority_delimiters True (fl (13 / 20))),
      (separator_lookalike, meta Lexical character_identity True (fl (1 / 2))),
      (control_char, meta Lexical decoded_bytes True (fl (3 / 5))),
      (host_length_unresolvable, meta Lexical dns_name_status False 0),
      (special_use_name, meta Lexical dns_name_status False 0),
      (low_byte_truncation, meta Lexical decoded_bytes True (fl (3 / 5)))]"

definition homograph_codes :: "(ReasonCode \<times> ReasonCodeMeta) list" where
  "homograph_codes =
     [(ascii_homoglyph, meta Lexical character_identity True (fl (1 / 5))),
      (brand_homoglyph, meta Lexical character_identity True (fl (4 / 5))),
      (homograph_skeleton_collision, meta Lexical character_identity True (fl (1 / 2))),
      (brand_locale_collapse, meta Lexical character_identity True (fl (1 / 2))),
      (brand_idna_collapse, meta Lexical character_identity True (fl (1 / 2))),
      (idn_host, meta Lexical idn_form True (fl (7 / 10))),
      (homograph_latin_skeleton, meta Lexical character_identity True 1)]"

definition payload_codes :: "(ReasonCode \<times> ReasonCodeMeta) list" where
  "payload_codes =
     [(open_redirect_param, meta Lexical query_payload True (fl (2 / 5))),
      (suspicious_extension, meta Lexical file_shape True (fl (1 / 2))),
      (excessive_subdomain_depth, meta Lexical host_label_arrangement True (fl (3 / 20))),
      (prompt_injection_url, meta Lexical query_payload False 0),
      (credential_harvesting, meta Lexical query_payload False 0),
      (data_exfiltration, meta Lexical query_payload False 0)]"

definition resolution_codes :: "(ReasonCode \<times> ReasonCodeMeta) list" where
  "resolution_codes =
     [(open_redirect_observed, meta Resolution query_payload False 0),
      (content_type_mismatch, meta Resolution response_content False 0),
      (https_downgrade_observed, meta Resolution url_scheme False 0)]"

definition reputation_codes :: "(ReasonCode \<times> ReasonCodeMeta) list" where
  "reputation_codes =
     [(young_domain_brand_risk, meta Reputation character_identity True (fl (1 / 2))),
      (malware_url_listed, meta Reputation reputation_listing True 1),
      (verified_phish_listed, meta Reputation reputation_listing True 1)]"

definition policy_codes :: "(ReasonCode \<times> ReasonCodeMeta) list" where
  "policy_codes =
     [(tld_denied, meta Policy policy_tld False 0),
      (tld_not_allowlisted, meta Policy policy_tld False 0),
      (host_denied, meta Policy policy_host False 0),
      (host_not_allowlisted, meta Policy policy_host False 0),
      (scheme_denied, meta Policy url_scheme False 0),
      (port_denied, meta Policy policy_port False 0)]"

definition meta_codes :: "(ReasonCode \<times> ReasonCodeMeta) list" where
  "meta_codes =
     [(parse_error, meta Lexical parse_failure False 0)]"

definition REASON_CODES :: "(ReasonCode \<times> ReasonCodeMeta) list" where
  "REASON_CODES = informational_codes @ script_and_authority_codes @ structure_codes @ homograph_codes
     @ payload_codes @ resolution_codes @ reputation_codes @ policy_codes @ meta_codes"

text \<open>The code as it is serialized.\<close>

fun codeName :: "ReasonCode \<Rightarrow> string" where
  "codeName fqdn_root_label = ''fqdn_root_label''"
| "codeName normalization_delta = ''normalization_delta''"
| "codeName confusable_char = ''confusable_char''"
| "codeName confusable_in_path = ''confusable_in_path''"
| "codeName idna_mapping_ambiguity = ''idna_mapping_ambiguity''"
| "codeName locale_case_ambiguity = ''locale_case_ambiguity''"
| "codeName mixed_script = ''mixed_script''"
| "codeName invisible_char = ''invisible_char''"
| "codeName bidi_override = ''bidi_override''"
| "codeName userinfo_present = ''userinfo_present''"
| "codeName ip_obfuscation = ''ip_obfuscation''"
| "codeName ip_loopback = ''ip_loopback''"
| "codeName ip_private = ''ip_private''"
| "codeName ip_link_local = ''ip_link_local''"
| "codeName ip_cloud_metadata = ''ip_cloud_metadata''"
| "codeName ssrf_cloud_metadata = ''ssrf_cloud_metadata''"
| "codeName ip_reserved = ''ip_reserved''"
| "codeName ambiguous_numeric_host = ''ambiguous_numeric_host''"
| "codeName embedded_domain_in_subdomain = ''embedded_domain_in_subdomain''"
| "codeName file_extension_tld = ''file_extension_tld''"
| "codeName encoding_obfuscation = ''encoding_obfuscation''"
| "codeName dangerous_scheme = ''dangerous_scheme''"
| "codeName punycode_malformed = ''punycode_malformed''"
| "codeName idna_protocol_violation = ''idna_protocol_violation''"
| "codeName percent_encoding_malformed = ''percent_encoding_malformed''"
| "codeName header_shaped_token = ''header_shaped_token''"
| "codeName best_fit_mapping = ''best_fit_mapping''"
| "codeName ambiguous_authority = ''ambiguous_authority''"
| "codeName separator_lookalike = ''separator_lookalike''"
| "codeName control_char = ''control_char''"
| "codeName host_length_unresolvable = ''host_length_unresolvable''"
| "codeName special_use_name = ''special_use_name''"
| "codeName low_byte_truncation = ''low_byte_truncation''"
| "codeName ascii_homoglyph = ''ascii_homoglyph''"
| "codeName brand_homoglyph = ''brand_homoglyph''"
| "codeName homograph_skeleton_collision = ''homograph_skeleton_collision''"
| "codeName brand_locale_collapse = ''brand_locale_collapse''"
| "codeName brand_idna_collapse = ''brand_idna_collapse''"
| "codeName idn_host = ''idn_host''"
| "codeName homograph_latin_skeleton = ''homograph_latin_skeleton''"
| "codeName open_redirect_param = ''open_redirect_param''"
| "codeName suspicious_extension = ''suspicious_extension''"
| "codeName excessive_subdomain_depth = ''excessive_subdomain_depth''"
| "codeName prompt_injection_url = ''prompt_injection_url''"
| "codeName credential_harvesting = ''credential_harvesting''"
| "codeName data_exfiltration = ''data_exfiltration''"
| "codeName open_redirect_observed = ''open_redirect_observed''"
| "codeName content_type_mismatch = ''content_type_mismatch''"
| "codeName https_downgrade_observed = ''https_downgrade_observed''"
| "codeName young_domain_brand_risk = ''young_domain_brand_risk''"
| "codeName malware_url_listed = ''malware_url_listed''"
| "codeName verified_phish_listed = ''verified_phish_listed''"
| "codeName tld_denied = ''tld_denied''"
| "codeName tld_not_allowlisted = ''tld_not_allowlisted''"
| "codeName host_denied = ''host_denied''"
| "codeName host_not_allowlisted = ''host_not_allowlisted''"
| "codeName scheme_denied = ''scheme_denied''"
| "codeName port_denied = ''port_denied''"
| "codeName parse_error = ''parse_error''"

definition reasonMeta :: "ReasonCode \<Rightarrow> ReasonCodeMeta" where
  "reasonMeta code = the (map_of REASON_CODES code)"

definition weightFor :: "ReasonCode \<Rightarrow> rat" where
  "weightFor code = rm_weight (reasonMeta code)"

definition familyFor :: "ReasonCode \<Rightarrow> ReasonFamily" where
  "familyFor code = rm_family (reasonMeta code)"

definition codesInFamily :: "ReasonFamily \<Rightarrow> ReasonCode list" where
  "codesInFamily family = filter (\<lambda>code. familyFor code = family) (map fst REASON_CODES)"

subsection \<open>Reasons and their order\<close>

record Reason =
  rs_code :: ustring
  rs_layer :: Layer
  rs_detail :: ustring
  rs_weight :: rat
  rs_suppressed :: bool

text \<open>\<open>a < b\<close> on strings: lexicographic on code units.\<close>

fun str_less :: "ustring \<Rightarrow> ustring \<Rightarrow> bool" where
  "str_less [] [] = False"
| "str_less [] (y # ys) = True"
| "str_less (x # xs) [] = False"
| "str_less (x # xs) (y # ys) = (x < y \<or> x = y \<and> str_less xs ys)"

text \<open>Only the sign of the result is read, by the sort; the difference is left exact.\<close>

definition compareReasons :: "Reason \<Rightarrow> Reason \<Rightarrow> rat" where
  "compareReasons a b =
     (if rs_weight b \<noteq> rs_weight a then rs_weight b - rs_weight a
      else if str_less (rs_code a) (rs_code b) then - 1
      else if str_less (rs_code b) (rs_code a) then 1 else 0)"

text \<open>\<open>Array.prototype.sort\<close> with a comparator: a stable sort.\<close>

fun insert_by :: "('a \<Rightarrow> 'a \<Rightarrow> bool) \<Rightarrow> 'a \<Rightarrow> 'a list \<Rightarrow> 'a list" where
  "insert_by le x [] = [x]"
| "insert_by le x (y # ys) = (if le x y then x # y # ys else y # insert_by le x ys)"

definition sort_by :: "('a \<Rightarrow> 'a \<Rightarrow> bool) \<Rightarrow> 'a list \<Rightarrow> 'a list" where
  "sort_by le xs = foldr (insert_by le) xs []"

definition sortReasons :: "Reason list \<Rightarrow> Reason list" where
  "sortReasons = sort_by (\<lambda>a b. compareReasons a b \<le> 0)"

subsection \<open>Lemmas on the registry\<close>

lemmas registry_tables = informational_codes_def script_and_authority_codes_def structure_codes_def
  homograph_codes_def payload_codes_def resolution_codes_def reputation_codes_def policy_codes_def
  meta_codes_def meta_def

lemma REASON_CODES_total: "map_of REASON_CODES code \<noteq> None"
  by (cases code) (simp_all add: REASON_CODES_def registry_tables)

lemma REASON_CODES_distinct: "distinct (map fst REASON_CODES)"
  by (simp add: REASON_CODES_def registry_tables)

lemma reasonMeta_in: "(code, reasonMeta code) \<in> set REASON_CODES"
  using REASON_CODES_total [of code] by (auto simp: reasonMeta_def dest: map_of_SomeD)

text \<open>A weight of at least one sixteenth stays one after rounding.\<close>

lemma fl_weight_ge: "1 / 16 \<le> x \<Longrightarrow> 1 / 16 \<le> fl x"
  using fl_mono [of "1 / 16" x] fl_exact [of "1 / 16" 1 "- 4"] by (simp add: power_int_minus)

lemma fl_weight_pos: "1 / 16 \<le> x \<Longrightarrow> 0 < fl x"
  using fl_weight_ge [of x] by simp

text \<open>
  The registry invariant: a representable weight of at most one; a scoring code weighs something,
  an informational one nothing; policy verdicts and resolution observations never score.
\<close>

definition meta_ok :: "ReasonCodeMeta \<Rightarrow> bool" where
  "meta_ok m \<longleftrightarrow> fl (rm_weight m) = rm_weight m \<and> rm_weight m \<le> 1
     \<and> (if rm_scoring m then 1 / 16 \<le> rm_weight m \<and> rm_layer m \<notin> {Policy, Resolution}
        else rm_weight m = 0)"

lemma meta_ok_simps:
  "meta_ok (meta l f False 0)"
  "l \<notin> {Policy, Resolution} \<Longrightarrow> meta_ok (meta l f True 1)"
  "l \<notin> {Policy, Resolution} \<Longrightarrow> 1 / 16 \<le> x \<Longrightarrow> x \<le> 1 \<Longrightarrow> meta_ok (meta l f True (fl x))"
  using fl_weight_ge [of x] by (simp_all add: meta_ok_def meta_def fl_idem b64.rnd_le_1)

lemma REASON_CODES_ok: "list_all (\<lambda>e. meta_ok (snd e)) REASON_CODES"
  unfolding REASON_CODES_def informational_codes_def script_and_authority_codes_def
    structure_codes_def homograph_codes_def payload_codes_def resolution_codes_def
    reputation_codes_def policy_codes_def meta_codes_def
  by (simp add: meta_ok_simps)

lemma reasonMeta_ok: "meta_ok (reasonMeta code)"
  using REASON_CODES_ok reasonMeta_in [of code] by (auto simp: list_all_iff)

lemma weightFor_bounds: "0 \<le> weightFor code" "weightFor code \<le> 1" "fl (weightFor code) = weightFor code"
  using reasonMeta_ok [of code] by (auto simp: meta_ok_def weightFor_def split: if_splits)

subsection \<open>Lemmas on the sort\<close>

lemma set_insert_by [simp]: "set (insert_by le x xs) = insert x (set xs)"
  by (induction xs) auto

lemma mset_insert_by [simp]: "mset (insert_by le x xs) = add_mset x (mset xs)"
  by (induction xs) auto

lemma mset_sort_by [simp]: "mset (sort_by le xs) = mset xs"
  by (induction xs) (auto simp: sort_by_def)

lemma set_sort_by [simp]: "set (sort_by le xs) = set xs"
  by (induction xs) (auto simp: sort_by_def)

lemma set_mono_subseq: "subseq xs ys \<Longrightarrow> set xs \<subseteq> set ys"
  by (induction rule: list_emb.induct) auto

text \<open>What the sort asks of its comparator: a total preorder.\<close>

locale sort_order =
  fixes le :: "'a \<Rightarrow> 'a \<Rightarrow> bool"
  assumes le_total: "le x y \<or> le y x"
    and le_trans: "le x y \<Longrightarrow> le y z \<Longrightarrow> le x z"
begin

lemma sorted_insert_by: "sorted_wrt le xs \<Longrightarrow> sorted_wrt le (insert_by le x xs)"
proof (induction xs)
  case (Cons y ys)
  show ?case
  proof (cases "le x y")
    case True
    with Cons.prems show ?thesis by (auto intro: le_trans)
  next
    case False
    then have "le y x" using le_total by blast
    with Cons False show ?thesis by auto
  qed
qed simp

lemma sorted_sort_by: "sorted_wrt le (sort_by le xs)"
  by (induction xs) (auto simp: sort_by_def sorted_insert_by)

text \<open>Stability: elements that compare equal keep their order.\<close>

lemma filter_insert_by:
  "sorted_wrt le ys \<Longrightarrow> (\<And>a b. P a \<Longrightarrow> P b \<Longrightarrow> le a b) \<Longrightarrow>
     filter P (insert_by le x ys) = (if P x then x # filter P ys else filter P ys)"
  by (induction ys) auto

text \<open>Sorting commutes with filtering, and a subsequence sorts to a subsequence.\<close>

lemma insert_by_first:
  "\<forall>y \<in> set ys. le x y \<Longrightarrow> insert_by le x ys = x # ys"
  by (cases ys) auto

lemma filter_insert_by_sorted:
  "sorted_wrt le ys \<Longrightarrow>
     filter P (insert_by le x ys) = (if P x then insert_by le x (filter P ys) else filter P ys)"
proof (induction ys)
  case (Cons y ys)
  show ?case
  proof (cases "le x y")
    case True
    with Cons.prems have "\<forall>z \<in> set (filter P (y # ys)). le x z" by (auto intro: le_trans)
    with True show ?thesis by (auto simp: insert_by_first)
  next
    case False
    with Cons show ?thesis by auto
  qed
qed simp

lemma filter_sort_by: "filter P (sort_by le xs) = sort_by le (filter P xs)"
proof (induction xs)
  case (Cons x xs)
  have s: "sort_by le (x # ys) = insert_by le x (sort_by le ys)" for ys by (simp add: sort_by_def)
  show ?case using Cons by (simp add: s filter_insert_by_sorted sorted_sort_by)
qed (simp add: sort_by_def)

lemma subseq_insert_by:
  assumes "subseq xs ys" "sorted_wrt le xs" "sorted_wrt le ys"
  shows "subseq (insert_by le x xs) (insert_by le x ys)"
  using assms
proof (induction ys arbitrary: xs rule: list.induct)
  case (Cons y ys)
  show ?case
  proof (cases xs)
    case Nil
    then show ?thesis by (auto simp: subseq_singleton_left)
  next
    case xs: (Cons z zs)
    show ?thesis
    proof (cases "le x y")
      case True
      then have "\<forall>w \<in> set (y # ys). le x w" using Cons.prems(3) by (auto intro: le_trans)
      moreover have "set xs \<subseteq> set (y # ys)" by (rule set_mono_subseq [OF Cons.prems(1)])
      ultimately have "insert_by le x xs = x # xs" "insert_by le x (y # ys) = x # y # ys"
        by (blast intro: insert_by_first)+
      with Cons.prems(1) show ?thesis by simp
    next
      case False
      show ?thesis
      proof (cases "subseq xs ys")
        case True
        with Cons False show ?thesis by auto
      next
        case notsub: False
        with Cons.prems(1) xs have "z = y" "subseq zs ys" by (auto split: if_splits)
        with Cons xs False show ?thesis by auto
      qed
    qed
  qed
qed (auto dest: list_emb_Nil2)

lemma subseq_sort_by:
  assumes "subseq xs ys"
  shows "subseq (sort_by le xs) (sort_by le ys)"
proof -
  have s: "sort_by le (x # ys) = insert_by le x (sort_by le ys)" for x ys by (simp add: sort_by_def)
  have keep: "subseq xs (insert_by le y xs)" for y xs by (induction xs) auto
  from assms show ?thesis
    by (induction rule: list_emb.induct)
      (auto simp: s sort_by_def [of le "[]"] intro: subseq_insert_by sorted_sort_by
        dest: subseq_order.order_trans [OF _ keep])
qed

lemma stable_sort_by:
  "(\<And>a b. P a \<Longrightarrow> P b \<Longrightarrow> le a b) \<Longrightarrow> filter P (sort_by le xs) = filter P xs"
  by (induction xs) (auto simp: sort_by_def filter_insert_by sorted_sort_by [unfolded sort_by_def])

end

text \<open>With an antisymmetric comparator the result depends on the multiset of the elements only.\<close>

locale sort_linorder = sort_order +
  assumes le_antisym: "le x y \<Longrightarrow> le y x \<Longrightarrow> x = y"
begin

lemma sorted_unique:
  "sorted_wrt le xs \<Longrightarrow> sorted_wrt le ys \<Longrightarrow> mset xs = mset ys \<Longrightarrow> xs = ys"
proof (induction xs arbitrary: ys)
  case (Cons x xs)
  then obtain y ys' where ys: "ys = y # ys'" by (cases ys) auto
  have "x \<in> set ys" using Cons.prems(3) by (metis list.set_intros(1) set_mset_mset)
  moreover have "y \<in> set (x # xs)" using Cons.prems(3) ys by (metis list.set_intros(1) set_mset_mset)
  ultimately have "x = y"
    using Cons.prems(1,2) ys le_antisym by auto
  with Cons ys show ?case by auto
qed simp

lemma sort_by_unique: "mset xs = mset ys \<Longrightarrow> sort_by le xs = sort_by le ys"
  by (rule sorted_unique) (auto simp: sorted_sort_by)

end

lemma str_less_irrefl [simp]: "\<not> str_less s s"
  by (induction s) auto

lemma str_less_trans: "str_less a b \<Longrightarrow> str_less b c \<Longrightarrow> str_less a c"
proof (induction a b arbitrary: c rule: str_less.induct)
  case (2 y ys)
  then show ?case by (cases c) auto
next
  case (4 x xs y ys)
  then show ?case by (cases c) auto
qed auto

lemma str_less_linear: "str_less a b \<or> a = b \<or> str_less b a"
  by (induction a b rule: str_less.induct) auto

lemma compareReasons_le:
  "compareReasons a b \<le> 0 \<longleftrightarrow>
     rs_weight b < rs_weight a \<or> rs_weight a = rs_weight b \<and> \<not> str_less (rs_code b) (rs_code a)"
  using str_less_trans [of "rs_code a" "rs_code b" "rs_code a"] by (auto simp: compareReasons_def)

lemma not_str_less: "\<not> str_less b a \<longleftrightarrow> str_less a b \<or> a = b"
  using str_less_linear [of a b] str_less_trans [of a b a] by auto

interpretation reason_order: sort_order "\<lambda>a b. compareReasons a b \<le> 0"
proof unfold_locales
  fix a b c
  show "compareReasons a b \<le> 0 \<or> compareReasons b a \<le> 0"
    using str_less_trans [of "rs_code a" "rs_code b" "rs_code a"] by (auto simp: compareReasons_le)
  show "compareReasons a b \<le> 0 \<Longrightarrow> compareReasons b c \<le> 0 \<Longrightarrow> compareReasons a c \<le> 0"
    by (auto simp: compareReasons_le not_str_less intro: str_less_trans)
qed

interpretation string_order: sort_linorder "\<lambda>a b. \<not> str_less b a"
  by unfold_locales (auto simp: not_str_less intro: str_less_trans dest: str_less_trans)

lemma codeNames_distinct: "distinct (map (codeName \<circ> fst) REASON_CODES)"
  by (simp add: REASON_CODES_def registry_tables)

lemma codeName_inject: "codeName a = codeName b \<longleftrightarrow> a = b"
proof
  assume "codeName a = codeName b"
  moreover have "a \<in> set (map fst REASON_CODES)" "b \<in> set (map fst REASON_CODES)"
    using reasonMeta_in [of a] reasonMeta_in [of b] by force+
  moreover have "inj_on codeName (set (map fst REASON_CODES))"
    using codeNames_distinct by (simp only: distinct_map map_map [symmetric])
  ultimately show "a = b" by (simp only: inj_on_eq_iff)
qed simp

subsection \<open>Properties\<close>

text \<open>
  The registry is coherent. Every code has metadata whose weight is a double of at most one; a
  scoring code weighs at least one sixteenth and is neither a policy verdict nor a resolution
  observation, every other code weighs exactly zero; two codes never share a name; and the families
  partition the codes, each code being listed once, in its own family.
\<close>

lemma registry_coherent:
  "meta_ok (reasonMeta code)
   \<and> (codeName code = codeName code' \<longleftrightarrow> code = code')
   \<and> (code \<in> set (codesInFamily family) \<longleftrightarrow> familyFor code = family)
   \<and> distinct (codesInFamily family)"
proof -
  have "code \<in> set (map fst REASON_CODES)"
    using reasonMeta_in [of code] by force
  then show ?thesis
    using reasonMeta_ok codeName_inject REASON_CODES_distinct
    by (simp only: codesInFamily_def set_filter distinct_filter mem_Collect_eq simp_thms)
qed

text \<open>
  The order of the reported reasons is a function of the reasons alone: the comparator is a
  total preorder, the sort returns a permutation in which weights never increase and equal weights
  are in code-point order of their codes, and two reasons of the same code and weight keep the order
  in which the checks emitted them.
\<close>

lemma sortReasons_correct:
  "mset (sortReasons reasons) = mset reasons
   \<and> sorted_wrt (\<lambda>a b. rs_weight b < rs_weight a
        \<or> rs_weight b = rs_weight a \<and> (str_less (rs_code a) (rs_code b) \<or> rs_code a = rs_code b))
      (sortReasons reasons)
   \<and> filter (\<lambda>r. rs_code r = c \<and> rs_weight r = w) (sortReasons reasons)
       = filter (\<lambda>r. rs_code r = c \<and> rs_weight r = w) reasons"
proof -
  have "sorted_wrt (\<lambda>a b. compareReasons a b \<le> 0) (sortReasons reasons)"
    unfolding sortReasons_def by (rule reason_order.sorted_sort_by)
  then have "sorted_wrt (\<lambda>a b. rs_weight b < rs_weight a
        \<or> rs_weight b = rs_weight a \<and> (str_less (rs_code a) (rs_code b) \<or> rs_code a = rs_code b))
      (sortReasons reasons)"
    by (rule sorted_wrt_mono_rel [rotated]) (auto simp: compareReasons_le not_str_less)
  moreover have "filter (\<lambda>r. rs_code r = c \<and> rs_weight r = w) (sortReasons reasons)
      = filter (\<lambda>r. rs_code r = c \<and> rs_weight r = w) reasons"
    unfolding sortReasons_def by (rule reason_order.stable_sort_by) (auto simp: compareReasons_le)
  ultimately show ?thesis by (simp add: sortReasons_def)
qed

end
