(* ===== verification/Scoring.thy ===== *)
theory Scoring
  imports Reasons Platform
begin

text \<open>
  Scoring: \<open>scoring/score.ts\<close> (probabilistic OR with binary64 rounding), \<open>scoring/weights.ts\<close>
  (severity bands) and \<open>scoring/suppress.ts\<close> (the caller's false-positive escape hatch). The lemmas
  about the aggregation are proved for any \<open>rounding\<close> and used at \<open>fl\<close>; the main results are the
  range of the score, that more evidence never lowers it, that no scoring reason is ever scored
  as clean, its distance from the exact formula, and that suppression annotates and never hides.
\<close>

subsection \<open>weights.ts and score.ts\<close>

definition severityForScore :: "rat \<Rightarrow> Severity" where
  "severityForScore score =
     (if score \<le> 0 then Info
      else if score \<le> fl (25 / 100) then Low
      else if score \<le> fl (5 / 10) then Medium
      else if score \<le> fl (8 / 10) then High
      else Critical)"

definition WEIGHTS :: "(ReasonCode \<times> rat) list" where
  "WEIGHTS = map (\<lambda>(code, m). (code, rm_weight m)) REASON_CODES"

record ScoreResult =
  sc_score :: rat
  sc_severity :: Severity

fun aggregateLoop :: "(rat \<Rightarrow> rat) \<Rightarrow> rat \<Rightarrow> Reason list \<Rightarrow> rat" where
  "aggregateLoop rnd surv [] = surv"
| "aggregateLoop rnd surv (reason # rs) =
     (if rs_weight reason \<le> 0 then aggregateLoop rnd surv rs
      else aggregateLoop rnd (rnd (surv * rnd (1 - rs_weight reason))) rs)"

definition scoreOf :: "Reason list \<Rightarrow> rat" where
  "scoreOf reasons = toFixed10 (fl (1 - aggregateLoop fl 1 reasons))"

definition aggregate :: "Reason list \<Rightarrow> ScoreResult" where
  "aggregate reasons =
     (let score = scoreOf reasons in \<lparr>sc_score = score, sc_severity = severityForScore score\<rparr>)"

subsection \<open>suppress.ts\<close>

record SuppressionRule =
  sr_code :: ustring
  sr_host :: "ustring option"

definition suppressionHostContext :: "platform \<Rightarrow> ustring option \<Rightarrow> ustring option" where
  "suppressionHostContext E registrableDomain =
     (case registrableDomain of
        None \<Rightarrow> None
      | Some d \<Rightarrow> if d = [] then None else Some (pf_toLowerCase E (toUnicode E d)))"

definition ruleMatches :: "ustring option \<Rightarrow> Reason \<Rightarrow> SuppressionRule \<Rightarrow> bool" where
  "ruleMatches hostContext reason rule \<longleftrightarrow>
     sr_code rule = rs_code reason \<and> (sr_host rule = None \<or> sr_host rule = hostContext)"

definition applySuppressions ::
    "Reason list \<Rightarrow> SuppressionRule list \<Rightarrow> ustring option \<Rightarrow> Reason list" where
  "applySuppressions reasons rules hostContext =
     (if rules = [] then reasons
      else map (\<lambda>reason. if list_ex (ruleMatches hostContext reason) rules
                         then reason\<lparr>rs_weight := 0, rs_suppressed := True\<rparr> else reason) reasons)"

subsection \<open>Aggregation under any rounding\<close>

text \<open>Weights the registry and the enrichers attach: between zero and one.\<close>

definition weights_ok :: "Reason list \<Rightarrow> bool" where
  "weights_ok reasons \<longleftrightarrow> (\<forall>r \<in> set reasons. rs_weight r \<le> 1)"

context rounding
begin

lemma factor_bounds:
  assumes "0 < w" "w \<le> 1"
  shows "0 \<le> rnd (1 - w)" "rnd (1 - w) \<le> 1"
  using assms rnd_nonneg [of "1 - w"] rnd_le_1 [of "1 - w"] by simp_all

lemma loop_step:
  assumes "rnd surv = surv" "0 \<le> surv" "0 < w" "w \<le> 1"
  shows "0 \<le> rnd (surv * rnd (1 - w))" "rnd (surv * rnd (1 - w)) \<le> surv"
    "rnd (rnd (surv * rnd (1 - w))) = rnd (surv * rnd (1 - w))"
  using assms factor_bounds [OF assms(3,4)] by (auto intro: rnd_nonneg rnd_mult_le simp: rnd_idem)

lemma loop_range:
  assumes "weights_ok rs" "rnd surv = surv" "0 \<le> surv"
  shows "0 \<le> aggregateLoop rnd surv rs \<and> aggregateLoop rnd surv rs \<le> surv"
  using assms
proof (induction rs arbitrary: surv)
  case (Cons r rs)
  show ?case
  proof (cases "rs_weight r \<le> 0")
    case True
    with Cons show ?thesis by (simp add: weights_ok_def)
  next
    case False
    with Cons.prems have w: "0 < rs_weight r" "rs_weight r \<le> 1" by (auto simp: weights_ok_def)
    note step = loop_step [OF Cons.prems(2,3) w]
    with Cons.IH [OF _ step(3,1)] Cons.prems False show ?thesis
      by (fastforce simp: weights_ok_def)
  qed
qed simp

lemma loop_mono:
  assumes "weights_ok rs" "surv \<le> surv'"
  shows "aggregateLoop rnd surv rs \<le> aggregateLoop rnd surv' rs"
  using assms
proof (induction rs arbitrary: surv surv')
  case (Cons r rs)
  show ?case
  proof (cases "rs_weight r \<le> 0")
    case True
    with Cons show ?thesis by (simp add: weights_ok_def)
  next
    case False
    with Cons.prems have "0 \<le> rnd (1 - rs_weight r)" by (auto simp: weights_ok_def intro: rnd_nonneg)
    then have "rnd (surv * rnd (1 - rs_weight r)) \<le> rnd (surv' * rnd (1 - rs_weight r))"
      using Cons.prems(2) by (intro rnd_mono mult_right_mono)
    with Cons False show ?thesis by (simp add: weights_ok_def)
  qed
qed simp

lemma loop_append: "aggregateLoop rnd surv (xs @ ys) = aggregateLoop rnd (aggregateLoop rnd surv xs) ys"
  by (induction xs arbitrary: surv) auto

lemma loop_fixed:
  "rnd surv = surv \<Longrightarrow> rnd (aggregateLoop rnd surv rs) = aggregateLoop rnd surv rs"
  by (induction rs arbitrary: surv) (auto simp: rnd_idem)

text \<open>Inserting a reason anywhere can only lower the surviving probability.\<close>

lemma loop_insert:
  assumes "weights_ok (xs @ r # ys)"
  shows "aggregateLoop rnd 1 (xs @ r # ys) \<le> aggregateLoop rnd 1 (xs @ ys)"
proof -
  let ?a = "aggregateLoop rnd 1 xs"
  have ok: "weights_ok xs" "weights_ok ys" "rs_weight r \<le> 1" using assms by (auto simp: weights_ok_def)
  have fixed: "rnd ?a = ?a" by (intro loop_fixed rnd_1)
  have "0 \<le> ?a" using loop_range [OF ok(1) rnd_1] by simp
  then have "aggregateLoop rnd ?a [r] \<le> ?a"
    using loop_range [of "[r]" ?a] ok(3) fixed by (auto simp: weights_ok_def)
  from loop_mono [OF ok(2) this] show ?thesis
    using loop_append [of ?a "[r]" ys] by (simp add: loop_append del: aggregateLoop.simps)
qed

lemma loop_subseq:
  assumes "subseq xs ys" "weights_ok ys" "rnd surv = surv" "0 \<le> surv" "surv \<le> surv'"
  shows "aggregateLoop rnd surv ys \<le> aggregateLoop rnd surv' xs"
  using assms
proof (induction arbitrary: surv surv' rule: list_emb.induct)
  case (list_emb_Nil ys)
  then show ?case using loop_range [of ys surv] by simp
next
  case (list_emb_Cons xs ys y)
  show ?case
  proof (cases "rs_weight y \<le> 0")
    case True
    with list_emb_Cons show ?thesis by (simp add: weights_ok_def)
  next
    case False
    with list_emb_Cons.prems have w: "0 < rs_weight y" "rs_weight y \<le> 1" by (auto simp: weights_ok_def)
    note step = loop_step [OF list_emb_Cons.prems(2,3) w]
    have "weights_ok ys" using list_emb_Cons.prems(1) by (simp add: weights_ok_def)
    from list_emb_Cons.IH [OF this step(3,1)] step(2) list_emb_Cons.prems(4) False
    show ?thesis by simp
  qed
next
  case (list_emb_Cons2 x y xs ys)
  then have ok: "weights_ok ys" and eq: "x = y" by (auto simp: weights_ok_def)
  show ?case
  proof (cases "rs_weight y \<le> 0")
    case True
    with list_emb_Cons2 ok eq show ?thesis by simp
  next
    case False
    with list_emb_Cons2.prems have w: "0 < rs_weight y" "rs_weight y \<le> 1" by (auto simp: weights_ok_def)
    note step = loop_step [OF list_emb_Cons2.prems(2,3) w]
    have "rnd (surv * rnd (1 - rs_weight y)) \<le> rnd (surv' * rnd (1 - rs_weight y))"
      using list_emb_Cons2.prems(4) factor_bounds [OF w] by (intro rnd_mono mult_right_mono) auto
    with False eq list_emb_Cons2.IH [OF ok step(3,1)] show ?thesis by simp
  qed
qed

lemma loop_positive: "aggregateLoop rnd surv (filter (\<lambda>r. 0 < rs_weight r) rs) = aggregateLoop rnd surv rs"
  by (induction rs arbitrary: surv) auto

text \<open>One reason of weight \<open>w\<close> bounds the surviving probability by \<open>rnd (1 - w)\<close>.\<close>

lemma loop_single:
  assumes "weights_ok rs" "r \<in> set rs" "0 < rs_weight r"
  shows "aggregateLoop rnd 1 rs \<le> rnd (1 - rs_weight r)"
proof -
  from assms(2) obtain xs ys where rs: "rs = xs @ r # ys" by (auto simp: in_set_conv_decomp)
  have ok: "weights_ok xs" "weights_ok ys" "rs_weight r \<le> 1"
    using assms(1) by (auto simp: rs weights_ok_def)
  note f = factor_bounds [OF assms(3) ok(3)]
  let ?a = "aggregateLoop rnd 1 xs"
  have a: "0 \<le> ?a" "?a \<le> 1" using loop_range [OF ok(1) rnd_1] by simp_all
  have "rnd (?a * rnd (1 - rs_weight r)) \<le> rnd (1 - rs_weight r)"
    using a f by (intro rnd_le_fixed rnd_idem mult_left_le_one_le) auto
  moreover have "0 \<le> rnd (?a * rnd (1 - rs_weight r))" using a f by (intro rnd_nonneg) auto
  ultimately show ?thesis
    using loop_range [OF ok(2), of "rnd (?a * rnd (1 - rs_weight r))"] assms(3)
    by (auto simp: rs loop_append rnd_idem)
qed

text \<open>Dropping the weight of some reasons can only raise the surviving probability.\<close>

lemma loop_weaken:
  assumes "list_all2 (\<lambda>r r'. rs_weight r' = rs_weight r \<or> rs_weight r' \<le> 0) rs rs'"
    "weights_ok rs" "rnd surv = surv" "0 \<le> surv" "surv \<le> surv'"
  shows "aggregateLoop rnd surv rs \<le> aggregateLoop rnd surv' rs'"
  using assms
proof (induction rs rs' arbitrary: surv surv' rule: list_all2_induct)
  case (Cons r rs r' rs')
  show ?case
  proof (cases "rs_weight r \<le> 0")
    case True
    with Cons show ?thesis by (auto simp: weights_ok_def)
  next
    case False
    with Cons.prems have w: "0 < rs_weight r" "rs_weight r \<le> 1" by (auto simp: weights_ok_def)
    note step = loop_step [OF Cons.prems(2,3) w]
    have ok: "weights_ok rs" using Cons.prems(1) by (simp add: weights_ok_def)
    show ?thesis
    proof (cases "rs_weight r' \<le> 0")
      case True
      with False Cons.IH [OF ok step(3,1)] step(2) Cons.prems(4) show ?thesis by simp
    next
      case nonzero: False
      with Cons.hyps have eq: "rs_weight r' = rs_weight r" by auto
      have "rnd (surv * rnd (1 - rs_weight r)) \<le> rnd (surv' * rnd (1 - rs_weight r))"
        using Cons.prems(4) factor_bounds [OF w] by (intro rnd_mono mult_right_mono) auto
      with nonzero False eq Cons.IH [OF ok step(3,1)] show ?thesis by simp
    qed
  qed
qed simp

end

subsection \<open>Accuracy of the rounded aggregation\<close>

text \<open>The formula of the documentation, over the reals: one minus the product of the \<open>1 - w\<close>.\<close>

definition exactSurvival :: "Reason list \<Rightarrow> rat" where
  "exactSurvival reasons = prod_list (map (\<lambda>r. 1 - rs_weight r) (filter (\<lambda>r. 0 < rs_weight r) reasons))"

definition exactScore :: "Reason list \<Rightarrow> rat" where
  "exactScore reasons = 1 - exactSurvival reasons"

abbreviation eps :: rat where
  "eps \<equiv> 1 / 2 ^ 53"

lemma step_error:
  assumes "0 \<le> a" "a \<le> 1" "0 \<le> b" "b \<le> 1" "0 < w" "w \<le> 1"
  shows "\<bar>fl (a * fl (1 - w)) - b * (1 - w)\<bar> \<le> \<bar>a - b\<bar> + 2 * eps"
proof -
  let ?f = "fl (1 - w)"
  note f = b64.factor_bounds [OF assms(5,6)]
  have e1: "\<bar>fl (a * ?f) - a * ?f\<bar> \<le> eps"
    using assms f by (intro fl_error_unit) (auto intro: mult_le_one)
  have "\<bar>a * ?f - a * (1 - w)\<bar> = a * \<bar>?f - (1 - w)\<bar>"
    using assms(1) by (simp add: abs_mult flip: right_diff_distrib)
  also have "\<dots> \<le> 1 * eps"
    using assms fl_error_unit [of "1 - w"] by (intro mult_mono) auto
  finally have e2: "\<bar>a * ?f - a * (1 - w)\<bar> \<le> eps" by simp
  have "\<bar>a * (1 - w) - b * (1 - w)\<bar> = \<bar>a - b\<bar> * (1 - w)"
    using assms(6) by (simp add: abs_mult flip: left_diff_distrib)
  also have "\<dots> \<le> \<bar>a - b\<bar> * 1" using assms(5) by (intro mult_left_mono) auto
  finally have e3: "\<bar>a * (1 - w) - b * (1 - w)\<bar> \<le> \<bar>a - b\<bar>" by simp
  from e1 e2 e3 show ?thesis by linarith
qed

lemma loop_error:
  assumes "weights_ok rs" "fl a = a" "0 \<le> a" "a \<le> 1" "0 \<le> b" "b \<le> 1"
  shows "\<bar>aggregateLoop fl a rs - b * exactSurvival rs\<bar> \<le> \<bar>a - b\<bar> + of_nat (length rs) * (2 * eps)"
  using assms
proof (induction rs arbitrary: a b)
  case Nil
  then show ?case by (simp add: exactSurvival_def)
next
  case (Cons r rs)
  have ok: "weights_ok rs" using Cons.prems(1) by (simp add: weights_ok_def)
  show ?case
  proof (cases "rs_weight r \<le> 0")
    case True
    have "of_nat (length rs) * (2 * eps) \<le> of_nat (length (r # rs)) * (2 * eps)"
      by (intro mult_right_mono) auto
    moreover have same: "exactSurvival (r # rs) = exactSurvival rs"
      "aggregateLoop fl a (r # rs) = aggregateLoop fl a rs"
      using True by (simp_all add: exactSurvival_def)
    ultimately show ?thesis using Cons.IH [OF ok Cons.prems(2-6)] unfolding same by linarith
  next
    case False
    with Cons.prems have w: "0 < rs_weight r" "rs_weight r \<le> 1" by (auto simp: weights_ok_def)
    let ?a = "fl (a * fl (1 - rs_weight r))" and ?b = "b * (1 - rs_weight r)"
    note step = b64.loop_step [OF Cons.prems(2,3) w]
    have b: "0 \<le> ?b" "?b \<le> 1" using Cons.prems(5,6) w by (auto intro: mult_le_one)
    have "?a \<le> 1" using step(2) Cons.prems(4) by simp
    from Cons.IH [OF ok step(3,1) this b]
    have "\<bar>aggregateLoop fl ?a rs - ?b * exactSurvival rs\<bar> \<le> \<bar>?a - ?b\<bar> + of_nat (length rs) * (2 * eps)" .
    moreover have "\<bar>?a - ?b\<bar> \<le> \<bar>a - b\<bar> + 2 * eps"
      by (rule step_error [OF Cons.prems(3-6) w])
    moreover have same: "b * exactSurvival (r # rs) = ?b * exactSurvival rs"
      "aggregateLoop fl a (r # rs) = aggregateLoop fl ?a rs"
      using False by (simp_all add: exactSurvival_def)
    moreover have "of_nat (length (r # rs)) * (2 * eps) = of_nat (length rs) * (2 * eps) + 2 * eps"
      by (simp add: algebra_simps)
    ultimately show ?thesis unfolding same by linarith
  qed
qed

lemma toFixed10_error:
  assumes "0 \<le> x" "x \<le> 1"
  shows "\<bar>toFixed10 x - x\<bar> \<le> 1 / (2 * 10 ^ 10) + eps"
proof -
  let ?n = "\<lfloor>x * 10 ^ 10 + 1 / 2\<rfloor>"
  have n: "of_int ?n \<le> x * 10 ^ 10 + 1 / 2" "x * 10 ^ 10 + 1 / 2 < of_int ?n + 1" by linarith+
  have "0 \<le> ?n" using assms(1) by (simp add: le_floor_iff)
  moreover have "?n \<le> 10 ^ 10"
  proof -
    have "x * 10 ^ 10 + 1 / 2 < of_int (10 ^ 10 + 1)" using assms(2) by simp
    then have "?n < 10 ^ 10 + 1" by (simp only: floor_less_iff)
    then show ?thesis by simp
  qed
  ultimately have "0 \<le> (of_int ?n / 10 ^ 10 :: rat)" "(of_int ?n / 10 ^ 10 :: rat) \<le> 1"
    by (simp_all add: divide_le_eq of_int_le_iff [of _ "10 ^ 10", where 'a = rat, simplified])
  then have "\<bar>toFixed10 x - of_int ?n / 10 ^ 10\<bar> \<le> eps"
    unfolding toFixed10_def by (rule fl_error_unit)
  moreover have "\<bar>of_int ?n / 10 ^ 10 - x\<bar> \<le> 1 / (2 * 10 ^ 10)"
  proof -
    have "\<bar>of_int ?n - x * 10 ^ 10\<bar> \<le> 1 / 2" using n by linarith
    then have "\<bar>of_int ?n - x * 10 ^ 10\<bar> / 10 ^ 10 \<le> 1 / 2 / 10 ^ 10" by (rule divide_right_mono) simp
    moreover have "of_int ?n / 10 ^ 10 - x = (of_int ?n - x * 10 ^ 10) / 10 ^ 10"
      by (simp add: diff_divide_distrib)
    ultimately show ?thesis by (simp only: abs_divide) simp
  qed
  ultimately show ?thesis by linarith
qed

lemma surv_range: "weights_ok rs \<Longrightarrow> 0 \<le> aggregateLoop fl 1 rs" "weights_ok rs \<Longrightarrow> aggregateLoop fl 1 rs \<le> 1"
  using b64.loop_range [of rs 1] by simp_all

lemma scoreOf_antimono:
  "aggregateLoop fl 1 a \<le> aggregateLoop fl 1 b \<Longrightarrow> scoreOf b \<le> scoreOf a"
  unfolding scoreOf_def by (intro toFixed10_mono fl_mono) simp

lemma no_weight_loop: "\<forall>r \<in> set rs. rs_weight r \<le> 0 \<Longrightarrow> aggregateLoop rnd surv rs = surv"
  by (induction rs) auto

lemma severity_info_iff: "severityForScore x = Info \<longleftrightarrow> x \<le> 0"
  by (simp add: severityForScore_def)

lemma scoreOf_bounds:
  assumes "weights_ok reasons"
  shows "0 \<le> scoreOf reasons \<and> scoreOf reasons \<le> 1"
proof -
  let ?x = "fl (1 - aggregateLoop fl 1 reasons)"
  have "0 \<le> ?x" "?x \<le> 1"
    using surv_range [OF assms] by (simp_all add: b64.rnd_nonneg b64.rnd_le_1)
  then show ?thesis
    using toFixed10_mono [of 0 ?x] toFixed10_mono [of ?x 1] by (simp add: scoreOf_def)
qed

subsection \<open>Properties\<close>

text \<open>
  The score is a probability: for any list of reasons whose weights are at most one, the
  aggregated score lies between zero and one, rounding of every intermediate result included.
\<close>

lemma scoreOf_range:
  assumes "weights_ok reasons"
  shows "0 \<le> scoreOf reasons \<and> scoreOf reasons \<le> 1"
  by (rule scoreOf_bounds [OF assms])

text \<open>Reasons for the witnesses.\<close>

definition sample_reason :: "string \<Rightarrow> rat \<Rightarrow> Reason" where
  "sample_reason code w = \<lparr>rs_code = str code, rs_layer = Lexical, rs_detail = [], rs_weight = w,
     rs_suppressed = False\<rparr>"

lemma sample_reason_weight [simp]: "rs_weight (sample_reason c w) = w" "rs_code (sample_reason c w) = str c"
  by (simp_all add: sample_reason_def)

lemma scoreOf_range_witness:
  "0 \<le> scoreOf [sample_reason ''a'' (1 / 2), sample_reason ''b'' (1 / 4)]
   \<and> scoreOf [sample_reason ''a'' (1 / 2), sample_reason ''b'' (1 / 4)] \<le> 1"
  by (rule scoreOf_range) (simp add: weights_ok_def)

text \<open>
  More evidence never lowers the verdict: inserting a reason at any place of the list leaves the
  score equal or raises it, although the product is rounded after every factor.
\<close>

lemma scoreOf_insert_mono:
  assumes "weights_ok (xs @ r # ys)"
  shows "scoreOf (xs @ ys) \<le> scoreOf (xs @ r # ys)"
  by (rule scoreOf_antimono [OF b64.loop_insert [OF assms]])

lemma scoreOf_insert_mono_witness:
  "scoreOf [sample_reason ''a'' (1 / 2)]
     \<le> scoreOf [sample_reason ''a'' (1 / 2), sample_reason ''b'' (1 / 4)]"
  using scoreOf_insert_mono [of "[sample_reason ''a'' (1 / 2)]" "sample_reason ''b'' (1 / 4)" "[]"]
  by (simp add: weights_ok_def)

text \<open>
  Nothing that scores is reported as clean: when every weight is either not positive or at least
  one sixteenth (the smallest weight of the registry is larger), the score is zero exactly when no
  reason has a positive weight, and the severity is info in exactly the same cases.
\<close>

lemma scoreOf_zero_iff:
  assumes "weights_ok reasons" "\<forall>r \<in> set reasons. rs_weight r \<le> 0 \<or> 1 / 16 \<le> rs_weight r"
  shows "(scoreOf reasons = 0 \<longleftrightarrow> (\<forall>r \<in> set reasons. rs_weight r \<le> 0))
    \<and> (sc_severity (aggregate reasons) = Info \<longleftrightarrow> (\<forall>r \<in> set reasons. rs_weight r \<le> 0))"
proof -
  have pos: "0 < scoreOf reasons" if r: "r \<in> set reasons" "0 < rs_weight r" for r
  proof -
    have w: "1 / 16 \<le> rs_weight r" using assms(2) r by auto
    have fix15: "fl (15 / 16) = 15 / 16" and fix1: "fl (1 / 16) = 1 / 16"
      using fl_exact [of "15 / 16" 15 "- 4"] fl_exact [of "1 / 16" 1 "- 4"]
      by (simp_all add: power_int_minus)
    have "aggregateLoop fl 1 reasons \<le> fl (1 - rs_weight r)"
      by (rule b64.loop_single [OF assms(1) r])
    also have "\<dots> \<le> 15 / 16" using w fix15 by (intro b64.rnd_le_fixed) auto
    finally have "1 / 16 \<le> fl (1 - aggregateLoop fl 1 reasons)"
      using fl_mono [of "1 / 16" "1 - aggregateLoop fl 1 reasons"] fix1 by simp
    then have "toFixed10 (1 / 16) \<le> scoreOf reasons"
      unfolding scoreOf_def by (rule toFixed10_mono)
    moreover have "0 < toFixed10 (1 / 16)"
    proof -
      have "1 / 16 - toFixed10 (1 / 16) \<le> 1 / (2 * 10 ^ 10) + eps"
      proof -
        have "\<bar>toFixed10 (1 / 16) - 1 / 16\<bar> \<le> 1 / (2 * 10 ^ 10) + eps"
          by (rule toFixed10_error) auto
        from abs_le_D2 [OF this] show ?thesis by (simp only: minus_diff_eq)
      qed
      moreover have "1 / (2 * 10 ^ 10) + eps < (1 / 16 :: rat)" by simp
      ultimately show ?thesis by linarith
    qed
    ultimately show ?thesis by linarith
  qed
  have zero: "scoreOf reasons = 0" if "\<forall>r \<in> set reasons. rs_weight r \<le> 0"
    using that by (simp add: scoreOf_def no_weight_loop)
  have iff: "scoreOf reasons \<le> 0 \<longleftrightarrow> (\<forall>r \<in> set reasons. rs_weight r \<le> 0)"
    using pos zero by (metis linorder_not_le order_refl)
  moreover have "scoreOf reasons = 0 \<longleftrightarrow> scoreOf reasons \<le> 0"
    using zero iff by auto
  ultimately show ?thesis by (simp add: aggregate_def Let_def severity_info_iff)
qed

lemma scoreOf_zero_iff_witness:
  "scoreOf [sample_reason ''a'' 0] = 0 \<and> scoreOf [sample_reason ''a'' 0, sample_reason ''b'' (1 / 4)] \<noteq> 0"
  using scoreOf_zero_iff [of "[sample_reason ''a'' 0]"]
    scoreOf_zero_iff [of "[sample_reason ''a'' 0, sample_reason ''b'' (1 / 4)]"]
  by (simp add: weights_ok_def)

text \<open>
  C27: The reported score is the documented probabilistic OR, one minus the product of the
  complements of the positive weights, up to rounding: the difference is at most half of the
  tenth decimal place plus \<open>(2 n + 2) / 2\<^sup>5\<^sup>3\<close> for \<open>n\<close> reasons. In particular the order of the
  reasons matters for nothing but that error.
\<close>

theorem scoreOf_accurate:
  assumes "weights_ok reasons"
  shows "\<bar>scoreOf reasons - exactScore reasons\<bar>
     \<le> 1 / (2 * 10 ^ 10) + (2 * of_nat (length reasons) + 2) * eps"
proof -
  let ?a = "aggregateLoop fl 1 reasons" and ?x = "fl (1 - aggregateLoop fl 1 reasons)"
  note a = surv_range [OF assms]
  have x: "0 \<le> ?x" "?x \<le> 1" using a by (simp_all add: b64.rnd_nonneg b64.rnd_le_1)
  have "\<bar>?x - (1 - ?a)\<bar> \<le> eps" using a by (intro fl_error_unit) auto
  moreover have "\<bar>?a - exactSurvival reasons\<bar> \<le> of_nat (length reasons) * (2 * eps)"
    using loop_error [OF assms, of 1 1] by simp
  moreover have "\<bar>toFixed10 ?x - ?x\<bar> \<le> 1 / (2 * 10 ^ 10) + eps" by (rule toFixed10_error [OF x])
  moreover have "(2 * of_nat (length reasons) + 2) * eps
      = of_nat (length reasons) * (2 * eps) + eps + eps" by (simp add: algebra_simps)
  ultimately show ?thesis unfolding scoreOf_def exactScore_def by linarith
qed

theorem scoreOf_accurate_witness:
  "\<bar>scoreOf [sample_reason ''a'' (1 / 2), sample_reason ''b'' (1 / 4)] - 5 / 8\<bar>
     \<le> 1 / (2 * 10 ^ 10) + 6 * eps"
  using scoreOf_accurate [of "[sample_reason ''a'' (1 / 2), sample_reason ''b'' (1 / 4)]"]
  by (simp add: weights_ok_def exactScore_def exactSurvival_def)

text \<open>
  C28: Suppression annotates and never hides: the suppressed list has the same reasons in the same
  order with the same codes, layers and details. A reason for whose code there is a rule, global or
  for this very host, is marked and weighs nothing, every other one is unchanged; and the score can
  only go down.
\<close>

theorem applySuppressions_sound:
  assumes "weights_ok reasons"
  shows "list_all2 (\<lambda>r r'. rs_code r' = rs_code r \<and> rs_layer r' = rs_layer r \<and> rs_detail r' = rs_detail r
      \<and> (if \<exists>rule \<in> set rules. sr_code rule = rs_code r \<and> (sr_host rule = None \<or> sr_host rule = host)
          then rs_weight r' = 0 \<and> rs_suppressed r' else r' = r))
      reasons (applySuppressions reasons rules host)
    \<and> scoreOf (applySuppressions reasons rules host) \<le> scoreOf reasons"
proof
  let ?s = "\<lambda>r. if list_ex (ruleMatches host r) rules
    then r\<lparr>rs_weight := 0, rs_suppressed := True\<rparr> else r"
  have map: "applySuppressions reasons rules host = map ?s reasons"
    by (auto simp: applySuppressions_def)
  show "list_all2 (\<lambda>r r'. rs_code r' = rs_code r \<and> rs_layer r' = rs_layer r \<and> rs_detail r' = rs_detail r
      \<and> (if \<exists>rule \<in> set rules. sr_code rule = rs_code r \<and> (sr_host rule = None \<or> sr_host rule = host)
          then rs_weight r' = 0 \<and> rs_suppressed r' else r' = r))
      reasons (applySuppressions reasons rules host)"
    unfolding map by (auto simp: list_all2_map2 list_ex_iff ruleMatches_def intro!: list.rel_refl)
  show "scoreOf (applySuppressions reasons rules host) \<le> scoreOf reasons"
    unfolding map
    by (intro scoreOf_antimono b64.loop_weaken assms) (simp_all add: list_all2_map2 list.rel_refl)
qed

theorem applySuppressions_sound_witness:
  "let rule = \<lparr>sr_code = str ''b'', sr_host = None\<rparr>;
       rs = [sample_reason ''a'' (1 / 2), sample_reason ''b'' (1 / 4)] in
   map rs_weight (applySuppressions rs [rule] None) = [1 / 2, 0]
   \<and> scoreOf (applySuppressions rs [rule] None) \<le> scoreOf rs"
  using applySuppressions_sound
    [of "[sample_reason ''a'' (1 / 2), sample_reason ''b'' (1 / 4)]" "[\<lparr>sr_code = str ''b'', sr_host = None\<rparr>]" None]
  by (simp add: weights_ok_def applySuppressions_def ruleMatches_def str_def)

end
