(* ===== verification/Decode.thy ===== *)
theory Decode
  imports Prelude
begin

text \<open>
  Bounded percent decoding (\<open>parse/decode.ts\<close>): one pass over the \<open>%XX\<close> sequences of a string, and
  the loop that repeats it until the string is stable or the depth cap is reached. The properties
  say that the loop computes an iterate of the single pass, that the \<open>truncated\<close> flag is exact, and
  that a cap of half the length is always enough for the loop to stabilize.
\<close>

definition DEFAULT_MAX_DECODE_DEPTH :: nat where
  "DEFAULT_MAX_DECODE_DEPTH = 4"

text \<open>\<open>s.replace(/%[0-9a-fA-F]{2}/g, ...)\<close>: left to right, malformed percent signs are kept.\<close>

fun decodeOnce :: "ustring \<Rightarrow> ustring" where
  "decodeOnce (p # a # b # s) =
     (if p = 37 \<and> is_hex a \<and> is_hex b then radix_val 16 [a, b] # decodeOnce s
      else p # decodeOnce (a # b # s))"
| "decodeOnce s = s"

record BoundedDecode =
  bd_decoded :: ustring
  bd_passes :: nat
  bd_truncated :: bool

text \<open>The \<open>while\<close> loop: \<open>passes\<close> counts up to \<open>maxDepth\<close>.\<close>

function boundedDecodeLoop :: "nat \<Rightarrow> ustring \<Rightarrow> nat \<Rightarrow> BoundedDecode" where
  "boundedDecodeLoop maxDepth cur passes =
     (if passes < maxDepth then
        (let nxt = decodeOnce cur in
         if nxt = cur then \<lparr>bd_decoded = cur, bd_passes = passes, bd_truncated = False\<rparr>
         else boundedDecodeLoop maxDepth nxt (passes + 1))
      else \<lparr>bd_decoded = cur, bd_passes = passes, bd_truncated = decodeOnce cur \<noteq> cur\<rparr>)"
  by pat_completeness auto
termination by (relation "measure (\<lambda>(d, c, p). d - p)") auto

declare boundedDecodeLoop.simps [simp del]

definition boundedDecode :: "ustring \<Rightarrow> nat \<Rightarrow> BoundedDecode" where
  "boundedDecode input maxDepth = boundedDecodeLoop maxDepth input 0"

subsection \<open>Lemmas\<close>

lemma length_decodeOnce: "length (decodeOnce s) \<le> length s"
  by (induction s rule: decodeOnce.induct) auto

text \<open>A pass that changes anything shortens the string by at least two code units.\<close>

lemma decodeOnce_shrinks: "decodeOnce s \<noteq> s \<Longrightarrow> length (decodeOnce s) + 2 \<le> length s"
proof (induction s rule: decodeOnce.induct)
  case (1 p a b s)
  show ?case
  proof (cases "p = 37 \<and> is_hex a \<and> is_hex b")
    case True
    then show ?thesis using length_decodeOnce [of s] by simp
  next
    case False
    then show ?thesis using 1 by (auto split: if_splits)
  qed
qed auto

lemma funpow_decodeOnce_fix: "decodeOnce s = s \<Longrightarrow> (decodeOnce ^^ n) s = s"
  by (induction n) auto

lemma hex_digit_less: "is_hex c \<Longrightarrow> digit_val c < 16"
  unfolding is_hex_def digit_val_def is_digit_def is_upper_def is_lower_def by auto

lemma hex_pair_less: "is_hex a \<Longrightarrow> is_hex b \<Longrightarrow> radix_val 16 [a, b] < 256"
  using hex_digit_less [of a] hex_digit_less [of b] by (simp add: radix_val_def)

lemma decodeOnce_byte: "c \<in> set (decodeOnce s) \<Longrightarrow> c \<in> set s \<or> c < 256"
proof (induction s rule: decodeOnce.induct)
  case (1 p a b s)
  show ?case
  proof (cases "p = 37 \<and> is_hex a \<and> is_hex b")
    case True
    then show ?thesis using 1 hex_pair_less [of a b] by auto
  next
    case False
    then show ?thesis using 1 by auto
  qed
qed auto

lemma funpow_decodeOnce_byte: "c \<in> set ((decodeOnce ^^ n) s) \<Longrightarrow> c \<in> set s \<or> c < 256"
  by (induction n arbitrary: c) (auto dest: decodeOnce_byte)

text \<open>What the loop promises from an arbitrary point of the iteration.\<close>

definition loop_post :: "nat \<Rightarrow> ustring \<Rightarrow> nat \<Rightarrow> BoundedDecode \<Rightarrow> bool" where
  "loop_post maxDepth cur passes r \<longleftrightarrow>
     passes \<le> bd_passes r \<and> bd_passes r \<le> max passes maxDepth
     \<and> bd_decoded r = (decodeOnce ^^ (bd_passes r - passes)) cur
     \<and> bd_truncated r = (decodeOnce (bd_decoded r) \<noteq> bd_decoded r)
     \<and> (bd_passes r < maxDepth \<longrightarrow> \<not> bd_truncated r)
     \<and> (\<forall>k < bd_passes r - passes. (decodeOnce ^^ Suc k) cur \<noteq> (decodeOnce ^^ k) cur)
     \<and> length (bd_decoded r) + 2 * (bd_passes r - passes) \<le> length cur"

lemma boundedDecodeLoop_post: "loop_post maxDepth cur passes (boundedDecodeLoop maxDepth cur passes)"
proof (induction maxDepth cur passes rule: boundedDecodeLoop.induct)
  case (1 maxDepth cur passes)
  let ?r = "boundedDecodeLoop maxDepth cur passes"
  show ?case
  proof (cases "passes < maxDepth \<and> decodeOnce cur \<noteq> cur")
    case True
    let ?nxt = "decodeOnce cur"
    have r: "?r = boundedDecodeLoop maxDepth ?nxt (passes + 1)"
      using True by (simp add: boundedDecodeLoop.simps [of _ cur])
    have ih: "loop_post maxDepth ?nxt (passes + 1) ?r"
      unfolding r using 1 True by auto
    define d where "d = bd_passes ?r - (passes + 1)"
    have d: "bd_passes ?r - passes = Suc d" "bd_passes ?r = passes + 1 + d"
      using ih by (auto simp: d_def loop_post_def)
    have steps: "(decodeOnce ^^ Suc k) cur \<noteq> (decodeOnce ^^ k) cur" if "k < Suc d" for k
    proof (cases k)
      case (Suc j)
      then have "(decodeOnce ^^ Suc j) ?nxt \<noteq> (decodeOnce ^^ j) ?nxt"
        using ih that by (simp add: loop_post_def d_def)
      then show ?thesis using Suc by (simp add: funpow_swap1)
    qed (use True in simp)
    then show ?thesis
      using ih d True decodeOnce_shrinks [of cur]
      by (auto simp: loop_post_def d_def [symmetric] funpow_swap1)
  next
    case False
    then show ?thesis
      by (subst boundedDecodeLoop.simps) (auto simp: loop_post_def Let_def)
  qed
qed

subsection \<open>Properties\<close>

text \<open>
  The bounded decoder is the iterated single pass. Its result is the pass applied \<open>passes\<close> times,
  \<open>passes\<close> never exceeds the cap, every counted pass changed the string, and the truncation flag is
  raised exactly when a further pass would still change the result, which can happen only at the cap.
\<close>

lemma boundedDecode_iterates:
  "let r = boundedDecode input maxDepth in
     bd_decoded r = (decodeOnce ^^ bd_passes r) input
     \<and> bd_passes r \<le> maxDepth
     \<and> (bd_truncated r \<longleftrightarrow> decodeOnce (bd_decoded r) \<noteq> bd_decoded r)
     \<and> (bd_passes r < maxDepth \<longrightarrow> \<not> bd_truncated r)
     \<and> (\<forall>k < bd_passes r. (decodeOnce ^^ Suc k) input \<noteq> (decodeOnce ^^ k) input)"
  using boundedDecodeLoop_post [of maxDepth input 0]
  unfolding Let_def loop_post_def boundedDecode_def diff_zero max_0L by blast

lemma boundedDecode_iterates_witness:
  "boundedDecode (str ''%2541'') 4 = \<lparr>bd_decoded = str ''A'', bd_passes = 2, bd_truncated = False\<rparr>
   \<and> bd_decoded (boundedDecode (str ''%2541'') 4) = (decodeOnce ^^ 2) (str ''%2541'')"
proof -
  have r: "boundedDecode (str ''%2541'') 4
      = \<lparr>bd_decoded = str ''A'', bd_passes = 2, bd_truncated = False\<rparr>"
    by (simp add: boundedDecode_def boundedDecodeLoop.simps js_eval)
  show ?thesis
    using boundedDecode_iterates [of "str ''%2541''" 4] unfolding r by (simp add: Let_def)
qed

text \<open>
  C29: Decoding cannot bomb and cannot run on: the result is never longer than the input, contains no
  code unit that is neither in the input nor a byte, and a cap of at least half the input's length
  is never hit, so the loop then ends with a string that a further pass leaves alone.
\<close>

theorem boundedDecode_stabilizes:
  assumes "length input \<le> 2 * maxDepth + 1"
  shows "let r = boundedDecode input maxDepth in
     \<not> bd_truncated r \<and> decodeOnce (bd_decoded r) = bd_decoded r
     \<and> length (bd_decoded r) + 2 * bd_passes r \<le> length input
     \<and> (\<forall>c \<in> set (bd_decoded r). c \<in> set input \<or> c < 256)"
proof -
  let ?r = "boundedDecode input maxDepth"
  have post: "loop_post maxDepth input 0 ?r"
    unfolding boundedDecode_def by (rule boundedDecodeLoop_post)
  then have dec: "bd_decoded ?r = (decodeOnce ^^ bd_passes ?r) input"
    and len: "length (bd_decoded ?r) + 2 * bd_passes ?r \<le> length input"
    and flag: "bd_truncated ?r \<longleftrightarrow> decodeOnce (bd_decoded ?r) \<noteq> bd_decoded ?r"
    and cap: "bd_passes ?r \<le> maxDepth" "bd_truncated ?r \<Longrightarrow> maxDepth \<le> bd_passes ?r"
    by (auto simp only: loop_post_def diff_zero max_0L not_less [symmetric])
  have "\<not> bd_truncated ?r"
  proof
    assume t: "bd_truncated ?r"
    then have "length (decodeOnce (bd_decoded ?r)) + 2 \<le> length (bd_decoded ?r)"
      using flag by (intro decodeOnce_shrinks) simp
    with len cap t assms show False by linarith
  qed
  with flag len show ?thesis
    unfolding Let_def using funpow_decodeOnce_byte dec by metis
qed

theorem boundedDecode_stabilizes_witness:
  "\<not> bd_truncated (boundedDecode (str ''%25%3241'') 4)"
  using boundedDecode_stabilizes [of "str ''%25%3241''" 4] by (simp add: js_eval)

end
