(* ===== verification/Options.thy ===== *)
theory Options
  imports Scoring Decode "HOL-Library.Monad_Syntax"
begin

text \<open>
  The caller's options: reading an untyped options argument (\<open>intakeOptions\<close> of
  \<open>schema/options.ts\<close>) and normalizing it into the per-inspection configuration
  (\<open>parse/runtime.ts\<close>). An argument is a JavaScript value, because the code checks it at run time.
  Reading a property may run a getter that throws, so a read is an option and \<open>None\<close> is the
  exception. The properties: dropped configuration is always reported, by safe tokens in an order
  that does not depend on the object's key order; an allow-list that was supplied stays configured
  whatever its entries are; and normalization returns whenever the recognized reads do.
\<close>

subsection \<open>JavaScript values\<close>

datatype jsnum = NaN | Infinite bool | Finite rat

text \<open>
  \<open>Obj enumerable props\<close> is an object: whether its keys can be enumerated (a proxy may throw), and
  its own properties, each with the value its read gives or \<open>None\<close> for a getter that throws.
  \<open>OtherVal\<close> is a function, symbol or bigint, with its \<open>typeof\<close> tag.
\<close>

datatype jsval = Undefined | Null | BoolVal bool | NumVal jsnum | StrVal ustring
  | Arr "jsval list" | Obj bool "(ustring \<times> jsval option) list" | OtherVal ustring

fun is_object :: "jsval \<Rightarrow> bool" where
  "is_object (Arr _) = True"
| "is_object (Obj _ _) = True"
| "is_object _ = False"

fun ownProps :: "jsval \<Rightarrow> (ustring \<times> jsval option) list" where
  "ownProps (Arr xs) = zip (map (to_radix 10) [0..<length xs]) (map Some xs)"
| "ownProps (Obj _ props) = props"
| "ownProps _ = []"

fun objectKeys :: "jsval \<Rightarrow> ustring list option" where
  "objectKeys (Obj False _) = None"
| "objectKeys v = Some (remdups (map fst (ownProps v)))"

definition getProp :: "jsval \<Rightarrow> ustring \<Rightarrow> jsval option" where
  "getProp v key = (case map_of (ownProps v) key of None \<Rightarrow> Some Undefined | Some r \<Rightarrow> r)"

text \<open>\<open>[...new Set(xs)]\<close>: the first occurrence of each element, in order.\<close>

definition dedup :: "'a list \<Rightarrow> 'a list" where
  "dedup xs = rev (remdups (rev xs))"

text \<open>\<open>Array.prototype.sort\<close> without a comparator, on strings: by code units.\<close>

definition sortStrings :: "ustring list \<Rightarrow> ustring list" where
  "sortStrings = sort_by (\<lambda>a b. \<not> str_less b a)"

subsection \<open>schema/options.ts\<close>

definition SYNC_OPTION_KEYS :: "ustring list" where
  "SYNC_OPTION_KEYS = map str [''maxDecodeDepth'', ''agentMode'', ''idnPolicy'', ''idnAllowlist'',
     ''suppressReasons'', ''denyTlds'', ''allowTlds'', ''denyHosts'', ''allowHosts'', ''allowSchemes'',
     ''denySchemes'', ''denyPorts'', ''denyNonStandardPorts'']"

definition ASYNC_ONLY_OPTION_KEYS :: "ustring list" where
  "ASYNC_ONLY_OPTION_KEYS = map str [''enrichers'', ''signal'', ''cache'', ''governor'']"

definition RECOGNIZED_OPTION_KEYS :: "ustring list" where
  "RECOGNIZED_OPTION_KEYS = SYNC_OPTION_KEYS @ ASYNC_ONLY_OPTION_KEYS"

definition UNUSABLE_OPTIONS_TOKEN :: ustring where
  "UNUSABLE_OPTIONS_TOKEN = str ''options''"

definition MAX_ECHOED_KEY_LENGTH :: nat where
  "MAX_ECHOED_KEY_LENGTH = 64"

text \<open>The complement of \<open>UNSAFE_KEY_CHARS = /[^A-Za-z0-9_$.-]/g\<close>.\<close>

definition safe_key_char :: "nat \<Rightarrow> bool" where
  "safe_key_char c \<longleftrightarrow> is_alpha c \<or> is_digit c \<or> c \<in> {95, 36, 46, 45}"

record OptionIntake =
  oi_options :: jsval
  oi_skipped :: "ustring list"

definition NO_OPTIONS :: jsval where
  "NO_OPTIONS = Obj True []"

definition optionKeyToken :: "ustring \<Rightarrow> ustring" where
  "optionKeyToken key =
     (let safe = map (\<lambda>c. if safe_key_char c then c else 95) key;
          bounded = (if length safe > MAX_ECHOED_KEY_LENGTH
                     then take MAX_ECHOED_KEY_LENGTH safe @ [95] else safe)
      in str ''options'' @ [58] @ bounded)"

text \<open>The test of the loop over the keys: not recognized, and not readable as \<open>undefined\<close>.\<close>

definition keyDropped :: "jsval \<Rightarrow> ustring \<Rightarrow> bool" where
  "keyDropped source key \<longleftrightarrow>
     key \<notin> set RECOGNIZED_OPTION_KEYS \<and> getProp source key \<noteq> Some Undefined"

definition intakeOptions :: "jsval \<Rightarrow> OptionIntake" where
  "intakeOptions options =
     (if \<not> is_object options
      then \<lparr>oi_options = NO_OPTIONS, oi_skipped = [UNUSABLE_OPTIONS_TOKEN]\<rparr>
      else case objectKeys options of
        None \<Rightarrow> \<lparr>oi_options = NO_OPTIONS, oi_skipped = [UNUSABLE_OPTIONS_TOKEN]\<rparr>
      | Some keys \<Rightarrow>
          (let dropped = filter (keyDropped options) keys in
           if dropped = [] then \<lparr>oi_options = options, oi_skipped = []\<rparr>
           else \<lparr>oi_options = options,
                 oi_skipped = dedup (map optionKeyToken (sortStrings dropped))\<rparr>))"

definition usableOptions :: "jsval \<Rightarrow> jsval" where
  "usableOptions options = (if is_object options then options else Obj True [])"

subsection \<open>parse/runtime.ts\<close>

datatype idn_policy = Block | Allow

record 'a PolicyList =
  pl_configured :: bool
  pl_values :: "'a list"

text \<open>The \<open>set\<close> of a policy list is \<open>new Set(normalized)\<close>, the set of its \<open>values\<close>.\<close>

abbreviation pl_set :: "('a, 'b) PolicyList_scheme \<Rightarrow> 'a set" where
  "pl_set l \<equiv> set (pl_values l)"

record PolicyRuntimeConfig =
  pr_denyTlds :: "ustring PolicyList"
  pr_allowTlds :: "ustring PolicyList"
  pr_denyHosts :: "ustring PolicyList"
  pr_allowHosts :: "ustring PolicyList"
  pr_denySchemes :: "ustring PolicyList"
  pr_allowSchemes :: "ustring PolicyList"
  pr_denyPorts :: "jsnum PolicyList"
  pr_denyNonStandardPorts :: bool

record RuntimeConfig =
  rt_maxDecodeDepth :: nat
  rt_idnPolicy :: idn_policy
  rt_idnAllowlist :: "ustring set"
  rt_suppressReasons :: "SuppressionRule list"
  rt_policy :: PolicyRuntimeConfig

fun trimListValue :: "jsval \<Rightarrow> jsval" where
  "trimListValue (StrVal s) = StrVal (trim s)"
| "trimListValue v = v"

text \<open>\<open>value.replace(/^\./, "")\<close> and \<open>value.replace(/^:+|:+$/g, "")\<close>.\<close>

definition stripLeadingDot :: "ustring \<Rightarrow> ustring" where
  "stripLeadingDot s = (case s of c # r \<Rightarrow> if c = 46 then r else s | [] \<Rightarrow> [])"

definition stripColons :: "ustring \<Rightarrow> ustring" where
  "stripColons s = rev (dropWhile ((=) 58) (rev (dropWhile ((=) 58) s)))"

fun normalizeIdnDomain :: "platform \<Rightarrow> jsval \<Rightarrow> ustring option" where
  "normalizeIdnDomain E (StrVal s) = Some (pf_toLowerCase E (toUnicode E (stripLeadingDot s)))"
| "normalizeIdnDomain E _ = None"

fun normalizeTld :: "platform \<Rightarrow> jsval \<Rightarrow> ustring option" where
  "normalizeTld E (StrVal s) = Some (pf_toLowerCase E (stripLeadingDot s))"
| "normalizeTld E _ = None"

fun normalizeHost :: "platform \<Rightarrow> jsval \<Rightarrow> ustring option" where
  "normalizeHost E (StrVal s) = Some (pf_toLowerCase E (stripLeadingDot s))"
| "normalizeHost E _ = None"

fun normalizeScheme :: "platform \<Rightarrow> jsval \<Rightarrow> ustring option" where
  "normalizeScheme E (StrVal s) = Some (pf_toLowerCase E (stripColons s))"
| "normalizeScheme E _ = None"

fun normalizePort :: "jsval \<Rightarrow> jsnum option" where
  "normalizePort (NumVal n) = Some n"
| "normalizePort _ = None"

fun arrayElements :: "jsval \<Rightarrow> jsval list" where
  "arrayElements (Arr xs) = xs"
| "arrayElements _ = []"

text \<open>The first argument is the test \<open>value === ""\<close> at the type of the normalized values.\<close>

definition normalizedList ::
    "('u \<Rightarrow> bool) \<Rightarrow> jsval \<Rightarrow> (jsval \<Rightarrow> 'u option) \<Rightarrow> 'u PolicyList" where
  "normalizedList isEmpty values norm_fn =
     \<lparr>pl_configured = (values \<noteq> Undefined),
      pl_values = filter (\<lambda>v. \<not> isEmpty v)
        (List.map_filter norm_fn (map trimListValue (arrayElements values)))\<rparr>"

text \<open>One rule of \<open>suppressReasons\<close>; the inner \<open>None\<close> is a dropped rule.\<close>

definition normalizeRule :: "platform \<Rightarrow> jsval \<Rightarrow> SuppressionRule option option" where
  "normalizeRule E rule =
     (if \<not> is_object rule then Some None
      else do {
        code \<leftarrow> getProp rule (str ''code'');
        host \<leftarrow> getProp rule (str ''host'');
        Some (case trimListValue code of
            StrVal c \<Rightarrow>
              if c = [] then None
              else Some \<lparr>sr_code = c,
                sr_host = (case trimListValue host of
                    StrVal h \<Rightarrow> if h = [] then None else normalizeIdnDomain E (StrVal h)
                  | _ \<Rightarrow> None)\<rparr>
          | _ \<Rightarrow> None)
      })"

definition normalizeSuppressReasons :: "platform \<Rightarrow> jsval \<Rightarrow> SuppressionRule list option" where
  "normalizeSuppressReasons E rules =
     map_option (List.map_filter id) (those (map (normalizeRule E) (arrayElements rules)))"

definition normalizePolicyOptions :: "platform \<Rightarrow> jsval \<Rightarrow> PolicyRuntimeConfig option" where
  "normalizePolicyOptions E options = do {
     denyTlds \<leftarrow> getProp options (str ''denyTlds'');
     allowTlds \<leftarrow> getProp options (str ''allowTlds'');
     denyHosts \<leftarrow> getProp options (str ''denyHosts'');
     allowHosts \<leftarrow> getProp options (str ''allowHosts'');
     denySchemes \<leftarrow> getProp options (str ''denySchemes'');
     allowSchemes \<leftarrow> getProp options (str ''allowSchemes'');
     denyPorts \<leftarrow> getProp options (str ''denyPorts'');
     denyNonStandardPorts \<leftarrow> getProp options (str ''denyNonStandardPorts'');
     Some \<lparr>pr_denyTlds = normalizedList (\<lambda>v. v = []) denyTlds (normalizeTld E),
       pr_allowTlds = normalizedList (\<lambda>v. v = []) allowTlds (normalizeTld E),
       pr_denyHosts = normalizedList (\<lambda>v. v = []) denyHosts (normalizeHost E),
       pr_allowHosts = normalizedList (\<lambda>v. v = []) allowHosts (normalizeHost E),
       pr_denySchemes = normalizedList (\<lambda>v. v = []) denySchemes (normalizeScheme E),
       pr_allowSchemes = normalizedList (\<lambda>v. v = []) allowSchemes (normalizeScheme E),
       pr_denyPorts = normalizedList (\<lambda>v. False) denyPorts normalizePort,
       pr_denyNonStandardPorts = (denyNonStandardPorts = BoolVal True)\<rparr>
   }"

text \<open>\<open>typeof raw === "number" && Number.isInteger(raw) && raw >= 0\<close>, with the value when it holds.\<close>

fun nonNegativeInteger :: "jsval \<Rightarrow> nat option" where
  "nonNegativeInteger (NumVal (Finite q)) =
     (if snd (quotient_of q) = 1 \<and> 0 \<le> q then Some (nat (fst (quotient_of q))) else None)"
| "nonNegativeInteger _ = None"

definition normalizeOptions :: "platform \<Rightarrow> jsval \<Rightarrow> RuntimeConfig option" where
  "normalizeOptions E options = do {
     raw \<leftarrow> getProp options (str ''maxDecodeDepth'');
     idnPolicy \<leftarrow> getProp options (str ''idnPolicy'');
     idnAllowlist \<leftarrow> getProp options (str ''idnAllowlist'');
     suppressReasons \<leftarrow> getProp options (str ''suppressReasons'');
     rules \<leftarrow> normalizeSuppressReasons E suppressReasons;
     policy \<leftarrow> normalizePolicyOptions E options;
     Some \<lparr>rt_maxDecodeDepth = (case nonNegativeInteger raw of Some n \<Rightarrow> n | None \<Rightarrow> DEFAULT_MAX_DECODE_DEPTH),
       rt_idnPolicy = (if idnPolicy = StrVal (str ''allow'') then Allow else Block),
       rt_idnAllowlist = pl_set (normalizedList (\<lambda>v. v = []) idnAllowlist (normalizeIdnDomain E)),
       rt_suppressReasons = rules,
       rt_policy = policy\<rparr>
   }"

text \<open>\<open>suppressConfigured\<close> of \<open>scoring/suppress.ts\<close>.\<close>

definition suppressConfigured :: "jsval \<Rightarrow> bool option" where
  "suppressConfigured options = map_option (\<lambda>v. v \<noteq> Undefined) (getProp options (str ''suppressReasons''))"

subsection \<open>Lemmas\<close>

lemma set_dedup [simp]: "set (dedup xs) = set xs"
  by (simp add: dedup_def)

lemma distinct_dedup [simp]: "distinct (dedup xs)"
  by (simp add: dedup_def)

lemma set_sortStrings [simp]: "set (sortStrings xs) = set xs"
  by (simp add: sortStrings_def)

definition token_ok :: "ustring \<Rightarrow> bool" where
  "token_ok t \<longleftrightarrow> t = UNUSABLE_OPTIONS_TOKEN
     \<or> (take 8 t = str ''options'' @ [58] \<and> length t \<le> 73 \<and> list_all safe_key_char (drop 8 t))"

lemma optionKeyToken_ok: "token_ok (optionKeyToken key)"
proof -
  have "length (str ''options'' @ [58]) = 8" by (simp add: str_def)
  moreover have "safe_key_char 95" by (simp add: safe_key_char_def)
  ultimately show ?thesis
    by (auto simp: token_ok_def optionKeyToken_def Let_def MAX_ECHOED_KEY_LENGTH_def list_all_iff
        dest: in_set_takeD)
qed

text \<open>The tokens of an intake, by cases on the argument.\<close>

lemma intakeOptions_tokens:
  "set (oi_skipped (intakeOptions v)) =
     (case objectKeys v of
        Some keys \<Rightarrow> if is_object v then optionKeyToken ` {k \<in> set keys. keyDropped v k}
                     else {UNUSABLE_OPTIONS_TOKEN}
      | None \<Rightarrow> {UNUSABLE_OPTIONS_TOKEN})"
  by (auto simp: intakeOptions_def Let_def filter_empty_conv split: option.splits)

lemma distinct_intake: "distinct (oi_skipped (intakeOptions v))"
  by (simp add: intakeOptions_def Let_def split: option.splits)

lemma intake_token_ok: "list_all token_ok (oi_skipped (intakeOptions v))"
proof -
  have "token_ok t" if "t \<in> set (oi_skipped (intakeOptions v))" for t
    using that unfolding intakeOptions_tokens
    by (auto simp: optionKeyToken_ok token_ok_def [of UNUSABLE_OPTIONS_TOKEN]
        split: option.splits if_splits)
  then show ?thesis by (simp add: list_all_iff)
qed

text \<open>When normalization raises.\<close>

lemma normalizeOptions_None_iff:
  "normalizeOptions E options = None \<longleftrightarrow>
     list_ex (\<lambda>key. getProp options (str key) = None)
       [''maxDecodeDepth'', ''idnPolicy'', ''idnAllowlist'', ''suppressReasons'', ''denyTlds'', ''allowTlds'',
        ''denyHosts'', ''allowHosts'', ''denySchemes'', ''allowSchemes'', ''denyPorts'', ''denyNonStandardPorts'']
     \<or> (case getProp options (str ''suppressReasons'') of
          None \<Rightarrow> False
        | Some rules \<Rightarrow> list_ex (\<lambda>rule. is_object rule
            \<and> (getProp rule (str ''code'') = None \<or> getProp rule (str ''host'') = None))
            (arrayElements rules))"
proof -
  have rule: "normalizeRule E rule = None \<longleftrightarrow> is_object rule
      \<and> (getProp rule (str ''code'') = None \<or> getProp rule (str ''host'') = None)" for rule
    by (auto simp: normalizeRule_def bind_eq_None_conv)
  have rules: "normalizeSuppressReasons E r = None \<longleftrightarrow> list_ex (\<lambda>rule. is_object rule
      \<and> (getProp rule (str ''code'') = None \<or> getProp rule (str ''host'') = None)) (arrayElements r)" for r
    unfolding normalizeSuppressReasons_def option.map_disc_iff those_None set_map list_ex_iff
      rule [symmetric] by force
  have policy: "normalizePolicyOptions E options = None \<longleftrightarrow>
      list_ex (\<lambda>key. getProp options (str key) = None) [''denyTlds'', ''allowTlds'',
        ''denyHosts'', ''allowHosts'', ''denySchemes'', ''allowSchemes'', ''denyPorts'', ''denyNonStandardPorts'']"
    unfolding normalizePolicyOptions_def
    by (cases "getProp options (str ''denyTlds'')"; cases "getProp options (str ''allowTlds'')";
        cases "getProp options (str ''denyHosts'')"; cases "getProp options (str ''allowHosts'')";
        simp add: bind_eq_None_conv; blast)
  show ?thesis
    unfolding normalizeOptions_def
    by (cases "getProp options (str ''maxDecodeDepth'')"; cases "getProp options (str ''idnPolicy'')";
        cases "getProp options (str ''idnAllowlist'')"; cases "getProp options (str ''suppressReasons'')";
        auto simp: bind_eq_None_conv rules policy)
qed

subsection \<open>Properties\<close>

text \<open>
  No configuration is lost in silence. The skip tokens of an options argument are exactly the
  tokens of the supplied keys that nothing applies (an unrecognized key whose value is not, or
  cannot be read as, undefined), or the bare token when the argument is no usable object; there is
  no duplicate, and every token is delimiter-safe and of bounded length.
\<close>

lemma intakeOptions_reports:
  "set (oi_skipped (intakeOptions v)) =
     (case objectKeys v of
        Some keys \<Rightarrow> if is_object v then optionKeyToken ` {k \<in> set keys. keyDropped v k}
                     else {UNUSABLE_OPTIONS_TOKEN}
      | None \<Rightarrow> {UNUSABLE_OPTIONS_TOKEN})
   \<and> distinct (oi_skipped (intakeOptions v))
   \<and> list_all token_ok (oi_skipped (intakeOptions v))"
  using intakeOptions_tokens [of v] distinct_intake [of v] intake_token_ok [of v] by simp

text \<open>
  The report is deterministic: two option objects with the same properties give the same skip
  tokens in the same order, in whatever order the properties were inserted.
\<close>

lemma intakeOptions_order_independent:
  assumes "distinct (map fst props)" "mset props = mset props'"
  shows "oi_skipped (intakeOptions (Obj True props)) = oi_skipped (intakeOptions (Obj True props'))"
proof -
  let ?v = "Obj True props" and ?w = "Obj True props'"
  have keys: "mset (map fst props) = mset (map fst props')" using assms(2) by simp
  then have d: "distinct (map fst props')" using assms(1) mset_eq_imp_distinct_iff by blast
  have "set props = set props'" using assms(2) by (metis set_mset_mset)
  then have "map_of props = map_of props'"
    using assms(1) d by (intro map_of_inject_set [THEN iffD2]) auto
  then have drop: "keyDropped ?v = keyDropped ?w"
    by (auto simp: keyDropped_def getProp_def)
  let ?f = "filter (keyDropped ?w)"
  have m: "mset (?f (map fst props)) = mset (?f (map fst props'))" using keys by (simp add: mset_filter)
  then have "sortStrings (?f (map fst props)) = sortStrings (?f (map fst props'))"
    unfolding sortStrings_def by (rule string_order.sort_by_unique)
  moreover have "?f (map fst props) = [] \<longleftrightarrow> ?f (map fst props') = []"
    using m by (metis mset_zero_iff)
  ultimately show ?thesis
    using assms(1) d by (simp add: intakeOptions_def drop Let_def distinct_remdups_id)
qed

lemma intakeOptions_order_independent_witness:
  "oi_skipped (intakeOptions (Obj True
      [(str ''zeta'', Some Null), (str ''allowHost'', None), (str ''agentMode'', Some (BoolVal True))]))
   = oi_skipped (intakeOptions (Obj True
      [(str ''allowHost'', None), (str ''agentMode'', Some (BoolVal True)), (str ''zeta'', Some Null)]))"
  by (rule intakeOptions_order_independent) (simp_all add: str_def)

text \<open>
  Normalizing the options raises exactly when one of the reads does: one of the twelve recognized
  option properties, or the code or host of a suppression rule, has a getter that throws. For every
  other argument, however malformed, normalization returns a configuration.
\<close>

lemma normalizeOptions_throws_iff:
  "normalizeOptions E options = None \<longleftrightarrow>
     list_ex (\<lambda>key. getProp options (str key) = None)
       [''maxDecodeDepth'', ''idnPolicy'', ''idnAllowlist'', ''suppressReasons'', ''denyTlds'', ''allowTlds'',
        ''denyHosts'', ''allowHosts'', ''denySchemes'', ''allowSchemes'', ''denyPorts'', ''denyNonStandardPorts'']
     \<or> (case getProp options (str ''suppressReasons'') of
          None \<Rightarrow> False
        | Some rules \<Rightarrow> list_ex (\<lambda>rule. is_object rule
            \<and> (getProp rule (str ''code'') = None \<or> getProp rule (str ''host'') = None))
            (arrayElements rules))"
  by (rule normalizeOptions_None_iff)

end
