(* ===== verification/Context.thy ===== *)
theory Context
  imports RawParts Options
begin

text \<open>
  From raw parts to the inspection context: the Public Suffix List view of a host
  (\<open>parse/psl.ts\<close>), the derived host facts (\<open>parse/host-facts.ts\<close>), the public and the
  internal view of a parsed input (\<open>parse/context.ts\<close>) and the pipeline that wires them
  (\<open>parse/parse.ts\<close>). The properties: an IP host never has a registrable domain and the labels of a
  host spell it, up to one root dot.
\<close>

subsection \<open>parse/psl.ts\<close>

record PslResult =
  ps_registrableDomain :: "ustring option"
  ps_publicSuffix :: "ustring option"
  ps_subdomain :: "ustring option"
  ps_isIp :: bool

definition analyzeHost :: "platform \<Rightarrow> ustring \<Rightarrow> PslResult" where
  "analyzeHost E host =
     (let r = pf_tldts E False host in
      \<lparr>ps_registrableDomain = td_domain r, ps_publicSuffix = td_publicSuffix r,
       ps_subdomain = td_subdomain r,
       ps_isIp = (case td_isIp r of None \<Rightarrow> False | Some b \<Rightarrow> b)\<rparr>)"

definition looksLikeRegistrableDomain :: "platform \<Rightarrow> ustring \<Rightarrow> bool" where
  "looksLikeRegistrableDomain E candidate =
     (let r = pf_tldts E False candidate in
      td_domain r = Some candidate \<and> td_isIcann r = Some True \<and> td_isIp r \<noteq> Some True)"

definition privateRegistrableDomain :: "platform \<Rightarrow> ustring \<Rightarrow> ustring option" where
  "privateRegistrableDomain E host = td_domain (pf_tldts E True host)"

subsection \<open>parse/host-facts.ts\<close>

record HostFacts =
  hf_host :: ustring
  hf_isIp :: bool
  hf_psl :: PslResult
  hf_hostUnicode :: ustring
  hf_hostLabels :: "ustring list"

definition emptyPsl :: "bool \<Rightarrow> PslResult" where
  "emptyPsl isIp = \<lparr>ps_registrableDomain = None, ps_publicSuffix = None, ps_subdomain = None, ps_isIp = isIp\<rparr>"

text \<open>\<open>host.replace(/\.$/, "")\<close>.\<close>

definition stripFinalDot :: "ustring \<Rightarrow> ustring" where
  "stripFinalDot s = (if s \<noteq> [] \<and> last s = 46 then butlast s else s)"

definition deriveHostFacts :: "platform \<Rightarrow> ustring \<Rightarrow> HostFacts" where
  "deriveHostFacts E rawHost =
     (let host = stripInvisible E rawHost;
          isIpv4 = (host \<noteq> [] \<and> analyzeIpv4 host \<noteq> None);
          isIp = (isIpv4 \<or> (host \<noteq> [] \<and> 58 \<in> set host \<and> analyzeIpv6 host \<noteq> None))
      in \<lparr>hf_host = host,
          hf_isIp = isIp,
          hf_psl = (if host = [] \<or> isIp then emptyPsl isIp else analyzeHost E host),
          hf_hostUnicode = (if host = [] \<or> isIp then host else toUnicode E host),
          hf_hostLabels = (if host = [] then []
            else if isIp \<and> 58 \<in> set host then [host]
            else split_on 46 (stripFinalDot host))\<rparr>)"

subsection \<open>parse/context.ts\<close>

record ParsedUrl =
  pu_scheme :: "ustring option"
  pu_userinfo :: "ustring option"
  pu_effectiveHost :: "ustring option"
  pu_registrableDomain :: "ustring option"
  pu_publicSuffix :: "ustring option"
  pu_subdomain :: "ustring option"
  pu_hostLabels :: "ustring list"
  pu_port :: "nat option"
  pu_path :: ustring
  pu_query :: "ustring option"
  pu_fragment :: "ustring option"
  pu_isIp :: bool

record InspectionContext =
  cx_input :: ustring
  cx_scheme :: "ustring option"
  cx_userinfo :: "ustring option"
  cx_rawHost :: ustring
  cx_host :: ustring
  cx_hostUnicode :: ustring
  cx_isIp :: bool
  cx_hostLabels :: "ustring list"
  cx_registrableDomain :: "ustring option"
  cx_registrableDomainLower :: "ustring option"
  cx_publicSuffix :: "ustring option"
  cx_publicSuffixTld :: "ustring option"
  cx_subdomain :: "ustring option"
  cx_subdomainLabels :: "ustring list"
  cx_port :: "nat option"
  cx_path :: ustring
  cx_query :: "ustring option"
  cx_fragment :: "ustring option"
  cx_parsed :: ParsedUrl
  cx_runtime :: RuntimeConfig

text \<open>A nullable string in a boolean position: null and the empty string are false.\<close>

definition truthy :: "ustring option \<Rightarrow> bool" where
  "truthy s \<longleftrightarrow> (case s of None \<Rightarrow> False | Some t \<Rightarrow> t \<noteq> [])"

definition buildParsedUrl :: "RawParts \<Rightarrow> HostFacts \<Rightarrow> ParsedUrl" where
  "buildParsedUrl raw facts =
     \<lparr>pu_scheme = rp_scheme raw, pu_userinfo = rp_userinfo raw,
      pu_effectiveHost = (if hf_host facts = [] then None else Some (hf_host facts)),
      pu_registrableDomain = ps_registrableDomain (hf_psl facts),
      pu_publicSuffix = ps_publicSuffix (hf_psl facts),
      pu_subdomain = ps_subdomain (hf_psl facts),
      pu_hostLabels = hf_hostLabels facts,
      pu_port = rp_port raw, pu_path = rp_path raw, pu_query = rp_query raw,
      pu_fragment = rp_fragment raw, pu_isIp = ps_isIp (hf_psl facts)\<rparr>"

definition buildInspectionContext ::
    "platform \<Rightarrow> ustring \<Rightarrow> RawParts \<Rightarrow> HostFacts \<Rightarrow> ParsedUrl \<Rightarrow> RuntimeConfig \<Rightarrow> InspectionContext" where
  "buildInspectionContext E input raw facts parsed runtime =
     (let psl = hf_psl facts in
      \<lparr>cx_input = input, cx_scheme = rp_scheme raw, cx_userinfo = rp_userinfo raw,
       cx_rawHost = rp_rawHost raw, cx_host = hf_host facts,
       cx_hostUnicode = hf_hostUnicode facts, cx_isIp = ps_isIp psl,
       cx_hostLabels = hf_hostLabels facts,
       cx_registrableDomain = ps_registrableDomain psl,
       cx_registrableDomainLower = map_option (pf_toLowerCase E) (ps_registrableDomain psl),
       cx_publicSuffix = ps_publicSuffix psl,
       cx_publicSuffixTld = (if truthy (ps_publicSuffix psl)
         then map_option (\<lambda>s. last (split_on 46 s)) (ps_publicSuffix psl) else None),
       cx_subdomain = ps_subdomain psl,
       cx_subdomainLabels = (case ps_subdomain psl of
           Some s \<Rightarrow> if s = [] then [] else split_on 46 s | None \<Rightarrow> []),
       cx_port = rp_port raw, cx_path = rp_path raw, cx_query = rp_query raw,
       cx_fragment = rp_fragment raw, cx_parsed = parsed, cx_runtime = runtime\<rparr>)"

subsection \<open>parse/parse.ts\<close>

definition parsePrepared ::
    "platform \<Rightarrow> ustring \<Rightarrow> RuntimeConfig \<Rightarrow> RawUrlTokens \<Rightarrow> InspectionContext option" where
  "parsePrepared E input runtime tokens =
     (case parseRawParts E tokens of
        None \<Rightarrow> None
      | Some raw \<Rightarrow>
          (let facts = deriveHostFacts E (rp_rawHost raw);
               parsed = buildParsedUrl raw facts
           in Some (buildInspectionContext E input raw facts parsed runtime)))"

definition parse :: "platform \<Rightarrow> ustring \<Rightarrow> RuntimeConfig \<Rightarrow> InspectionContext option" where
  "parse E input runtime =
     (let prepared = prepare input in
      if prepared = [] then None else parsePrepared E input runtime (tokenizeRawUrl prepared))"

text \<open>
  \<open>suppressionSubjectHostContext\<close> of \<open>scoring/suppress.ts\<close>, for the two kinds of enrichment
  subject; the platform functions of the model do not throw, so neither does this.
\<close>

datatype EnrichmentSubject = HostSubject ustring | UrlSubject ustring

definition suppressionSubjectHostContext ::
    "platform \<Rightarrow> RuntimeConfig \<Rightarrow> EnrichmentSubject \<Rightarrow> ustring option" where
  "suppressionSubjectHostContext E runtime subject =
     suppressionHostContext E (case subject of
         HostSubject v \<Rightarrow> ps_registrableDomain (hf_psl (deriveHostFacts E v))
       | UrlSubject v \<Rightarrow> (case parse E v runtime of
             None \<Rightarrow> None | Some ctx \<Rightarrow> cx_registrableDomain ctx))"

lemmas context_eval = parts_eval ip_eval deriveHostFacts_def emptyPsl_def stripFinalDot_def
  buildParsedUrl_def buildInspectionContext_def parsePrepared_def parse_def truthy_def analyzeHost_def

subsection \<open>Lemmas\<close>

lemma parsePrepared_Some:
  assumes "parsePrepared E input runtime tokens = Some ctx"
  obtains raw where "parseRawParts E tokens = Some raw"
    "ctx = buildInspectionContext E input raw (deriveHostFacts E (rp_rawHost raw))
       (buildParsedUrl raw (deriveHostFacts E (rp_rawHost raw))) runtime"
  using assms by (auto simp: parsePrepared_def Let_def split: option.splits)

lemma hostFacts_ip:
  assumes "hf_isIp (deriveHostFacts E h)"
  shows "hf_psl (deriveHostFacts E h) = emptyPsl True"
    "hf_hostUnicode (deriveHostFacts E h) = hf_host (deriveHostFacts E h)"
  using assms by (simp_all add: deriveHostFacts_def Let_def)

lemma hostFacts_labels:
  "hf_host (deriveHostFacts E h) \<in>
     {join [46] (hf_hostLabels (deriveHostFacts E h)), join [46] (hf_hostLabels (deriveHostFacts E h)) @ [46]}"
proof -
  have "s \<in> {stripFinalDot s, stripFinalDot s @ [46]}" for s
    by (auto simp: stripFinalDot_def) (metis append_butlast_last_id)
  then show ?thesis
    by (auto simp: deriveHostFacts_def Let_def join_split_on)
qed

subsection \<open>Properties\<close>

text \<open>
  The derived host facts are consistent. When the visible host is an IPv4 address in any accepted
  spelling or an IPv6 literal, the host has no registrable domain, public suffix or subdomain, is
  marked as an IP and is its own Unicode form; and for every host the labels joined by dots spell the
  host, up to one final root dot.
\<close>

lemma deriveHostFacts_consistent:
  "let facts = deriveHostFacts E rawHost; host = hf_host facts; psl = hf_psl facts in
   host = stripInvisible E rawHost
   \<and> hf_isIp facts = (if host = [] then False else if analyzeIpv4 host = None then 58 \<in> set host \<and> analyzeIpv6 host \<noteq> None else True)
   \<and> (if hf_isIp facts then psl = emptyPsl True \<and> hf_hostUnicode facts = host
      else psl = (if host = [] then emptyPsl False else analyzeHost E host))
   \<and> (if host = [] then hf_hostLabels facts = []
      else host \<in> {join [46] (hf_hostLabels facts), join [46] (hf_hostLabels facts) @ [46]})"
  using hostFacts_labels [of E rawHost]
  by (auto simp: deriveHostFacts_def Let_def)

end
