(* ===== verification/PolicyAxes.thy ===== *)
theory PolicyAxes
  imports Context
begin

text \<open>
  The policy channel (\<open>policy/\<close>): four caller-configured axes over the inspection context, the
  registry that orders them, and the dispatcher that runs each axis behind its own guard. An axis
  may raise, so its run is an option; the modelled axes never do. The properties: which policy
  codes are reported, exactly; that a failing axis costs only itself; that nothing the channel
  reports can score.
\<close>

subsection \<open>Findings\<close>

datatype ConfusableComponent = HostComponent | PathComponent | QueryComponent

record Confusable =
  cb_char :: ustring
  cb_codepoint :: ustring
  cb_confusableWith :: ustring
  cb_component :: ConfusableComponent
  cb_position :: nat

record CollectedFinding =
  cf_code :: ReasonCode
  cf_detail :: ustring
  cf_confusables :: "Confusable list option"

definition finding :: "ReasonCode \<Rightarrow> ustring \<Rightarrow> CollectedFinding" where
  "finding code detail = \<lparr>cf_code = code, cf_detail = detail, cf_confusables = None\<rparr>"

subsection \<open>The axes\<close>

definition runTldAxis :: "platform \<Rightarrow> InspectionContext \<Rightarrow> CollectedFinding list" where
  "runTldAxis E ctx =
     (if truthy (cx_publicSuffix ctx) then
        (let tld = pf_toLowerCase E (the (cx_publicSuffixTld ctx));
             allowTlds = pr_allowTlds (rt_policy (cx_runtime ctx));
             denyTlds = pr_denyTlds (rt_policy (cx_runtime ctx))
         in (if tld \<in> pl_set denyTlds
             then [finding tld_denied (str ''TLD '' @ [39, 46] @ tld @ [39] @ str '' is on the caller deny-list'')]
             else [])
          @ (if pl_configured allowTlds \<and> tld \<notin> pl_set allowTlds
             then [finding tld_not_allowlisted
                 (str ''TLD '' @ [39, 46] @ tld @ [39] @ str '' is not on the caller allow-list (['' @
                  join (str '', '') (pl_values allowTlds) @ str ''])'')]
             else []))
      else [])"

definition runHostAxis :: "InspectionContext \<Rightarrow> CollectedFinding list" where
  "runHostAxis ctx =
     (if truthy (cx_registrableDomain ctx) then
        (let registrable = the (cx_registrableDomainLower ctx);
             allowHosts = pr_allowHosts (rt_policy (cx_runtime ctx));
             denyHosts = pr_denyHosts (rt_policy (cx_runtime ctx));
             subject = str ''Host '' @ [39] @ cx_host ctx @ [39] @ str '' (registrable domain '' @ [39]
               @ registrable @ [39]
         in (if registrable \<in> pl_set denyHosts
             then [finding host_denied (subject @ str '') is on the caller deny-list'')] else [])
          @ (if pl_configured allowHosts \<and> registrable \<notin> pl_set allowHosts
             then [finding host_not_allowlisted (subject @ str '') is not on the caller allow-list (['' @
                 join (str '', '') (pl_values allowHosts) @ str ''])'')]
             else []))
      else [])"

definition runSchemeAxis :: "platform \<Rightarrow> InspectionContext \<Rightarrow> CollectedFinding list" where
  "runSchemeAxis E ctx =
     (if truthy (cx_scheme ctx) then
        (let scheme = pf_toLowerCase E (the (cx_scheme ctx));
             allowSchemes = pr_allowSchemes (rt_policy (cx_runtime ctx));
             denySchemes = pr_denySchemes (rt_policy (cx_runtime ctx))
         in (if scheme \<in> pl_set denySchemes
             then [finding scheme_denied (str ''scheme '' @ [39] @ scheme @ [39] @ str '' is on the caller deny-list'')]
             else [])
          @ (if pl_configured allowSchemes \<and> scheme \<notin> pl_set allowSchemes
             then [finding scheme_denied
                 (str ''scheme '' @ [39] @ scheme @ [39] @ str '' is not on the caller allow-list (['' @
                  join (str '', '') (pl_values allowSchemes) @ str ''])'')]
             else []))
      else [])"

definition STANDARD_PORTS :: "(ustring \<times> nat) list" where
  "STANDARD_PORTS = [(str ''http'', 80), (str ''https'', 443), (str ''ftp'', 21), (str ''ws'', 80), (str ''wss'', 443)]"

text \<open>
  \<open>STANDARD_PORTS[scheme]\<close> on an object literal also finds inherited properties; of those, only
  \<open>constructor\<close> is spelled like a lower-cased scheme. Its value is a function, never equal to a port.
\<close>

definition standardPort :: "ustring \<Rightarrow> (nat + ustring) option" where
  "standardPort scheme =
     (case map_of STANDARD_PORTS scheme of
        Some n \<Rightarrow> Some (Inl n)
      | None \<Rightarrow> if scheme = str ''constructor'' then Some (Inr (str ''function Object() { [native code] }''))
                else None)"

definition runPortAxis :: "platform \<Rightarrow> InspectionContext \<Rightarrow> CollectedFinding list" where
  "runPortAxis E ctx =
     (case cx_port ctx of
        None \<Rightarrow> []
      | Some port \<Rightarrow>
          if Finite (of_nat port) \<in> pl_set (pr_denyPorts (rt_policy (cx_runtime ctx)))
          then [finding port_denied (str ''port '' @ to_radix 10 port @ str '' is on the caller deny-list'')]
          else if pr_denyNonStandardPorts (rt_policy (cx_runtime ctx)) then
            (let scheme = (if truthy (cx_scheme ctx) then map_option (pf_toLowerCase E) (cx_scheme ctx) else None);
                 standard = Option.bind scheme standardPort
             in if standard \<noteq> Some (Inl port) then
                  (let expected = (case standard of
                         Some v \<Rightarrow> str '' (expected '' @ (case v of Inl n \<Rightarrow> to_radix 10 n | Inr t \<Rightarrow> t) @ str '')''
                       | None \<Rightarrow> (case scheme of
                             Some s \<Rightarrow> str '' (no standard port for scheme '' @ [39] @ s @ [39] @ str '')''
                           | None \<Rightarrow> []))
                   in [finding port_denied (str ''port '' @ to_radix 10 port @ str '' is non-standard for scheme ''
                        @ [39] @ (case scheme of Some s \<Rightarrow> s | None \<Rightarrow> str ''?'') @ [39] @ expected)])
                else [])
          else [])"

subsection \<open>The registry and the dispatcher\<close>

record PolicyAxisDescriptor =
  ax_id :: string
  ax_optionKeys :: "string list"
  ax_emits :: "ReasonCode list"
  ax_run :: "InspectionContext \<Rightarrow> CollectedFinding list option"

definition POLICY_AXIS_DESCRIPTORS :: "platform \<Rightarrow> PolicyAxisDescriptor list" where
  "POLICY_AXIS_DESCRIPTORS E =
     [\<lparr>ax_id = ''tld'', ax_optionKeys = [''denyTlds'', ''allowTlds''],
       ax_emits = [tld_denied, tld_not_allowlisted], ax_run = Some \<circ> runTldAxis E\<rparr>,
      \<lparr>ax_id = ''host'', ax_optionKeys = [''denyHosts'', ''allowHosts''],
       ax_emits = [host_denied, host_not_allowlisted], ax_run = Some \<circ> runHostAxis\<rparr>,
      \<lparr>ax_id = ''scheme'', ax_optionKeys = [''allowSchemes'', ''denySchemes''],
       ax_emits = [scheme_denied], ax_run = Some \<circ> runSchemeAxis E\<rparr>,
      \<lparr>ax_id = ''port'', ax_optionKeys = [''denyPorts'', ''denyNonStandardPorts''],
       ax_emits = [port_denied], ax_run = Some \<circ> runPortAxis E\<rparr>]"

definition POLICY_OPTION_KEYS :: "string list" where
  "POLICY_OPTION_KEYS = concat (map ax_optionKeys (POLICY_AXIS_DESCRIPTORS ascii_platform))"

text \<open>\<open>POLICY_OPTION_KEYS.some(key => options[key] !== undefined)\<close>, stopping at the first hit.\<close>

fun anyDefined :: "jsval \<Rightarrow> string list \<Rightarrow> bool option" where
  "anyDefined options [] = Some False"
| "anyDefined options (key # keys) =
     (case getProp options (str key) of
        None \<Rightarrow> None
      | Some v \<Rightarrow> if v \<noteq> Undefined then Some True else anyDefined options keys)"

definition policyConfigured :: "jsval \<Rightarrow> bool option" where
  "policyConfigured options = anyDefined options POLICY_OPTION_KEYS"

record PolicyOutcome =
  po_findings :: "CollectedFinding list"
  po_skippedAxes :: "string list"
  po_anyAxisRan :: bool

text \<open>The loop over the descriptors, with its three accumulators.\<close>

fun policyLoop :: "InspectionContext \<Rightarrow> PolicyAxisDescriptor list \<Rightarrow> CollectedFinding list \<Rightarrow>
    string list \<Rightarrow> nat \<Rightarrow> PolicyOutcome" where
  "policyLoop ctx [] findings skippedAxes completed =
     \<lparr>po_findings = findings, po_skippedAxes = skippedAxes, po_anyAxisRan = completed > 0\<rparr>"
| "policyLoop ctx (d # ds) findings skippedAxes completed =
     (case ax_run d ctx of
        Some fs \<Rightarrow> policyLoop ctx ds (findings @ fs) skippedAxes (completed + 1)
      | None \<Rightarrow> policyLoop ctx ds findings (skippedAxes @ [ax_id d]) completed)"

definition runPolicyWith :: "PolicyAxisDescriptor list \<Rightarrow> InspectionContext \<Rightarrow> PolicyOutcome" where
  "runPolicyWith descriptors ctx = policyLoop ctx descriptors [] [] 0"

definition runPolicy :: "platform \<Rightarrow> InspectionContext \<Rightarrow> PolicyOutcome" where
  "runPolicy E = runPolicyWith (POLICY_AXIS_DESCRIPTORS E)"

subsection \<open>Lemmas\<close>

lemma policyLoop_spec:
  "policyLoop ctx ds findings skipped completed =
     \<lparr>po_findings = findings @ concat (List.map_filter (\<lambda>d. ax_run d ctx) ds),
      po_skippedAxes = skipped @ map ax_id (filter (\<lambda>d. ax_run d ctx = None) ds),
      po_anyAxisRan = completed > 0 \<or> list_ex (\<lambda>d. ax_run d ctx \<noteq> None) ds\<rparr>"
  by (induction ds arbitrary: findings skipped completed)
    (auto simp: List.map_filter_simps split: option.splits)

lemma runPolicy_findings:
  "po_findings (runPolicy E ctx) = runTldAxis E ctx @ runHostAxis ctx @ runSchemeAxis E ctx @ runPortAxis E ctx"
  by (simp add: runPolicy_def runPolicyWith_def policyLoop_spec POLICY_AXIS_DESCRIPTORS_def List.map_filter_simps)

lemma axis_codes:
  "set (map cf_code (runTldAxis E ctx)) =
     (if truthy (cx_publicSuffix ctx) then
        (let tld = pf_toLowerCase E (the (cx_publicSuffixTld ctx)); p = rt_policy (cx_runtime ctx) in
         (if tld \<in> pl_set (pr_denyTlds p) then {tld_denied} else {})
         \<union> (if pl_configured (pr_allowTlds p) \<and> tld \<notin> pl_set (pr_allowTlds p) then {tld_not_allowlisted} else {}))
      else {})"
  "set (map cf_code (runHostAxis ctx)) =
     (if truthy (cx_registrableDomain ctx) then
        (let d = the (cx_registrableDomainLower ctx); p = rt_policy (cx_runtime ctx) in
         (if d \<in> pl_set (pr_denyHosts p) then {host_denied} else {})
         \<union> (if pl_configured (pr_allowHosts p) \<and> d \<notin> pl_set (pr_allowHosts p) then {host_not_allowlisted} else {}))
      else {})"
  "set (map cf_code (runSchemeAxis E ctx)) =
     (if truthy (cx_scheme ctx) then
        (let s = pf_toLowerCase E (the (cx_scheme ctx)); p = rt_policy (cx_runtime ctx) in
         if s \<in> pl_set (pr_denySchemes p) \<or> (pl_configured (pr_allowSchemes p) \<and> s \<notin> pl_set (pr_allowSchemes p))
         then {scheme_denied} else {})
      else {})"
  by (simp_all del: set_map add: runTldAxis_def runHostAxis_def runSchemeAxis_def finding_def Let_def)

lemma port_axis_codes:
  "map cf_code (runPortAxis E ctx) =
     (case cx_port ctx of None \<Rightarrow> []
      | Some port \<Rightarrow>
         (let p = rt_policy (cx_runtime ctx);
              scheme = (if truthy (cx_scheme ctx) then map_option (pf_toLowerCase E) (cx_scheme ctx) else None) in
          if Finite (of_nat port) \<in> pl_set (pr_denyPorts p)
            \<or> (pr_denyNonStandardPorts p \<and> Option.bind scheme (map_of STANDARD_PORTS) \<noteq> Some port)
          then [port_denied] else []))"
proof -
  have std: "standardPort s = Some (Inl port) \<longleftrightarrow> map_of STANDARD_PORTS s = Some port" for s port
    by (auto simp: standardPort_def split: option.splits)
  have bind: "Option.bind scheme standardPort = Some (Inl port)
      \<longleftrightarrow> Option.bind scheme (map_of STANDARD_PORTS) = Some port" for scheme port
    by (cases scheme) (simp_all add: std)
  show ?thesis
    by (cases "cx_port ctx") (simp_all add: runPortAxis_def finding_def Let_def bind)
qed

text \<open>Codes of the policy layer weigh nothing.\<close>

lemma policy_layer_weight: "rm_layer (reasonMeta code) = Policy \<Longrightarrow> weightFor code = 0"
  using reasonMeta_ok [of code] by (auto simp: meta_ok_def weightFor_def split: if_splits)

lemma policy_emits_layer:
  "list_all (\<lambda>code. rm_layer (reasonMeta code) = Policy)
     [tld_denied, tld_not_allowlisted, host_denied, host_not_allowlisted, scheme_denied, port_denied]"
  by (simp add: reasonMeta_def REASON_CODES_def registry_tables)

subsection \<open>Properties\<close>

text \<open>
  The policy channel reports exactly the configured violations. Of the findings of all four axes,
  a TLD or host code is there exactly when the lower-cased TLD or registrable domain is on the
  deny-list, or off a configured allow-list (an empty one included); the scheme code likewise; and
  exactly one port code is there when the explicit port is denied or is not the standard port of the
  scheme while non-standard ports are denied. An input without the feature is exempt.
\<close>

lemma runPolicy_codes:
  "let p = rt_policy (cx_runtime ctx); codes = set (map cf_code (po_findings (runPolicy E ctx)));
       tld = pf_toLowerCase E (the (cx_publicSuffixTld ctx)); dom = the (cx_registrableDomainLower ctx);
       sch = pf_toLowerCase E (the (cx_scheme ctx)) in
   (tld_denied \<in> codes \<longleftrightarrow> truthy (cx_publicSuffix ctx) \<and> tld \<in> pl_set (pr_denyTlds p))
   \<and> (tld_not_allowlisted \<in> codes \<longleftrightarrow> truthy (cx_publicSuffix ctx)
        \<and> pl_configured (pr_allowTlds p) \<and> tld \<notin> pl_set (pr_allowTlds p))
   \<and> (host_denied \<in> codes \<longleftrightarrow> truthy (cx_registrableDomain ctx) \<and> dom \<in> pl_set (pr_denyHosts p))
   \<and> (host_not_allowlisted \<in> codes \<longleftrightarrow> truthy (cx_registrableDomain ctx)
        \<and> pl_configured (pr_allowHosts p) \<and> dom \<notin> pl_set (pr_allowHosts p))
   \<and> (scheme_denied \<in> codes \<longleftrightarrow> truthy (cx_scheme ctx) \<and> (sch \<in> pl_set (pr_denySchemes p)
        \<or> pl_configured (pr_allowSchemes p) \<and> sch \<notin> pl_set (pr_allowSchemes p)))
   \<and> filter ((=) port_denied) (map cf_code (po_findings (runPolicy E ctx))) =
       (case cx_port ctx of None \<Rightarrow> []
        | Some port \<Rightarrow>
            if Finite (of_nat port) \<in> pl_set (pr_denyPorts p) \<or> (pr_denyNonStandardPorts p
              \<and> (if truthy (cx_scheme ctx) then map_of STANDARD_PORTS sch else None) \<noteq> Some port)
            then [port_denied] else [])"
proof -
  have none: "filter ((=) port_denied) (map cf_code (runTldAxis E ctx)) = []"
    "filter ((=) port_denied) (map cf_code (runHostAxis ctx)) = []"
    "filter ((=) port_denied) (map cf_code (runSchemeAxis E ctx)) = []"
    by (simp_all add: runTldAxis_def runHostAxis_def runSchemeAxis_def finding_def Let_def)
  have ports: "set (map cf_code (runPortAxis E ctx)) \<subseteq> {port_denied}"
    unfolding port_axis_codes by (cases "cx_port ctx") (auto simp: Let_def)
  then have others: "code \<notin> set (map cf_code (runPortAxis E ctx))" if "code \<noteq> port_denied" for code
    using that by blast
  have sch: "Option.bind (if truthy s then map_option f s else None) g
      = (if truthy s then g (f (the s)) else None)" for s :: "ustring option" and f and g :: "ustring \<Rightarrow> nat option"
    by (cases s) (simp_all add: truthy_def)
  have "filter ((=) port_denied) (map cf_code (runPortAxis E ctx)) = map cf_code (runPortAxis E ctx)"
    using ports by (auto simp: filter_id_conv)
  with none have plist: "filter ((=) port_denied) (map cf_code (po_findings (runPolicy E ctx)))
      = map cf_code (runPortAxis E ctx)"
    by (simp only: runPolicy_findings map_append filter_append append_Nil)
  have mem: "code \<in> set (map cf_code (po_findings (runPolicy E ctx))) \<longleftrightarrow>
      code \<in> set (map cf_code (runTldAxis E ctx)) \<or> code \<in> set (map cf_code (runHostAxis ctx))
      \<or> code \<in> set (map cf_code (runSchemeAxis E ctx))" if "code \<noteq> port_denied" for code
    unfolding runPolicy_findings map_append set_append Un_iff using others [OF that] by blast
  show ?thesis
    unfolding Let_def plist port_axis_codes sch
    by (intro conjI) (simp_all del: set_map add: mem axis_codes Let_def)
qed

text \<open>
  One failing axis costs one axis. For any axes whatever, the dispatcher returns the concatenated
  findings of the axes that completed, names exactly the ones that raised, in order, and claims to
  have run exactly when at least one completed; the built-in axes never raise.
\<close>

lemma runPolicyWith_contains_failures:
  "runPolicyWith ds ctx =
     \<lparr>po_findings = concat (List.map_filter (\<lambda>d. ax_run d ctx) ds),
      po_skippedAxes = map ax_id (filter (\<lambda>d. ax_run d ctx = None) ds),
      po_anyAxisRan = list_ex (\<lambda>d. ax_run d ctx \<noteq> None) ds\<rparr>
   \<and> po_skippedAxes (runPolicy E ctx) = [] \<and> po_anyAxisRan (runPolicy E ctx)"
  by (simp add: runPolicy_def runPolicyWith_def policyLoop_spec POLICY_AXIS_DESCRIPTORS_def)

end
