(* ===== verification/Provenance.thy ===== *)
theory Provenance
  imports Numbers Prelude
begin

text \<open>
  Provenance of the bundled Public Suffix List (\<open>data/psl-provenance.ts\<close>): the pinned record, the
  directional staleness check and the snapshot metadata of a result. \<open>Date.parse\<close> falls back to
  engine-defined formats, so it is an argument: epoch milliseconds, \<open>None\<close> for \<open>NaN\<close>. Times are
  integers of milliseconds. The property says that a packaging date can prove staleness and never
  freshness.
\<close>

datatype PslDateKind = Exact | ReleaseProxy

record PslProvenance =
  pp_tldtsVersion :: string
  pp_pslListDate :: "ustring option"
  pp_dateKind :: "PslDateKind option"
  pp_retrievedAt :: string

definition PSL_PROVENANCE :: PslProvenance where
  "PSL_PROVENANCE = \<lparr>pp_tldtsVersion = ''7.4.10'', pp_pslListDate = Some (str ''2026-07-30''),
     pp_dateKind = Some ReleaseProxy, pp_retrievedAt = ''2026-08-13''\<rparr>"

record PslStaleness =
  pst_stale :: "bool option"
  pst_ageDays :: "int option"

definition MS_PER_DAY :: int where
  "MS_PER_DAY = 86400000"

text \<open>\<open>/^\d{4}-\d{2}-\d{2}$/\<close>.\<close>

definition calendar_date :: "ustring \<Rightarrow> bool" where
  "calendar_date s \<longleftrightarrow> length s = 10 \<and> s ! 4 = 45 \<and> s ! 7 = 45
     \<and> list_all is_digit (take 4 s) \<and> list_all is_digit (take 2 (drop 5 s)) \<and> list_all is_digit (drop 8 s)"

definition parseSnapshotDate :: "(ustring \<Rightarrow> int option) \<Rightarrow> ustring option \<Rightarrow> int option" where
  "parseSnapshotDate dateParse value =
     (case value of
        None \<Rightarrow> None
      | Some v \<Rightarrow> dateParse (if calendar_date v then v @ str ''T00:00:00Z'' else v))"

text \<open>
  \<open>Inl\<close> is the \<open>RangeError\<close> for a window that is not a positive finite number. The division is
  exact in the model: a quotient that is not an integer is at least \<open>1 / 86400000\<close> below the next one,
  more than half a unit in the last place for every age below \<open>2\<^sup>2\<^sup>6\<close> days, so rounding keeps its floor.
\<close>

definition pslOutdated ::
    "(ustring \<Rightarrow> int option) \<Rightarrow> rat \<Rightarrow> int \<Rightarrow> PslProvenance \<Rightarrow> unit + PslStaleness" where
  "pslOutdated dateParse maxAgeDays now provenance =
     (if maxAgeDays \<le> 0 then Inl ()
      else Inr (case parseSnapshotDate dateParse (pp_pslListDate provenance) of
          None \<Rightarrow> \<lparr>pst_stale = None, pst_ageDays = None\<rparr>
        | Some snapshotMs \<Rightarrow>
            (let ageDays = (now - snapshotMs) div MS_PER_DAY in
             if of_int ageDays > maxAgeDays then \<lparr>pst_stale = Some True, pst_ageDays = Some ageDays\<rparr>
             else \<lparr>pst_stale = (if pp_dateKind provenance = Some Exact then Some False else None),
                   pst_ageDays = Some ageDays\<rparr>)))"

record PslSnapshot =
  sn_date :: "ustring option"
  sn_stale :: "bool option"

definition currentPslSnapshot :: "(ustring \<Rightarrow> int option) \<Rightarrow> int \<Rightarrow> PslSnapshot" where
  "currentPslSnapshot dateParse now =
     \<lparr>sn_date = pp_pslListDate PSL_PROVENANCE,
      sn_stale = (case pslOutdated dateParse 180 now PSL_PROVENANCE of
          Inr s \<Rightarrow> pst_stale s | Inl _ \<Rightarrow> None)\<rparr>"

subsection \<open>Properties\<close>

text \<open>
  The staleness verdict is sound in the direction the evidence allows. Let the list really date
  from time \<open>t\<close>, exactly the recorded date for an exact record and no later than it for a packaging
  date. If the check says stale, the list is more than the window old at the time of the check; if it
  says fresh, the record is exact and the list is younger than the window plus a day. A packaging
  date never yields fresh, so the snapshot on a result is never reported as fresh.
\<close>

lemma pslOutdated_sound:
  assumes "parseSnapshotDate dateParse (pp_pslListDate prov) = Some recorded"
    and "if pp_dateKind prov = Some Exact then t = recorded else t \<le> recorded"
    and "pslOutdated dateParse maxAgeDays now prov = Inr s"
  shows "(pst_stale s = Some True \<longrightarrow> maxAgeDays * of_int MS_PER_DAY < of_int (now - t))
    \<and> (pst_stale s = Some False \<longrightarrow> pp_dateKind prov = Some Exact
         \<and> of_int (now - t) < (maxAgeDays + 1) * of_int MS_PER_DAY)
    \<and> sn_stale (currentPslSnapshot dateParse now) \<noteq> Some False"
proof -
  define age where "age = (now - recorded) div MS_PER_DAY"
  have t: "now - recorded \<le> now - t" using assms(2) by (simp split: if_splits)
  have lo: "age * MS_PER_DAY \<le> now - recorded" and hi: "now - recorded < (age + 1) * MS_PER_DAY"
    using div_mult_mod_eq [of "now - recorded" MS_PER_DAY] pos_mod_bound [of MS_PER_DAY "now - recorded"]
      pos_mod_sign [of MS_PER_DAY "now - recorded"]
    by (simp_all add: age_def MS_PER_DAY_def distrib_right)
  have s: "s = (if of_int age > maxAgeDays then \<lparr>pst_stale = Some True, pst_ageDays = Some age\<rparr>
      else \<lparr>pst_stale = (if pp_dateKind prov = Some Exact then Some False else None), pst_ageDays = Some age\<rparr>)"
    using assms(1,3) by (simp add: pslOutdated_def age_def Let_def split: if_splits)
  have stale: "maxAgeDays * of_int MS_PER_DAY < of_int (now - t)" if "maxAgeDays < of_int age"
  proof -
    have "maxAgeDays * of_int MS_PER_DAY < of_int (age * MS_PER_DAY)"
      using that by (simp add: MS_PER_DAY_def)
    also have "\<dots> \<le> of_int (now - t)" using lo t by (simp only: of_int_le_iff)
    finally show ?thesis .
  qed
  have fresh: "of_int (now - recorded) < (maxAgeDays + 1) * of_int MS_PER_DAY" if "of_int age \<le> maxAgeDays"
  proof -
    have "of_int (now - recorded) < (of_int ((age + 1) * MS_PER_DAY) :: rat)"
      using hi by (simp only: of_int_less_iff)
    also have "\<dots> = (of_int age + 1) * of_int MS_PER_DAY" by simp
    also have "\<dots> \<le> (maxAgeDays + 1) * of_int MS_PER_DAY"
      using that by (intro mult_right_mono) (simp_all add: MS_PER_DAY_def)
    finally show ?thesis .
  qed
  have "sn_stale (currentPslSnapshot dateParse now) \<noteq> Some False"
    by (auto simp: currentPslSnapshot_def pslOutdated_def PSL_PROVENANCE_def Let_def split: option.splits)
  with stale fresh assms(2) show ?thesis by (auto simp: s)
qed

lemma pslOutdated_sound_witness:
  "pslOutdated (\<lambda>_. Some 0) 180 (200 * MS_PER_DAY) PSL_PROVENANCE
     = Inr \<lparr>pst_stale = Some True, pst_ageDays = Some 200\<rparr>
   \<and> 180 * of_int MS_PER_DAY < (of_int (200 * MS_PER_DAY - (- 5)) :: rat)"
proof -
  have s: "pslOutdated (\<lambda>_. Some 0) 180 (200 * MS_PER_DAY) PSL_PROVENANCE
     = Inr \<lparr>pst_stale = Some True, pst_ageDays = Some 200\<rparr>"
    by (simp add: pslOutdated_def parseSnapshotDate_def PSL_PROVENANCE_def Let_def MS_PER_DAY_def)
  moreover have "parseSnapshotDate (\<lambda>_. Some 0) (pp_pslListDate PSL_PROVENANCE) = Some 0"
    by (simp add: parseSnapshotDate_def PSL_PROVENANCE_def)
  ultimately show ?thesis
    using pslOutdated_sound [of "\<lambda>_. Some 0" PSL_PROVENANCE 0 "- 5" 180 "200 * MS_PER_DAY"]
    by (simp add: PSL_PROVENANCE_def)
qed

end
