(* ===== verification/Inspect.thy ===== *)
theory Inspect
  imports PolicyAxes Provenance
begin

text \<open>
  The synchronous entry point: result assembly (\<open>schema/serialize.ts\<close>) and \<open>inspect.ts\<close>, which reads
  the options, runs the structural scans over the raw tokens, parses, runs the detectors and the
  policy axes, and serializes. Checks are arguments here, each a function that may raise
  (\<open>None\<close>); the registry of the real checks is in \<open>Checks\<close>. An exception that leaves \<open>inspect\<close> is
  \<open>None\<close>. The properties cover every result: what is returned when, which codes it carries, that
  policy findings never move the score, that suppression never hides, that a failing check is named
  and leaves the score a lower bound.
\<close>

subsection \<open>schema/result.ts\<close>

record InspectResult =
  ir_schemaVersion :: string
  ir_status :: Status
  ir_input :: ustring
  ir_parsed :: "ParsedUrl option"
  ir_score :: "rat option"
  ir_severity :: "Severity option"
  ir_confidence :: rat
  ir_reasons :: "Reason list"
  ir_confusables :: "Confusable list"
  ir_checksRun :: "ustring list"
  ir_checksSkipped :: "ustring list"
  ir_dataVersions :: "(string \<times> string) list"
  ir_pslSnapshot :: PslSnapshot

definition SCHEMA_VERSION :: string where
  "SCHEMA_VERSION = ''1.14''"

definition WEIGHTS_VERSION :: string where
  "WEIGHTS_VERSION = ''1.23''"

definition DATA_VERSIONS :: "(string \<times> string) list" where
  "DATA_VERSIONS =
     [(''publicSuffixList'', ''tldts@7.4.10''),
      (''unicodeConfusables'', ''uts39-16.0.0-curated''),
      (''unicodeScripts'', ''ecma-unicode-property-escapes''),
      (''idna'', ''tr46@6.0.0''),
      (''fileExtensionTlds'', ''2026-06-19''),
      (''cloudMetadata'', ''2026-08-25-gcp-ipv6''),
      (''ipRanges'', ''iana-special-purpose-2026-07-25''),
      (''specialUseNames'', ''2026-08-25-rfc6761''),
      (''brands'', ''2026-07-26-watchlist''),
      (''weights'', WEIGHTS_VERSION)]"

subsection \<open>schema/serialize.ts\<close>

definition toReason :: "CollectedFinding \<Rightarrow> Reason" where
  "toReason f = \<lparr>rs_code = str (codeName (cf_code f)), rs_layer = rm_layer (reasonMeta (cf_code f)),
     rs_detail = cf_detail f, rs_weight = weightFor (cf_code f), rs_suppressed = False\<rparr>"

definition allConfusables :: "CollectedFinding list \<Rightarrow> Confusable list" where
  "allConfusables findings = concat (map (\<lambda>f. case cf_confusables f of None \<Rightarrow> [] | Some cs \<Rightarrow> cs) findings)"

definition buildInvalidResult ::
    "PslSnapshot \<Rightarrow> ustring \<Rightarrow> CollectedFinding list \<Rightarrow> ustring option \<Rightarrow> ustring list \<Rightarrow> InspectResult" where
  "buildInvalidResult snapshot input findings parseErrorDetail optionSkipped =
     (let hasFindings = (findings \<noteq> []);
          reasons = (if hasFindings then sortReasons (map toReason findings)
            else [\<lparr>rs_code = str ''parse_error'', rs_layer = Lexical,
              rs_detail = (case parseErrorDetail of Some d \<Rightarrow> d
                | None \<Rightarrow> str ''input is not a parseable URL or hostname''),
              rs_weight = 0, rs_suppressed = False\<rparr>])
      in \<lparr>ir_schemaVersion = SCHEMA_VERSION, ir_status = Invalid, ir_input = input, ir_parsed = None,
          ir_score = None, ir_severity = None, ir_confidence = 1, ir_reasons = reasons,
          ir_confusables = (if hasFindings then allConfusables findings else []),
          ir_checksRun = (if hasFindings then [str ''lexical''] else []),
          ir_checksSkipped = optionSkipped @ (if hasFindings then map str [''resolution'', ''reputation'']
            else map str [''lexical'', ''resolution'', ''reputation'']),
          ir_dataVersions = DATA_VERSIONS, ir_pslSnapshot = snapshot\<rparr>)"

definition buildOkResult ::
    "platform \<Rightarrow> PslSnapshot \<Rightarrow> InspectionContext \<Rightarrow> CollectedFinding list \<Rightarrow> ustring list \<Rightarrow>
     CollectedFinding list \<Rightarrow> bool \<Rightarrow> bool \<Rightarrow> bool \<Rightarrow> InspectResult" where
  "buildOkResult E snapshot ctx findings skippedDetectors policyFindings policyRan agentRan suppressRan =
     (let built = map toReason (findings @ policyFindings);
          reasons = sortReasons (applySuppressions built (rt_suppressReasons (cx_runtime ctx))
            (suppressionHostContext E (cx_registrableDomain ctx)));
          verdict = aggregate reasons
      in \<lparr>ir_schemaVersion = SCHEMA_VERSION, ir_status = Ok, ir_input = cx_input ctx,
          ir_parsed = Some (cx_parsed ctx), ir_score = Some (sc_score verdict),
          ir_severity = Some (sc_severity verdict), ir_confidence = 1, ir_reasons = reasons,
          ir_confusables = allConfusables findings,
          ir_checksRun = [str ''lexical''] @ (if policyRan then [str ''policy''] else [])
            @ (if agentRan then [str ''agent''] else []) @ (if suppressRan then [str ''suppression''] else []),
          ir_checksSkipped = skippedDetectors @ map str [''resolution'', ''reputation''],
          ir_dataVersions = DATA_VERSIONS, ir_pslSnapshot = snapshot\<rparr>)"

subsection \<open>detectors/types.ts and detectors/descriptor.ts\<close>

record ScanContext =
  sx_input :: ustring
  sx_prepared :: ustring
  sx_runtime :: RuntimeConfig
  sx_authority :: AuthorityRegion

record StructuralScan =
  ss_id :: string
  ss_run :: "ScanContext \<Rightarrow> CollectedFinding list option"

record Detector =
  dt_id :: string
  dt_agentGated :: bool
  dt_run :: "InspectionContext \<Rightarrow> CollectedFinding list option"

subsection \<open>inspect.ts\<close>

text \<open>
  The argument of \<open>inspect\<close>: a string, or another value by its \<open>typeof\<close> tag (\<open>null\<close> for null) and
  the outcome of \<open>String(value)\<close>, \<open>None\<close> when that raises.
\<close>

datatype input_value = StringInput ustring | NonString ustring "ustring option"

definition coerceInput :: "ustring option \<Rightarrow> ustring" where
  "coerceInput converted = (case converted of Some s \<Rightarrow> s | None \<Rightarrow> [])"

text \<open>
  The default of the parameter, \<open>rawOptions: InspectOptions = {}\<close>: an absent or undefined argument is
  the empty object, so it loses nothing and is not reported.
\<close>

definition callOptions :: "jsval \<Rightarrow> OptionIntake" where
  "callOptions rawOptions = intakeOptions (if rawOptions = Undefined then NO_OPTIONS else rawOptions)"

text \<open>
  The guarded loop that the structural scans and the detectors share: a check that raises adds its
  \<open>lexical:<id>\<close> token to the skip list and nothing to the findings.
\<close>

fun guardedLoop :: "('d \<Rightarrow> CollectedFinding list option) \<Rightarrow> ('d \<Rightarrow> string) \<Rightarrow> 'd list \<Rightarrow>
    CollectedFinding list \<times> ustring list \<Rightarrow> CollectedFinding list \<times> ustring list" where
  "guardedLoop run ident [] acc = acc"
| "guardedLoop run ident (d # ds) (findings, skipped) =
     (case run d of
        Some fs \<Rightarrow> guardedLoop run ident ds (findings @ fs, skipped)
      | None \<Rightarrow> guardedLoop run ident ds (findings, skipped @ [str (''lexical:'' @ ident d)]))"

text \<open>The policy part of \<open>inspect\<close>: findings, whether the channel ran, and the skip tokens.\<close>

definition runPolicyChannel ::
    "PolicyAxisDescriptor list \<Rightarrow> bool \<Rightarrow> InspectionContext \<Rightarrow> CollectedFinding list \<times> bool \<times> ustring list" where
  "runPolicyChannel axes configured ctx =
     (if configured then
        (let outcome = runPolicyWith axes ctx in
         (po_findings outcome, po_anyAxisRan outcome,
          map (\<lambda>axis. str (''policy:'' @ axis)) (po_skippedAxes outcome)))
      else ([], False, []))"

definition inspectParsed ::
    "Detector list \<Rightarrow> PolicyAxisDescriptor list \<Rightarrow> platform \<Rightarrow> PslSnapshot \<Rightarrow> InspectionContext \<Rightarrow>
     CollectedFinding list \<Rightarrow> ustring list \<Rightarrow> bool \<Rightarrow> bool \<Rightarrow> bool \<Rightarrow> InspectResult" where
  "inspectParsed detectors axes E snapshot ctx structural seeded agentMode configured suppressRan =
     (let active = filter (\<lambda>d. dt_agentGated d \<longrightarrow> agentMode) detectors;
          agentRan = (agentMode \<and> list_ex dt_agentGated detectors);
          (findings, skipped) = guardedLoop (\<lambda>d. dt_run d ctx) dt_id active (structural, seeded);
          (policyFindings, policyRan, policySkipped) = runPolicyChannel axes configured ctx
      in buildOkResult E snapshot ctx findings (skipped @ policySkipped) policyFindings policyRan
           agentRan suppressRan)"

definition inspectWith ::
    "StructuralScan list \<Rightarrow> Detector list \<Rightarrow> PolicyAxisDescriptor list \<Rightarrow> platform \<Rightarrow> PslSnapshot \<Rightarrow>
     input_value \<Rightarrow> jsval \<Rightarrow> InspectResult option" where
  "inspectWith scans detectors axes E snapshot value rawOptions =
     (let intake = callOptions rawOptions; optionSkipped = oi_skipped intake;
          options = oi_options intake
      in case value of
        NonString tag converted \<Rightarrow>
          Some (buildInvalidResult snapshot (coerceInput converted) []
            (Some (str ''input is not a string (got '' @ tag @ str '')'')) optionSkipped)
      | StringInput input \<Rightarrow> do {
          runtime \<leftarrow> normalizeOptions E options;
          let prepared = prepare input;
          let rawTokens = tokenizeRawUrl prepared;
          let scanCtx = \<lparr>sx_input = input, sx_prepared = prepared, sx_runtime = runtime,
                sx_authority = authorityRegion rawTokens\<rparr>;
          let (structural, structuralSkipped) = guardedLoop (\<lambda>s. ss_run s scanCtx) ss_id scans ([], []);
          case (if prepared = [] then None else parsePrepared E input runtime rawTokens) of
            None \<Rightarrow> Some (buildInvalidResult snapshot input structural
                      (describeParseFailure E rawTokens) optionSkipped)
          | Some ctx \<Rightarrow> do {
              agentMode \<leftarrow> getProp options (str ''agentMode'');
              configured \<leftarrow> policyConfigured options;
              suppressRan \<leftarrow> suppressConfigured options;
              Some (inspectParsed detectors axes E snapshot ctx structural
                (optionSkipped @ structuralSkipped) (agentMode = BoolVal True) configured suppressRan)
            }
        })"

subsection \<open>Lemmas\<close>

lemma guardedLoop_spec:
  "guardedLoop run ident ds (fs, sk) =
     (fs @ concat (List.map_filter run ds),
      sk @ map (\<lambda>d. str (''lexical:'' @ ident d)) (filter (\<lambda>d. run d = None) ds))"
  by (induction ds arbitrary: fs sk) (auto simp: List.map_filter_simps split: option.splits)

lemma toReason_weight [simp]: "rs_weight (toReason f) = weightFor (cf_code f)"
  by (simp add: toReason_def)

lemma weights_ok_built:
  "weights_ok (applySuppressions (map toReason fs) rules h)"
  using weightFor_bounds by (auto simp: weights_ok_def applySuppressions_def)

lemma weights_ok_sort [simp]: "weights_ok (sortReasons rs) \<longleftrightarrow> weights_ok rs"
  by (simp add: weights_ok_def sortReasons_def)

lemma applySuppressions_append:
  "applySuppressions (xs @ ys) rules h = applySuppressions xs rules h @ applySuppressions ys rules h"
  by (simp add: applySuppressions_def)

lemma applySuppressions_subseq:
  "subseq xs ys \<Longrightarrow> subseq (applySuppressions xs rules h) (applySuppressions ys rules h)"
  by (auto simp: applySuppressions_def intro: subseq_map)

lemma applySuppressions_codes: "map rs_code (applySuppressions rs rules h) = map rs_code rs"
  by (simp add: applySuppressions_def)

text \<open>The score of the sorted reasons: monotone in subsequences, and blind to reasons without weight.\<close>

lemma scoreOf_sorted_subseq:
  assumes "subseq xs ys" "weights_ok ys"
  shows "scoreOf (sortReasons xs) \<le> scoreOf (sortReasons ys)"
proof (rule scoreOf_antimono)
  show "aggregateLoop fl 1 (sortReasons ys) \<le> aggregateLoop fl 1 (sortReasons xs)"
    using assms reason_order.subseq_sort_by [OF assms(1)]
    by (intro b64.loop_subseq) (auto simp: sortReasons_def weights_ok_def)
qed

lemma scoreOf_sorted_positive:
  "scoreOf (sortReasons rs) = scoreOf (sortReasons (filter (\<lambda>r. 0 < rs_weight r) rs))"
  unfolding scoreOf_def sortReasons_def reason_order.filter_sort_by [symmetric] b64.loop_positive ..

text \<open>Findings of the built-in policy axes have policy codes, hence no weight.\<close>

lemma runPolicy_layer:
  assumes "f \<in> set (po_findings (runPolicy E ctx))"
  shows "rm_layer (reasonMeta (cf_code f)) = Policy"
proof -
  let ?codes = "[tld_denied, tld_not_allowlisted, host_denied, host_not_allowlisted, scheme_denied, port_denied]"
  have "set (map cf_code (runPortAxis E ctx)) \<subseteq> {port_denied}"
    unfolding port_axis_codes by (cases "cx_port ctx") (auto simp: Let_def)
  moreover have "set (map cf_code (runTldAxis E ctx)) \<union> set (map cf_code (runHostAxis ctx))
      \<union> set (map cf_code (runSchemeAxis E ctx)) \<subseteq> set ?codes"
    unfolding axis_codes Let_def by auto
  moreover have "cf_code f \<in> set (map cf_code (po_findings (runPolicy E ctx)))" using assms by simp
  ultimately have "cf_code f \<in> set ?codes"
    unfolding runPolicy_findings map_append set_append by auto
  then show ?thesis using policy_emits_layer by (auto simp only: list_all_iff)
qed

lemma policyChannel_weightless:
  "f \<in> set (fst (runPolicyChannel (POLICY_AXIS_DESCRIPTORS E) c ctx)) \<Longrightarrow> weightFor (cf_code f) = 0"
  using runPolicy_layer [of f E ctx] policy_layer_weight
  by (auto simp: runPolicyChannel_def runPolicy_def Let_def split: if_splits)

text \<open>The reasons of an \<open>ok\<close> result before sorting, and the result in terms of them.\<close>

definition okReasons ::
    "platform \<Rightarrow> InspectionContext \<Rightarrow> CollectedFinding list \<Rightarrow> Reason list" where
  "okReasons E ctx findings = applySuppressions (map toReason findings)
     (rt_suppressReasons (cx_runtime ctx)) (suppressionHostContext E (cx_registrableDomain ctx))"

lemma buildOkResult_sel [simp]:
  "ir_status (buildOkResult E sn ctx fs sk pf pr ag su) = Ok"
  "ir_parsed (buildOkResult E sn ctx fs sk pf pr ag su) = Some (cx_parsed ctx)"
  "ir_reasons (buildOkResult E sn ctx fs sk pf pr ag su) = sortReasons (okReasons E ctx (fs @ pf))"
  "ir_score (buildOkResult E sn ctx fs sk pf pr ag su) = Some (scoreOf (sortReasons (okReasons E ctx (fs @ pf))))"
  "ir_severity (buildOkResult E sn ctx fs sk pf pr ag su)
     = Some (severityForScore (scoreOf (sortReasons (okReasons E ctx (fs @ pf)))))"
  "ir_checksSkipped (buildOkResult E sn ctx fs sk pf pr ag su) = sk @ map str [''resolution'', ''reputation'']"
  "ir_checksRun (buildOkResult E sn ctx fs sk pf pr ag su) = [str ''lexical''] @ (if pr then [str ''policy''] else [])
     @ (if ag then [str ''agent''] else []) @ (if su then [str ''suppression''] else [])"
  by (simp_all add: buildOkResult_def okReasons_def aggregate_def Let_def)

lemma buildInvalidResult_sel [simp]:
  "ir_status (buildInvalidResult sn i fs d sk) = Invalid"
  "ir_parsed (buildInvalidResult sn i fs d sk) = None"
  "ir_score (buildInvalidResult sn i fs d sk) = None"
  "ir_severity (buildInvalidResult sn i fs d sk) = None"
  by (simp_all add: buildInvalidResult_def Let_def)

lemma okReasons_weights: "weights_ok (okReasons E ctx fs)"
  by (simp add: okReasons_def weights_ok_built)

lemma okReasons_append: "okReasons E ctx (xs @ ys) = okReasons E ctx xs @ okReasons E ctx ys"
  by (simp add: okReasons_def applySuppressions_append)

lemma okReasons_weightless:
  "\<forall>f \<in> set fs. weightFor (cf_code f) = 0 \<Longrightarrow> filter (\<lambda>r. 0 < rs_weight r) (okReasons E ctx fs) = []"
  by (auto simp: okReasons_def applySuppressions_def filter_empty_conv)

text \<open>The findings of the active detectors after the structural ones.\<close>

definition detectorFindings :: "Detector list \<Rightarrow> bool \<Rightarrow> InspectionContext \<Rightarrow> CollectedFinding list" where
  "detectorFindings detectors agentMode ctx =
     concat (List.map_filter (\<lambda>d. dt_run d ctx) (filter (\<lambda>d. dt_agentGated d \<longrightarrow> agentMode) detectors))"

lemma inspectParsed_sel:
  fixes dets axes E sn ctx st sk am cf su
  defines "r \<equiv> inspectParsed dets axes E sn ctx st sk am cf su"
    and "fs \<equiv> st @ detectorFindings dets am ctx @ fst (runPolicyChannel axes cf ctx)"
  shows "ir_status r = Ok" "ir_parsed r = Some (cx_parsed ctx)"
    "ir_reasons r = sortReasons (okReasons E ctx fs)"
    "ir_score r = Some (scoreOf (sortReasons (okReasons E ctx fs)))"
    "ir_severity r = Some (severityForScore (scoreOf (sortReasons (okReasons E ctx fs))))"
    "ir_checksSkipped r = sk @ map (\<lambda>d. str (''lexical:'' @ dt_id d))
        (filter (\<lambda>d. dt_run d ctx = None) (filter (\<lambda>d. dt_agentGated d \<longrightarrow> am) dets))
      @ snd (snd (runPolicyChannel axes cf ctx)) @ map str [''resolution'', ''reputation'']"
    "ir_checksRun r = [str ''lexical''] @ (if fst (snd (runPolicyChannel axes cf ctx)) then [str ''policy''] else [])
     @ (if am \<and> list_ex dt_agentGated dets then [str ''agent''] else [])
     @ (if su then [str ''suppression''] else [])"
  unfolding r_def fs_def
  by (simp_all add: inspectParsed_def guardedLoop_spec detectorFindings_def Let_def split: prod.splits)

definition scanContext :: "RuntimeConfig \<Rightarrow> ustring \<Rightarrow> ScanContext" where
  "scanContext runtime input = \<lparr>sx_input = input, sx_prepared = prepare input, sx_runtime = runtime,
     sx_authority = authorityRegion (tokenizeRawUrl (prepare input))\<rparr>"

definition scanFindings :: "StructuralScan list \<Rightarrow> RuntimeConfig \<Rightarrow> ustring \<Rightarrow> CollectedFinding list" where
  "scanFindings scans runtime input =
     concat (List.map_filter (\<lambda>s. ss_run s (scanContext runtime input)) scans)"

definition scanSkipped :: "StructuralScan list \<Rightarrow> RuntimeConfig \<Rightarrow> ustring \<Rightarrow> ustring list" where
  "scanSkipped scans runtime input = map (\<lambda>s. str (''lexical:'' @ ss_id s))
     (filter (\<lambda>s. ss_run s (scanContext runtime input) = None) scans)"

lemma inspectWith_string:
  "inspectWith scans dets axes E sn (StringInput input) opts =
     (let options = oi_options (callOptions opts); skipped = oi_skipped (callOptions opts) in
      case normalizeOptions E options of None \<Rightarrow> None
      | Some runtime \<Rightarrow>
         (case parse E input runtime of
            None \<Rightarrow> Some (buildInvalidResult sn input (scanFindings scans runtime input)
              (describeParseFailure E (tokenizeRawUrl (prepare input))) skipped)
          | Some ctx \<Rightarrow> do {
              am \<leftarrow> getProp options (str ''agentMode'');
              cf \<leftarrow> policyConfigured options;
              su \<leftarrow> suppressConfigured options;
              Some (inspectParsed dets axes E sn ctx (scanFindings scans runtime input)
                (skipped @ scanSkipped scans runtime input) (am = BoolVal True) cf su) }))"
  by (simp add: inspectWith_def Let_def guardedLoop_spec scanFindings_def scanSkipped_def
      scanContext_def parse_def split: option.split)

lemma inspectWith_nonstring:
  "inspectWith scans dets axes E sn (NonString tag c) opts =
     Some (buildInvalidResult sn (coerceInput c) []
       (Some (str ''input is not a string (got '' @ tag @ str '')'')) (oi_skipped (callOptions opts)))"
  by (simp add: inspectWith_def Let_def)

text \<open>Every returned result is an invalid one or comes from a parsed context.\<close>

lemma inspectWith_cases [consumes 1, case_names invalid ok]:
  assumes "inspectWith scans dets axes E sn v opts = Some r"
  obtains input fs d where "r = buildInvalidResult sn input fs d (oi_skipped (callOptions opts))"
    "\<And>s. v = StringInput s \<Longrightarrow> \<exists>runtime. normalizeOptions E (oi_options (callOptions opts)) = Some runtime
       \<and> parse E s runtime = None \<and> input = s \<and> fs = scanFindings scans runtime s"
  | input runtime ctx am cf su where "v = StringInput input"
    "normalizeOptions E (oi_options (callOptions opts)) = Some runtime" "parse E input runtime = Some ctx"
    "getProp (oi_options (callOptions opts)) (str ''agentMode'') = Some am"
    "policyConfigured (oi_options (callOptions opts)) = Some cf"
    "suppressConfigured (oi_options (callOptions opts)) = Some su"
    "r = inspectParsed dets axes E sn ctx (scanFindings scans runtime input)
       (oi_skipped (callOptions opts) @ scanSkipped scans runtime input) (am = BoolVal True) cf su"
proof (cases v)
  case (StringInput input)
  with assms obtain runtime where rt: "normalizeOptions E (oi_options (callOptions opts)) = Some runtime"
    by (auto simp: inspectWith_string Let_def split: option.splits)
  show ?thesis
  proof (cases "parse E input runtime")
    case None
    with assms rt StringInput show ?thesis
      by (intro that(1)) (auto simp: inspectWith_string Let_def)
  next
    case (Some ctx)
    with assms rt StringInput that(2) show ?thesis
      by (auto simp: inspectWith_string Let_def bind_eq_Some_conv)
  qed
next
  case (NonString tag c)
  with assms show ?thesis by (intro that(1)) (auto simp: inspectWith_nonstring)
qed

lemma detectorFindings_subseq:
  "list_all2 (\<lambda>d d'. d' = d \<or> d' = d\<lparr>dt_run := (\<lambda>_. None)\<rparr>) dets dets' \<Longrightarrow>
     subseq (detectorFindings dets' am ctx) (detectorFindings dets am ctx)"
proof (induction rule: list_all2_induct)
  case (Cons d ds d' ds')
  have "detectorFindings (d # ds) am ctx = (if dt_agentGated d \<longrightarrow> am
      then (case dt_run d ctx of None \<Rightarrow> [] | Some fs \<Rightarrow> fs) else []) @ detectorFindings ds am ctx" for d ds
    by (simp add: detectorFindings_def List.map_filter_simps split: option.split)
  with Cons show ?case
    by (auto intro: subseq_drop_many simp: subseq_append' split: option.split)
qed simp

text \<open>After a successful normalization the later reads of the same properties cannot raise.\<close>

lemma anyDefined_None: "anyDefined v keys = None \<Longrightarrow> list_ex (\<lambda>k. getProp v (str k) = None) keys"
  by (induction keys) (auto split: option.splits if_splits)

lemma normalizeOptions_reads:
  assumes "normalizeOptions E v = Some runtime"
  shows "policyConfigured v \<noteq> None" "suppressConfigured v \<noteq> None"
proof -
  have reads: "\<not> list_ex (\<lambda>key. getProp v (str key) = None)
     [''maxDecodeDepth'', ''idnPolicy'', ''idnAllowlist'', ''suppressReasons'', ''denyTlds'', ''allowTlds'',
      ''denyHosts'', ''allowHosts'', ''denySchemes'', ''allowSchemes'', ''denyPorts'', ''denyNonStandardPorts'']"
    using assms normalizeOptions_None_iff [of E v] by (metis option.distinct(1))
  then show "suppressConfigured v \<noteq> None" by (simp add: suppressConfigured_def)
  show "policyConfigured v \<noteq> None"
  proof
    assume "policyConfigured v = None"
    then have "list_ex (\<lambda>k. getProp v (str k) = None) POLICY_OPTION_KEYS"
      unfolding policyConfigured_def by (rule anyDefined_None)
    with reads show False
      by (simp del: not_None_eq add: POLICY_OPTION_KEYS_def POLICY_AXIS_DESCRIPTORS_def)
  qed
qed

lemma sortReasons_Nil_iff: "sortReasons rs = [] \<longleftrightarrow> rs = []"
  by (metis set_empty sortReasons_def set_sort_by)

subsection \<open>Properties\<close>

text \<open>
  C1: Every result has one of two shapes. An invalid result carries no score, no severity and no
  parsed view but at least one reason, so it can never be read as clean; an ok result carries a
  score between zero and one with the severity of its band and the parsed view. A non-string input
  is always invalid, and a string is ok exactly when it parses.
\<close>

theorem inspect_result_shape:
  assumes "inspectWith scans dets axes E sn v opts = Some r"
  shows "(if ir_status r = Ok then (\<exists>s. ir_score r = Some s \<and> 0 \<le> s \<and> s \<le> 1
             \<and> ir_severity r = Some (severityForScore s)) \<and> ir_parsed r \<noteq> None
          else ir_score r = None \<and> ir_severity r = None \<and> ir_parsed r = None \<and> ir_reasons r \<noteq> [])
     \<and> (ir_status r = Ok \<longleftrightarrow> (\<exists>s runtime ctx. v = StringInput s
          \<and> normalizeOptions E (oi_options (callOptions opts)) = Some runtime \<and> parse E s runtime = Some ctx))"
  using assms
proof (cases rule: inspectWith_cases)
  case (invalid input fs d)
  have "ir_reasons r \<noteq> []" by (simp add: invalid(1) buildInvalidResult_def Let_def sortReasons_Nil_iff)
  moreover have "ir_status r = Invalid" "ir_score r = None" "ir_severity r = None" "ir_parsed r = None"
    by (simp_all add: invalid(1))
  moreover have "\<not> (\<exists>s runtime ctx. v = StringInput s
      \<and> normalizeOptions E (oi_options (callOptions opts)) = Some runtime \<and> parse E s runtime = Some ctx)"
    using invalid(2) by fastforce
  ultimately show ?thesis by simp
next
  case (ok input runtime ctx am cf su)
  have range: "0 \<le> scoreOf (sortReasons (okReasons E ctx fs)) \<and> scoreOf (sortReasons (okReasons E ctx fs)) \<le> 1" for fs
    by (rule scoreOf_bounds) (simp add: okReasons_weights)
  with ok show ?thesis by (simp add: inspectParsed_sel)
qed

theorem inspect_result_shape_witness:
  "\<exists>r. inspectWith [] [] [] ascii_platform \<lparr>sn_date = None, sn_stale = None\<rparr> (NonString (str ''number'') None) Undefined = Some r
     \<and> ir_status r \<noteq> Ok \<and> ir_score r = None \<and> ir_reasons r \<noteq> []"
proof -
  let ?i = "inspectWith [] [] [] ascii_platform \<lparr>sn_date = None, sn_stale = None\<rparr> (NonString (str ''number'') None) Undefined"
  obtain r where r: "?i = Some r" by (simp add: inspectWith_nonstring)
  then have "ir_status r \<noteq> Ok" by (auto simp: inspectWith_nonstring)
  with r inspect_result_shape [OF r] show ?thesis by auto
qed

lemma inspectWith_None_iff:
  "inspectWith scans dets axes E sn v opts = None \<longleftrightarrow>
     (case v of NonString _ _ \<Rightarrow> False
      | StringInput input \<Rightarrow>
         (case normalizeOptions E (oi_options (callOptions opts)) of
            None \<Rightarrow> True
          | Some runtime \<Rightarrow> parse E input runtime \<noteq> None
              \<and> getProp (oi_options (callOptions opts)) (str ''agentMode'') = None))"
proof (cases v)
  case (StringInput input)
  show ?thesis
  proof (cases "normalizeOptions E (oi_options (callOptions opts))")
    case (Some runtime)
    with normalizeOptions_reads [OF Some] StringInput show ?thesis
      by (auto simp: inspectWith_string Let_def bind_eq_None_conv split: option.splits)
  qed (simp add: inspectWith_string StringInput Let_def)
qed (simp add: inspectWith_nonstring)

text \<open>An options argument of plain data: its own properties and elements, at any depth, can be read.\<close>

fun plainData :: "jsval \<Rightarrow> bool" where
  "plainData (Arr xs) = list_all plainData xs"
| "plainData (Obj listable props) =
     (listable \<and> list_all (\<lambda>p. case snd p of None \<Rightarrow> False | Some v \<Rightarrow> plainData v) props)"
| "plainData _ = True"

lemma plainData_own: "plainData v \<Longrightarrow> (k, r) \<in> set (ownProps v) \<Longrightarrow> \<exists>w. r = Some w \<and> plainData w"
  by (cases v) (auto simp: list_all_iff set_zip split: option.splits)

lemma plainData_read: "plainData v \<Longrightarrow> \<exists>w. getProp v key = Some w \<and> plainData w"
  unfolding getProp_def by (auto split: option.split dest!: map_of_SomeD dest: plainData_own)

lemma plainData_getProp [simp]: "plainData v \<Longrightarrow> (getProp v key = None) = False"
  using plainData_read [of v key] by auto

lemma plainData_element: "plainData v \<Longrightarrow> w \<in> set (arrayElements v) \<Longrightarrow> plainData w"
  by (cases v) (auto simp: list_all_iff)

lemma plainData_callOptions: "plainData opts \<Longrightarrow> plainData (oi_options (callOptions opts))"
  by (auto simp: callOptions_def intakeOptions_def NO_OPTIONS_def Let_def split: option.split)

lemma plainData_normalizes:
  assumes "plainData opts"
  shows "normalizeOptions E (oi_options (callOptions opts)) \<noteq> None"
proof -
  have "plainData (oi_options (callOptions opts))" by (rule plainData_callOptions [OF assms])
  then show ?thesis
    using plainData_read [of "oi_options (callOptions opts)" "str ''suppressReasons''"]
    unfolding normalizeOptions_None_iff
    by (auto simp: list_ex_iff plainData_element)
qed

lemma callOptions_reports:
  assumes "plainData opts"
  shows "opts \<noteq> Undefined \<and> \<not> is_object opts \<longrightarrow> str ''options'' \<in> set (oi_skipped (callOptions opts))"
    and "is_object opts \<and> getProp opts key = Some w \<and> w \<noteq> Undefined \<and> key \<notin> set RECOGNIZED_OPTION_KEYS
      \<longrightarrow> optionKeyToken key \<in> set (oi_skipped (callOptions opts))"
proof -
  show "opts \<noteq> Undefined \<and> \<not> is_object opts \<longrightarrow> str ''options'' \<in> set (oi_skipped (callOptions opts))"
    by (simp add: callOptions_def intakeOptions_def UNUSABLE_OPTIONS_TOKEN_def)
  have "key \<in> fst ` set (ownProps opts)" if "getProp opts key = Some w" "w \<noteq> Undefined"
    using that by (force simp: getProp_def split: option.splits dest!: map_of_SomeD)
  then show "is_object opts \<and> getProp opts key = Some w \<and> w \<noteq> Undefined \<and> key \<notin> set RECOGNIZED_OPTION_KEYS
      \<longrightarrow> optionKeyToken key \<in> set (oi_skipped (callOptions opts))"
    using assms by (cases opts) (auto simp: callOptions_def intakeOptions_tokens keyDropped_def intro!: imageI dest!: set_zip_leftD)
qed

lemma inspectWith_input:
  assumes "inspectWith scans dets axes E sn v opts = Some r"
  shows "ir_input r = (case v of StringInput s \<Rightarrow> s | NonString _ (Some s) \<Rightarrow> s | NonString _ None \<Rightarrow> [])"
proof (cases v)
  case (StringInput s)
  have "cx_input ctx = s" if "parse E s runtime = Some ctx" for runtime ctx
    using that by (auto simp: parse_def parsePrepared_def buildInspectionContext_def Let_def split: option.splits if_splits)
  moreover have "ir_input (inspectParsed dets axes E sn ctx st sk am cf su) = cx_input ctx" for ctx st sk am cf su
    by (simp add: inspectParsed_def buildOkResult_def Let_def split: prod.split)
  moreover have "ir_input (buildInvalidResult sn s fs d sk) = s" for fs d sk
    by (simp add: buildInvalidResult_def Let_def)
  ultimately show ?thesis
    using assms StringInput by (auto simp: inspectWith_string Let_def bind_eq_Some_conv split: option.splits)
qed (use assms in \<open>auto simp: inspectWith_nonstring coerceInput_def buildInvalidResult_def Let_def split: option.splits\<close>)

text \<open>
  C5: On plain data \<open>inspect\<close> never raises and loses no option silently. When no property read of the
  options argument raises, a result is returned for every value of the first argument, with any
  scans, detectors and axes, raising ones included; the result echoes the input; an argument that is
  neither an object nor undefined is reported; and every property that is not a recognized option
  and not undefined is named among the skipped checks, whether the input parses or not.
\<close>

theorem inspect_total_on_data:
  assumes "plainData opts"
  shows "\<exists>r. inspectWith scans dets axes E sn v opts = Some r
     \<and> ir_input r = (case v of StringInput s \<Rightarrow> s | NonString _ (Some s) \<Rightarrow> s | NonString _ None \<Rightarrow> [])
     \<and> (opts \<noteq> Undefined \<and> \<not> is_object opts \<longrightarrow> str ''options'' \<in> set (ir_checksSkipped r))
     \<and> (\<forall>key w. is_object opts \<and> getProp opts key = Some w \<and> w \<noteq> Undefined
           \<and> key \<notin> set RECOGNIZED_OPTION_KEYS \<longrightarrow> optionKeyToken key \<in> set (ir_checksSkipped r))"
proof -
  have "inspectWith scans dets axes E sn v opts \<noteq> None"
    using plainData_normalizes [OF assms] plainData_callOptions [OF assms]
    by (simp add: inspectWith_None_iff del: not_None_eq split: input_value.split option.split)
  then obtain r where r: "inspectWith scans dets axes E sn v opts = Some r" by blast
  have "set (oi_skipped (callOptions opts)) \<subseteq> set (ir_checksSkipped r)"
    using r by (cases rule: inspectWith_cases) (auto simp: inspectParsed_sel buildInvalidResult_def Let_def)
  with r callOptions_reports [OF assms] inspectWith_input [OF r] show ?thesis by fastforce
qed

theorem inspect_total_on_data_witness:
  "\<exists>r. inspectWith [\<lparr>ss_id = ''a'', ss_run = (\<lambda>_. None)\<rparr>] [] [] ascii_platform \<lparr>sn_date = None, sn_stale = None\<rparr>
       (StringInput (str ''http://a.b'')) (Obj True [(str ''allowHost'', Some (Arr [StrVal (str ''a.b'')]))]) = Some r
     \<and> ir_input r = str ''http://a.b'' \<and> optionKeyToken (str ''allowHost'') \<in> set (ir_checksSkipped r)"
proof -
  let ?o = "Obj True [(str ''allowHost'', Some (Arr [StrVal (str ''a.b'')]))]"
  have "plainData ?o" by simp
  from inspect_total_on_data [OF this, of "[\<lparr>ss_id = ''a'', ss_run = (\<lambda>_. None)\<rparr>]" "[]" "[]" ascii_platform
      "\<lparr>sn_date = None, sn_stale = None\<rparr>" "StringInput (str ''http://a.b'')"]
  obtain r where r: "inspectWith [\<lparr>ss_id = ''a'', ss_run = (\<lambda>_. None)\<rparr>] [] [] ascii_platform \<lparr>sn_date = None, sn_stale = None\<rparr>
       (StringInput (str ''http://a.b'')) ?o = Some r" "ir_input r = str ''http://a.b''"
    and named: "\<forall>key w. is_object ?o \<and> getProp ?o key = Some w \<and> w \<noteq> Undefined
      \<and> key \<notin> set RECOGNIZED_OPTION_KEYS \<longrightarrow> optionKeyToken key \<in> set (ir_checksSkipped r)" by auto
  have "str ''allowHost'' \<notin> set RECOGNIZED_OPTION_KEYS"
    by (simp add: RECOGNIZED_OPTION_KEYS_def SYNC_OPTION_KEYS_def ASYNC_ONLY_OPTION_KEYS_def str_def)
  with named have "optionKeyToken (str ''allowHost'') \<in> set (ir_checksSkipped r)" by (simp add: getProp_def)
  with r show ?thesis by blast
qed

text \<open>Without that condition it can raise: the reads of normalization are not guarded.\<close>

lemma inspect_raises_on_getter:
  "inspectWith scans dets axes E sn (StringInput s) (Obj True [(str ''maxDecodeDepth'', None)]) = None"
  by (simp add: inspectWith_None_iff callOptions_def intakeOptions_def Let_def normalizeOptions_def getProp_def)

text \<open>
  C2: The policy channel never moves the verdict: with the built-in axes and with no axes at all, any
  scans and detectors whatever, the same input and options give the same status, score and severity.
\<close>

theorem policy_never_scores:
  "map_option (\<lambda>r. (ir_status r, ir_score r, ir_severity r))
     (inspectWith scans dets (POLICY_AXIS_DESCRIPTORS E) E sn v opts)
   = map_option (\<lambda>r. (ir_status r, ir_score r, ir_severity r)) (inspectWith scans dets [] E sn v opts)"
proof (cases v)
  case (StringInput input)
  have "scoreOf (sortReasons (okReasons E ctx (fs @ fst (runPolicyChannel (POLICY_AXIS_DESCRIPTORS E) cf ctx))))
      = scoreOf (sortReasons (okReasons E ctx fs))" for ctx fs cf
    using policyChannel_weightless
    by (subst (1 2) scoreOf_sorted_positive) (simp add: okReasons_append okReasons_weightless)
  moreover have "fst (runPolicyChannel [] cf ctx) = []" for cf ctx
    by (simp add: runPolicyChannel_def runPolicyWith_def)
  ultimately show ?thesis
    by (simp add: StringInput inspectWith_string Let_def inspectParsed_sel
        option.map_comp comp_def flip: append_assoc split: option.split bind_split)
qed (simp add: inspectWith_nonstring)

text \<open>
  C3: A failing check leaves a lower bound. If some detectors are replaced by ones that raise, an ok
  result stays ok, its score never rises, and every replaced detector that was to run is named
  among the skipped checks.
\<close>

theorem failing_detectors_lower_bound:
  assumes weaker: "list_all2 (\<lambda>d d'. d' = d \<or> d' = d\<lparr>dt_run := (\<lambda>_. None)\<rparr>) dets dets'"
    and full: "inspectWith scans dets axes E sn v opts = Some r" "ir_score r = Some s"
  shows "\<exists>r' s'. inspectWith scans dets' axes E sn v opts = Some r' \<and> ir_score r' = Some s' \<and> s' \<le> s
     \<and> (\<forall>d \<in> set dets'. \<not> dt_agentGated d \<and> (\<forall>ctx. dt_run d ctx = None)
          \<longrightarrow> str (''lexical:'' @ dt_id d) \<in> set (ir_checksSkipped r'))"
  using full(1)
proof (cases rule: inspectWith_cases)
  case (invalid input fs d)
  with full(2) show ?thesis by simp
next
  case (ok input runtime ctx am cf su)
  let ?am = "am = BoolVal True"
  let ?r' = "inspectParsed dets' axes E sn ctx (scanFindings scans runtime input)
       (oi_skipped (callOptions opts) @ scanSkipped scans runtime input) ?am cf su"
  have r': "inspectWith scans dets' axes E sn v opts = Some ?r'"
    using ok by (simp add: inspectWith_string Let_def)
  have "subseq (detectorFindings dets' ?am ctx) (detectorFindings dets ?am ctx)"
    using weaker detectorFindings_subseq by blast
  then have sub: "subseq (okReasons E ctx (st @ detectorFindings dets' ?am ctx @ pf))
      (okReasons E ctx (st @ detectorFindings dets ?am ctx @ pf))" for st pf
    unfolding okReasons_def by (intro applySuppressions_subseq subseq_map) (simp add: list_emb_append_mono)
  have "ir_score ?r' = Some s' \<Longrightarrow> s' \<le> s" for s'
    using full(2) ok(7) scoreOf_sorted_subseq [OF sub okReasons_weights]
    by (auto simp: inspectParsed_sel)
  moreover have "str (''lexical:'' @ dt_id d) \<in> set (ir_checksSkipped ?r')"
    if "d \<in> set dets'" "\<not> dt_agentGated d" "\<forall>ctx. dt_run d ctx = None" for d
    using that by (simp add: inspectParsed_sel)
  ultimately show ?thesis using r' by (auto simp: inspectParsed_sel)
qed

definition sample_detector :: "string \<Rightarrow> ReasonCode \<Rightarrow> Detector" where
  "sample_detector name code = \<lparr>dt_id = name, dt_agentGated = False,
     dt_run = (\<lambda>ctx. Some [finding code (cx_host ctx)])\<rparr>"

lemma sample_inspect:
  obtains rt ctx r s where
    "normalizeOptions ascii_platform (oi_options (callOptions (Obj True []))) = Some rt"
    "parse ascii_platform (str ''http://a.b'') rt = Some ctx"
    "inspectWith scans dets axes ascii_platform sn (StringInput (str ''http://a.b'')) (Obj True []) = Some r"
    "ir_score r = Some s" "ir_status r = Ok"
proof -
  have n: "normalizeOptions ascii_platform (Obj True []) \<noteq> None"
    unfolding normalizeOptions_None_iff by (simp add: getProp_def)
  have o: "oi_options (callOptions (Obj True [])) = Obj True []" by (simp add: callOptions_def intakeOptions_def)
  obtain rt where rt: "normalizeOptions ascii_platform (Obj True []) = Some rt" using n by blast
  obtain ctx where "parse ascii_platform (str ''http://a.b'') rt = Some ctx"
    by (simp add: context_eval)
  then show thesis
    using normalizeOptions_reads [OF rt] that
    by (auto simp: inspectWith_string o rt Let_def inspectParsed_sel getProp_def)
qed

theorem failing_detectors_lower_bound_witness:
  "\<exists>r' s'. inspectWith [] [(sample_detector ''a'' mixed_script)\<lparr>dt_run := (\<lambda>_. None)\<rparr>] [] ascii_platform
       \<lparr>sn_date = None, sn_stale = None\<rparr> (StringInput (str ''http://a.b'')) (Obj True []) = Some r'
     \<and> ir_score r' = Some s' \<and> str ''lexical:a'' \<in> set (ir_checksSkipped r')"
proof -
  let ?d = "sample_detector ''a'' mixed_script" and ?sn = "\<lparr>sn_date = None, sn_stale = None\<rparr>"
  obtain r s where rs: "inspectWith [] [?d] [] ascii_platform ?sn (StringInput (str ''http://a.b'')) (Obj True []) = Some r"
    "ir_score r = Some s" by (rule sample_inspect)
  have "list_all2 (\<lambda>d d'. d' = d \<or> d' = d\<lparr>dt_run := (\<lambda>_. None)\<rparr>) [?d] [?d\<lparr>dt_run := (\<lambda>_. None)\<rparr>]" by simp
  from failing_detectors_lower_bound [OF this rs] show ?thesis by (auto simp: sample_detector_def)
qed

lemma anyDefined_Some:
  "anyDefined v keys = Some b \<Longrightarrow> b = (\<exists>key \<in> set keys. getProp v (str key) \<noteq> Some Undefined)"
  by (induction keys) (auto split: option.splits if_splits)

lemma runPolicyChannel_spec:
  "fst (runPolicyChannel axes c ctx) = (if c then concat (List.map_filter (\<lambda>a. ax_run a ctx) axes) else [])"
  "snd (snd (runPolicyChannel axes c ctx)) =
     (if c then map (\<lambda>a. str (''policy:'' @ ax_id a)) (filter (\<lambda>a. ax_run a ctx = None) axes) else [])"
  by (simp_all add: runPolicyChannel_def runPolicyWith_def policyLoop_spec Let_def)

lemma okReasons_map:
  "okReasons E ctx fs = map (\<lambda>f.
     let hit = (\<exists>rule \<in> set (rt_suppressReasons (cx_runtime ctx)). sr_code rule = str (codeName (cf_code f))
         \<and> (sr_host rule = None \<or> sr_host rule = suppressionHostContext E (cx_registrableDomain ctx)))
     in \<lparr>rs_code = str (codeName (cf_code f)), rs_layer = rm_layer (reasonMeta (cf_code f)), rs_detail = cf_detail f,
         rs_weight = (if hit then 0 else weightFor (cf_code f)), rs_suppressed = hit\<rparr>) fs"
  by (auto simp: okReasons_def applySuppressions_def toReason_def Let_def list_ex_iff ruleMatches_def)

text \<open>
  C4: Nothing that was found is hidden. The reasons of an ok result are, up to order, one for each
  finding of the scans, of the detectors that are not agent-gated or run because the agent flag is
  exactly true, and, when some policy option is defined, of the policy axes. Each reason has the
  code, layer and detail of its finding, and it is marked suppressed, with weight zero, exactly when
  a suppression rule matches it; otherwise it has the weight of its code. The skipped checks are the
  option tokens, the scans and detectors that raised and the failed axes, followed by the two layers
  that are never run offline.
\<close>

theorem inspect_reports_everything:
  assumes "normalizeOptions E (oi_options (callOptions opts)) = Some runtime" "parse E input runtime = Some ctx"
    and r: "inspectWith scans dets axes E sn (StringInput input) opts = Some r"
  shows "let options = oi_options (callOptions opts);
       active = filter (\<lambda>d. \<not> dt_agentGated d \<or> getProp options (str ''agentMode'') = Some (BoolVal True)) dets;
       consulted = (if \<exists>key \<in> set POLICY_OPTION_KEYS. getProp options (str key) \<noteq> Some Undefined then axes else []);
       findings = concat (List.map_filter (\<lambda>s. ss_run s (scanContext runtime input)) scans)
         @ concat (List.map_filter (\<lambda>d. dt_run d ctx) active)
         @ concat (List.map_filter (\<lambda>a. ax_run a ctx) consulted);
       suppressed = (\<lambda>f. \<exists>rule \<in> set (rt_suppressReasons (cx_runtime ctx)). sr_code rule = str (codeName (cf_code f))
         \<and> (sr_host rule = None \<or> sr_host rule = suppressionHostContext E (cx_registrableDomain ctx)))
     in mset (ir_reasons r) = image_mset (\<lambda>f.
          \<lparr>rs_code = str (codeName (cf_code f)), rs_layer = rm_layer (reasonMeta (cf_code f)), rs_detail = cf_detail f,
           rs_weight = (if suppressed f then 0 else weightFor (cf_code f)), rs_suppressed = suppressed f\<rparr>) (mset findings)
     \<and> ir_checksSkipped r = oi_skipped (callOptions opts)
        @ map (\<lambda>s. str (''lexical:'' @ ss_id s)) (filter (\<lambda>s. ss_run s (scanContext runtime input) = None) scans)
        @ map (\<lambda>d. str (''lexical:'' @ dt_id d)) (filter (\<lambda>d. dt_run d ctx = None) active)
        @ map (\<lambda>a. str (''policy:'' @ ax_id a)) (filter (\<lambda>a. ax_run a ctx = None) consulted)
        @ map str [''resolution'', ''reputation'']"
  using r
proof (cases rule: inspectWith_cases)
  case (invalid input' fs d)
  then show ?thesis using assms by auto
next
  case (ok input' runtime' ctx' am cf su)
  then have eq: "input' = input" "runtime' = runtime" "ctx' = ctx" using assms by auto
  have am: "getProp (oi_options (callOptions opts)) (str ''agentMode'') = Some (BoolVal True) \<longleftrightarrow> am = BoolVal True"
    using ok(4) by simp
  have cf: "cf = (\<exists>key \<in> set POLICY_OPTION_KEYS. getProp (oi_options (callOptions opts)) (str key) \<noteq> Some Undefined)"
    using ok(5) unfolding policyConfigured_def by (rule anyDefined_Some)
  have gate: "(\<lambda>d. \<not> dt_agentGated d \<or> b) = (\<lambda>d. dt_agentGated d \<longrightarrow> b)" for b by auto
  have sorted: "mset (sortReasons rs) = mset rs" for rs by (simp add: sortReasons_def)
  show ?thesis
    unfolding Let_def am cf [symmetric] gate ok(7) inspectParsed_sel eq sorted okReasons_map mset_map
    by (cases cf) (simp_all add: runPolicyChannel_spec detectorFindings_def scanFindings_def scanSkipped_def Let_def)
qed

theorem inspect_reports_everything_witness:
  "\<exists>r. inspectWith [] [sample_detector ''a'' mixed_script] [] ascii_platform
       \<lparr>sn_date = None, sn_stale = None\<rparr> (StringInput (str ''http://a.b'')) (Obj True []) = Some r
     \<and> image_mset rs_code (mset (ir_reasons r)) = {#str ''mixed_script''#}
     \<and> ir_checksSkipped r = map str [''resolution'', ''reputation'']"
proof -
  let ?d = "sample_detector ''a'' mixed_script" and ?sn = "\<lparr>sn_date = None, sn_stale = None\<rparr>"
  obtain rt ctx r s where rt: "normalizeOptions ascii_platform (oi_options (callOptions (Obj True []))) = Some rt"
    "parse ascii_platform (str ''http://a.b'') rt = Some ctx"
    and r: "inspectWith [] [?d] [] ascii_platform ?sn (StringInput (str ''http://a.b'')) (Obj True []) = Some r"
    by (rule sample_inspect)
  have "getProp (oi_options (callOptions (Obj True []))) key = Some Undefined" "oi_skipped (callOptions (Obj True [])) = []" for key
    by (simp_all add: callOptions_def intakeOptions_def getProp_def sortStrings_def dedup_def)
  with r inspect_reports_everything [OF rt r] show ?thesis
    by (auto simp: finding_def sample_detector_def Let_def List.map_filter_simps)
qed

end
