(* ===== verification/Regex.thy ===== *)
theory Regex
  imports Prelude
begin

text \<open>
  Regular expressions of the language, as far as the sources use them: character classes, sequence,
  alternation, repetition and the two anchors, under the search of \<open>RegExp.prototype.test\<close>. The
  matcher returns the suffixes that can remain after a match; a second, inductive definition says
  what a match is, and the matcher is shown to find every match.
\<close>

subsection \<open>Expressions\<close>

datatype rexp =
    Cls "nat \<Rightarrow> bool"
  | Bol
  | Eol
  | Eps
  | Sq rexp rexp
  | Alt rexp rexp
  | Rep rexp

text \<open>
  Matching at a position: \<open>b\<close> says that the position is the start of the input, \<open>s\<close> is the rest of
  the input. A repetition goes on only after an iteration that consumed something.
\<close>

function (sequential) rx :: "rexp \<Rightarrow> bool \<Rightarrow> ustring \<Rightarrow> (bool \<times> ustring) list" where
  "rx (Cls P) b s = (case s of [] \<Rightarrow> [] | c # s' \<Rightarrow> if P c then [(False, s')] else [])"
| "rx Bol b s = (if b then [(b, s)] else [])"
| "rx Eol b s = (if s = [] then [(b, s)] else [])"
| "rx Eps b s = [(b, s)]"
| "rx (Sq r q) b s = concat (map (\<lambda>(b', s'). rx q b' s') (rx r b s))"
| "rx (Alt r q) b s = rx r b s @ rx q b s"
| "rx (Rep r) b s =
     (b, s) # concat (map (\<lambda>(b', s'). if length s' < length s then rx (Rep r) b' s' else []) (rx r b s))"
  by pat_completeness auto
termination by (relation "measures [\<lambda>(r, b, s). size r, \<lambda>(r, b, s). length s]") auto

declare rx.simps(7) [simp del]

text \<open>\<open>r.test(s)\<close>: a match anywhere.\<close>

fun testFrom :: "rexp \<Rightarrow> bool \<Rightarrow> ustring \<Rightarrow> bool" where
  "testFrom r b [] = (rx r b [] \<noteq> [])"
| "testFrom r b (c # s) = (rx r b (c # s) \<noteq> [] \<or> testFrom r False s)"

definition test :: "rexp \<Rightarrow> ustring \<Rightarrow> bool" where
  "test r s = testFrom r True s"

text \<open>Common shapes.\<close>

fun Lit :: "ustring \<Rightarrow> rexp" where
  "Lit [] = Eps"
| "Lit (c # s) = Sq (Cls ((=) c)) (Lit s)"

fun seqs :: "rexp list \<Rightarrow> rexp" where
  "seqs [] = Eps"
| "seqs (r # rs) = Sq r (seqs rs)"

fun alts :: "rexp \<Rightarrow> rexp list \<Rightarrow> rexp" where
  "alts r [] = r"
| "alts r (q # qs) = Alt r (alts q qs)"

definition Opt :: "rexp \<Rightarrow> rexp" where "Opt r = Alt r Eps"
definition Rep1 :: "rexp \<Rightarrow> rexp" where "Rep1 r = Sq r (Rep r)"

subsection \<open>What a match is\<close>

inductive matches :: "rexp \<Rightarrow> bool \<Rightarrow> ustring \<Rightarrow> bool \<Rightarrow> ustring \<Rightarrow> bool" where
  Cls: "P c \<Longrightarrow> matches (Cls P) b (c # s) False s"
| Bol: "matches Bol True s True s"
| Eol: "matches Eol b [] b []"
| Eps: "matches Eps b s b s"
| Sq: "matches r b s b' s' \<Longrightarrow> matches q b' s' b'' s'' \<Longrightarrow> matches (Sq r q) b s b'' s''"
| AltL: "matches r b s b' s' \<Longrightarrow> matches (Alt r q) b s b' s'"
| AltR: "matches q b s b' s' \<Longrightarrow> matches (Alt r q) b s b' s'"
| Rep0: "matches (Rep r) b s b s"
| RepN: "matches r b s b' s' \<Longrightarrow> matches (Rep r) b' s' b'' s'' \<Longrightarrow> matches (Rep r) b s b'' s''"

lemma matches_length: "matches r b s b' s' \<Longrightarrow> length s' \<le> length s \<and> (length s' = length s \<longrightarrow> s' = s \<and> b' = b)"
  by (induction rule: matches.induct) auto

lemma rx_sound: "(b', s') \<in> set (rx r b s) \<Longrightarrow> matches r b s b' s'"
proof (induction r b s arbitrary: b' s' rule: rx.induct)
  case (7 r b s)
  from "7.prems" consider "b' = b" "s' = s"
    | c t where "(c, t) \<in> set (rx r b s)" "length t < length s" "(b', s') \<in> set (rx (Rep r) c t)"
    by (subst (asm) rx.simps(7)) (auto split: if_splits)
  then show ?case
  proof cases
    case 1
    then show ?thesis by (simp add: matches.Rep0)
  next
    case (2 c t)
    from "7.IH"(1) [OF 2(1)] "7.IH"(2) [OF 2(1) refl 2(2,3)] show ?thesis by (rule matches.RepN)
  qed
next
  case (5 r q b s)
  then obtain c t where ct: "(c, t) \<in> set (rx r b s)" "(b', s') \<in> set (rx q c t)" by auto
  from "5.IH"(1) [OF ct(1)] "5.IH"(2) [OF ct(1) refl ct(2)] show ?case by (rule matches.Sq)
qed (auto split: list.splits if_splits intro: matches.intros)

lemma rx_complete: "matches r b s b' s' \<Longrightarrow> (b', s') \<in> set (rx r b s)"
proof (induction rule: matches.induct)
  case (RepN r b s b' s' b'' s'')
  show ?case
  proof (cases "length s' < length s")
    case True
    then show ?thesis using RepN by (subst rx.simps(7)) force
  next
    case False
    then have "s' = s" "b' = b" using matches_length [OF RepN.hyps(1)] by auto
    then show ?thesis using RepN.IH by simp
  qed
next
  case (Rep0 r b s)
  then show ?case by (subst rx.simps(7)) simp
qed force+

lemma rx_nonempty: "rx r b s \<noteq> [] \<longleftrightarrow> (\<exists>b' s'. matches r b s b' s')"
  using rx_sound rx_complete by (metis last_in_set list.set(1) empty_iff surj_pair)

lemma testFrom_iff:
  "testFrom r b s \<longleftrightarrow> (\<exists>p t b' s'. s = p @ t \<and> matches r (b \<and> p = []) t b' s')"
proof (induction s arbitrary: b)
  case Nil
  then show ?case by (simp add: rx_nonempty)
next
  case (Cons c s)
  have cut: "(\<exists>p t. c # s = p @ t \<and> Q p t) \<longleftrightarrow> Q [] (c # s) \<or> (\<exists>p t. s = p @ t \<and> Q (c # p) t)" for Q
    by (auto simp: Cons_eq_append_conv)
  show ?case
    using cut [of "\<lambda>p t. \<exists>b' s'. matches r (b \<and> p = []) t b' s'"] by (simp add: rx_nonempty Cons.IH)
qed

lemma test_iff: "test r s \<longleftrightarrow> (\<exists>p t b' s'. s = p @ t \<and> matches r (p = []) t b' s')"
  by (simp add: test_def testFrom_iff)

end
