(* ===== verification/EnrichSchema.thy ===== *)
theory EnrichSchema
  imports Inspect Regex
begin

text \<open>
  The contract of an enrichment report (\<open>schema/enrich.ts\<close>): the runtime validators that decide what
  a source may hand to the runner. A report is a JSON value throughout, as in the code, which keeps
  keys it does not know; the typed views below are projections of validated reports.

  An object of the model is a plain object; a value with another prototype is \<open>OtherVal\<close>, which no
  validator accepts. Values are trees, so the cycle test of \<open>isJsonValue\<close> never fires: a cyclic value
  is not JSON and has no counterpart here. A property whose read raises makes \<open>isJsonValue\<close> fail
  before anything else is read, so that \<open>fld\<close> may ignore it.
\<close>

subsection \<open>Access to JSON values\<close>

definition fld :: "jsval \<Rightarrow> string \<Rightarrow> jsval" where
  "fld v key = (case getProp v (str key) of Some r \<Rightarrow> r | None \<Rightarrow> Undefined)"

definition obj :: "(string \<times> jsval) list \<Rightarrow> jsval" where
  "obj props = Obj True (map (\<lambda>(k, v). (str k, Some v)) props)"

abbreviation strval :: "string \<Rightarrow> jsval" where
  "strval s \<equiv> StrVal (str s)"

fun elements :: "jsval \<Rightarrow> jsval list" where
  "elements (Arr xs) = xs"
| "elements _ = []"

fun stringOf :: "jsval \<Rightarrow> ustring" where
  "stringOf (StrVal s) = s"
| "stringOf _ = []"

subsection \<open>schema/enrich.ts\<close>

datatype EnrichmentLayer = ResolutionLayer | ReputationLayer

fun layerName :: "EnrichmentLayer \<Rightarrow> string" where
  "layerName ResolutionLayer = ''resolution''"
| "layerName ReputationLayer = ''reputation''"

definition ENRICHMENT_SCHEMA_VERSION :: string where "ENRICHMENT_SCHEMA_VERSION = ''1.0''"

datatype EnrichmentFrameworkCauseCode =
    Caller_aborted | Prerequisite_unavailable | Invalid_plan | Dependency_cycle | Rate_limited
  | Backoff_active | Governor_denied | Governor_error | Timeout | Source_error | Invalid_output
  | Invalid_cached_output | Cache_key_error | Cache_ttl_error | Cache_read_error | Cache_write_error

fun causeName :: "EnrichmentFrameworkCauseCode \<Rightarrow> string" where
  "causeName Caller_aborted = ''caller-aborted''"
| "causeName Prerequisite_unavailable = ''prerequisite-unavailable''"
| "causeName Invalid_plan = ''invalid-plan''"
| "causeName Dependency_cycle = ''dependency-cycle''"
| "causeName Rate_limited = ''rate-limited''"
| "causeName Backoff_active = ''backoff-active''"
| "causeName Governor_denied = ''governor-denied''"
| "causeName Governor_error = ''governor-error''"
| "causeName Timeout = ''timeout''"
| "causeName Source_error = ''source-error''"
| "causeName Invalid_output = ''invalid-output''"
| "causeName Invalid_cached_output = ''invalid-cached-output''"
| "causeName Cache_key_error = ''cache-key-error''"
| "causeName Cache_ttl_error = ''cache-ttl-error''"
| "causeName Cache_read_error = ''cache-read-error''"
| "causeName Cache_write_error = ''cache-write-error''"

fun isRecord :: "jsval \<Rightarrow> bool" where
  "isRecord (Obj _ _) = True"
| "isRecord _ = False"

fun isNonEmptyString :: "jsval \<Rightarrow> bool" where
  "isNonEmptyString (StrVal s) = (trim s \<noteq> [])"
| "isNonEmptyString _ = False"

fun isString :: "jsval \<Rightarrow> bool" where
  "isString (StrVal _) = True"
| "isString _ = False"

fun isBoolean :: "jsval \<Rightarrow> bool" where
  "isBoolean (BoolVal _) = True"
| "isBoolean _ = False"

fun isArray :: "jsval \<Rightarrow> bool" where
  "isArray (Arr _) = True"
| "isArray _ = False"

fun isJsonValue :: "jsval \<Rightarrow> bool" where
  "isJsonValue Null = True"
| "isJsonValue (StrVal _) = True"
| "isJsonValue (BoolVal _) = True"
| "isJsonValue (NumVal (Finite _)) = True"
| "isJsonValue (NumVal _) = False"
| "isJsonValue (Arr xs) = list_all isJsonValue xs"
| "isJsonValue (Obj enumerable props) =
     (enumerable \<and> list_all (\<lambda>p. case snd p of Some v \<Rightarrow> isJsonValue v | None \<Rightarrow> False) props)"
| "isJsonValue Undefined = False"
| "isJsonValue (OtherVal _) = False"

definition isEnrichmentLayer :: "jsval \<Rightarrow> bool" where
  "isEnrichmentLayer v \<longleftrightarrow> v = strval ''resolution'' \<or> v = strval ''reputation''"

text \<open>\<open>/^\d{4}-\d{2}-\d{2}T\d{2}:\d{2}:\d{2}(?:\.\d+)?(?:Z|[+-]\d{2}:\d{2})$/\<close>; \<open>dateParse\<close> is \<open>Date.parse\<close>.\<close>

definition dd :: rexp where "dd = Sq (Cls is_digit) (Cls is_digit)"

definition ISO_INSTANT :: rexp where
  "ISO_INSTANT = seqs [Bol, dd, dd, Lit (str ''-''), dd, Lit (str ''-''), dd, Lit (str ''T''), dd, Lit (str '':''), dd,
     Lit (str '':''), dd, Opt (Sq (Lit (str ''.'')) (Rep1 (Cls is_digit))),
     Alt (Lit (str ''Z'')) (seqs [Cls (\<lambda>c. c = 43 \<or> c = 45), dd, Lit (str '':''), dd]), Eol]"

definition isIsoInstant :: "(ustring \<Rightarrow> int option) \<Rightarrow> jsval \<Rightarrow> bool" where
  "isIsoInstant dateParse v = (case v of StrVal s \<Rightarrow> test ISO_INSTANT s \<and> dateParse s \<noteq> None | _ \<Rightarrow> False)"

definition isPayload :: "jsval \<Rightarrow> bool" where
  "isPayload v \<longleftrightarrow> isRecord v \<and> isJsonValue v"

definition isCause :: "jsval \<Rightarrow> bool" where
  "isCause v \<longleftrightarrow> isRecord v \<and> isNonEmptyString (fld v ''code'')
     \<and> (fld v ''message'' = Undefined \<or> isString (fld v ''message''))
     \<and> (fld v ''retryable'' = Undefined \<or> isBoolean (fld v ''retryable''))
     \<and> (fld v ''details'' = Undefined \<or> isPayload (fld v ''details''))"

definition isFreshness :: "(ustring \<Rightarrow> int option) \<Rightarrow> jsval \<Rightarrow> bool" where
  "isFreshness dateParse v \<longleftrightarrow> isRecord v
     \<and> fld v ''status'' \<in> {strval ''fresh'', strval ''stale'', strval ''unknown''}
     \<and> (fld v ''expiresAt'' = Null \<or> isIsoInstant dateParse (fld v ''expiresAt''))"

definition isProvenanceRef :: "jsval \<Rightarrow> bool" where
  "isProvenanceRef v \<longleftrightarrow> isRecord v \<and> isNonEmptyString (fld v ''name'')
     \<and> (fld v ''version'' = Undefined \<or> isNonEmptyString (fld v ''version''))
     \<and> (fld v ''url'' = Undefined \<or> isNonEmptyString (fld v ''url''))"

definition isProvenance :: "jsval \<Rightarrow> bool" where
  "isProvenance v =
     (if \<not> isRecord v then False
      else if fld v ''kind'' = strval ''declared'' then
        isProvenanceRef (fld v ''source'') \<and> (fld v ''data'' = Null \<or> isProvenanceRef (fld v ''data''))
      else if fld v ''kind'' = strval ''legacy-incomplete'' \<or> fld v ''kind'' = strval ''unavailable'' then
        fld v ''source'' = Null \<and> fld v ''data'' = Null
      else False)"

definition isSubject :: "jsval \<Rightarrow> bool" where
  "isSubject v \<longleftrightarrow> isRecord v \<and> (fld v ''kind'' = strval ''url'' \<or> fld v ''kind'' = strval ''host'')
     \<and> isString (fld v ''value'')"

definition isConfusable :: "jsval \<Rightarrow> bool" where
  "isConfusable v \<longleftrightarrow> isRecord v \<and> isString (fld v ''char'') \<and> isNonEmptyString (fld v ''codepoint'')
     \<and> isNonEmptyString (fld v ''confusableWith'')
     \<and> fld v ''component'' \<in> {strval ''host'', strval ''path'', strval ''query''}
     \<and> nonNegativeInteger (fld v ''position'') \<noteq> None"

text \<open>\<open>Object.hasOwn(REASON_CODES, code)\<close>, with the code it names.\<close>

definition reasonCodeOf :: "ustring \<Rightarrow> ReasonCode option" where
  "reasonCodeOf s = find (\<lambda>c. str (codeName c) = s) (map fst REASON_CODES)"

fun confidenceOk :: "jsval \<Rightarrow> bool" where
  "confidenceOk Undefined = True"
| "confidenceOk (NumVal (Finite q)) = (0 \<le> q \<and> q \<le> 1)"
| "confidenceOk _ = False"

definition isFinding :: "jsval \<Rightarrow> bool" where
  "isFinding v \<longleftrightarrow> isRecord v \<and> isNonEmptyString (fld v ''code'') \<and> reasonCodeOf (stringOf (fld v ''code'')) \<noteq> None
     \<and> isString (fld v ''detail'') \<and> confidenceOk (fld v ''confidence'')
     \<and> (fld v ''confusables'' = Undefined
        \<or> isArray (fld v ''confusables'') \<and> list_all isConfusable (elements (fld v ''confusables'')))"

definition isEvidence :: "(ustring \<Rightarrow> int option) \<Rightarrow> jsval \<Rightarrow> bool" where
  "isEvidence dateParse v \<longleftrightarrow> isRecord v \<and> isNonEmptyString (fld v ''type'') \<and> isSubject (fld v ''subject'')
     \<and> isIsoInstant dateParse (fld v ''observedAt'') \<and> isProvenance (fld v ''provenance'')
     \<and> isFreshness dateParse (fld v ''freshness'') \<and> isPayload (fld v ''payload'')"

text \<open>The last part of \<open>isEnrichmentOutcome\<close>: what each status requires.\<close>

definition statusOk :: "jsval \<Rightarrow> bool" where
  "statusOk v =
     (if fld v ''status'' = strval ''success'' then
        fld v ''cause'' = Undefined \<and> (elements (fld v ''findings'') \<noteq> [] \<or> elements (fld v ''evidence'') \<noteq> [])
      else if fld v ''status'' = strval ''no-hit'' then
        fld v ''cause'' = Undefined \<and> elements (fld v ''findings'') = []
      else if fld v ''status'' = strval ''skipped'' \<or> fld v ''status'' = strval ''failure'' then
        elements (fld v ''findings'') = [] \<and> isCause (fld v ''cause'')
      else False)"

definition isEnrichmentOutcome :: "(ustring \<Rightarrow> int option) \<Rightarrow> (ustring \<times> EnrichmentLayer) option \<Rightarrow> jsval \<Rightarrow> bool" where
  "isEnrichmentOutcome dateParse expected v \<longleftrightarrow>
     isRecord v \<and> isNonEmptyString (fld v ''sourceId'') \<and> isEnrichmentLayer (fld v ''layer'')
     \<and> (case expected of None \<Rightarrow> True
         | Some (sourceId, layer) \<Rightarrow> fld v ''sourceId'' = StrVal sourceId \<and> fld v ''layer'' = strval (layerName layer))
     \<and> isSubject (fld v ''subject'') \<and> isIsoInstant dateParse (fld v ''observedAt'')
     \<and> isProvenance (fld v ''provenance'') \<and> isFreshness dateParse (fld v ''freshness'')
     \<and> isArray (fld v ''evidence'') \<and> list_all (isEvidence dateParse) (elements (fld v ''evidence''))
     \<and> isArray (fld v ''findings'') \<and> list_all isFinding (elements (fld v ''findings''))
     \<and> statusOk v"

definition isEnrichmentReport :: "(ustring \<Rightarrow> int option) \<Rightarrow> jsval \<Rightarrow> (ustring \<times> EnrichmentLayer) option \<Rightarrow> bool" where
  "isEnrichmentReport dateParse v expected \<longleftrightarrow>
     isRecord v \<and> isJsonValue v \<and> fld v ''schemaVersion'' = strval ENRICHMENT_SCHEMA_VERSION
     \<and> isArray (fld v ''outcomes'') \<and> elements (fld v ''outcomes'') \<noteq> []
     \<and> list_all (isEnrichmentOutcome dateParse expected) (elements (fld v ''outcomes''))"

definition isEnricherFindingArray :: "jsval \<Rightarrow> bool" where
  "isEnricherFindingArray v \<longleftrightarrow> isArray v \<and> isJsonValue v \<and> list_all isFinding (elements v)"

subsection \<open>Reading objects\<close>

declare str_inject [simp]

lemma fld_obj [simp]: "fld (obj props) k = (case map_of props k of Some v \<Rightarrow> v | None \<Rightarrow> Undefined)"
proof -
  have "map_of (map (\<lambda>(k, v). (str k, Some v)) props) (str k) = map_option Some (map_of props k)"
    by (induction props) auto
  then show ?thesis by (simp add: fld_def obj_def getProp_def split: option.split)
qed

end
