(* ===== verification/Enrichment.thy ===== *)
theory Enrichment
  imports Options
begin

text \<open>
  The two stateful services of the asynchronous pipeline: the per-source governor
  (\<open>enrichment-governor.ts\<close>: token bucket and exponential backoff) and the result cache
  (\<open>enrichment-cache.ts\<close>: entries with an absolute expiry, evicted on the read that notices). The
  clock is injectable in the code and an argument of every operation here; a token count is a
  binary64 value. Both services are maps whose operations touch one key; the locale \<open>keyed_machine\<close>
  states that contract and carries the proof that sources do not influence each other. The
  governor's properties are its state invariant, the burst limit and the backoff window; the cache
  is shown to refine a store that never evicts.
\<close>

subsection \<open>Machines keyed by a source\<close>

fun runOps :: "('e \<Rightarrow> 'm \<Rightarrow> 'd \<times> 'm) \<Rightarrow> 'e list \<Rightarrow> 'm \<Rightarrow> 'd list \<times> 'm" where
  "runOps op [] m = ([], m)"
| "runOps op (e # es) m =
     (let (d, m') = op e m; (ds, m'') = runOps op es m' in (d # ds, m''))"

lemma runOps_snoc:
  "runOps op (es @ [e]) m =
     (fst (runOps op es m) @ [fst (op e (snd (runOps op es m)))], snd (op e (snd (runOps op es m))))"
  by (induction es arbitrary: m) (simp_all add: case_prod_beta Let_def)

lemma length_runOps [simp]: "length (fst (runOps op es m)) = length es"
  by (induction es arbitrary: m) (simp_all add: case_prod_beta Let_def)

locale keyed_machine =
  fixes key :: "'e \<Rightarrow> 'k" and op :: "'e \<Rightarrow> ('k \<rightharpoonup> 's) \<Rightarrow> 'd \<times> ('k \<rightharpoonup> 's)"
  assumes local: "m (key e) = m' (key e) \<Longrightarrow>
      fst (op e m) = fst (op e m') \<and> snd (op e m) (key e) = snd (op e m') (key e)"
    and frame: "k \<noteq> key e \<Longrightarrow> snd (op e m) k = m k"
begin

text \<open>What one key sees of a run is the run of its own events.\<close>

lemma run_projection:
  "m k = m' k \<Longrightarrow>
     map snd (filter (\<lambda>(e, d). key e = k) (zip es (fst (runOps op es m))))
       = fst (runOps op (filter (\<lambda>e. key e = k) es) m')
     \<and> snd (runOps op es m) k = snd (runOps op (filter (\<lambda>e. key e = k) es) m') k"
proof (induction es arbitrary: m m')
  case (Cons e es)
  show ?case
  proof (cases "key e = k")
    case True
    with Cons.prems local [of m e m'] have eq: "fst (op e m) = fst (op e m')" "snd (op e m) k = snd (op e m') k"
      by auto
    show ?thesis using Cons.IH [of "snd (op e m)" "snd (op e m')"] eq True
      by (auto simp: case_prod_beta Let_def)
  next
    case False
    then have "snd (op e m) k = m' k" using frame [of k e m] Cons.prems by simp
    then show ?thesis using Cons.IH [of "snd (op e m)" m'] False by (auto simp: case_prod_beta Let_def)
  qed
qed simp

end

subsection \<open>enrichment-governor.ts\<close>

datatype GovernorDenialCause = RateLimited | BackoffActive

text \<open>The optional \<open>timeoutMs\<close> of an admission: a budget, the explicit opt-out null, or omitted.\<close>

datatype timeout_policy = TimeoutMs rat | TimeoutOptOut | TimeoutOmitted

datatype GovernorDecision = Deny GovernorDenialCause | Run timeout_policy

datatype timeout_config = TimeoutUnset | TimeoutNull | TimeoutNum jsnum

record EnrichmentGovernorConfig =
  gc_defaultTimeoutMs :: timeout_config
  gc_capacity :: "jsnum option"
  gc_refillIntervalMs :: "jsnum option"
  gc_backoffBaseMs :: "jsnum option"
  gc_backoffMaxMs :: "jsnum option"

record SourceState =
  so_tokens :: rat
  so_lastRefill :: rat
  so_consecutiveFailures :: nat
  so_backoffUntil :: rat

definition DEFAULT_TIMEOUT_MS :: rat where "DEFAULT_TIMEOUT_MS = 5000"
definition DEFAULT_CAPACITY :: rat where "DEFAULT_CAPACITY = 10"
definition DEFAULT_REFILL_INTERVAL_MS :: rat where "DEFAULT_REFILL_INTERVAL_MS = 1000"
definition DEFAULT_BACKOFF_BASE_MS :: rat where "DEFAULT_BACKOFF_BASE_MS = 1000"
definition DEFAULT_BACKOFF_MAX_MS :: rat where "DEFAULT_BACKOFF_MAX_MS = 30000"

definition positiveOr :: "jsnum option \<Rightarrow> rat \<Rightarrow> rat" where
  "positiveOr value fallback =
     (case value of Some (Finite v) \<Rightarrow> if v > 0 then v else fallback | _ \<Rightarrow> fallback)"

text \<open>The readonly fields the constructor computes; \<open>null\<close> is the \<open>None\<close> of the timeout.\<close>

record governor =
  gv_defaultTimeoutMs :: "jsnum option"
  gv_capacity :: rat
  gv_refillIntervalMs :: jsnum
  gv_backoffBaseMs :: rat
  gv_backoffMaxMs :: rat

definition newGovernor :: "EnrichmentGovernorConfig \<Rightarrow> governor" where
  "newGovernor config =
     \<lparr>gv_defaultTimeoutMs = (case gc_defaultTimeoutMs config of
          TimeoutUnset \<Rightarrow> Some (Finite DEFAULT_TIMEOUT_MS) | TimeoutNull \<Rightarrow> None | TimeoutNum n \<Rightarrow> Some n),
      gv_capacity = positiveOr (gc_capacity config) DEFAULT_CAPACITY,
      gv_refillIntervalMs = (case gc_refillIntervalMs config of
          None \<Rightarrow> Finite DEFAULT_REFILL_INTERVAL_MS | Some n \<Rightarrow> n),
      gv_backoffBaseMs = positiveOr (gc_backoffBaseMs config) DEFAULT_BACKOFF_BASE_MS,
      gv_backoffMaxMs = positiveOr (gc_backoffMaxMs config) DEFAULT_BACKOFF_MAX_MS\<rparr>"

type_synonym governor_states = "ustring \<rightharpoonup> SourceState"

definition stateFor :: "governor \<Rightarrow> rat \<Rightarrow> SourceState option \<Rightarrow> SourceState" where
  "stateFor g now stored =
     (case stored of
        Some s \<Rightarrow> s
      | None \<Rightarrow> \<lparr>so_tokens = gv_capacity g, so_lastRefill = now, so_consecutiveFailures = 0, so_backoffUntil = 0\<rparr>)"

definition refill :: "governor \<Rightarrow> rat \<Rightarrow> SourceState \<Rightarrow> SourceState" where
  "refill g now s =
     (case gv_refillIntervalMs g of
        Finite interval \<Rightarrow>
          if interval \<le> 0 then s\<lparr>so_lastRefill := now\<rparr>
          else (let elapsed = fl (now - so_lastRefill s) in
            if elapsed \<le> 0 then s
            else s\<lparr>so_tokens := min (gv_capacity g) (fl (so_tokens s + fl (elapsed / interval))),
                   so_lastRefill := now\<rparr>)
      | _ \<Rightarrow> s\<lparr>so_lastRefill := now\<rparr>)"

definition admittedTimeout :: "governor \<Rightarrow> timeout_policy" where
  "admittedTimeout g =
     (case gv_defaultTimeoutMs g of
        None \<Rightarrow> TimeoutOptOut
      | Some (Finite t) \<Rightarrow> if t > 0 then TimeoutMs t else TimeoutOmitted
      | Some _ \<Rightarrow> TimeoutOmitted)"

definition admit :: "governor \<Rightarrow> rat \<Rightarrow> ustring \<Rightarrow> governor_states \<Rightarrow> GovernorDecision \<times> governor_states" where
  "admit g now token states =
     (let s = stateFor g now (states token) in
      if so_backoffUntil s > now then (Deny BackoffActive, states(token \<mapsto> s))
      else (let s' = refill g now s in
        if so_tokens s' < 1 then (Deny RateLimited, states(token \<mapsto> s'))
        else (Run (admittedTimeout g), states(token \<mapsto> s'\<lparr>so_tokens := fl (so_tokens s' - 1)\<rparr>))))"

definition recordSuccess :: "governor \<Rightarrow> rat \<Rightarrow> ustring \<Rightarrow> governor_states \<Rightarrow> governor_states" where
  "recordSuccess g now token states =
     states(token \<mapsto> (stateFor g now (states token))\<lparr>so_consecutiveFailures := 0, so_backoffUntil := 0\<rparr>)"

text \<open>
  The window after the \<open>n\<close>-th consecutive failure: \<open>2 ** (n - 1)\<close> is infinite from \<open>2\<^sup>1\<^sup>0\<^sup>2\<^sup>4\<close> on, and an
  infinite product is capped like a large one.
\<close>

definition backoffWindow :: "governor \<Rightarrow> nat \<Rightarrow> rat" where
  "backoffWindow g failures =
     (if failures - 1 \<ge> 1024 then gv_backoffMaxMs g
      else min (fl (gv_backoffBaseMs g * 2 ^ (failures - 1))) (gv_backoffMaxMs g))"

definition recordFailure :: "governor \<Rightarrow> rat \<Rightarrow> ustring \<Rightarrow> governor_states \<Rightarrow> governor_states" where
  "recordFailure g now token states =
     (let s = stateFor g now (states token); failures = so_consecutiveFailures s + 1 in
      states(token \<mapsto> s\<lparr>so_consecutiveFailures := failures,
                       so_backoffUntil := fl (now + backoffWindow g failures)\<rparr>))"

text \<open>A call on the governor, with the time its clock gives.\<close>

datatype governor_call = CallAdmit rat ustring | CallSuccess rat ustring | CallFailure rat ustring

fun callToken :: "governor_call \<Rightarrow> ustring" where
  "callToken (CallAdmit _ t) = t"
| "callToken (CallSuccess _ t) = t"
| "callToken (CallFailure _ t) = t"

fun governorCall :: "governor \<Rightarrow> governor_call \<Rightarrow> governor_states \<Rightarrow> GovernorDecision option \<times> governor_states" where
  "governorCall g (CallAdmit now t) states = (let (d, states') = admit g now t states in (Some d, states'))"
| "governorCall g (CallSuccess now t) states = (None, recordSuccess g now t states)"
| "governorCall g (CallFailure now t) states = (None, recordFailure g now t states)"

subsection \<open>enrichment-cache.ts\<close>

record 'r CacheEntry =
  ce_report :: 'r
  ce_expiresAt :: rat

definition cacheGet :: "rat \<Rightarrow> ustring \<Rightarrow> (ustring \<rightharpoonup> 'r CacheEntry) \<Rightarrow> 'r option \<times> (ustring \<rightharpoonup> 'r CacheEntry)" where
  "cacheGet now key store =
     (case store key of
        None \<Rightarrow> (None, store)
      | Some entry \<Rightarrow>
          if now \<ge> ce_expiresAt entry then (None, store(key := None)) else (Some (ce_report entry), store))"

definition cacheSet :: "rat \<Rightarrow> ustring \<Rightarrow> 'r \<Rightarrow> jsnum \<Rightarrow> (ustring \<rightharpoonup> 'r CacheEntry) \<Rightarrow> (ustring \<rightharpoonup> 'r CacheEntry)" where
  "cacheSet now key report ttlMs store =
     (case ttlMs of
        Finite ttl \<Rightarrow> if ttl \<le> 0 then store
                      else store(key \<mapsto> \<lparr>ce_report = report, ce_expiresAt = fl (now + ttl)\<rparr>)
      | _ \<Rightarrow> store)"

datatype 'r cache_call = CallGet rat ustring | CallSet rat ustring 'r jsnum

fun cacheKey :: "'r cache_call \<Rightarrow> ustring" where
  "cacheKey (CallGet _ k) = k"
| "cacheKey (CallSet _ k _ _) = k"

fun cacheTime :: "'r cache_call \<Rightarrow> rat" where
  "cacheTime (CallGet t _) = t"
| "cacheTime (CallSet t _ _ _) = t"

fun cacheCall :: "'r cache_call \<Rightarrow> (ustring \<rightharpoonup> 'r CacheEntry) \<Rightarrow> 'r option \<times> (ustring \<rightharpoonup> 'r CacheEntry)" where
  "cacheCall (CallGet now k) store = cacheGet now k store"
| "cacheCall (CallSet now k r ttl) store = (None, cacheSet now k r ttl store)"

subsection \<open>Both services are keyed machines\<close>

lemmas governor_defs = admit_def recordSuccess_def recordFailure_def Let_def

interpretation gov: keyed_machine callToken "governorCall g" for g
proof
  show "fst (governorCall g e m) = fst (governorCall g e m')
        \<and> snd (governorCall g e m) (callToken e) = snd (governorCall g e m') (callToken e)"
    if "m (callToken e) = m' (callToken e)" for m e m'
    using that by (cases e) (auto simp: governor_defs)
  show "snd (governorCall g e m) k = m k" if "k \<noteq> callToken e" for k e m
    using that by (cases e) (auto simp: governor_defs)
qed

interpretation cch: keyed_machine cacheKey cacheCall
proof
  show "fst (cacheCall e m) = fst (cacheCall e m')
        \<and> snd (cacheCall e m) (cacheKey e) = snd (cacheCall e m') (cacheKey e)"
    if "m (cacheKey e) = m' (cacheKey e)" for e and m m' :: "ustring \<rightharpoonup> 'r CacheEntry"
    using that by (cases e) (auto simp: cacheGet_def cacheSet_def split: option.splits jsnum.splits)
  show "snd (cacheCall e m) k = m k" if "k \<noteq> cacheKey e" for k e and m :: "ustring \<rightharpoonup> 'r CacheEntry"
    using that by (cases e) (auto simp: cacheGet_def cacheSet_def split: option.splits jsnum.splits)
qed

subsection \<open>Histories of one source\<close>

fun callTime :: "governor_call \<Rightarrow> rat" where
  "callTime (CallAdmit now _) = now"
| "callTime (CallSuccess now _) = now"
| "callTime (CallFailure now _) = now"

text \<open>What a call does to the state of its own source.\<close>

definition sourceCall :: "governor \<Rightarrow> governor_call \<Rightarrow> SourceState option \<Rightarrow> SourceState" where
  "sourceCall g e st = the (snd (governorCall g e [callToken e \<mapsto> stateFor g (callTime e) st]) (callToken e))"

definition history :: "governor \<Rightarrow> governor_call list \<Rightarrow> governor_states" where
  "history g es = snd (runOps (governorCall g) es Map.empty)"

lemma stateFor_idem [simp]: "stateFor g now (Some (stateFor g now' st)) = stateFor g now' st"
  by (simp add: stateFor_def)

lemma governorCall_at:
  "snd (governorCall g e m) t = (if callToken e = t then Some (sourceCall g e (m t)) else m t)"
  by (cases e) (auto simp: sourceCall_def governor_defs)

lemma sourceCall_simps:
  "sourceCall g (CallAdmit now t) st =
     (let s = stateFor g now st in
      if so_backoffUntil s > now then s
      else let s' = refill g now s in
        if so_tokens s' < 1 then s' else s'\<lparr>so_tokens := fl (so_tokens s' - 1)\<rparr>)"
  "sourceCall g (CallSuccess now t) st = (stateFor g now st)\<lparr>so_consecutiveFailures := 0, so_backoffUntil := 0\<rparr>"
  "sourceCall g (CallFailure now t) st =
     (let s = stateFor g now st; failures = so_consecutiveFailures s + 1 in
      s\<lparr>so_consecutiveFailures := failures, so_backoffUntil := fl (now + backoffWindow g failures)\<rparr>)"
  by (simp_all add: sourceCall_def governor_defs)

lemma history_simps [simp]:
  "history g [] = Map.empty"
  "history g (es @ [e]) t = (if callToken e = t then Some (sourceCall g e (history g es t)) else history g es t)"
  by (simp_all add: history_def runOps_snoc governorCall_at)

text \<open>An invariant of the source states holds after every history.\<close>

lemma sourceCall_None: "sourceCall g e None = sourceCall g e (Some (stateFor g (callTime e) None))"
  by (cases e) (simp_all add: sourceCall_simps)

lemma history_invariant:
  assumes "\<And>e. e \<in> set es \<Longrightarrow> P (stateFor g (callTime e) None)"
    and "\<And>e s. e \<in> set es \<Longrightarrow> P s \<Longrightarrow> P (sourceCall g e (Some s))"
    and "history g es t = Some s"
  shows "P s"
  using assms
proof (induction es arbitrary: s rule: rev_induct)
  case (snoc e es)
  show ?case
  proof (cases "callToken e = t \<and> history g es t = None")
    case True
    then have "s = sourceCall g e (Some (stateFor g (callTime e) None))"
      using snoc.prems(3) by (auto simp: sourceCall_None [of g e])
    then show ?thesis using snoc.prems(1,2) by auto
  next
    case False
    then show ?thesis using snoc by (cases "history g es t") (auto split: if_splits)
  qed
qed simp

subsection \<open>The governor's state invariant\<close>

definition source_ok :: "governor \<Rightarrow> SourceState \<Rightarrow> bool" where
  "source_ok g s \<longleftrightarrow> 0 \<le> so_tokens s \<and> so_tokens s \<le> gv_capacity g \<and> fl (so_tokens s) = so_tokens s
     \<and> (so_consecutiveFailures s = 0 \<longrightarrow> so_backoffUntil s = 0)"

lemma positiveOr_pos: "0 < fallback \<Longrightarrow> 0 < positiveOr v fallback"
  by (auto simp: positiveOr_def split: option.splits jsnum.splits)

lemma newGovernor_pos [simp]:
  "0 < gv_capacity (newGovernor config)" "0 < gv_backoffBaseMs (newGovernor config)"
  "0 < gv_backoffMaxMs (newGovernor config)"
  by (simp_all add: newGovernor_def positiveOr_pos DEFAULT_CAPACITY_def DEFAULT_BACKOFF_BASE_MS_def
      DEFAULT_BACKOFF_MAX_MS_def)

lemma source_ok_fresh:
  "0 < gv_capacity g \<Longrightarrow> fl (gv_capacity g) = gv_capacity g \<Longrightarrow> source_ok g (stateFor g now None)"
  by (simp add: source_ok_def stateFor_def)

lemma source_ok_refill:
  assumes "source_ok g s" "0 < gv_capacity g" "fl (gv_capacity g) = gv_capacity g"
  shows "source_ok g (refill g now s)"
proof -
  have "0 \<le> fl (so_tokens s + fl (fl (now - so_lastRefill s) / i))" if "0 < i" "0 < fl (now - so_lastRefill s)" for i
    using that assms(1) by (intro b64.rnd_nonneg add_nonneg_nonneg) (auto simp: source_ok_def)
  then show ?thesis using assms
    by (auto simp: source_ok_def refill_def Let_def fl_idem min_def split: jsnum.splits)
qed

lemma source_ok_spend:
  assumes "source_ok g s" "1 \<le> so_tokens s"
  shows "source_ok g (s\<lparr>so_tokens := fl (so_tokens s - 1)\<rparr>)"
proof -
  have "fl (so_tokens s - 1) \<le> so_tokens s" using assms(1)
    by (intro b64.rnd_le_fixed) (auto simp: source_ok_def)
  moreover have "0 \<le> fl (so_tokens s - 1)" using assms(2) by (intro b64.rnd_nonneg) simp
  ultimately show ?thesis using assms(1) by (auto simp: source_ok_def fl_idem)
qed

lemma source_ok_call:
  assumes "source_ok g s" "0 < gv_capacity g" "fl (gv_capacity g) = gv_capacity g"
  shows "source_ok g (sourceCall g e (Some s))"
proof (cases e)
  case (CallAdmit now t)
  have r: "source_ok g (refill g now s)" by (rule source_ok_refill [OF assms])
  show ?thesis using assms(1) r source_ok_spend [OF r]
    by (auto simp: CallAdmit sourceCall_simps stateFor_def Let_def not_less)
qed (use assms in \<open>auto simp: source_ok_def sourceCall_simps stateFor_def Let_def\<close>)

lemma history_source_ok:
  assumes "0 < gv_capacity g" "fl (gv_capacity g) = gv_capacity g" "history g es t = Some s"
  shows "source_ok g s"
  by (rule history_invariant [where P = "source_ok g", OF _ _ assms(3)])
    (use assms in \<open>auto intro: source_ok_fresh source_ok_call\<close>)

text \<open>The governor of an empty configuration.\<close>

definition noConfig :: EnrichmentGovernorConfig where
  "noConfig = \<lparr>gc_defaultTimeoutMs = TimeoutUnset, gc_capacity = None, gc_refillIntervalMs = None,
     gc_backoffBaseMs = None, gc_backoffMaxMs = None\<rparr>"

lemma default_governor:
  "gv_capacity (newGovernor noConfig) = 10" "gv_refillIntervalMs (newGovernor noConfig) = Finite 1000"
  "gv_backoffBaseMs (newGovernor noConfig) = 1000" "gv_backoffMaxMs (newGovernor noConfig) = 30000"
  by (simp_all add: newGovernor_def noConfig_def positiveOr_def DEFAULT_CAPACITY_def DEFAULT_REFILL_INTERVAL_MS_def
      DEFAULT_BACKOFF_BASE_MS_def DEFAULT_BACKOFF_MAX_MS_def)

lemma fl_numeral [simp]: "fl 10 = 10" "fl 1000 = 1000" "fl 2000 = 2000" "fl 30000 = 30000" "fl 32000 = 32000"
  using fl_of_int [of 10] fl_of_int [of 1000] fl_of_int [of 2000] fl_of_int [of 30000] fl_of_int [of 32000] by simp_all

text \<open>
  Whatever calls a governor has served, with whatever clock readings, the bucket of every source
  it knows holds between zero and \<open>capacity\<close> tokens, a representable number, and a source without
  consecutive failures has no open backoff window. (The configured capacity is a double, that is,
  representable.)
\<close>

lemma governor_invariant:
  assumes "g = newGovernor config" "fl (gv_capacity g) = gv_capacity g"
    and "snd (runOps (governorCall g) es Map.empty) t = Some s"
  shows "0 \<le> so_tokens s \<and> so_tokens s \<le> gv_capacity g \<and> fl (so_tokens s) = so_tokens s
    \<and> (so_consecutiveFailures s = 0 \<longrightarrow> so_backoffUntil s = 0)"
  using history_source_ok [of g es t s] assms by (auto simp: history_def source_ok_def)

lemma governor_invariant_witness:
  "\<exists>s. snd (runOps (governorCall (newGovernor noConfig)) [CallAdmit 0 []] Map.empty) [] = Some s
     \<and> so_tokens s \<le> gv_capacity (newGovernor noConfig)"
proof -
  obtain s where s: "snd (runOps (governorCall (newGovernor noConfig)) [CallAdmit 0 []] Map.empty) [] = Some s"
    using history_simps(2) [of "newGovernor noConfig" "[]" "CallAdmit 0 []" "[]"] by (auto simp: history_def)
  show ?thesis using governor_invariant [OF refl _ s] s by (auto simp: default_governor)
qed

subsection \<open>The burst limit\<close>

definition refillEnabled :: "governor \<Rightarrow> bool" where
  "refillEnabled g = (case gv_refillIntervalMs g of Finite i \<Rightarrow> 0 < i | _ \<Rightarrow> False)"

fun isRun :: "GovernorDecision option \<Rightarrow> bool" where
  "isRun (Some (Run _)) = True"
| "isRun _ = False"

fun isAdmit :: "governor_call \<Rightarrow> bool" where
  "isAdmit (CallAdmit _ _) = True"
| "isAdmit _ = False"

fun isFailure :: "governor_call \<Rightarrow> bool" where
  "isFailure (CallFailure _ _) = True"
| "isFailure _ = False"

text \<open>The number of runs admitted, and asked for, on behalf of one source.\<close>

definition admitted :: "governor \<Rightarrow> governor_call list \<Rightarrow> ustring \<Rightarrow> nat" where
  "admitted g es t =
     length (filter (\<lambda>(e, d). callToken e = t \<and> isRun d) (zip es (fst (runOps (governorCall g) es Map.empty))))"

definition asked :: "governor_call list \<Rightarrow> ustring \<Rightarrow> nat" where
  "asked es t = length (filter (\<lambda>e. callToken e = t \<and> isAdmit e) es)"

lemma admitted_snoc [simp]:
  "admitted g (es @ [e]) t =
     admitted g es t + (if callToken e = t \<and> isRun (fst (governorCall g e (history g es))) then 1 else 0)"
  by (simp add: admitted_def runOps_snoc history_def)

lemma admitted_Nil [simp]: "admitted g [] t = 0" "asked [] t = 0"
  by (simp_all add: admitted_def asked_def)

lemma asked_snoc [simp]: "asked (es @ [e]) t = asked es t + (if callToken e = t \<and> isAdmit e then 1 else 0)"
  by (simp add: asked_def)

text \<open>The state of a source that is not refilled between its calls.\<close>

definition unrefilled :: "governor \<Rightarrow> rat \<Rightarrow> bool \<Rightarrow> SourceState \<Rightarrow> bool" where
  "unrefilled g now failed s \<longleftrightarrow> (refillEnabled g \<longrightarrow> so_lastRefill s = now)
     \<and> (failed \<or> so_backoffUntil s = 0)"

lemma refill_unrefilled:
  assumes "unrefilled g now b s" "refillEnabled g \<Longrightarrow> now' = now"
  shows "so_tokens (refill g now' s) = so_tokens s" "unrefilled g now b (refill g now' s)"
  using assms by (auto simp: unrefilled_def refill_def refillEnabled_def Let_def split: jsnum.splits)

lemma burst_step:
  assumes cap: "0 < gv_capacity g" "fl (gv_capacity g) = gv_capacity g" "gv_capacity g < 2 ^ 53"
    and s: "source_ok g s" "unrefilled g now b s" "so_tokens s = gv_capacity g - of_nat n"
    and e: "refillEnabled g \<Longrightarrow> callTime e = now" "b \<or> \<not> isFailure e \<and> 0 \<le> callTime e"
    and st: "stateFor g (callTime e) (m (callToken e)) = s"
  defines "granted \<equiv> isRun (fst (governorCall g e m))"
  shows "unrefilled g now b (sourceCall g e (m (callToken e)))"
    and "so_tokens (sourceCall g e (m (callToken e))) = gv_capacity g - of_nat (n + (if granted then 1 else 0))"
    and "\<not> b \<Longrightarrow> granted = (isAdmit e \<and> of_nat n + 1 \<le> gv_capacity g)"
proof -
  have minus: "fl (so_tokens s - 1) = so_tokens s - 1" if "1 \<le> so_tokens s"
    using that s(1) cap(3) by (intro fl_minus_one) (auto simp: source_ok_def)
  have r: "so_tokens (refill g (callTime e) s) = so_tokens s" "unrefilled g now b (refill g (callTime e) s)"
    using refill_unrefilled [of g now b s "callTime e"] s(2) e(1) by auto
  have spend: "unrefilled g now b (x\<lparr>so_tokens := y\<rparr>) = unrefilled g now b x" for x y
    by (simp add: unrefilled_def)
  show "unrefilled g now b (sourceCall g e (m (callToken e)))"
    using s(2) r(2) e(2) st by (cases e) (auto simp: sourceCall_simps Let_def spend, auto simp: unrefilled_def)
  show "so_tokens (sourceCall g e (m (callToken e))) = gv_capacity g - of_nat (n + (if granted then 1 else 0))"
    using s(3) r(1) minus st
    by (cases e) (auto simp: sourceCall_simps Let_def granted_def admit_def not_less split: if_splits)
  show "granted = (isAdmit e \<and> of_nat n + 1 \<le> gv_capacity g)" if "\<not> b"
    using that s(2,3) r(1) e(2) st
    by (cases e) (auto simp: granted_def admit_def Let_def not_less unrefilled_def split: if_splits)
qed

definition burst_inv :: "governor \<Rightarrow> rat \<Rightarrow> bool \<Rightarrow> governor_call list \<Rightarrow> ustring \<Rightarrow> bool" where
  "burst_inv g now b es t \<longleftrightarrow>
     (\<forall>now'. (refillEnabled g \<longrightarrow> now' = now) \<longrightarrow> unrefilled g now b (stateFor g now' (history g es t))
        \<and> so_tokens (stateFor g now' (history g es t)) = gv_capacity g - of_nat (admitted g es t))
     \<and> of_nat (admitted g es t) \<le> gv_capacity g
     \<and> (\<not> b \<longrightarrow> admitted g es t = min (asked es t) (nat \<lfloor>gv_capacity g\<rfloor>))"

lemma Suc_le_rat_iff: "of_nat n + 1 \<le> (c :: rat) \<longleftrightarrow> n < nat \<lfloor>c\<rfloor>"
proof -
  have "of_nat n + 1 \<le> c \<longleftrightarrow> of_int (int n + 1) \<le> c" by simp
  also have "\<dots> \<longleftrightarrow> int n + 1 \<le> \<lfloor>c\<rfloor>" by (simp only: le_floor_iff)
  finally show ?thesis by linarith
qed

lemma burst_inv_snoc:
  assumes cap: "0 < gv_capacity g" "fl (gv_capacity g) = gv_capacity g" "gv_capacity g < 2 ^ 53"
    and e: "refillEnabled g \<Longrightarrow> callTime e = now" "b \<or> \<not> isFailure e \<and> 0 \<le> callTime e"
    and inv: "burst_inv g now b es (callToken e)"
  shows "burst_inv g now b (es @ [e]) (callToken e)"
proof -
  let ?t = "callToken e"
  define s where "s = stateFor g (callTime e) (history g es ?t)"
  define granted where "granted = isRun (fst (governorCall g e (history g es)))"
  have s: "unrefilled g now b s" "so_tokens s = gv_capacity g - of_nat (admitted g es ?t)"
    using inv e(1) by (auto simp: s_def burst_inv_def)
  have ok: "source_ok g s" using history_source_ok [of g es ?t] source_ok_fresh [of g] cap
    by (cases "history g es ?t") (auto simp: s_def stateFor_def)
  note step = burst_step [OF cap ok s e, of "history g es", folded granted_def]
  have after: "stateFor g x (history g (es @ [e]) ?t) = sourceCall g e (history g es ?t)" for x
    by (simp add: stateFor_def)
  have toks: "so_tokens (sourceCall g e (history g es ?t)) = gv_capacity g - of_nat (admitted g (es @ [e]) ?t)"
    using step(2) by (simp add: s_def granted_def)
  have "source_ok g (sourceCall g e (history g es ?t))"
    using history_source_ok [of g "es @ [e]" ?t] cap by simp
  then have le: "of_nat (admitted g (es @ [e]) ?t) \<le> gv_capacity g"
    using toks by (simp add: source_ok_def)
  have "admitted g (es @ [e]) ?t = min (asked (es @ [e]) ?t) (nat \<lfloor>gv_capacity g\<rfloor>)" if "\<not> b"
    using that step(3) inv by (auto simp: s_def granted_def min_def Suc_le_rat_iff burst_inv_def)
  then show ?thesis using step(1) toks le after by (auto simp: s_def burst_inv_def)
qed

lemma burst_history:
  assumes cap: "0 < gv_capacity g" "fl (gv_capacity g) = gv_capacity g" "gv_capacity g < 2 ^ 53"
    and es: "\<forall>e \<in> set es. (refillEnabled g \<longrightarrow> callTime e = now) \<and> (b \<or> \<not> isFailure e \<and> 0 \<le> callTime e)"
  shows "burst_inv g now b es t"
  using es
proof (induction es rule: rev_induct)
  case Nil
  then show ?case using cap(1) by (auto simp: burst_inv_def stateFor_def unrefilled_def)
next
  case (snoc e es)
  then show ?case using burst_inv_snoc [OF cap, of e now b es]
    by (cases "callToken e = t") (auto simp: burst_inv_def)
qed

text \<open>
  C31: without refill - it is disabled, or all calls happen at the same instant - a governor never
  admits more than \<open>capacity\<close> runs of one source, however its calls interleave with those of other
  sources; and if no failure was recorded it admits every run asked for until the capacity is used
  up. (Token arithmetic is on doubles; below \<open>2\<^sup>5\<^sup>3\<close> spending a token is exact.)
\<close>

theorem governor_burst_limit:
  assumes "g = newGovernor config" "fl (gv_capacity g) = gv_capacity g" "gv_capacity g < 2 ^ 53"
    and "\<not> refillEnabled g \<or> (\<forall>e \<in> set es. callTime e = now)"
  shows "of_nat (admitted g es t) \<le> gv_capacity g
    \<and> (\<not> list_ex isFailure es \<and> list_all (\<lambda>e. 0 \<le> callTime e) es \<longrightarrow>
         admitted g es t = min (asked es t) (nat \<lfloor>gv_capacity g\<rfloor>))"
proof -
  have "0 < gv_capacity g" using assms(1) by simp
  then have "of_nat (admitted g es t) \<le> gv_capacity g"
    using burst_history [of g es now True t] assms by (auto simp: burst_inv_def)
  moreover have "admitted g es t = min (asked es t) (nat \<lfloor>gv_capacity g\<rfloor>)"
    if "\<not> list_ex isFailure es" "list_all (\<lambda>e. 0 \<le> callTime e) es"
    using burst_history [of g es now False t] assms that \<open>0 < gv_capacity g\<close>
    by (auto simp: burst_inv_def list_ex_iff list_all_iff)
  ultimately show ?thesis by simp
qed

theorem governor_burst_limit_witness:
  "admitted (newGovernor noConfig) (replicate 12 (CallAdmit 0 [])) [] = 10"
proof -
  have "asked (replicate 12 (CallAdmit 0 [])) [] = 12" by (simp add: asked_def)
  then show ?thesis
    using governor_burst_limit [of "newGovernor noConfig" noConfig "replicate 12 (CallAdmit 0 [])" 0 "[]"]
    by (simp add: default_governor list_ex_iff list_all_iff)
qed

subsection \<open>Backoff\<close>

text \<open>
  The specification reads the schedule off the history: the failures of the source since its last
  success, and the time of the latest one.
\<close>

fun successOf :: "ustring \<Rightarrow> governor_call \<Rightarrow> bool" where
  "successOf t (CallSuccess _ t') = (t' = t)"
| "successOf t _ = False"

fun recentFailures :: "ustring \<Rightarrow> governor_call list \<Rightarrow> rat list" where
  "recentFailures t [] = []"
| "recentFailures t (CallFailure now t' # es) =
     (if t' = t \<and> \<not> list_ex (successOf t) es then now # recentFailures t es else recentFailures t es)"
| "recentFailures t (_ # es) = recentFailures t es"

lemma recentFailures_snoc:
  "recentFailures t (es @ [e]) =
     (case e of
        CallFailure now t' \<Rightarrow> recentFailures t es @ (if t' = t then [now] else [])
      | CallSuccess now t' \<Rightarrow> if t' = t then [] else recentFailures t es
      | CallAdmit now t' \<Rightarrow> recentFailures t es)"
  by (induction t es rule: recentFailures.induct) (auto split: governor_call.splits if_splits)

definition openUntil :: "governor \<Rightarrow> rat list \<Rightarrow> rat" where
  "openUntil g fs = (if fs = [] then 0 else fl (last fs + backoffWindow g (length fs)))"

definition schedule_ok :: "governor \<Rightarrow> rat list \<Rightarrow> SourceState \<Rightarrow> bool" where
  "schedule_ok g fs s \<longleftrightarrow> so_consecutiveFailures s = length fs \<and> so_backoffUntil s = openUntil g fs"

lemma refill_schedule [simp]: "schedule_ok g fs (refill g now s) = schedule_ok g fs s"
  by (auto simp: schedule_ok_def refill_def Let_def split: jsnum.splits)

lemma history_schedule: "schedule_ok g (recentFailures t es) (stateFor g now (history g es t))"
proof (induction es arbitrary: now rule: rev_induct)
  case Nil
  then show ?case by (simp add: schedule_ok_def stateFor_def openUntil_def)
next
  case (snoc e es)
  have tok: "schedule_ok g fs (s\<lparr>so_tokens := x\<rparr>) = schedule_ok g fs s" for fs s x by (simp add: schedule_ok_def)
  show ?case
  proof (cases "callToken e = t")
    case True
    then show ?thesis using snoc.IH [of "callTime e"]
      by (cases e) (auto simp: recentFailures_snoc sourceCall_simps Let_def tok stateFor_def,
          auto simp: schedule_ok_def openUntil_def)
  next
    case False
    then show ?thesis using snoc.IH by (cases e) (auto simp: recentFailures_snoc)
  qed
qed

lemma backoffWindow_spec:
  "backoffWindow g n = (if n \<le> 1024 then min (fl (gv_backoffBaseMs g * 2 ^ (n - 1))) (gv_backoffMaxMs g) else gv_backoffMaxMs g)"
  by (cases n) (auto simp: backoffWindow_def)

text \<open>
  C32: after any history of calls, an admission is denied because of backoff exactly when the source
  has failed since its last success and less than the window has passed since the latest of its \<open>n\<close>
  failures; the window is \<open>min (backoffBaseMs * 2 ^ (n - 1)) backoffMaxMs\<close>, the product rounded to a
  double, and \<open>backoffMaxMs\<close> from the 1025th failure on, where the power is infinite. Otherwise it is
  denied exactly when the refilled bucket holds less than one token.
\<close>

theorem governor_backoff_spec:
  assumes "0 \<le> now"
  shows "let fs = recentFailures t es; n = length fs;
       window = (if n \<le> 1024 then min (fl (gv_backoffBaseMs g * 2 ^ (n - 1))) (gv_backoffMaxMs g) else gv_backoffMaxMs g);
       states = snd (runOps (governorCall g) es Map.empty)
     in (fst (admit g now t states) = Deny BackoffActive \<longleftrightarrow> fs \<noteq> [] \<and> now < fl (last fs + window))
      \<and> (fst (admit g now t states) = Deny RateLimited \<longleftrightarrow>
           (fs = [] \<or> fl (last fs + window) \<le> now) \<and> so_tokens (refill g now (stateFor g now (states t))) < 1)"
  using history_schedule [of g t es now] assms
  unfolding Let_def backoffWindow_spec [symmetric]
  by (auto simp: admit_def Let_def schedule_ok_def openUntil_def history_def split: if_splits)

theorem governor_backoff_spec_witness:
  "fst (admit (newGovernor noConfig) 1 [] (snd (runOps (governorCall (newGovernor noConfig))
       [CallFailure 0 [], CallFailure 0 []] Map.empty))) = Deny BackoffActive"
proof -
  have "fl 2000 = 2000" using fl_of_int [of 2000] by simp
  then show ?thesis
    using governor_backoff_spec [of 1 "[]" "[CallFailure 0 [], CallFailure 0 []]" "newGovernor noConfig"]
    by (simp add: Let_def default_governor del: runOps.simps)
qed

subsection \<open>Recovery\<close>

lemma backoffWindow_le: "backoffWindow g n \<le> gv_backoffMaxMs g"
  by (simp add: backoffWindow_def)

definition before :: "governor \<Rightarrow> rat \<Rightarrow> SourceState \<Rightarrow> bool" where
  "before g T s \<longleftrightarrow> so_lastRefill s \<le> T \<and> so_backoffUntil s \<le> fl (T + gv_backoffMaxMs g)"

lemma before_call:
  assumes "before g T s" "callTime e \<le> T" "0 \<le> T" "0 \<le> gv_backoffMaxMs g"
  shows "before g T (sourceCall g e (Some s))"
proof -
  have "fl (callTime e + backoffWindow g n) \<le> fl (T + gv_backoffMaxMs g)" for n
    using assms(2) backoffWindow_le [of g n] by (intro fl_mono) linarith
  moreover have "before g T (refill g now s)" if "now \<le> T" for now
    using that assms(1) by (auto simp: before_def refill_def Let_def split: jsnum.splits)
  moreover have "0 \<le> fl (T + gv_backoffMaxMs g)" using assms(3,4) by (intro b64.rnd_nonneg) simp
  ultimately show ?thesis using assms(1,2)
    by (cases e) (auto simp: sourceCall_simps stateFor_def Let_def, auto simp: before_def)
qed

lemma history_before:
  assumes "\<forall>e \<in> set es. callTime e \<le> T" "0 \<le> T" "0 \<le> gv_backoffMaxMs g" "history g es t = Some s"
  shows "before g T s"
proof (rule history_invariant [where P = "before g T", OF _ _ assms(4)])
  show "before g T (stateFor g (callTime e) None)" if "e \<in> set es" for e
    using that assms(1-3) by (auto simp: before_def stateFor_def intro!: b64.rnd_nonneg)
  show "before g T (sourceCall g e (Some s'))" if "e \<in> set es" "before g T s'" for e s'
    using before_call [OF that(2)] that(1) assms(1-3) by simp
qed

text \<open>
  C33: No source is locked out for good: once the last call lies at least \<open>backoffMaxMs\<close> and one
  \<open>refillIntervalMs\<close> back, the next admission of any source is granted, whatever failed before and
  however many tokens were spent. (Capacity at least one; times are compared as the code computes
  them, on doubles.)
\<close>

theorem governor_recovers:
  assumes "g = newGovernor config" "fl (gv_capacity g) = gv_capacity g" "1 \<le> gv_capacity g"
    and "gv_refillIntervalMs g = Finite i" "0 < i"
    and "\<forall>e \<in> set es. callTime e \<le> T" "0 \<le> T"
    and "fl (T + gv_backoffMaxMs g) \<le> now" "i \<le> fl (now - T)"
  shows "\<exists>timeout. fst (admit g now t (snd (runOps (governorCall g) es Map.empty))) = Run timeout"
proof -
  have cap: "0 < gv_capacity g" "0 \<le> gv_backoffMaxMs g" using assms(1) less_imp_le [OF newGovernor_pos(3)] by auto
  have now: "0 \<le> now" using b64.rnd_nonneg [of "T + gv_backoffMaxMs g"] assms(7,8) cap(2) by linarith
  have "\<exists>timeout. fst (admit g now t (history g es)) = Run timeout"
  proof (cases "history g es t")
    case None
    then show ?thesis using assms(3,4) now by (simp add: admit_def stateFor_def refill_def Let_def)
  next
    case (Some s)
    have ok: "source_ok g s" using history_source_ok [OF cap(1) assms(2) Some] .
    have b: "before g T s" using history_before [OF assms(6,7) cap(2) Some] .
    have el: "i \<le> fl (now - so_lastRefill s)"
      using fl_mono [of "now - T" "now - so_lastRefill s"] b assms(9) by (simp add: before_def)
    then have "fl 1 \<le> fl (fl (now - so_lastRefill s) / i)" using assms(5) by (intro fl_mono) simp
    then have "fl 1 \<le> fl (so_tokens s + fl (fl (now - so_lastRefill s) / i))"
      using ok by (intro fl_mono) (simp add: source_ok_def)
    then have "1 \<le> so_tokens (refill g now s)"
      using el assms(3,4,5) by (simp add: refill_def Let_def)
    then show ?thesis using Some b assms(8) by (simp add: admit_def stateFor_def Let_def before_def)
  qed
  then show ?thesis by (simp add: history_def)
qed

theorem governor_recovers_witness:
  "\<exists>timeout. fst (admit (newGovernor noConfig) 32000 []
     (snd (runOps (governorCall (newGovernor noConfig)) [CallFailure 0 []] Map.empty))) = Run timeout"
  by (rule governor_recovers [where config = noConfig and i = 1000 and T = 0]) (simp_all add: default_governor)

text \<open>
  Sources do not influence each other: the decisions one source receives, and the state it ends
  in, are those of a governor that serves this source alone.
\<close>

lemma governor_sources_independent:
  "map snd (filter (\<lambda>(e, d). callToken e = t) (zip es (fst (runOps (governorCall g) es Map.empty))))
     = fst (runOps (governorCall g) (filter (\<lambda>e. callToken e = t) es) Map.empty)
   \<and> snd (runOps (governorCall g) es Map.empty) t
     = snd (runOps (governorCall g) (filter (\<lambda>e. callToken e = t) es) Map.empty) t"
  using gov.run_projection [of Map.empty t Map.empty es g] by simp

subsection \<open>The cache refines a store that never evicts\<close>

text \<open>
  The specification keeps, for every key, the last report that was stored with a usable lifetime and
  the time it expires; reading changes nothing.
\<close>

fun specCall :: "'r cache_call \<Rightarrow> (ustring \<rightharpoonup> 'r CacheEntry) \<Rightarrow> 'r option \<times> (ustring \<rightharpoonup> 'r CacheEntry)" where
  "specCall (CallGet now k) store =
     (case store k of
        Some entry \<Rightarrow> (if now < ce_expiresAt entry then Some (ce_report entry) else None, store)
      | None \<Rightarrow> (None, store))"
| "specCall (CallSet now k r ttl) store = (None, cacheSet now k r ttl store)"

text \<open>The store agrees with the specification except for entries that have expired by now.\<close>

definition refinesAt :: "rat \<Rightarrow> (ustring \<rightharpoonup> 'r CacheEntry) \<Rightarrow> (ustring \<rightharpoonup> 'r CacheEntry) \<Rightarrow> bool" where
  "refinesAt now store spec \<longleftrightarrow>
     (\<forall>k. store k = spec k \<or> store k = None \<and> (\<exists>entry. spec k = Some entry \<and> ce_expiresAt entry \<le> now))"

lemma refinesAt_later: "refinesAt now store spec \<Longrightarrow> now \<le> now' \<Longrightarrow> refinesAt now' store spec"
  unfolding refinesAt_def by (meson order_trans)

lemma refinesAt_step:
  assumes "refinesAt (cacheTime e) store spec"
  shows "fst (cacheCall e store) = fst (specCall e spec)"
    and "refinesAt (cacheTime e) (snd (cacheCall e store)) (snd (specCall e spec))"
proof -
  have k: "store k = spec k \<or> store k = None \<and> (\<exists>entry. spec k = Some entry \<and> ce_expiresAt entry \<le> cacheTime e)" for k
    using assms by (simp add: refinesAt_def)
  show "fst (cacheCall e store) = fst (specCall e spec)"
    using k [of "cacheKey e"]
    by (cases e; cases "store (cacheKey e)"; cases "spec (cacheKey e)") (auto simp: cacheGet_def)
  show "refinesAt (cacheTime e) (snd (cacheCall e store)) (snd (specCall e spec))"
    using assms k [of "cacheKey e"]
    by (cases e; cases "store (cacheKey e)"; cases "spec (cacheKey e)")
      (auto simp: refinesAt_def cacheGet_def cacheSet_def split: jsnum.splits)
qed

text \<open>
  C34: under a clock that does not go back, the cache answers every read exactly as a store that
  never evicts and compares the expiry of the last usable write: eviction on read loses nothing,
  an expired report is never served, a write with a non-positive or non-finite lifetime changes
  nothing.
\<close>

theorem cache_refines_store:
  assumes "sorted (map cacheTime es)"
  shows "fst (runOps cacheCall es Map.empty) = fst (runOps specCall es Map.empty)"
proof -
  have "fst (runOps cacheCall es store) = fst (runOps specCall es spec)"
    if "refinesAt now store spec" "sorted (now # map cacheTime es)" for now store spec
    using that
  proof (induction es arbitrary: now store spec)
    case (Cons e es)
    then have r: "refinesAt (cacheTime e) store spec" by (auto intro: refinesAt_later)
    note step = refinesAt_step [OF r]
    show ?case using step(1) Cons.IH [OF step(2)] Cons.prems(2) by (simp add: case_prod_beta Let_def)
  qed simp
  from this [of "if es = [] then 0 else cacheTime (hd es)" Map.empty Map.empty] assms show ?thesis
    by (cases es) (auto simp: refinesAt_def)
qed

theorem cache_refines_store_witness:
  "fst (runOps cacheCall [CallSet 0 [] True (Finite 10), CallGet 5 [], CallGet 10 [], CallGet 11 []] Map.empty)
     = [None, Some True, None, None]"
  by (subst cache_refines_store) (simp_all add: cacheSet_def)

end
