(* ===== verification/AsyncRun.thy ===== *)
theory AsyncRun
  imports EnrichSchema Enrichment
begin

text \<open>
  The runner of one enricher (\<open>inspect-async.ts\<close>, \<open>runEnricher\<close> and what it calls): cache slot, bounded
  cache read, admission, bounded source call, normalization, governor record, bounded cache write.

  Everything the runner calls is caller code: the enricher, the cache, the governor. What they answer
  during one run is the environment \<open>run_env\<close> of that run: the value of a synchronous call or \<open>None\<close>
  when it raises, and a promise with the delay after which it settles. Time starts at 0 when the run
  starts; the caller's signal aborts at an instant or never. At one and the same instant the signal
  and the timer precede a settlement. The result records the report, the calls the runner made, in
  order, and the time at which it finished; \<open>None\<close> is a run that never settles.
\<close>

subsection \<open>Enrichers and their environment\<close>

text \<open>
  \<open>en_cacheKey\<close> says whether the member is a function; \<open>en_cacheTtlMsFor\<close> likewise, with \<open>None\<close> for
  an absent one.
\<close>

record Enricher =
  en_id :: ustring
  en_layer :: EnrichmentLayer
  en_dependsOn :: jsval
  en_timeoutMs :: jsval
  en_cacheKey :: bool
  en_cacheTtlMs :: jsval
  en_cacheTtlMsFor :: "bool option"

datatype 'a promise = Resolves 'a rat | Rejects rat | Pends

record run_env =
  rv_abort :: "rat option"
  rv_now :: "nat \<Rightarrow> ustring"
  rv_cacheKey :: "jsval option"
  rv_cacheGet :: "jsval promise"
  rv_admit :: "jsval option"
  rv_enrich :: "jsval promise"
  rv_record :: bool
  rv_cacheTtl :: "jsval option"
  rv_cacheSet :: "unit promise"

datatype call =
    CacheKeyCall
  | CacheGetCall ustring
  | AdmitCall ustring
  | EnrichCall
  | RecordSuccessCall ustring
  | RecordFailureCall ustring
  | CacheTtlCall
  | CacheSetCall ustring jsval rat

record EnricherRun =
  er_token :: ustring
  er_report :: jsval

record run_result =
  rr_run :: EnricherRun
  rr_calls :: "call list"
  rr_end :: rat

definition checkToken :: "Enricher \<Rightarrow> ustring" where
  "checkToken e = str (layerName (en_layer e)) @ [58] @ en_id e"

definition outcomesOf :: "jsval \<Rightarrow> jsval list" where
  "outcomesOf report = elements (fld report ''outcomes'')"

definition available :: "jsval \<Rightarrow> bool" where
  "available outcome \<longleftrightarrow> fld outcome ''status'' = strval ''success'' \<or> fld outcome ''status'' = strval ''no-hit''"

definition runIsAvailable :: "EnricherRun \<Rightarrow> bool" where
  "runIsAvailable run = list_all available (outcomesOf (er_report run))"

subsection \<open>Reports of the framework\<close>

datatype DegradationStatus = SkippedStatus | FailureStatus

fun statusName :: "DegradationStatus \<Rightarrow> string" where
  "statusName SkippedStatus = ''skipped''"
| "statusName FailureStatus = ''failure''"

record RuntimeDegradation =
  dg_status :: DegradationStatus
  dg_code :: EnrichmentFrameworkCauseCode
  dg_retryable :: bool
  dg_details :: "jsval option"

definition inspectionSubject :: "InspectResult \<Rightarrow> jsval" where
  "inspectionSubject base =
     (case ir_parsed base of
        Some p \<Rightarrow>
          (case (pu_scheme p, pu_effectiveHost p) of
             (None, Some h) \<Rightarrow> obj [(''kind'', strval ''host''), (''value'', StrVal h)]
           | _ \<Rightarrow> obj [(''kind'', strval ''url''), (''value'', StrVal (ir_input base))])
      | None \<Rightarrow> obj [(''kind'', strval ''url''), (''value'', StrVal (ir_input base))])"

definition enrichmentReport :: "jsval list \<Rightarrow> jsval" where
  "enrichmentReport outcomes =
     obj [(''schemaVersion'', strval ENRICHMENT_SCHEMA_VERSION), (''outcomes'', Arr outcomes)]"

definition noProvenance :: "string \<Rightarrow> jsval" where
  "noProvenance kind = obj [(''kind'', strval kind), (''source'', Null), (''data'', Null)]"

definition unknownFreshness :: jsval where
  "unknownFreshness = obj [(''status'', strval ''unknown''), (''expiresAt'', Null)]"

definition frameworkOutcome ::
    "Enricher \<Rightarrow> InspectResult \<Rightarrow> DegradationStatus \<Rightarrow> EnrichmentFrameworkCauseCode \<Rightarrow> bool \<Rightarrow> jsval option \<Rightarrow> ustring \<Rightarrow> jsval" where
  "frameworkOutcome e base status code retryable details now =
     obj [(''sourceId'', StrVal (en_id e)), (''layer'', strval (layerName (en_layer e))),
       (''status'', strval (statusName status)), (''subject'', inspectionSubject base),
       (''observedAt'', StrVal now), (''provenance'', noProvenance ''unavailable''),
       (''freshness'', unknownFreshness), (''evidence'', Arr []), (''findings'', Arr []),
       (''cause'', obj ([(''code'', strval (causeName code)), (''retryable'', BoolVal retryable)]
          @ (case details of Some d \<Rightarrow> [(''details'', d)] | None \<Rightarrow> [])))]"

definition frameworkReport ::
    "Enricher \<Rightarrow> InspectResult \<Rightarrow> DegradationStatus \<Rightarrow> EnrichmentFrameworkCauseCode \<Rightarrow> bool \<Rightarrow> jsval option \<Rightarrow> ustring \<Rightarrow> jsval" where
  "frameworkReport e base status code retryable details now =
     enrichmentReport [frameworkOutcome e base status code retryable details now]"

definition legacyReport :: "Enricher \<Rightarrow> InspectResult \<Rightarrow> jsval list \<Rightarrow> ustring \<Rightarrow> jsval" where
  "legacyReport e base findings now =
     enrichmentReport [obj [(''sourceId'', StrVal (en_id e)), (''layer'', strval (layerName (en_layer e))),
       (''status'', strval ''success''), (''subject'', inspectionSubject base), (''observedAt'', StrVal now),
       (''provenance'', noProvenance ''legacy-incomplete''), (''freshness'', unknownFreshness),
       (''evidence'', Arr (if findings = []
          then [obj [(''type'', strval ''legacy.empty-result''), (''subject'', inspectionSubject base),
                  (''observedAt'', StrVal now), (''provenance'', noProvenance ''legacy-incomplete''),
                  (''freshness'', unknownFreshness), (''payload'', obj [(''semantics'', strval ''unknown'')])]]
          else [])),
       (''findings'', Arr findings)]]"

text \<open>The \<open>i\<close>-th degradation is reported at the \<open>i\<close>-th later reading of the clock.\<close>

definition withDegradations ::
    "jsval \<Rightarrow> Enricher \<Rightarrow> InspectResult \<Rightarrow> RuntimeDegradation list \<Rightarrow> (nat \<Rightarrow> ustring) \<Rightarrow> jsval" where
  "withDegradations report e base degradations now =
     (if degradations = [] then report
      else enrichmentReport (outcomesOf report
        @ map (\<lambda>(i, d). frameworkOutcome e base (dg_status d) (dg_code d) (dg_retryable d) (dg_details d) (now (i + 1)))
            (enumerate 0 degradations)))"

definition failure :: "EnrichmentFrameworkCauseCode \<Rightarrow> bool \<Rightarrow> (string \<times> string) list option \<Rightarrow> RuntimeDegradation" where
  "failure code retryable details =
     \<lparr>dg_status = FailureStatus, dg_code = code, dg_retryable = retryable,
      dg_details = map_option (\<lambda>ds. obj (map (\<lambda>(k, v). (k, strval v)) ds)) details\<rparr>"

subsection \<open>Deadlines\<close>

definition DEFAULT_ENRICHMENT_TIMEOUT_MS :: rat where "DEFAULT_ENRICHMENT_TIMEOUT_MS = 5000"

fun positiveFinite :: "jsval \<Rightarrow> rat option" where
  "positiveFinite (NumVal (Finite q)) = (if q > 0 then Some q else None)"
| "positiveFinite _ = None"

definition effectiveTimeoutMs :: "jsval \<Rightarrow> jsval \<Rightarrow> rat option" where
  "effectiveTimeoutMs enricherTimeoutMs governorTimeoutMs =
     (if enricherTimeoutMs = Null then None
      else case positiveFinite enricherTimeoutMs of
        Some q \<Rightarrow> Some q
      | None \<Rightarrow>
          if governorTimeoutMs = Null then None
          else case positiveFinite governorTimeoutMs of
            Some q \<Rightarrow> Some q
          | None \<Rightarrow> Some DEFAULT_ENRICHMENT_TIMEOUT_MS)"

datatype 'a raced = Settled 'a | Threw | TimedOut

definition abortedAt :: "rat option \<Rightarrow> rat \<Rightarrow> bool" where
  "abortedAt abort now = (case abort of Some a \<Rightarrow> a \<le> now | None \<Rightarrow> False)"

text \<open>The delay after which the composed signal fires: timer and caller's signal, whichever is first.\<close>

definition signalDelay :: "rat option \<Rightarrow> rat option \<Rightarrow> rat \<Rightarrow> rat option" where
  "signalDelay abort timeoutMs now =
     (case (abort, timeoutMs) of
        (None, None) \<Rightarrow> None
      | (None, Some t) \<Rightarrow> Some t
      | (Some a, None) \<Rightarrow> Some (max 0 (a - now))
      | (Some a, Some t) \<Rightarrow> Some (min t (max 0 (a - now))))"

fun raceSettled :: "'a raced \<Rightarrow> rat \<Rightarrow> rat option \<Rightarrow> 'a raced \<times> rat" where
  "raceSettled r d None = (r, d)"
| "raceSettled r d (Some l) = (if d < l then (r, d) else (TimedOut, l))"

fun race :: "'a promise \<Rightarrow> rat option \<Rightarrow> ('a raced \<times> rat) option" where
  "race (Resolves v d) limit = Some (raceSettled (Settled v) d limit)"
| "race (Rejects d) limit = Some (raceSettled Threw d limit)"
| "race Pends None = None"
| "race Pends (Some l) = Some (TimedOut, l)"

definition runWithTimeout :: "'a promise \<Rightarrow> rat option \<Rightarrow> rat option \<Rightarrow> rat \<Rightarrow> ('a raced \<times> rat) option" where
  "runWithTimeout p abort timeoutMs now =
     map_option (\<lambda>(r, d). (r, now + d)) (race p (signalDelay abort timeoutMs now))"

definition runBoundedOperation :: "'a promise \<Rightarrow> rat option \<Rightarrow> rat option \<Rightarrow> rat \<Rightarrow> ('a raced \<times> rat) option" where
  "runBoundedOperation p abort timeoutMs now =
     (if abortedAt abort now then Some (TimedOut, now) else runWithTimeout p abort timeoutMs now)"

subsection \<open>Cache slots\<close>

text \<open>
  \<open>JSON.stringify\<close> of a string: quotes, backslashes, control characters and unpaired surrogates are
  escaped.
\<close>

definition escapeUnit :: "nat \<Rightarrow> ustring" where
  "escapeUnit c =
     (if c = 34 then [92, 34] else if c = 92 then [92, 92] else if c = 8 then [92, 98]
      else if c = 9 then [92, 116] else if c = 10 then [92, 110] else if c = 12 then [92, 102]
      else if c = 13 then [92, 114]
      else [92, 117] @ replicate (4 - length (to_radix 16 c)) 48 @ to_radix 16 c)"

fun jsonChars :: "ustring \<Rightarrow> ustring" where
  "jsonChars [] = []"
| "jsonChars (c # s) =
     (if c = 34 \<or> c = 92 \<or> c < 32 then escapeUnit c @ jsonChars s
      else if is_high c \<and> s \<noteq> [] \<and> is_low (hd s) then c # hd s # jsonChars (tl s)
      else if is_high c \<or> is_low c then escapeUnit c @ jsonChars s
      else c # jsonChars s)"

definition jsonString :: "ustring \<Rightarrow> ustring" where
  "jsonString s = [34] @ jsonChars s @ [34]"

definition jsonStrings :: "ustring list \<Rightarrow> ustring" where
  "jsonStrings xs = [91] @ join [44] (map jsonString xs) @ [93]"

definition ENRICHMENT_CACHE_NAMESPACE :: ustring where
  "ENRICHMENT_CACHE_NAMESPACE = str ''linklint:enrichment:'' @ str ENRICHMENT_SCHEMA_VERSION"

record CacheSlot =
  cs_key :: ustring
  cs_staticTtlMs :: "rat option"

definition keyError :: "string \<Rightarrow> CacheSlot option \<times> RuntimeDegradation list" where
  "keyError reason = (None, [failure Cache_key_error False (Some [(''reason'', reason)])])"

text \<open>The part of \<open>cacheSlotFor\<close> after the call of \<open>cacheKey\<close>.\<close>

definition slotForKey :: "Enricher \<Rightarrow> InspectResult \<Rightarrow> jsval \<Rightarrow> CacheSlot option \<times> RuntimeDegradation list" where
  "slotForKey e base key =
     (if key = Null \<or> key = Undefined then (None, [])
      else case key of
        StrVal k \<Rightarrow>
          if k = [] then keyError ''invalid-return''
          else if fld (inspectionSubject base) ''kind'' = strval ''url'' \<and> ir_input base \<noteq> [] \<and> includesStr (ir_input base) k
          then keyError ''unsafe-full-url''
          else (Some \<lparr>cs_key = jsonStrings [ENRICHMENT_CACHE_NAMESPACE, checkToken e, k],
                      cs_staticTtlMs = positiveFinite (en_cacheTtlMs e)\<rparr>, [])
      | _ \<Rightarrow> keyError ''invalid-return'')"

definition cacheSlotFor ::
    "Enricher \<Rightarrow> InspectResult \<Rightarrow> run_env \<Rightarrow> CacheSlot option \<times> RuntimeDegradation list \<times> call list" where
  "cacheSlotFor e base env =
     (if \<not> en_cacheKey e then (None, [], [])
      else if en_cacheTtlMsFor e = Some False
      then (None, [failure Cache_ttl_error False (Some [(''reason'', ''invalid-resolver'')])], [])
      else if positiveFinite (en_cacheTtlMs e) = None \<and> en_cacheTtlMsFor e = None then (None, [], [])
      else case rv_cacheKey env of
        None \<Rightarrow> (case keyError ''threw'' of (slot, ds) \<Rightarrow> (slot, ds, [CacheKeyCall]))
      | Some key \<Rightarrow> (case slotForKey e base key of (slot, ds) \<Rightarrow> (slot, ds, [CacheKeyCall])))"

text \<open>The lifetime of an entry: the resolver's answer, or the static value where it gives none.\<close>

definition ttlOf :: "jsval \<Rightarrow> rat option \<times> RuntimeDegradation list" where
  "ttlOf candidate =
     (case candidate of
        Null \<Rightarrow> (None, [])
      | Undefined \<Rightarrow> (None, [])
      | NumVal n \<Rightarrow> (positiveFinite (NumVal n), [])
      | _ \<Rightarrow> (None, [failure Cache_ttl_error False (Some [(''reason'', ''invalid-return'')])]))"

definition cacheTtlFor :: "Enricher \<Rightarrow> run_env \<Rightarrow> rat option \<Rightarrow> rat option \<times> RuntimeDegradation list \<times> call list" where
  "cacheTtlFor e env staticTtlMs =
     (let static = (case staticTtlMs of Some q \<Rightarrow> NumVal (Finite q) | None \<Rightarrow> Undefined) in
      if en_cacheTtlMsFor e = Some True then
        (case rv_cacheTtl env of
           None \<Rightarrow> (None, [failure Cache_ttl_error False (Some [(''reason'', ''threw'')])], [CacheTtlCall])
         | Some c \<Rightarrow> (case ttlOf (if c = Undefined then static else c) of (ttl, ds) \<Rightarrow> (ttl, ds, [CacheTtlCall])))
      else (case ttlOf static of (ttl, ds) \<Rightarrow> (ttl, ds, [])))"

subsection \<open>Validation at the boundary\<close>

definition provenanceKind :: "jsval \<Rightarrow> jsval" where
  "provenanceKind v = fld (fld v ''provenance'') ''kind''"

text \<open>
  \<open>cloneEnrichmentReport\<close> detaches a validated report by a round trip through JSON, which changes no
  JSON value; values of the model have no identity.
\<close>

definition normalizeOutput ::
    "(ustring \<Rightarrow> int option) \<Rightarrow> jsval \<Rightarrow> Enricher \<Rightarrow> InspectResult \<Rightarrow> ustring \<Rightarrow> jsval option" where
  "normalizeOutput dateParse output e base now =
     (if isEnricherFindingArray output then Some (legacyReport e base (elements output) now)
      else if \<not> isEnrichmentReport dateParse output (Some (en_id e, en_layer e))
        \<or> list_ex (\<lambda>item. provenanceKind item \<noteq> strval ''declared''
             \<or> list_ex (\<lambda>evidence. provenanceKind evidence \<noteq> strval ''declared'') (elements (fld item ''evidence'')))
            (outcomesOf output)
      then None else Some output)"

definition normalizeCachedReport :: "(ustring \<Rightarrow> int option) \<Rightarrow> jsval \<Rightarrow> Enricher \<Rightarrow> jsval option" where
  "normalizeCachedReport dateParse output e =
     (if \<not> isEnrichmentReport dateParse output (Some (en_id e, en_layer e)) then None
      else if list_ex (\<lambda>outcome. provenanceKind outcome = strval ''unavailable''
             \<or> list_ex (\<lambda>evidence. provenanceKind evidence \<noteq> provenanceKind outcome) (elements (fld outcome ''evidence'')))
            (outcomesOf output)
      then None else Some output)"

text \<open>\<open>None\<close> when a read of the decision raises.\<close>

definition isGovernorDecision :: "jsval \<Rightarrow> bool option" where
  "isGovernorDecision v =
     (if \<not> isRecord v then Some False
      else case getProp v (str ''run'') of
        None \<Rightarrow> None
      | Some run \<Rightarrow>
          if run = BoolVal False then
            map_option (\<lambda>c. c = Undefined \<or> c = strval ''rate-limited'' \<or> c = strval ''backoff-active'') (getProp v (str ''cause''))
          else if run \<noteq> BoolVal True then Some False
          else map_option (\<lambda>t. t = Undefined \<or> t = Null \<or> (case t of NumVal _ \<Rightarrow> True | _ \<Rightarrow> False)) (getProp v (str ''timeoutMs'')))"

definition denialCause :: "jsval \<Rightarrow> EnrichmentFrameworkCauseCode" where
  "denialCause decision =
     (if fld decision ''cause'' = strval ''rate-limited'' then Rate_limited
      else if fld decision ''cause'' = strval ''backoff-active'' then Backoff_active
      else Governor_denied)"

subsection \<open>runEnricher\<close>

text \<open>What a run has gathered so far: degradations, calls and the time.\<close>

record run_state =
  st_degradations :: "RuntimeDegradation list"
  st_calls :: "call list"
  st_now :: rat

definition finishRun :: "Enricher \<Rightarrow> InspectResult \<Rightarrow> run_env \<Rightarrow> run_state \<Rightarrow> jsval \<Rightarrow> run_result option" where
  "finishRun e base env st report =
     Some \<lparr>rr_run = \<lparr>er_token = checkToken e,
             er_report = withDegradations report e base (st_degradations st) (rv_now env)\<rparr>,
           rr_calls = st_calls st, rr_end = st_now st\<rparr>"

definition degraded ::
    "Enricher \<Rightarrow> InspectResult \<Rightarrow> run_env \<Rightarrow> run_state \<Rightarrow> DegradationStatus \<Rightarrow> EnrichmentFrameworkCauseCode \<Rightarrow> bool \<Rightarrow>
     jsval option \<Rightarrow> run_result option" where
  "degraded e base env st status code retryable details =
     finishRun e base env st (frameworkReport e base status code retryable details (rv_now env 0))"

text \<open>\<open>addGovernorRecordDegradation\<close>; the flag selects \<open>recordSuccess\<close> or \<open>recordFailure\<close>.\<close>

definition recordOutcome :: "bool \<Rightarrow> Enricher \<Rightarrow> run_env \<Rightarrow> bool \<Rightarrow> run_state \<Rightarrow> run_state" where
  "recordOutcome governor e env success st =
     (if \<not> governor then st
      else st\<lparr>st_calls := st_calls st @ [if success then RecordSuccessCall (checkToken e) else RecordFailureCall (checkToken e)],
              st_degradations := st_degradations st @ (if rv_record env then []
                else [failure Governor_error True (Some [(''operation'', if success then ''recordSuccess'' else ''recordFailure'')])])\<rparr>)"

text \<open>The cache write at the end of a wholly completed run.\<close>

definition writeCache ::
    "Enricher \<Rightarrow> InspectResult \<Rightarrow> run_env \<Rightarrow> jsval \<Rightarrow> CacheSlot \<Rightarrow> run_state \<Rightarrow> run_result option" where
  "writeCache e base env report slot st =
     (case cacheTtlFor e env (cs_staticTtlMs slot) of (ttl, ds, calls) \<Rightarrow>
        (let st' = st\<lparr>st_degradations := st_degradations st @ ds, st_calls := st_calls st @ calls\<rparr> in
         case ttl of
           None \<Rightarrow> finishRun e base env st' report
         | Some ttlMs \<Rightarrow>
             (let called = (if abortedAt (rv_abort env) (st_now st') then []
                     else [CacheSetCall (cs_key slot) report ttlMs]) in
              case runBoundedOperation (rv_cacheSet env) (rv_abort env) (effectiveTimeoutMs (en_timeoutMs e) Undefined) (st_now st') of
                None \<Rightarrow> None
              | Some (r, t) \<Rightarrow>
                  (let bad = (case r of
                         Settled _ \<Rightarrow> []
                       | TimedOut \<Rightarrow> [failure Cache_write_error True
                           (Some [(''reason'', if abortedAt (rv_abort env) t then ''caller-aborted'' else ''timeout'')])]
                       | Threw \<Rightarrow> [failure Cache_write_error True None])
                   in finishRun e base env
                        \<lparr>st_degradations = st_degradations st' @ bad, st_calls = st_calls st' @ called, st_now = t\<rparr> report))))"

text \<open>After the source has answered.\<close>

definition completeRun ::
    "(ustring \<Rightarrow> int option) \<Rightarrow> Enricher \<Rightarrow> InspectResult \<Rightarrow> bool \<Rightarrow> run_env \<Rightarrow> CacheSlot option \<Rightarrow> run_state \<Rightarrow> jsval \<Rightarrow>
     run_result option" where
  "completeRun dateParse e base governor env slot st output =
     (case normalizeOutput dateParse output e base (rv_now env 0) of
        None \<Rightarrow> degraded e base env (recordOutcome governor e env False st) FailureStatus Invalid_output False None
      | Some report \<Rightarrow>
          (let failed = list_ex (\<lambda>item. fld item ''status'' = strval ''failure'') (outcomesOf report);
               st' = recordOutcome governor e env (\<not> failed) st
           in case slot of
                Some s \<Rightarrow> if list_all available (outcomesOf report) then writeCache e base env report s st'
                          else finishRun e base env st' report
              | None \<Rightarrow> finishRun e base env st' report))"

text \<open>The call of the source, raced against its deadline and the caller's signal.\<close>

definition runSource ::
    "(ustring \<Rightarrow> int option) \<Rightarrow> Enricher \<Rightarrow> InspectResult \<Rightarrow> bool \<Rightarrow> run_env \<Rightarrow> CacheSlot option \<Rightarrow> jsval \<Rightarrow> run_state \<Rightarrow>
     run_result option" where
  "runSource dateParse e base governor env slot governorTimeoutMs st =
     (case runWithTimeout (rv_enrich env) (rv_abort env) (effectiveTimeoutMs (en_timeoutMs e) governorTimeoutMs) (st_now st) of
        None \<Rightarrow> None
      | Some (r, t) \<Rightarrow>
          (let st' = st\<lparr>st_calls := st_calls st @ [EnrichCall], st_now := t\<rparr>;
               failed = recordOutcome governor e env False st';
               aborted = abortedAt (rv_abort env) t
           in case r of
                Threw \<Rightarrow> if aborted then degraded e base env failed SkippedStatus Caller_aborted False None
                         else degraded e base env failed FailureStatus Source_error True None
              | TimedOut \<Rightarrow> if aborted then degraded e base env failed SkippedStatus Caller_aborted False None
                            else degraded e base env failed FailureStatus Timeout True None
              | Settled output \<Rightarrow>
                  if aborted then degraded e base env failed SkippedStatus Caller_aborted False None
                  else completeRun dateParse e base governor env slot st' output))"

text \<open>Admission by the governor, if there is one.\<close>

definition admitRun ::
    "(ustring \<Rightarrow> int option) \<Rightarrow> Enricher \<Rightarrow> InspectResult \<Rightarrow> bool \<Rightarrow> run_env \<Rightarrow> CacheSlot option \<Rightarrow> run_state \<Rightarrow> run_result option" where
  "admitRun dateParse e base governor env slot st =
     (if \<not> governor then runSource dateParse e base governor env slot Undefined st
      else (let st' = st\<lparr>st_calls := st_calls st @ [AdmitCall (checkToken e)]\<rparr>;
                threw = degraded e base env st' FailureStatus Governor_error True (Some (obj [(''operation'', strval ''admit'')]))
            in case rv_admit env of
                 None \<Rightarrow> threw
               | Some decision \<Rightarrow>
                   (case isGovernorDecision decision of
                      None \<Rightarrow> threw
                    | Some False \<Rightarrow> degraded e base env st' FailureStatus Governor_error True
                        (Some (obj [(''operation'', strval ''admit''), (''reason'', strval ''invalid-decision'')]))
                    | Some True \<Rightarrow>
                        if fld decision ''run'' = BoolVal False
                        then degraded e base env st' SkippedStatus (denialCause decision) True None
                        else runSource dateParse e base governor env slot (fld decision ''timeoutMs'') st')))"

text \<open>The bounded read of the cache.\<close>

definition readCache ::
    "(ustring \<Rightarrow> int option) \<Rightarrow> Enricher \<Rightarrow> InspectResult \<Rightarrow> bool \<Rightarrow> run_env \<Rightarrow> CacheSlot \<Rightarrow> run_state \<Rightarrow> run_result option" where
  "readCache dateParse e base governor env slot st =
     (case runBoundedOperation (rv_cacheGet env) (rv_abort env) (effectiveTimeoutMs (en_timeoutMs e) Undefined) (st_now st) of
        None \<Rightarrow> None
      | Some (r, t) \<Rightarrow>
          (let st' = st\<lparr>st_calls := st_calls st @ [CacheGetCall (cs_key slot)], st_now := t\<rparr> in
           case r of
             TimedOut \<Rightarrow>
               if abortedAt (rv_abort env) t
               then degraded e base env (st'\<lparr>st_degradations := []\<rparr>) SkippedStatus Caller_aborted False None
               else admitRun dateParse e base governor env (Some slot)
                 (st'\<lparr>st_degradations := st_degradations st' @ [failure Cache_read_error True (Some [(''reason'', ''timeout'')])]\<rparr>)
           | Threw \<Rightarrow> admitRun dateParse e base governor env (Some slot)
                 (st'\<lparr>st_degradations := st_degradations st' @ [failure Cache_read_error True None]\<rparr>)
           | Settled cached \<Rightarrow>
               if cached = Undefined then admitRun dateParse e base governor env (Some slot) st'
               else (case normalizeCachedReport dateParse cached e of
                   Some report \<Rightarrow> finishRun e base env st' report
                 | None \<Rightarrow> degraded e base env st' FailureStatus Invalid_cached_output False None)))"

definition runEnricher ::
    "(ustring \<Rightarrow> int option) \<Rightarrow> Enricher \<Rightarrow> InspectResult \<Rightarrow> bool \<Rightarrow> bool \<Rightarrow> run_env \<Rightarrow> run_result option" where
  "runEnricher dateParse e base cache governor env =
     (let st = \<lparr>st_degradations = [], st_calls = [], st_now = 0\<rparr> in
      if abortedAt (rv_abort env) 0 then degraded e base env st SkippedStatus Caller_aborted False None
      else if \<not> cache then admitRun dateParse e base governor env None st
      else (case cacheSlotFor e base env of (slot, ds, calls) \<Rightarrow>
        (let st' = st\<lparr>st_degradations := ds, st_calls := calls\<rparr> in
         case slot of
           None \<Rightarrow> admitRun dateParse e base governor env None st'
         | Some s \<Rightarrow> readCache dateParse e base governor env s st')))"

subsection \<open>Framework outcomes\<close>

lemma outcomesOf_report [simp]: "outcomesOf (enrichmentReport os) = os"
  by (simp add: outcomesOf_def enrichmentReport_def)

lemma frameworkOutcome_status [simp]: "fld (frameworkOutcome e base s c r d now) ''status'' = strval (statusName s)"
  by (simp add: frameworkOutcome_def)

lemma framework_not_available [simp]: "\<not> available (frameworkOutcome e base s c r d now)"
  by (cases s) (simp_all add: available_def)

subsection \<open>Deadlines hold\<close>

lemma race_settles: "\<exists>r d. race p (Some l) = Some (r, d) \<and> d \<le> l"
  by (cases p) auto

lemma effectiveTimeoutMs_pos: "effectiveTimeoutMs a b = Some t \<Longrightarrow> 0 < t"
  by (auto simp: effectiveTimeoutMs_def DEFAULT_ENRICHMENT_TIMEOUT_MS_def split: if_splits option.splits elim!: positiveFinite.elims)

lemma effectiveTimeoutMs_Some: "a \<noteq> Null \<Longrightarrow> b \<noteq> Null \<Longrightarrow> \<exists>t. effectiveTimeoutMs a b = Some t"
  by (auto simp: effectiveTimeoutMs_def split: option.split)

lemma runWithTimeout_deadline: "\<exists>r t. runWithTimeout p abort (Some T) now = Some (r, t) \<and> t \<le> now + T"
proof -
  obtain l where l: "signalDelay abort (Some T) now = Some l" "l \<le> T"
    by (cases abort) (auto simp: signalDelay_def)
  with race_settles [of p l] show ?thesis by (force simp: runWithTimeout_def)
qed

lemma runBoundedOperation_deadline:
  "0 < T \<Longrightarrow> \<exists>r t. runBoundedOperation p abort (Some T) now = Some (r, t) \<and> t \<le> now + T"
  using runWithTimeout_deadline [of p abort T now] by (simp add: runBoundedOperation_def)

lemma runWithTimeout_abort: "\<exists>r t. runWithTimeout p (Some a) timeout now = Some (r, t) \<and> t \<le> max now a"
proof -
  obtain l where l: "signalDelay (Some a) timeout now = Some l" "l \<le> max 0 (a - now)"
    by (cases timeout) (auto simp: signalDelay_def)
  obtain r d where "race p (Some l) = Some (r, d)" "d \<le> l" using race_settles by blast
  moreover have "now + d \<le> max now a" using \<open>d \<le> l\<close> l(2) by (simp add: max_def split: if_splits)
  ultimately show ?thesis using l(1) by (simp add: runWithTimeout_def)
qed

lemma runBoundedOperation_abort: "\<exists>r t. runBoundedOperation p (Some a) timeout now = Some (r, t) \<and> t \<le> max now a"
  using runWithTimeout_abort [of p a timeout now] by (simp add: runBoundedOperation_def)

text \<open>A run that is over by time \<open>b\<close>.\<close>

definition overBy :: "rat \<Rightarrow> run_result option \<Rightarrow> bool" where
  "overBy b r \<longleftrightarrow> (\<exists>x. r = Some x \<and> rr_end x \<le> b)"

lemma overBy_finishRun [simp]: "overBy b (finishRun e base env st report) \<longleftrightarrow> st_now st \<le> b"
  by (simp add: overBy_def finishRun_def)

lemma overBy_degraded [simp]: "overBy b (degraded e base env st s c r d) \<longleftrightarrow> st_now st \<le> b"
  by (simp add: degraded_def)

lemma st_now_recordOutcome [simp]: "st_now (recordOutcome g e env s st) = st_now st"
  by (simp add: recordOutcome_def)

text \<open>
  The stages in terms of the bounds on their awaited operations: \<open>cachePart\<close> bounds the end of a cache
  operation started at a time, \<open>sourcePart\<close> that of the source.
\<close>

lemma writeCache_overBy:
  assumes "\<And>now p. now \<le> b \<Longrightarrow> \<exists>r t. runBoundedOperation (p :: unit promise) (rv_abort env) (effectiveTimeoutMs (en_timeoutMs e) Undefined) now = Some (r, t) \<and> t \<le> c"
    "b \<le> c" "st_now st \<le> b"
  shows "overBy c (writeCache e base env report slot st)"
proof -
  obtain ttl ds calls where w: "cacheTtlFor e env (cs_staticTtlMs slot) = (ttl, ds, calls)" by (cases "cacheTtlFor e env (cs_staticTtlMs slot)") auto
  obtain r t where "runBoundedOperation (rv_cacheSet env) (rv_abort env) (effectiveTimeoutMs (en_timeoutMs e) Undefined) (st_now st) = Some (r, t)" "t \<le> c"
    using assms(1,3) by blast
  with w assms(2,3) show ?thesis by (cases ttl; cases r) (auto simp: writeCache_def Let_def)
qed

lemma runSource_overBy:
  assumes w: "\<And>now p. now \<le> b \<Longrightarrow> \<exists>r t. runBoundedOperation (p :: unit promise) (rv_abort env) (effectiveTimeoutMs (en_timeoutMs e) Undefined) now = Some (r, t) \<and> t \<le> c"
    and s: "\<exists>r t. runWithTimeout (rv_enrich env) (rv_abort env) (effectiveTimeoutMs (en_timeoutMs e) g) (st_now st) = Some (r, t) \<and> t \<le> b"
    and "b \<le> c"
  shows "overBy c (runSource dateParse e base governor env slot g st)"
proof -
  obtain r t where "runWithTimeout (rv_enrich env) (rv_abort env) (effectiveTimeoutMs (en_timeoutMs e) g) (st_now st) = Some (r, t)" "t \<le> b"
    using s by blast
  moreover have "overBy c (completeRun dateParse e base governor env slot st' out)" if "st_now st' = t" for st' out
    using \<open>t \<le> b\<close> \<open>b \<le> c\<close> that writeCache_overBy [OF w \<open>b \<le> c\<close>]
    by (auto simp: completeRun_def Let_def split: option.split)
  ultimately show ?thesis using \<open>b \<le> c\<close> by (cases r) (auto simp: runSource_def Let_def)
qed

definition governorTimeout :: "bool \<Rightarrow> run_env \<Rightarrow> jsval" where
  "governorTimeout governor env =
     (if governor then case rv_admit env of Some d \<Rightarrow> fld d ''timeoutMs'' | None \<Rightarrow> Undefined else Undefined)"

text \<open>The deadlines of the three awaited operations of a run, if neither party opted out.\<close>

definition runDeadline :: "Enricher \<Rightarrow> bool \<Rightarrow> run_env \<Rightarrow> rat option" where
  "runDeadline e governor env =
     (case (effectiveTimeoutMs (en_timeoutMs e) Undefined, effectiveTimeoutMs (en_timeoutMs e) (governorTimeout governor env)) of
        (Some c, Some s) \<Rightarrow> Some (2 * c + s)
      | _ \<Rightarrow> None)"

lemma admitRun_overBy:
  assumes "\<And>st'. st_now st' = st_now st \<Longrightarrow>
      overBy c (runSource dateParse e base governor env slot (governorTimeout governor env) st')" "st_now st \<le> c"
  shows "overBy c (admitRun dateParse e base governor env slot st)"
  using assms by (auto simp: admitRun_def governorTimeout_def Let_def split: option.split bool.split)

lemma runEnricher_overBy:
  fixes w :: "rat \<Rightarrow> rat"
  assumes cache: "\<And>p now. \<exists>r t. runBoundedOperation (p :: jsval promise) (rv_abort env) (effectiveTimeoutMs (en_timeoutMs e) Undefined) now = Some (r, t) \<and> t \<le> w now"
    and store: "\<And>p now. \<exists>r t. runBoundedOperation (p :: unit promise) (rv_abort env) (effectiveTimeoutMs (en_timeoutMs e) Undefined) now = Some (r, t) \<and> t \<le> w now"
    and source: "\<And>now. \<exists>r t. runWithTimeout (rv_enrich env) (rv_abort env) (effectiveTimeoutMs (en_timeoutMs e) (governorTimeout governor env)) now = Some (r, t) \<and> t \<le> s now"
    and grow: "\<And>t. t \<le> w t" "\<And>t. t \<le> s t" "\<And>t u. t \<le> u \<Longrightarrow> w t \<le> w u" "\<And>t u. t \<le> u \<Longrightarrow> s t \<le> s u"
  shows "overBy (w (s (w 0))) (runEnricher dateParse e base cached governor env)"
proof -
  let ?c = "w (s (w 0))"
  have src: "overBy ?c (runSource dateParse e base governor env slot (governorTimeout governor env) st)"
    if "st_now st \<le> w 0" for slot st
  proof (rule runSource_overBy [where b = "s (w 0)"])
    show "\<exists>r t. runBoundedOperation (p :: unit promise) (rv_abort env) (effectiveTimeoutMs (en_timeoutMs e) Undefined) now = Some (r, t) \<and> t \<le> ?c"
      if "now \<le> s (w 0)" for now p
      using store [of p now] grow(3) [OF that] by (meson order_trans)
    show "\<exists>r t. runWithTimeout (rv_enrich env) (rv_abort env) (effectiveTimeoutMs (en_timeoutMs e) (governorTimeout governor env)) (st_now st) = Some (r, t) \<and> t \<le> s (w 0)"
      using source [of "st_now st"] grow(4) [OF that] by (meson order_trans)
  qed (rule grow(1))
  have le: "w 0 \<le> ?c" "0 \<le> ?c"
    using grow(2) [of "w 0"] grow(1) [of "s (w 0)"] grow(1) [of 0] by linarith+
  have adm: "overBy ?c (admitRun dateParse e base governor env slot st)" if "st_now st \<le> w 0" for slot st
    using that le src by (intro admitRun_overBy) auto
  have "overBy ?c (readCache dateParse e base governor env slot st)" if "st_now st = 0" for slot st
  proof -
    obtain r t where "runBoundedOperation (rv_cacheGet env) (rv_abort env) (effectiveTimeoutMs (en_timeoutMs e) Undefined) 0 = Some (r, t)" "t \<le> w 0"
      using cache by blast
    then show ?thesis using that le adm by (cases r) (auto simp: readCache_def Let_def split: option.split)
  qed
  then show ?thesis using adm le grow(1) [of 0]
    by (auto simp: runEnricher_def Let_def split: option.split prod.split)
qed

lemma runEnricher_deadline:
  assumes "runDeadline e governor env = Some b"
  shows "overBy b (runEnricher dateParse e base cached governor env)"
proof -
  obtain c s where d: "effectiveTimeoutMs (en_timeoutMs e) Undefined = Some c"
      "effectiveTimeoutMs (en_timeoutMs e) (governorTimeout governor env) = Some s" "b = 2 * c + s"
    using assms by (auto simp: runDeadline_def split: option.splits)
  have "overBy (((0 + c) + s) + c) (runEnricher dateParse e base cached governor env)"
    using d(1,2) [THEN effectiveTimeoutMs_pos]
    by (intro runEnricher_overBy [where w = "\<lambda>t. t + c" and s = "\<lambda>t. t + s"])
      (simp_all add: d runBoundedOperation_deadline runWithTimeout_deadline)
  then show ?thesis by (simp add: d add.commute)
qed

text \<open>
  C21: A run always settles. With the deadlines in force it is over after the sum of the deadlines of
  its three awaited operations, cache read, source and cache write, whatever the enricher, the
  cache and the governor do; and once the caller's signal aborts it is over at that instant, even
  for an enricher that opted out of its deadline. The only run that can hang has no deadline and is
  not aborted.
\<close>

theorem runEnricher_settles:
  "(runDeadline e governor env = Some b \<longrightarrow> overBy b (runEnricher dateParse e base cached governor env))
   \<and> (rv_abort env = Some a \<longrightarrow> overBy (max 0 a) (runEnricher dateParse e base cached governor env))"
proof (intro conjI impI)
  show "overBy b (runEnricher dateParse e base cached governor env)" if "runDeadline e governor env = Some b"
    using that by (rule runEnricher_deadline)
next
  assume a: "rv_abort env = Some a"
  have "overBy (max (max (max 0 a) a) a) (runEnricher dateParse e base cached governor env)"
    by (intro runEnricher_overBy [where w = "\<lambda>t. max t a" and s = "\<lambda>t. max t a"])
      (simp_all add: a runBoundedOperation_abort runWithTimeout_abort max.coboundedI1)
  then show "overBy (max 0 a) (runEnricher dateParse e base cached governor env)" by simp
qed

subsection \<open>What a run calls\<close>

text \<open>
  The calls one run may make, in order, as a grammar over what the other parties answered: the cache
  store at the end, the source with its record for the governor, the admission, and the cache lookup in
  front. \<open>answered v\<close> says that \<open>v\<close> is the validated answer of the source, \<open>granted\<close> that the governor
  admitted the run, \<open>served\<close> that the cache read gave a value, \<open>keyed k\<close> that \<open>k\<close> is the key of the slot.
  The key runs through, so that a store goes to the key that was looked up.
\<close>

inductive storePhase :: "jsval \<Rightarrow> ustring option \<Rightarrow> call list \<Rightarrow> bool" where
  unstored: "storePhase v slot []"
| no_lifetime: "storePhase v (Some k) [CacheTtlCall]"
| stored: "0 < t \<Longrightarrow> list_all available (outcomesOf v) \<Longrightarrow> storePhase v (Some k) [CacheSetCall k v t]"
| stored_for: "0 < t \<Longrightarrow> list_all available (outcomesOf v) \<Longrightarrow> storePhase v (Some k) [CacheTtlCall, CacheSetCall k v t]"

inductive sourcePhase :: "(jsval \<Rightarrow> bool) \<Rightarrow> bool \<Rightarrow> ustring \<Rightarrow> ustring option \<Rightarrow> call list \<Rightarrow> bool"
  for answered where
  fruitless: "sourcePhase answered False token slot [EnrichCall]"
| unrecorded: "answered v \<Longrightarrow> storePhase v slot cs \<Longrightarrow> sourcePhase answered False token slot (EnrichCall # cs)"
| failed: "sourcePhase answered True token slot [EnrichCall, RecordFailureCall token]"
| succeeded: "answered v \<Longrightarrow> \<not> list_ex (\<lambda>item. fld item ''status'' = strval ''failure'') (outcomesOf v) \<Longrightarrow> storePhase v slot cs \<Longrightarrow>
    sourcePhase answered True token slot (EnrichCall # RecordSuccessCall token # cs)"

inductive admitPhase :: "bool \<Rightarrow> (jsval \<Rightarrow> bool) \<Rightarrow> bool \<Rightarrow> ustring \<Rightarrow> ustring option \<Rightarrow> call list \<Rightarrow> bool"
  for granted answered where
  ungoverned: "sourcePhase answered False token slot cs \<Longrightarrow> admitPhase granted answered False token slot cs"
| refused: "\<not> granted \<Longrightarrow> admitPhase granted answered True token slot [AdmitCall token]"
| admitted: "granted \<Longrightarrow> sourcePhase answered True token slot cs \<Longrightarrow> admitPhase granted answered True token slot (AdmitCall token # cs)"

inductive runCalls :: "bool \<Rightarrow> (ustring \<Rightarrow> bool) \<Rightarrow> bool \<Rightarrow> bool \<Rightarrow> (jsval \<Rightarrow> bool) \<Rightarrow> bool \<Rightarrow> ustring \<Rightarrow> call list \<Rightarrow> bool"
  for cancellable keyed served granted answered governor token where
  aborted: "cancellable \<Longrightarrow> runCalls cancellable keyed served granted answered governor token []"
| uncached: "admitPhase granted answered governor token None cs \<Longrightarrow>
    runCalls cancellable keyed served granted answered governor token cs"
| unkeyed: "admitPhase granted answered governor token None cs \<Longrightarrow>
    runCalls cancellable keyed served granted answered governor token (CacheKeyCall # cs)"
| hit: "keyed k \<Longrightarrow> served \<or> cancellable \<Longrightarrow>
    runCalls cancellable keyed served granted answered governor token [CacheKeyCall, CacheGetCall k]"
| miss: "keyed k \<Longrightarrow> \<not> served \<Longrightarrow> admitPhase granted answered governor token (Some k) cs \<Longrightarrow>
    runCalls cancellable keyed served granted answered governor token (CacheKeyCall # CacheGetCall k # cs)"

lemmas call_phases [intro] = storePhase.intros sourcePhase.intros admitPhase.intros

text \<open>What the parties answered, in terms of the environment.\<close>

definition sourceAnswered :: "(ustring \<Rightarrow> int option) \<Rightarrow> Enricher \<Rightarrow> InspectResult \<Rightarrow> run_env \<Rightarrow> jsval \<Rightarrow> bool" where
  "sourceAnswered dateParse e base env v \<longleftrightarrow>
     (\<exists>out d. rv_enrich env = Resolves out d \<and> normalizeOutput dateParse out e base (rv_now env 0) = Some v)"

definition governorGranted :: "run_env \<Rightarrow> bool" where
  "governorGranted env \<longleftrightarrow> (\<exists>decision. rv_admit env = Some decision \<and> isGovernorDecision decision = Some True
     \<and> getProp decision (str ''run'') = Some (BoolVal True))"

definition cacheServed :: "Enricher \<Rightarrow> run_env \<Rightarrow> bool" where
  "cacheServed e env \<longleftrightarrow> (\<exists>v t. v \<noteq> Undefined \<and>
     runBoundedOperation (rv_cacheGet env) (rv_abort env) (effectiveTimeoutMs (en_timeoutMs e) Undefined) 0 = Some (Settled v, t))"

definition slotKeyed :: "Enricher \<Rightarrow> run_env \<Rightarrow> ustring \<Rightarrow> bool" where
  "slotKeyed e env k \<longleftrightarrow> (\<exists>key. rv_cacheKey env = Some (StrVal key) \<and> key \<noteq> [] \<and>
     k = jsonStrings [ENRICHMENT_CACHE_NAMESPACE, checkToken e, key])"

lemma rr_calls_finishRun: "finishRun e base env st report = Some r \<Longrightarrow> rr_calls r = st_calls st"
  by (auto simp: finishRun_def)

lemma rr_calls_degraded: "degraded e base env st s c rt d = Some r \<Longrightarrow> rr_calls r = st_calls st"
  by (auto simp: degraded_def rr_calls_finishRun)

lemmas calls_end = rr_calls_finishRun rr_calls_degraded

lemma positiveFinite_pos: "positiveFinite v = Some q \<Longrightarrow> 0 < q"
  by (cases v rule: positiveFinite.cases) (auto split: if_splits)

lemma ttlOf_pos: "ttlOf v = (Some q, ds) \<Longrightarrow> 0 < q"
  by (auto simp: ttlOf_def positiveFinite_pos split: jsval.splits)

lemma cacheTtlFor_calls:
  "cacheTtlFor e env static = (ttl, ds, calls) \<Longrightarrow> (calls = [] \<or> calls = [CacheTtlCall]) \<and> (\<forall>q. ttl = Some q \<longrightarrow> 0 < q)"
  by (auto simp: cacheTtlFor_def Let_def split: if_splits option.splits prod.splits dest: ttlOf_pos)

lemma race_Settled:
  assumes "runWithTimeout p abort timeout now = Some (Settled v, t)"
  shows "\<exists>d. p = Resolves v d"
proof -
  obtain d where "race p (signalDelay abort timeout now) = Some (Settled v, d)"
    using assms by (auto simp: runWithTimeout_def)
  then show ?thesis by (cases p; cases "signalDelay abort timeout now") (auto split: if_splits)
qed

lemma writeCache_calls:
  assumes "writeCache e base env report slot st = Some r" "list_all available (outcomesOf report)"
  shows "\<exists>cs. rr_calls r = st_calls st @ cs \<and> storePhase report (Some (cs_key slot)) cs"
proof -
  obtain q ds calls where w: "cacheTtlFor e env (cs_staticTtlMs slot) = (q, ds, calls)"
    by (cases "cacheTtlFor e env (cs_staticTtlMs slot)") auto
  define store where "store = (case q of Some x \<Rightarrow> if abortedAt (rv_abort env) (st_now st) then []
      else [CacheSetCall (cs_key slot) report x] | None \<Rightarrow> [])"
  have "rr_calls r = st_calls st @ calls @ store"
    using assms(1) w by (cases q) (auto simp: writeCache_def store_def Let_def
      split: option.splits raced.splits if_splits dest!: calls_end)
  moreover have "storePhase report (Some (cs_key slot)) (calls @ store)"
    using cacheTtlFor_calls [OF w] assms(2) by (auto simp: store_def split: option.split)
  ultimately show ?thesis by blast
qed

lemma recordOutcome_calls [simp]:
  "st_calls (recordOutcome governor e env success st) =
     st_calls st @ (if governor then [if success then RecordSuccessCall (checkToken e) else RecordFailureCall (checkToken e)] else [])"
  by (simp add: recordOutcome_def)

lemma completeRun_calls:
  assumes run: "completeRun dateParse e base governor env slot st out = Some r" and "st_calls st = pre @ [EnrichCall]"
    and "rv_enrich env = Resolves out d"
  shows "\<exists>cs. rr_calls r = pre @ cs \<and> sourcePhase (sourceAnswered dateParse e base env) governor (checkToken e) (map_option cs_key slot) cs"
proof (cases "normalizeOutput dateParse out e base (rv_now env 0)")
  case None
  then show ?thesis using assms by (cases governor) (auto simp: completeRun_def dest!: calls_end)
next
  case (Some report)
  define failed where "failed = list_ex (\<lambda>item. fld item ''status'' = strval ''failure'') (outcomesOf report)"
  have ans: "sourceAnswered dateParse e base env report" using Some assms(3) by (auto simp: sourceAnswered_def)
  have "\<exists>cs. rr_calls r = st_calls (recordOutcome governor e env (\<not> failed) st) @ cs
      \<and> storePhase report (map_option cs_key slot) cs \<and> (failed \<longrightarrow> cs = [])"
  proof (cases "\<exists>s. slot = Some s \<and> list_all available (outcomesOf report)")
    case True
    then obtain s where s: "slot = Some s" "list_all available (outcomesOf report)" by blast
    have "\<not> failed" using s(2) by (auto simp: failed_def list_ex_iff list_all_iff available_def)
    with run Some s have "writeCache e base env report s (recordOutcome governor e env (\<not> failed) st) = Some r"
      by (simp add: completeRun_def failed_def)
    from writeCache_calls [OF this s(2)] show ?thesis using s(1) \<open>\<not> failed\<close> by auto
  next
    case False
    then have "rr_calls r = st_calls (recordOutcome governor e env (\<not> failed) st)"
      using run Some by (auto simp: completeRun_def failed_def Let_def split: option.splits if_splits dest!: calls_end)
    then show ?thesis by auto
  qed
  then show ?thesis
    using assms(2) ans unfolding failed_def by (cases governor) (auto split: if_splits)
qed

lemma runSource_calls:
  assumes "runSource dateParse e base governor env slot g st = Some r"
  shows "\<exists>cs. rr_calls r = st_calls st @ cs \<and> sourcePhase (sourceAnswered dateParse e base env) governor (checkToken e) (map_option cs_key slot) cs"
proof -
  obtain x t where x: "runWithTimeout (rv_enrich env) (rv_abort env) (effectiveTimeoutMs (en_timeoutMs e) g) (st_now st) = Some (x, t)"
    using assms by (auto simp: runSource_def split: option.splits)
  define st' where "st' = st\<lparr>st_calls := st_calls st @ [EnrichCall], st_now := t\<rparr>"
  have st': "st_calls st' = st_calls st @ [EnrichCall]" by (simp add: st'_def)
  consider (bad) "rr_calls r = st_calls (recordOutcome governor e env False st')"
    | (ok) out where "x = Settled out" "completeRun dateParse e base governor env slot st' out = Some r"
    using assms x unfolding st'_def
    by (cases x) (auto simp: runSource_def Let_def split: if_splits dest!: calls_end)
  then show ?thesis
  proof cases
    case bad
    then show ?thesis using st' by (cases governor) auto
  next
    case ok
    obtain d where "rv_enrich env = Resolves out d" using race_Settled [OF x [unfolded ok(1)]] by blast
    then show ?thesis using completeRun_calls [OF ok(2) st'] by blast
  qed
qed

lemma admitRun_calls:
  assumes "admitRun dateParse e base governor env slot st = Some r"
  shows "\<exists>cs. rr_calls r = st_calls st @ cs \<and>
    admitPhase (governorGranted env) (sourceAnswered dateParse e base env) governor (checkToken e) (map_option cs_key slot) cs"
proof (cases governor)
  case False
  with assms show ?thesis using runSource_calls by (fastforce simp: admitRun_def)
next
  case True
  define st' where "st' = st\<lparr>st_calls := st_calls st @ [AdmitCall (checkToken e)]\<rparr>"
  have st': "st_calls st' = st_calls st @ [AdmitCall (checkToken e)]" by (simp add: st'_def)
  have decided: "getProp d (str ''run'') = Some (BoolVal True) \<longleftrightarrow> fld d ''run'' \<noteq> BoolVal False"
    if "isGovernorDecision d = Some True" for d
    using that by (auto simp: isGovernorDecision_def fld_def split: if_splits option.splits)
  consider (refused) "rr_calls r = st_calls st'" "\<not> governorGranted env"
    | (admitted) g where "runSource dateParse e base governor env slot g st' = Some r" "governorGranted env"
    using assms True decided unfolding st'_def governorGranted_def
    by (auto simp: admitRun_def Let_def split: if_splits option.splits bool.splits dest: calls_end)
  then show ?thesis
  proof cases
    case refused
    then show ?thesis using st' True by auto
  next
    case admitted
    from runSource_calls [OF admitted(1)] show ?thesis using st' True admitted(2) by auto
  qed
qed

lemma readCache_calls:
  assumes "readCache dateParse e base governor env slot st = Some r" "st_calls st = [CacheKeyCall]" "st_now st = 0"
    and "slotKeyed e env (cs_key slot)"
  shows "runCalls (rv_abort env \<noteq> None) (slotKeyed e env) (cacheServed e env) (governorGranted env) (sourceAnswered dateParse e base env)
    governor (checkToken e) (rr_calls r)"
proof -
  obtain x t where x: "runBoundedOperation (rv_cacheGet env) (rv_abort env) (effectiveTimeoutMs (en_timeoutMs e) Undefined) 0 = Some (x, t)"
    using assms by (auto simp: readCache_def split: option.splits)
  consider (hit) "rr_calls r = [CacheKeyCall, CacheGetCall (cs_key slot)]" "cacheServed e env \<or> rv_abort env \<noteq> None"
    | (miss) st' where "admitRun dateParse e base governor env (Some slot) st' = Some r" "\<not> cacheServed e env"
        "st_calls st' = [CacheKeyCall, CacheGetCall (cs_key slot)]"
    using assms x by (cases x) (auto simp: readCache_def cacheServed_def abortedAt_def Let_def split: if_splits option.splits dest!: calls_end)
  then show ?thesis
  proof cases
    case hit
    then show ?thesis using assms(4) by (simp add: runCalls.hit)
  next
    case miss
    from admitRun_calls [OF miss(1)] show ?thesis using miss(2,3) assms(4) by (auto intro: runCalls.miss)
  qed
qed

lemma readCache_called:
  assumes "readCache dateParse e base governor env slot st = Some r" "st_calls st = [CacheKeyCall]"
  shows "rr_calls r \<noteq> []"
  using assms
  by (auto simp: readCache_def Let_def split: if_splits option.splits raced.splits dest!: calls_end admitRun_calls)

lemma cacheSlotFor_calls:
  "cacheSlotFor e base env = (slot, ds, calls) \<Longrightarrow>
     (case slot of None \<Rightarrow> calls = [] \<or> calls = [CacheKeyCall]
      | Some s \<Rightarrow> calls = [CacheKeyCall] \<and> ds = [] \<and> slotKeyed e env (cs_key s))"
  by (auto simp: cacheSlotFor_def slotForKey_def keyError_def slotKeyed_def split: if_splits option.splits jsval.splits)

lemma runEnricher_calls:
  assumes "runEnricher dateParse e base cached governor env = Some r"
  shows "runCalls (rv_abort env \<noteq> None) (slotKeyed e env) (cacheServed e env) (governorGranted env) (sourceAnswered dateParse e base env)
      governor (checkToken e) (rr_calls r)
    \<and> (rr_calls r = [] \<longleftrightarrow> abortedAt (rv_abort env) 0)"
proof -
  obtain slot ds calls where slot: "cacheSlotFor e base env = (slot, ds, calls)" by (cases "cacheSlotFor e base env") auto
  consider (aborted) "rr_calls r = []" "abortedAt (rv_abort env) 0"
    | (uncached) st where "admitRun dateParse e base governor env None st = Some r" "st_calls st = [] \<or> st_calls st = [CacheKeyCall]"
        "\<not> abortedAt (rv_abort env) 0"
    | (cached) s st where "readCache dateParse e base governor env s st = Some r" "st_calls st = [CacheKeyCall]" "st_now st = 0"
        "slotKeyed e env (cs_key s)" "\<not> abortedAt (rv_abort env) 0"
    using assms slot cacheSlotFor_calls [OF slot]
    by (auto simp: runEnricher_def Let_def split: if_splits option.splits dest!: calls_end)
  then show ?thesis
  proof cases
    case aborted
    then have "rv_abort env \<noteq> None" by (auto simp: abortedAt_def split: option.splits)
    with aborted show ?thesis by (simp add: runCalls.aborted del: not_None_eq)
  next
    case uncached
    from admitRun_calls [OF uncached(1)] obtain cs where cs: "rr_calls r = st_calls st @ cs"
      "admitPhase (governorGranted env) (sourceAnswered dateParse e base env) governor (checkToken e) None cs" by auto
    have "cs \<noteq> []" using cs(2) by (auto elim!: admitPhase.cases sourcePhase.cases)
    with cs uncached(2,3) show ?thesis by (auto intro: runCalls.uncached runCalls.unkeyed)
  next
    case cached
    from readCache_calls [OF cached(1-4)] show ?thesis using cached(5) readCache_called [OF cached(1,2)] by simp
  qed
qed

subsection \<open>When a run counts as clean\<close>

text \<open>A call that was answered as the contract of the called party promises.\<close>

fun answeredWell :: "run_env \<Rightarrow> call \<Rightarrow> bool" where
  "answeredWell env CacheKeyCall =
     (case rv_cacheKey env of Some Null \<Rightarrow> True | Some Undefined \<Rightarrow> True | Some (StrVal k) \<Rightarrow> k \<noteq> [] | _ \<Rightarrow> False)"
| "answeredWell env (CacheGetCall k) = (case rv_cacheGet env of Resolves v d \<Rightarrow> True | _ \<Rightarrow> False)"
| "answeredWell env (AdmitCall token) =
     (case rv_admit env of Some decision \<Rightarrow> getProp decision (str ''run'') = Some (BoolVal True) | None \<Rightarrow> False)"
| "answeredWell env EnrichCall = (case rv_enrich env of Resolves v d \<Rightarrow> True | _ \<Rightarrow> False)"
| "answeredWell env (RecordSuccessCall token) = rv_record env"
| "answeredWell env (RecordFailureCall token) = False"
| "answeredWell env CacheTtlCall =
     (case rv_cacheTtl env of Some Null \<Rightarrow> True | Some Undefined \<Rightarrow> True | Some (NumVal n) \<Rightarrow> True | _ \<Rightarrow> False)"
| "answeredWell env (CacheSetCall k v t) = (case rv_cacheSet env of Resolves u d \<Rightarrow> True | _ \<Rightarrow> False)"

text \<open>The calls from a state on, all answered well, from which nothing degraded.\<close>

definition cleanFrom :: "run_env \<Rightarrow> run_state \<Rightarrow> run_result \<Rightarrow> bool" where
  "cleanFrom env st r \<longleftrightarrow> st_degradations st = [] \<and> (\<exists>cs. rr_calls r = st_calls st @ cs \<and> list_all (answeredWell env) cs)"

lemma cleanFrom_step:
  "cleanFrom env st' r \<Longrightarrow> st_degradations st' = st_degradations st @ ds \<Longrightarrow> st_calls st' = st_calls st @ cs \<Longrightarrow>
     (ds = [] \<Longrightarrow> list_all (answeredWell env) cs) \<Longrightarrow> cleanFrom env st r"
  by (auto simp: cleanFrom_def)

lemma finishRun_clean:
  assumes "finishRun e base env st report = Some r" "runIsAvailable (rr_run r)"
  shows "cleanFrom env st r \<and> er_report (rr_run r) = report"
proof -
  have "st_degradations st = []"
    using assms by (cases "st_degradations st") (auto simp: finishRun_def runIsAvailable_def withDegradations_def)
  with assms show ?thesis by (auto simp: finishRun_def withDegradations_def cleanFrom_def)
qed

lemma degraded_not_available: "degraded e base env st s c rt d = Some r \<Longrightarrow> \<not> runIsAvailable (rr_run r)"
  unfolding degraded_def
  by (auto dest!: finishRun_clean simp: runIsAvailable_def frameworkReport_def)

lemma bounded_Settled:
  "runBoundedOperation p abort timeout now = Some (Settled v, t) \<Longrightarrow> (\<exists>d. p = Resolves v d) \<and> \<not> abortedAt abort now"
  by (auto simp: runBoundedOperation_def dest: race_Settled split: if_splits)

lemma cacheTtlFor_well: "cacheTtlFor e env static = (ttl, [], calls) \<Longrightarrow> list_all (answeredWell env) calls"
  by (auto simp: cacheTtlFor_def ttlOf_def Let_def split: if_splits option.splits jsval.splits)

lemma writeCache_clean:
  assumes "writeCache e base env report slot st = Some r" "runIsAvailable (rr_run r)"
  shows "cleanFrom env st r \<and> er_report (rr_run r) = report"
proof -
  obtain ttl ds calls where w: "cacheTtlFor e env (cs_staticTtlMs slot) = (ttl, ds, calls)"
    by (cases "cacheTtlFor e env (cs_staticTtlMs slot)") auto
  define st1 where "st1 = st\<lparr>st_degradations := st_degradations st @ ds, st_calls := st_calls st @ calls\<rparr>"
  have st1: "st_degradations st1 = st_degradations st @ ds" "st_calls st1 = st_calls st @ calls" "st_now st1 = st_now st"
    by (simp_all add: st1_def)
  have "cleanFrom env st1 r \<and> er_report (rr_run r) = report"
  proof (cases ttl)
    case None
    with assms w show ?thesis by (intro finishRun_clean) (simp_all add: writeCache_def st1_def)
  next
    case (Some ttlMs)
    with assms(1) w obtain x t where x: "runBoundedOperation (rv_cacheSet env) (rv_abort env) (effectiveTimeoutMs (en_timeoutMs e) Undefined) (st_now st) = Some (x, t)"
      by (auto simp: writeCache_def Let_def split: option.splits)
    define bad where "bad = (case x of Settled _ \<Rightarrow> []
       | TimedOut \<Rightarrow> [failure Cache_write_error True (Some [(''reason'', if abortedAt (rv_abort env) t then ''caller-aborted'' else ''timeout'')])]
       | Threw \<Rightarrow> [failure Cache_write_error True None])"
    have bad: "bad = [] \<longrightarrow> x = Settled ()" "finishRun e base env
        \<lparr>st_degradations = st_degradations st1 @ bad, st_calls = st_calls st1 @ (if abortedAt (rv_abort env) (st_now st) then []
            else [CacheSetCall (cs_key slot) report ttlMs]), st_now = t\<rparr> report = Some r"
      using assms(1) w x Some by (simp_all add: bad_def writeCache_def st1_def Let_def split: raced.split)
    from finishRun_clean [OF bad(2) assms(2)] show ?thesis
      using bad(1) x by (auto dest!: bounded_Settled simp: cleanFrom_def)
  qed
  then show ?thesis using st1 cacheTtlFor_well w by (blast intro: cleanFrom_step)
qed

lemma recordOutcome_clean:
  assumes "cleanFrom env (recordOutcome governor e env True st) r"
  shows "cleanFrom env st r \<and> (governor \<longrightarrow> RecordSuccessCall (checkToken e) \<in> set (rr_calls r))"
  using assms by (auto simp: cleanFrom_def recordOutcome_def split: if_splits)

lemma available_not_failed:
  "list_all available (outcomesOf report) \<Longrightarrow> \<not> list_ex (\<lambda>item. fld item ''status'' = strval ''failure'') (outcomesOf report)"
  by (auto simp: list_ex_iff list_all_iff available_def)

lemma completeRun_clean:
  assumes run: "completeRun dateParse e base governor env slot st out = Some r" and clean: "runIsAvailable (rr_run r)"
  shows "cleanFrom env st r \<and> normalizeOutput dateParse out e base (rv_now env 0) = Some (er_report (rr_run r))
    \<and> (governor \<longrightarrow> RecordSuccessCall (checkToken e) \<in> set (rr_calls r))"
proof (cases "normalizeOutput dateParse out e base (rv_now env 0)")
  case None
  with assms show ?thesis by (auto simp: completeRun_def dest: degraded_not_available)
next
  case (Some report)
  define success where "success = (\<not> list_ex (\<lambda>item. fld item ''status'' = strval ''failure'') (outcomesOf report))"
  have "cleanFrom env (recordOutcome governor e env success st) r \<and> er_report (rr_run r) = report"
    using run Some finishRun_clean [OF _ clean] writeCache_clean [OF _ clean]
    by (auto simp: completeRun_def success_def Let_def split: option.splits if_splits)
  moreover from this have "success" using clean available_not_failed by (simp add: success_def runIsAvailable_def)
  ultimately show ?thesis using Some recordOutcome_clean by auto
qed

text \<open>A clean run that the source answered.\<close>

definition sourceClean :: "(ustring \<Rightarrow> int option) \<Rightarrow> Enricher \<Rightarrow> InspectResult \<Rightarrow> bool \<Rightarrow> run_env \<Rightarrow> run_result \<Rightarrow> bool" where
  "sourceClean dateParse e base governor env r \<longleftrightarrow>
     (\<exists>out d. rv_enrich env = Resolves out d \<and> normalizeOutput dateParse out e base (rv_now env 0) = Some (er_report (rr_run r)))
     \<and> EnrichCall \<in> set (rr_calls r)
     \<and> (governor \<longrightarrow> {AdmitCall (checkToken e), RecordSuccessCall (checkToken e)} \<subseteq> set (rr_calls r))"

lemma runSource_clean:
  assumes "runSource dateParse e base governor env slot g st = Some r" "runIsAvailable (rr_run r)"
    and admitted: "governor \<longrightarrow> AdmitCall (checkToken e) \<in> set (st_calls st)"
  shows "cleanFrom env st r \<and> sourceClean dateParse e base governor env r"
proof -
  obtain x t where x: "runWithTimeout (rv_enrich env) (rv_abort env) (effectiveTimeoutMs (en_timeoutMs e) g) (st_now st) = Some (x, t)"
    using assms by (auto simp: runSource_def split: option.splits)
  define st' where "st' = st\<lparr>st_calls := st_calls st @ [EnrichCall], st_now := t\<rparr>"
  obtain out where out: "x = Settled out" and run: "completeRun dateParse e base governor env slot st' out = Some r"
    using assms x unfolding st'_def
    by (cases x) (auto simp: runSource_def Let_def split: if_splits dest: degraded_not_available)
  obtain d where d: "rv_enrich env = Resolves out d" using race_Settled [OF x [unfolded out]] by blast
  note c = completeRun_clean [OF run assms(2)]
  have "cleanFrom env st r" "EnrichCall \<in> set (rr_calls r)" "set (st_calls st) \<subseteq> set (rr_calls r)"
    using c d by (auto simp: cleanFrom_def st'_def)
  then show ?thesis using c d admitted by (auto simp: sourceClean_def)
qed

lemma admitRun_clean:
  assumes "admitRun dateParse e base governor env slot st = Some r" "runIsAvailable (rr_run r)"
  shows "cleanFrom env st r \<and> sourceClean dateParse e base governor env r"
proof (cases governor)
  case False
  with assms show ?thesis by (intro runSource_clean [where governor = governor]) (auto simp: admitRun_def)
next
  case True
  define st' where "st' = st\<lparr>st_calls := st_calls st @ [AdmitCall (checkToken e)]\<rparr>"
  obtain decision where d: "rv_admit env = Some decision" "isGovernorDecision decision = Some True" "fld decision ''run'' \<noteq> BoolVal False"
    and run: "runSource dateParse e base governor env slot (fld decision ''timeoutMs'') st' = Some r"
    using assms True unfolding st'_def
    by (auto simp: admitRun_def Let_def split: if_splits option.splits bool.splits dest: degraded_not_available)
  have "answeredWell env (AdmitCall (checkToken e))"
    using d by (auto simp: isGovernorDecision_def fld_def split: if_splits option.splits)
  moreover have "cleanFrom env st' r \<and> sourceClean dateParse e base governor env r"
    using run assms(2) by (rule runSource_clean) (simp add: st'_def)
  ultimately show ?thesis by (auto simp: cleanFrom_def st'_def)
qed

lemma cacheSlotFor_well: "cacheSlotFor e base env = (slot, [], calls) \<Longrightarrow> list_all (answeredWell env) calls"
  by (auto simp: cacheSlotFor_def slotForKey_def keyError_def split: if_splits option.splits jsval.splits)

lemma readCache_clean:
  assumes "readCache dateParse e base governor env slot st = Some r" "runIsAvailable (rr_run r)"
  shows "cleanFrom env st r \<and> (sourceClean dateParse e base governor env r \<or>
    rr_calls r = st_calls st @ [CacheGetCall (cs_key slot)] \<and>
    (\<exists>v d. v \<noteq> Undefined \<and> rv_cacheGet env = Resolves v d \<and> normalizeCachedReport dateParse v e = Some (er_report (rr_run r))))"
proof -
  obtain x t where x: "runBoundedOperation (rv_cacheGet env) (rv_abort env) (effectiveTimeoutMs (en_timeoutMs e) Undefined) (st_now st) = Some (x, t)"
    using assms by (auto simp: readCache_def split: option.splits)
  define st' where "st' = st\<lparr>st_calls := st_calls st @ [CacheGetCall (cs_key slot)], st_now := t\<rparr>"
  show ?thesis
  proof (cases "\<exists>bad. bad \<noteq> [] \<and> admitRun dateParse e base governor env (Some slot) (st'\<lparr>st_degradations := st_degradations st' @ bad\<rparr>) = Some r")
    case True
    then show ?thesis using admitRun_clean [OF _ assms(2)] by (fastforce simp: cleanFrom_def)
  next
    case False
    then obtain v where v: "x = Settled v"
      using assms x unfolding st'_def
      by (cases x) (auto simp: readCache_def Let_def split: if_splits option.splits dest: degraded_not_available)
    obtain d where d: "rv_cacheGet env = Resolves v d" using bounded_Settled [OF x [unfolded v]] by blast
    show ?thesis
    proof (cases "v = Undefined")
      case True
      with assms(1) x v have "admitRun dateParse e base governor env (Some slot) st' = Some r"
        by (simp add: readCache_def st'_def Let_def)
      from admitRun_clean [OF this assms(2)] show ?thesis using d by (auto simp: cleanFrom_def st'_def)
    next
      case False
      with assms x v obtain report where "normalizeCachedReport dateParse v e = Some report" "finishRun e base env st' report = Some r"
        by (auto simp: readCache_def st'_def Let_def split: option.splits dest: degraded_not_available)
      with finishRun_clean [OF _ assms(2)] rr_calls_finishRun d False show ?thesis by (fastforce simp: cleanFrom_def st'_def)
    qed
  qed
qed

lemma runEnricher_available:
  assumes "runEnricher dateParse e base cached governor env = Some r" "runIsAvailable (rr_run r)"
  shows "list_all (answeredWell env) (rr_calls r) \<and> (sourceClean dateParse e base governor env r \<or>
    cached \<and> (\<exists>k. rr_calls r = [CacheKeyCall, CacheGetCall k]) \<and>
    (\<exists>v d. v \<noteq> Undefined \<and> rv_cacheGet env = Resolves v d \<and> normalizeCachedReport dateParse v e = Some (er_report (rr_run r))))"
proof -
  obtain slot ds calls where slot: "cacheSlotFor e base env = (slot, ds, calls)" by (cases "cacheSlotFor e base env") auto
  have na: "\<not> abortedAt (rv_abort env) 0" using assms by (auto simp: runEnricher_def Let_def dest: degraded_not_available)
  show ?thesis
  proof (cases cached)
    case False
    then have "admitRun dateParse e base governor env None \<lparr>st_degradations = [], st_calls = [], st_now = 0\<rparr> = Some r"
      using assms(1) na by (simp add: runEnricher_def Let_def)
    from admitRun_clean [OF this assms(2)] show ?thesis by (auto simp: cleanFrom_def)
  next
    case True
    define st where "st = \<lparr>st_degradations = ds, st_calls = calls, st_now = 0\<rparr>"
    have "cleanFrom env st r \<and> (sourceClean dateParse e base governor env r \<or> (\<exists>k. rr_calls r = [CacheKeyCall, CacheGetCall k]) \<and>
      (\<exists>v d. v \<noteq> Undefined \<and> rv_cacheGet env = Resolves v d \<and> normalizeCachedReport dateParse v e = Some (er_report (rr_run r))))"
    proof (cases slot)
      case None
      then have "admitRun dateParse e base governor env None st = Some r"
        using assms(1) na True slot by (simp add: runEnricher_def st_def Let_def)
      from admitRun_clean [OF this assms(2)] show ?thesis by simp
    next
      case (Some s)
      then have "readCache dateParse e base governor env s st = Some r"
        using assms(1) na True slot by (simp add: runEnricher_def st_def Let_def)
      from readCache_clean [OF this assms(2)] show ?thesis
        using cacheSlotFor_calls [OF slot] Some by (auto simp: st_def)
    qed
    moreover from this have "list_all (answeredWell env) calls"
      using cacheSlotFor_well slot by (auto simp: cleanFrom_def st_def)
    ultimately show ?thesis using True by (auto simp: cleanFrom_def st_def)
  qed
qed

text \<open>
  C20: The protocol of a run, said of what the other parties answered. Under a governor the source is
  called only when the governor's decision was valid and its \<open>run\<close> true, and a run it did not grant
  calls nothing after the admission. Every call of the source is followed under a governor by exactly
  one record; a success is recorded only for a valid answer without a failure, and always for one that
  leaves the run clean. The cache is read at most once, under the namespaced key made of the enricher's
  own key, and a read that gives a value is the last call. A report is stored only if it is the source's
  validated answer, wholly completed, for a positive time, under the key that was looked up. A run
  calls nothing exactly when the signal was aborted before it started.
\<close>

theorem runEnricher_protocol:
  assumes "runEnricher dateParse e base cached governor env = Some r"
  shows "runCalls (rv_abort env \<noteq> None) (slotKeyed e env) (cacheServed e env) (governorGranted env) (sourceAnswered dateParse e base env)
       governor (checkToken e) (rr_calls r)
     \<and> (rr_calls r = [] \<longleftrightarrow> abortedAt (rv_abort env) 0)
     \<and> (governor \<and> EnrichCall \<in> set (rr_calls r) \<and> runIsAvailable (rr_run r) \<longrightarrow> RecordSuccessCall (checkToken e) \<in> set (rr_calls r))"
  using runEnricher_calls [OF assms] runEnricher_available [OF assms] by (auto simp: sourceClean_def)

text \<open>
  C22: A run counts as clean only if a source says so and nothing degraded. If all outcomes of a run are
  successes or no-hits, then its report is, unchanged, either a valid report the cache returned for this
  source, and then nobody but the cache was called, or the normalized answer of the source itself,
  admitted and recorded as a success under a governor. Every call of the run was answered as its
  contract promises: the key, the cache read, the admission, the source, the record, the lifetime and
  the cache write. So no failure of one of them, of a deadline or of the validation leaves a clean run
  behind.
\<close>

theorem runEnricher_clean:
  assumes "runEnricher dateParse e base cached governor env = Some r" "runIsAvailable (rr_run r)"
  shows "list_all (answeredWell env) (rr_calls r) \<and>
    ((\<exists>out d. rv_enrich env = Resolves out d \<and> normalizeOutput dateParse out e base (rv_now env 0) = Some (er_report (rr_run r)))
       \<and> EnrichCall \<in> set (rr_calls r)
       \<and> (governor \<longrightarrow> {AdmitCall (checkToken e), RecordSuccessCall (checkToken e)} \<subseteq> set (rr_calls r))
     \<or> cached \<and> (\<exists>k. rr_calls r = [CacheKeyCall, CacheGetCall k]) \<and>
       (\<exists>v d. v \<noteq> Undefined \<and> rv_cacheGet env = Resolves v d \<and> normalizeCachedReport dateParse v e = Some (er_report (rr_run r))))"
  using runEnricher_available [OF assms] unfolding sourceClean_def .

subsection \<open>Reports are valid\<close>

lemma isRecord_obj [simp]: "isRecord (obj ps)"
  by (simp add: obj_def)

lemma isJsonValue_obj [simp]: "isJsonValue (obj ps) \<longleftrightarrow> list_all (isJsonValue \<circ> snd) ps"
  by (auto simp: obj_def list_all_iff)

lemma isJsonValue_fld: "isJsonValue v \<Longrightarrow> fld v k \<noteq> Undefined \<Longrightarrow> isJsonValue (fld v k)"
proof -
  assume v: "isJsonValue v" "fld v k \<noteq> Undefined"
  then obtain x where x: "map_of (ownProps v) (str k) = Some (Some x)" "fld v k = x"
    by (auto simp: fld_def getProp_def split: option.splits)
  from x(1) have "(str k, Some x) \<in> set (ownProps v)" by (rule map_of_SomeD)
  then have "Some x \<in> snd ` set (ownProps v)" by force
  then show ?thesis using v(1) x(2)
    by (cases v) (force simp: list_all_iff dest: set_zip_rightD)+
qed

lemma isJsonValue_elements: "isJsonValue v \<Longrightarrow> x \<in> set (elements v) \<Longrightarrow> isJsonValue x"
  by (cases v) (auto simp: list_all_iff)

definition validOutcome :: "(ustring \<Rightarrow> int option) \<Rightarrow> Enricher \<Rightarrow> jsval \<Rightarrow> bool" where
  "validOutcome dateParse e v \<longleftrightarrow> isJsonValue v \<and> isEnrichmentOutcome dateParse (Some (en_id e, en_layer e)) v"

definition validReport :: "(ustring \<Rightarrow> int option) \<Rightarrow> Enricher \<Rightarrow> jsval \<Rightarrow> bool" where
  "validReport dateParse e v = isEnrichmentReport dateParse v (Some (en_id e, en_layer e))"

lemma validReport_outcomes:
  assumes "validReport dateParse e v"
  shows "outcomesOf v \<noteq> []" "list_all (validOutcome dateParse e) (outcomesOf v)"
proof -
  show "outcomesOf v \<noteq> []" using assms by (auto simp: validReport_def isEnrichmentReport_def outcomesOf_def)
  then have "fld v ''outcomes'' \<noteq> Undefined" by (auto simp: outcomesOf_def)
  then have "isJsonValue (fld v ''outcomes'')"
    using assms by (auto simp: validReport_def isEnrichmentReport_def isJsonValue_fld)
  then show "list_all (validOutcome dateParse e) (outcomesOf v)"
    using assms by (auto simp: validReport_def isEnrichmentReport_def validOutcome_def outcomesOf_def list_all_iff
      dest: isJsonValue_elements)
qed

lemma validReport_report:
  "validReport dateParse e (enrichmentReport os) \<longleftrightarrow> os \<noteq> [] \<and> list_all (validOutcome dateParse e) os"
  by (auto simp: validReport_def isEnrichmentReport_def enrichmentReport_def validOutcome_def list_all_iff)

lemma isSubject_inspection [simp]: "isSubject (inspectionSubject base)" "isJsonValue (inspectionSubject base)"
  by (auto simp: inspectionSubject_def isSubject_def split: option.split)

lemma boundary_parts [simp]:
  "isProvenance (noProvenance ''unavailable'')" "isProvenance (noProvenance ''legacy-incomplete'')"
  "isJsonValue (noProvenance kind)" "isFreshness dateParse unknownFreshness" "isJsonValue unknownFreshness"
  by (simp_all add: isProvenance_def noProvenance_def isFreshness_def unknownFreshness_def)

definition detailsOk :: "jsval option \<Rightarrow> bool" where
  "detailsOk d = (case d of None \<Rightarrow> True | Some v \<Rightarrow> isPayload v)"

lemma causeName_trim [simp]: "trim (str (causeName c)) \<noteq> []"
  by (cases c) (simp_all add: trim_def js_eval)

lemma isEnrichmentLayer_name [simp]: "isEnrichmentLayer (strval (layerName l))"
  by (cases l) (simp_all add: isEnrichmentLayer_def)

lemma frameworkOutcome_valid:
  assumes "isIsoInstant dateParse (StrVal now)" "trim (en_id e) \<noteq> []" "detailsOk d"
  shows "validOutcome dateParse e (frameworkOutcome e base s c rt d now)"
  using assms
  by (cases s) (auto simp: validOutcome_def isEnrichmentOutcome_def frameworkOutcome_def statusOk_def isCause_def
      detailsOk_def isPayload_def split: option.splits)

lemma legacy_type_trim [simp]: "trim (str ''legacy.empty-result'') \<noteq> []"
  by (simp add: trim_def js_eval)

lemma legacyReport_valid:
  assumes "isIsoInstant dateParse (StrVal now)" "trim (en_id e) \<noteq> []" "isEnricherFindingArray (Arr findings)"
  shows "validReport dateParse e (legacyReport e base findings now)"
  using assms
  by (auto simp: legacyReport_def validReport_report validOutcome_def isEnrichmentOutcome_def statusOk_def
      isEnricherFindingArray_def isEvidence_def isPayload_def)

lemma detailsOk_simps [simp]: "detailsOk None" "detailsOk (Some (obj ps)) \<longleftrightarrow> list_all (isJsonValue \<circ> snd) ps"
  by (simp_all add: detailsOk_def isPayload_def)

lemma failure_details [simp]: "detailsOk (dg_details (failure c rt ds))"
  by (auto simp: failure_def detailsOk_def isPayload_def list_all_iff split: option.split)

text \<open>The conditions on the environment under which the reports of a run are valid.\<close>

definition honestClock :: "(ustring \<Rightarrow> int option) \<Rightarrow> Enricher \<Rightarrow> run_env \<Rightarrow> bool" where
  "honestClock dateParse e env \<longleftrightarrow> trim (en_id e) \<noteq> [] \<and> (\<forall>i. isIsoInstant dateParse (StrVal (rv_now env i)))"

abbreviation detailed :: "run_state \<Rightarrow> bool" where
  "detailed st \<equiv> list_all (\<lambda>d. detailsOk (dg_details d)) (st_degradations st)"

lemma finishRun_valid:
  assumes "finishRun e base env st report = Some r" "honestClock dateParse e env" "detailed st" "validReport dateParse e report"
  shows "validReport dateParse e (er_report (rr_run r))"
proof -
  have "validOutcome dateParse e (frameworkOutcome e base (dg_status d) (dg_code d) (dg_retryable d) (dg_details d) (rv_now env (Suc i)))"
    if "(i, d) \<in> set (enumerate 0 (st_degradations st))" for i d
  proof -
    have "d \<in> set (st_degradations st)" using that by (auto simp: enumerate_eq_zip dest: set_zip_rightD)
    then show ?thesis using assms(2,3) by (intro frameworkOutcome_valid) (auto simp: honestClock_def list_all_iff)
  qed
  then show ?thesis
    using assms validReport_outcomes [OF assms(4)]
    by (auto simp: finishRun_def withDegradations_def validReport_report list_all_iff)
qed

lemma degraded_valid:
  assumes "degraded e base env st s c rt d = Some r" "honestClock dateParse e env" "detailed st" "detailsOk d"
  shows "validReport dateParse e (er_report (rr_run r))"
proof -
  have "validReport dateParse e (frameworkReport e base s c rt d (rv_now env 0))"
    using assms(2,4) by (auto simp: frameworkReport_def validReport_report honestClock_def frameworkOutcome_valid)
  with assms show ?thesis unfolding degraded_def by (blast intro: finishRun_valid)
qed

lemma detailed_recordOutcome [simp]: "detailed st \<Longrightarrow> detailed (recordOutcome g e env s st)"
  by (simp add: recordOutcome_def)

lemma ttlOf_details: "ttlOf v = (q, ds) \<Longrightarrow> list_all (\<lambda>d. detailsOk (dg_details d)) ds"
  by (auto simp: ttlOf_def split: jsval.splits)

lemma cacheTtlFor_details: "cacheTtlFor e env s = (q, ds, cs) \<Longrightarrow> list_all (\<lambda>d. detailsOk (dg_details d)) ds"
  by (auto simp: cacheTtlFor_def Let_def split: if_splits option.splits prod.splits dest: ttlOf_details)

lemma cacheSlotFor_details: "cacheSlotFor e base env = (q, ds, cs) \<Longrightarrow> list_all (\<lambda>d. detailsOk (dg_details d)) ds"
  by (auto simp: cacheSlotFor_def slotForKey_def keyError_def split: if_splits option.splits jsval.splits)

lemma normalizeOutput_valid:
  "normalizeOutput dateParse out e base (rv_now env 0) = Some report \<Longrightarrow> honestClock dateParse e env \<Longrightarrow> validReport dateParse e report"
  by (cases out) (auto simp: normalizeOutput_def honestClock_def isEnricherFindingArray_def validReport_def
      split: if_splits intro!: legacyReport_valid [unfolded validReport_def])

lemma writeCache_valid:
  assumes "writeCache e base env report slot st = Some r" "honestClock dateParse e env" "detailed st" "validReport dateParse e report"
  shows "validReport dateParse e (er_report (rr_run r))"
  using assms
  by (auto simp: writeCache_def Let_def split: prod.splits option.splits raced.splits
      dest: cacheTtlFor_details elim!: finishRun_valid)

lemma completeRun_valid:
  assumes "completeRun dateParse e base governor env slot st out = Some r" "honestClock dateParse e env" "detailed st"
  shows "validReport dateParse e (er_report (rr_run r))"
  using assms
  by (auto simp: completeRun_def Let_def  split: option.splits if_splits
      dest: normalizeOutput_valid elim!: finishRun_valid writeCache_valid degraded_valid)

lemma runSource_valid:
  assumes "runSource dateParse e base governor env slot g st = Some r" "honestClock dateParse e env" "detailed st"
  shows "validReport dateParse e (er_report (rr_run r))"
  using assms
  by (auto simp: runSource_def Let_def  split: option.splits if_splits raced.splits
      elim!: completeRun_valid degraded_valid)

lemma admitRun_valid:
  assumes "admitRun dateParse e base governor env slot st = Some r" "honestClock dateParse e env" "detailed st"
  shows "validReport dateParse e (er_report (rr_run r))"
  using assms
  by (auto simp: admitRun_def Let_def  split: option.splits if_splits bool.splits
      elim!: runSource_valid degraded_valid)

lemma readCache_valid:
  assumes "readCache dateParse e base governor env slot st = Some r" "honestClock dateParse e env" "detailed st"
  shows "validReport dateParse e (er_report (rr_run r))"
  using assms
  by (auto simp: readCache_def Let_def  normalizeCachedReport_def validReport_def [symmetric]
      split: option.splits if_splits raced.splits
      elim!: admitRun_valid degraded_valid finishRun_valid)

lemma runEnricher_valid:
  assumes "runEnricher dateParse e base cached governor env = Some r" "honestClock dateParse e env"
  shows "isEnrichmentReport dateParse (er_report (rr_run r)) (Some (en_id e, en_layer e))"
  using assms
  by (auto simp: runEnricher_def Let_def  validReport_def [symmetric]
      split: option.splits if_splits prod.splits dest: cacheSlotFor_details
      elim!: admitRun_valid readCache_valid degraded_valid)

text \<open>
  Whatever the source, the cache and the governor do, the report of a run satisfies the runtime
  contract of \<open>schema/enrich.ts\<close> for exactly this source and layer, and has at least one outcome;
  only the enricher's own id must not be blank and the clock must read as an instant.
\<close>

lemma runEnricher_report_valid:
  assumes "runEnricher dateParse e base cached governor env = Some r" "honestClock dateParse e env"
  shows "isEnrichmentReport dateParse (er_report (rr_run r)) (Some (en_id e, en_layer e))"
  using assms by (rule runEnricher_valid)

subsection \<open>Cache keys do not collide\<close>

text \<open>Reading a JSON string back, up to its closing quote.\<close>

definition unescape :: "nat \<Rightarrow> nat" where
  "unescape c = (if c = 98 then 8 else if c = 116 then 9 else if c = 110 then 10 else if c = 102 then 12
     else if c = 114 then 13 else c)"

fun unjson :: "ustring \<Rightarrow> ustring \<times> ustring" where
  "unjson [] = ([], [])"
| "unjson (x # s) =
     (if x = 34 then ([], s)
      else if x \<noteq> 92 then (case unjson s of (u, r) \<Rightarrow> (x # u, r))
      else case s of
        [] \<Rightarrow> ([], [])
      | y # s' \<Rightarrow>
          if y = 117 then (case unjson (drop 4 s') of (u, r) \<Rightarrow> (radix_val 16 (take 4 s') # u, r))
          else (case unjson s' of (u, r) \<Rightarrow> (unescape y # u, r)))"

declare unjson.simps(2) [simp del]

lemma unjson_quote [simp]: "unjson (34 # s) = ([], s)"
  by (simp add: unjson.simps)

lemma unjson_plain: "c \<noteq> 34 \<Longrightarrow> c \<noteq> 92 \<Longrightarrow> unjson (c # s) = (case unjson s of (u, r) \<Rightarrow> (c # u, r))"
  by (simp add: unjson.simps)

lemma radix_val_zeros: "radix_val 16 (replicate n 48 @ ds) = radix_val 16 ds"
  by (induction n) (simp_all add: radix_val_def digit_val_def is_digit_def)

lemma unjson_escape:
  assumes "c = 34 \<or> c = 92 \<or> c < 32 \<or> is_high c \<or> is_low c"
  shows "unjson (escapeUnit c @ s) = (case unjson s of (u, r) \<Rightarrow> (c # u, r))"
proof (cases "c \<in> {34, 92, 8, 9, 10, 12, 13}")
  case True
  then show ?thesis by (auto simp: escapeUnit_def unjson.simps unescape_def)
next
  case False
  have "c < 16 ^ 4" using assms by (auto simp: is_high_def is_low_def)
  then have len: "length (to_radix 16 c) \<le> 4" by (intro length_to_radix) auto
  let ?h = "replicate (4 - length (to_radix 16 c)) 48 @ to_radix 16 c"
  have h: "length ?h = 4" "radix_val 16 ?h = c" using len by (simp_all add: radix_val_zeros radix_val_to_radix)
  have "escapeUnit c = 92 # 117 # ?h" using False by (simp add: escapeUnit_def)
  then show ?thesis using h by (simp add: unjson.simps split: prod.split)
qed

lemma unjson_jsonChars: "unjson (jsonChars s @ 34 # rest) = (s, rest)"
proof (induction s rule: jsonChars.induct)
  case (2 c s)
  show ?case
    using 2 by (cases s) (auto simp: unjson_escape unjson_plain is_high_def is_low_def)
qed simp

lemma jsonString_inject: "jsonString a @ x = jsonString b @ y \<longleftrightarrow> a = b \<and> x = y"
proof
  assume "jsonString a @ x = jsonString b @ y"
  then have "jsonChars a @ 34 # x = jsonChars b @ 34 # y" by (simp add: jsonString_def)
  then have "unjson (jsonChars a @ 34 # x) = unjson (jsonChars b @ 34 # y)" by simp
  then show "a = b \<and> x = y" by (simp add: unjson_jsonChars)
qed simp

lemma jsonStrings_inject: "jsonStrings [a, b, c] = jsonStrings [a', b', c'] \<longleftrightarrow> a = a' \<and> b = b' \<and> c = c'"
  using jsonString_inject [of c "[]" c' "[]"] by (simp add: jsonStrings_def jsonString_inject)

lemma checkToken_inject: "checkToken e = checkToken e' \<longleftrightarrow> en_layer e = en_layer e' \<and> en_id e = en_id e'"
  by (cases "en_layer e"; cases "en_layer e'") (auto simp: checkToken_def str_def)

lemma slotForKey_Some:
  assumes "slotForKey e base key = (Some s, ds)"
  obtains k where "key = StrVal k" "k \<noteq> []" "cs_key s = jsonStrings [ENRICHMENT_CACHE_NAMESPACE, checkToken e, k]"
    "fld (inspectionSubject base) ''kind'' \<noteq> strval ''url'' \<or> ir_input base = [] \<or> \<not> includesStr (ir_input base) k"
  using assms by (auto simp: slotForKey_def keyError_def split: if_splits jsval.splits)

text \<open>
  C23: Two cache slots have the same key exactly if they belong to the same source of the same layer and
  the enricher chose the same key, so that sources never see each other's entries; and the key an
  enricher chose never contains the inspected URL, unless the subject is a bare host.
\<close>

theorem cache_keys_separate:
  assumes "slotForKey e base key = (Some s, ds)" "slotForKey e' base' key' = (Some s', ds')"
  shows "(cs_key s = cs_key s' \<longleftrightarrow> en_layer e = en_layer e' \<and> en_id e = en_id e' \<and> key = key')
   \<and> (\<exists>k. key = StrVal k \<and> (fld (inspectionSubject base) ''kind'' = strval ''host'' \<or> ir_input base = [] \<or> \<not> includesStr (ir_input base) k))"
proof -
  have kind: "fld (inspectionSubject base) ''kind'' \<in> {strval ''url'', strval ''host''}"
    by (simp add: inspectionSubject_def split: option.split)
  show ?thesis
    using assms kind by (elim slotForKey_Some) (auto simp: jsonStrings_inject checkToken_inject)
qed

subsection \<open>A sample run\<close>

definition sampleEnricher :: Enricher where
  "sampleEnricher = \<lparr>en_id = str ''rdap'', en_layer = ReputationLayer, en_dependsOn = Undefined, en_timeoutMs = Undefined,
     en_cacheKey = True, en_cacheTtlMs = NumVal (Finite 60000), en_cacheTtlMsFor = None\<rparr>"

definition sampleBase :: InspectResult where
  "sampleBase = buildInvalidResult (currentPslSnapshot (\<lambda>_. None) 0) (str ''https://a.test/'') [] None []"

definition sampleEnv :: run_env where
  "sampleEnv = \<lparr>rv_abort = None, rv_now = (\<lambda>_. str ''2026-01-01T00:00:00Z''), rv_cacheKey = Some (strval ''a.test''),
     rv_cacheGet = Resolves Undefined 1, rv_admit = Some (obj [(''run'', BoolVal True)]), rv_enrich = Resolves (Arr []) 10,
     rv_record = True, rv_cacheTtl = None, rv_cacheSet = Resolves () 2\<rparr>"

lemmas run_eval = runEnricher_def readCache_def admitRun_def runSource_def completeRun_def writeCache_def
  cacheSlotFor_def slotForKey_def cacheTtlFor_def ttlOf_def runBoundedOperation_def runWithTimeout_def signalDelay_def
  abortedAt_def effectiveTimeoutMs_def DEFAULT_ENRICHMENT_TIMEOUT_MS_def normalizeOutput_def isEnricherFindingArray_def
  isGovernorDecision_def sampleEnricher_def sampleEnv_def

lemma sample_subject [simp]: "inspectionSubject sampleBase = obj [(''kind'', strval ''url''), (''value'', strval ''https://a.test/'')]"
  by (simp add: inspectionSubject_def sampleBase_def buildInvalidResult_def)

lemma sample_input [simp]: "ir_input sampleBase = str ''https://a.test/''"
  by (simp add: sampleBase_def buildInvalidResult_def)

lemma sample_key: "includesStr (str ''https://a.test/'') (str ''a.test'') = False" "str ''a.test'' \<noteq> []" "str ''https://a.test/'' \<noteq> []"
  by (simp_all add: js_eval)

lemma sample_getProp [simp]: "getProp (obj [(''run'', BoolVal True)]) (str ''run'') = Some (BoolVal True)"
  "getProp (obj [(''run'', BoolVal True)]) (str ''timeoutMs'') = Some Undefined"
  by (simp_all add: getProp_def obj_def)

lemma sample_legacy [simp]: "list_all available (outcomesOf (legacyReport e base fs now))"
  "\<not> list_ex (\<lambda>item. fld item ''status'' = strval ''failure'') (outcomesOf (legacyReport e base fs now))"
  by (simp_all add: legacyReport_def available_def)

lemma sample_run: "\<exists>r. runEnricher (\<lambda>_. Some 0) sampleEnricher sampleBase True True sampleEnv = Some r \<and> runIsAvailable (rr_run r)"
  by (simp add: run_eval sample_key recordOutcome_def finishRun_def withDegradations_def runIsAvailable_def)

lemma sample_clock: "honestClock (\<lambda>_. Some 0) sampleEnricher sampleEnv"
  by (simp add: honestClock_def isIsoInstant_def sampleEnricher_def sampleEnv_def ISO_INSTANT_def test_def dd_def
      Opt_def Rep1_def rx.simps js_eval trim_def)

theorem runEnricher_settles_witness:
  "overBy 15000 (runEnricher (\<lambda>_. None) sampleEnricher sampleBase True False (sampleEnv\<lparr>rv_enrich := Pends\<rparr>))
   \<and> overBy 7 (runEnricher (\<lambda>_. None) (sampleEnricher\<lparr>en_timeoutMs := Null\<rparr>) sampleBase True False
        (sampleEnv\<lparr>rv_enrich := Pends, rv_abort := Some 7\<rparr>))"
proof -
  have "runDeadline sampleEnricher False (sampleEnv\<lparr>rv_enrich := Pends\<rparr>) = Some 15000"
    by (simp add: runDeadline_def governorTimeout_def run_eval)
  then show ?thesis
    using runEnricher_settles [of sampleEnricher False "sampleEnv\<lparr>rv_enrich := Pends\<rparr>" 15000 "\<lambda>_. None" sampleBase True 0]
      runEnricher_settles [of "sampleEnricher\<lparr>en_timeoutMs := Null\<rparr>" False "sampleEnv\<lparr>rv_enrich := Pends, rv_abort := Some 7\<rparr>" 0
        "\<lambda>_. None" sampleBase True 7]
    by simp
qed

theorem runEnricher_protocol_witness:
  "\<exists>r. runEnricher (\<lambda>_. Some 0) sampleEnricher sampleBase True True sampleEnv = Some r \<and> rr_calls r \<noteq> []
     \<and> runCalls False (slotKeyed sampleEnricher sampleEnv) (cacheServed sampleEnricher sampleEnv) (governorGranted sampleEnv)
         (sourceAnswered (\<lambda>_. Some 0) sampleEnricher sampleBase sampleEnv) True (str ''reputation:rdap'') (rr_calls r)"
proof -
  obtain r where r: "runEnricher (\<lambda>_. Some 0) sampleEnricher sampleBase True True sampleEnv = Some r" using sample_run by blast
  have "checkToken sampleEnricher = str ''reputation:rdap''" by (simp add: checkToken_def sampleEnricher_def str_def)
  then show ?thesis using runEnricher_protocol [OF r] r by (simp add: sampleEnv_def abortedAt_def)
qed

theorem runEnricher_clean_witness:
  "\<exists>r. runEnricher (\<lambda>_. Some 0) sampleEnricher sampleBase True True sampleEnv = Some r \<and> list_all (answeredWell sampleEnv) (rr_calls r)
     \<and> normalizeOutput (\<lambda>_. Some 0) (Arr []) sampleEnricher sampleBase (str ''2026-01-01T00:00:00Z'') = Some (er_report (rr_run r))"
proof -
  obtain r where r: "runEnricher (\<lambda>_. Some 0) sampleEnricher sampleBase True True sampleEnv = Some r" "runIsAvailable (rr_run r)"
    using sample_run by blast
  then show ?thesis using runEnricher_clean [OF r] by (auto simp: sampleEnv_def)
qed

lemma runEnricher_report_valid_witness:
  "\<exists>r. runEnricher (\<lambda>_. Some 0) sampleEnricher sampleBase True True sampleEnv = Some r
     \<and> isEnrichmentReport (\<lambda>_. Some 0) (er_report (rr_run r)) (Some (str ''rdap'', ReputationLayer))"
proof -
  obtain r where r: "runEnricher (\<lambda>_. Some 0) sampleEnricher sampleBase True True sampleEnv = Some r" using sample_run by blast
  then show ?thesis using runEnricher_report_valid [OF r sample_clock] by (simp add: sampleEnricher_def)
qed

theorem cache_keys_separate_witness:
  "\<exists>s ds. slotForKey sampleEnricher sampleBase (strval ''a.test'') = (Some s, ds)
     \<and> (\<exists>s' ds'. slotForKey (sampleEnricher\<lparr>en_id := str ''dns''\<rparr>) sampleBase (strval ''a.test'') = (Some s', ds') \<and> cs_key s \<noteq> cs_key s')"
proof -
  obtain s ds where s: "slotForKey sampleEnricher sampleBase (strval ''a.test'') = (Some s, ds)"
    by (simp add: slotForKey_def sample_key)
  obtain s' ds' where s': "slotForKey (sampleEnricher\<lparr>en_id := str ''dns''\<rparr>) sampleBase (strval ''a.test'') = (Some s', ds')"
    by (simp add: slotForKey_def sample_key)
  show ?thesis using cache_keys_separate [OF s s'] s s' by (simp add: sampleEnricher_def)
qed

end
