(* ===== verification/AsyncPlan.thy ===== *)
theory AsyncPlan
  imports AsyncRun
begin

text \<open>
  The execution of an enrichment plan (\<open>inspect-async.ts\<close>, \<open>executeEnrichmentPlan\<close> and
  \<open>findDependencyCycle\<close>): preflight, stages, blocked steps, cycles, cancellation.

  The steps of a stage run concurrently, but a step is given only the outcomes of earlier stages and
  the results are put back by plan position, so a stage is modelled by the results of its steps.
  \<open>exec i previous\<close> is the result of the run of step \<open>i\<close> with these previous outcomes, \<open>None\<close> if it
  never settles; \<open>aborted k\<close> says whether the signal is aborted at the \<open>k\<close>-th pass of the loop;
  \<open>now i\<close> is the clock reading for a report of the framework on step \<open>i\<close>.
\<close>

subsection \<open>Steps\<close>

record PlannedEnricher =
  pe_token :: ustring
  pe_enricher :: Enricher
  pe_dependencies :: "ustring list"
  pe_dependencyShapeValid :: bool

definition planStep :: "Enricher \<Rightarrow> PlannedEnricher" where
  "planStep e =
     (let raw = en_dependsOn e;
          valid = (raw = Undefined \<or> isArray raw \<and> list_all isNonEmptyString (elements raw))
      in \<lparr>pe_token = checkToken e, pe_enricher = e,
          pe_dependencies = (if valid then dedup (map stringOf (elements raw)) else []),
          pe_dependencyShapeValid = valid\<rparr>)"

text \<open>The map of the tokens that exactly one step has.\<close>

definition tokenToIndex :: "PlannedEnricher list \<Rightarrow> ustring \<rightharpoonup> nat" where
  "tokenToIndex steps token =
     (if count_list (map pe_token steps) token = 1
      then find (\<lambda>i. pe_token (steps ! i) = token) [0..<length steps] else None)"

definition preflight :: "PlannedEnricher list \<Rightarrow> nat \<Rightarrow> jsval option" where
  "preflight steps i =
     (let step = steps ! i in
      if count_list (map pe_token steps) (pe_token step) > 1
      then Some (obj [(''reason'', strval ''duplicate-check-token''), (''token'', StrVal (pe_token step))])
      else if \<not> pe_dependencyShapeValid step then Some (obj [(''reason'', strval ''invalid-prerequisite-token'')])
      else (let unknown = filter (\<lambda>d. tokenToIndex steps d = None) (pe_dependencies step) in
        if unknown \<noteq> [] then Some (obj [(''reason'', strval ''unknown-prerequisite''), (''prerequisites'', Arr (map StrVal unknown))])
        else None))"

subsection \<open>findDependencyCycle\<close>

text \<open>
  The depth-first search: \<open>stack\<close> holds the nodes in state visiting, \<open>visited\<close> the finished ones, the
  last argument the dependencies still to look at. \<open>Inl\<close> is the cycle found. The outer loop over the
  pending nodes is the same loop with an empty stack.
\<close>

function visitAll :: "nat list \<Rightarrow> (nat \<Rightarrow> nat list) \<Rightarrow> nat list \<Rightarrow> nat list \<Rightarrow> nat list \<Rightarrow> nat list + nat list" where
  "visitAll pending adj stack visited [] = Inr visited"
| "visitAll pending adj stack visited (j # js) =
     (if j \<notin> set pending then visitAll pending adj stack visited js
      else if j \<in> set stack then Inl (dropWhile (\<lambda>x. x \<noteq> j) stack)
      else if j \<in> set visited then visitAll pending adj stack visited js
      else case visitAll pending adj (stack @ [j]) visited (adj j) of
        Inl cycle \<Rightarrow> Inl cycle
      | Inr finished \<Rightarrow> visitAll pending adj stack (j # finished) js)"
  by pat_completeness auto
termination
proof (relation "measures [\<lambda>(pending, adj, stack, visited, js). card (set pending - set stack), \<lambda>(pending, adj, stack, visited, js). length js]")
  fix pending :: "nat list" and adj stack visited j and js :: "nat list"
  assume "\<not> j \<notin> set pending" "j \<notin> set stack"
  then have "card (set pending - set (stack @ [j])) < card (set pending - set stack)"
    by (intro psubset_card_mono) auto
  then show "((pending, adj, stack @ [j], visited, adj j), (pending, adj, stack, visited, j # js))
      \<in> measures [\<lambda>(pending, adj, stack, visited, js). card (set pending - set stack), \<lambda>(pending, adj, stack, visited, js). length js]"
    by simp
qed auto

definition findDependencyCycle :: "nat list \<Rightarrow> (nat \<Rightarrow> nat list) \<Rightarrow> nat list" where
  "findDependencyCycle pending adj =
     (case visitAll pending adj [] [] pending of Inl cycle \<Rightarrow> cycle | Inr _ \<Rightarrow> [])"

definition dependencyIndexes :: "PlannedEnricher list \<Rightarrow> nat \<Rightarrow> nat list" where
  "dependencyIndexes steps i = List.map_filter (tokenToIndex steps) (pe_dependencies (steps ! i))"

subsection \<open>executeEnrichmentPlan\<close>

record plan_state =
  ps_runs :: "nat \<rightharpoonup> EnricherRun"
  ps_pending :: "nat list"
  ps_stages :: "(nat list \<times> jsval list) list"

definition planSkip ::
    "PlannedEnricher list \<Rightarrow> InspectResult \<Rightarrow> (nat \<Rightarrow> ustring) \<Rightarrow> nat \<Rightarrow> EnrichmentFrameworkCauseCode \<Rightarrow> jsval option \<Rightarrow> EnricherRun" where
  "planSkip steps base now i code details =
     \<lparr>er_token = pe_token (steps ! i),
      er_report = frameworkReport (pe_enricher (steps ! i)) base SkippedStatus code False details (now i)\<rparr>"

definition settled :: "PlannedEnricher list \<Rightarrow> (nat \<rightharpoonup> EnricherRun) \<Rightarrow> bool \<Rightarrow> ustring \<Rightarrow> bool" where
  "settled steps runs avail dependency =
     (case tokenToIndex steps dependency of
        None \<Rightarrow> False
      | Some j \<Rightarrow> (case runs j of None \<Rightarrow> False | Some run \<Rightarrow> runIsAvailable run = avail))"

definition preflightState :: "PlannedEnricher list \<Rightarrow> InspectResult \<Rightarrow> (nat \<Rightarrow> ustring) \<Rightarrow> plan_state" where
  "preflightState steps base now =
     \<lparr>ps_runs = (\<lambda>i. if i < length steps then map_option (\<lambda>d. planSkip steps base now i Invalid_plan (Some d)) (preflight steps i) else None),
      ps_pending = filter (\<lambda>i. preflight steps i = None) [0..<length steps], ps_stages = []\<rparr>"

text \<open>The outcomes accumulated so far, in plan order.\<close>

definition previousOutcomes :: "PlannedEnricher list \<Rightarrow> (nat \<rightharpoonup> EnricherRun) \<Rightarrow> jsval list" where
  "previousOutcomes steps runs =
     concat (map (\<lambda>i. case runs i of Some run \<Rightarrow> outcomesOf (er_report run) | None \<Rightarrow> []) [0..<length steps])"

definition skipAll :: "(nat \<Rightarrow> EnricherRun) \<Rightarrow> nat list \<Rightarrow> plan_state \<Rightarrow> plan_state" where
  "skipAll report indexes st =
     st\<lparr>ps_runs := (\<lambda>i. if i \<in> set indexes then Some (report i) else ps_runs st i),
        ps_pending := filter (\<lambda>i. i \<notin> set indexes) (ps_pending st)\<rparr>"

text \<open>
  The loop over the blocked steps: each is skipped with the prerequisites unavailable at that moment,
  the earlier ones of the same pass included.
\<close>

fun skipBlocked ::
    "PlannedEnricher list \<Rightarrow> InspectResult \<Rightarrow> (nat \<Rightarrow> ustring) \<Rightarrow> nat list \<Rightarrow> (nat \<rightharpoonup> EnricherRun) \<Rightarrow> nat \<rightharpoonup> EnricherRun" where
  "skipBlocked steps base now [] runs = runs"
| "skipBlocked steps base now (i # is) runs =
     (let unavailable = filter (settled steps runs False) (pe_dependencies (steps ! i)) in
      skipBlocked steps base now is
        (runs(i \<mapsto> planSkip steps base now i Prerequisite_unavailable
          (Some (obj [(''prerequisites'', Arr (map StrVal unavailable))])))))"

text \<open>One actual cycle; the source falls back to the first pending step should the search find none.\<close>

definition cycleIndexes :: "nat list \<Rightarrow> (nat \<Rightarrow> nat list) \<Rightarrow> nat list" where
  "cycleIndexes pending adj =
     (let cycle = findDependencyCycle pending adj in if cycle \<noteq> [] then cycle else [hd pending])"

text \<open>One pass of the loop; \<open>None\<close> if a run of the stage never settles.\<close>

definition planPass ::
    "PlannedEnricher list \<Rightarrow> InspectResult \<Rightarrow> (nat \<Rightarrow> ustring) \<Rightarrow> (nat \<Rightarrow> jsval list \<Rightarrow> EnricherRun option) \<Rightarrow> bool \<Rightarrow>
     plan_state \<Rightarrow> plan_state option" where
  "planPass steps base now exec abort st =
     (let runs = ps_runs st; pending = ps_pending st in
      if abort then Some (skipAll (\<lambda>i. planSkip steps base now i Caller_aborted None) pending st)
      else (let ready = filter (\<lambda>i. list_all (settled steps runs True) (pe_dependencies (steps ! i))) pending in
        if ready \<noteq> [] then
          (let previous = previousOutcomes steps runs in
           case those (map (\<lambda>i. exec i previous) ready) of
             None \<Rightarrow> None
           | Some results \<Rightarrow> Some
               \<lparr>ps_runs = runs ++ map_of (zip ready results), ps_pending = filter (\<lambda>i. i \<notin> set ready) pending,
                ps_stages = ps_stages st @ [(ready, previous)]\<rparr>)
        else (let blocked = filter (\<lambda>i. list_ex (settled steps runs False) (pe_dependencies (steps ! i))) pending in
          if blocked \<noteq> [] then
            Some (st\<lparr>ps_runs := skipBlocked steps base now blocked runs, ps_pending := filter (\<lambda>i. i \<notin> set blocked) pending\<rparr>)
          else Some (skipAll (\<lambda>i. planSkip steps base now i Dependency_cycle
                 (Some (obj [(''prerequisites'', Arr (map StrVal (pe_dependencies (steps ! i))))])))
                 (cycleIndexes pending (dependencyIndexes steps)) st))))"


subsection \<open>The search finds a cycle exactly if there is one\<close>

definition edge :: "nat list \<Rightarrow> (nat \<Rightarrow> nat list) \<Rightarrow> nat \<Rightarrow> nat \<Rightarrow> bool" where
  "edge pending adj x y \<longleftrightarrow> x \<in> set pending \<and> y \<in> set pending \<and> y \<in> set (adj x)"

definition isCycle :: "nat list \<Rightarrow> (nat \<Rightarrow> nat list) \<Rightarrow> nat list \<Rightarrow> bool" where
  "isCycle pending adj c \<longleftrightarrow> c \<noteq> [] \<and> distinct c \<and> successively (edge pending adj) c \<and> edge pending adj (last c) (hd c)"

lemma successively_dropWhile: "successively P xs \<Longrightarrow> successively P (dropWhile Q xs)"
  by (induction xs rule: induct_list012) auto

lemma visitAll_cycle:
  assumes "visitAll pending adj stack visited js = Inl c"
    "distinct stack" "successively (edge pending adj) stack"
    "stack = [] \<or> (last stack \<in> set pending \<and> set js \<subseteq> set (adj (last stack)))"
  shows "isCycle pending adj c"
  using assms
proof (induction pending adj stack visited js rule: visitAll.induct)
  case (2 pending adj stack visited j js)
  consider (skip) "visitAll pending adj stack visited js = Inl c" "j \<notin> set pending \<or> (j \<notin> set stack \<and> j \<in> set visited)"
    | (found) "j \<in> set pending" "j \<in> set stack" "c = dropWhile (\<lambda>x. x \<noteq> j) stack"
    | (inner) "j \<in> set pending" "j \<notin> set stack" "j \<notin> set visited" "visitAll pending adj (stack @ [j]) visited (adj j) = Inl c"
    | (later) finished where "j \<in> set pending" "j \<notin> set stack" "j \<notin> set visited"
        "visitAll pending adj (stack @ [j]) visited (adj j) = Inr finished" "visitAll pending adj stack (j # finished) js = Inl c"
    using "2.prems"(1) by (auto split: if_splits sum.splits)
  then show ?case
  proof cases
    case skip
    then show ?thesis using "2.IH"(1,2) "2.prems" by auto
  next
    case found
    have ne: "c \<noteq> []" using found by (auto simp: dropWhile_eq_Nil_conv)
    then have "hd c = j" using found hd_dropWhile [of "\<lambda>x. x \<noteq> j" stack] by simp
    moreover have "last c = last stack" using found(3) ne by (metis last_appendR takeWhile_dropWhile_id)
    moreover have "edge pending adj (last stack) j" using "2.prems"(4) found by (auto simp: edge_def)
    ultimately show ?thesis using "2.prems"(2,3) found ne
      by (simp add: isCycle_def distinct_dropWhile successively_dropWhile)
  next
    case inner
    have "successively (edge pending adj) (stack @ [j])"
      using "2.prems"(3,4) inner(1) by (cases "stack = []") (auto simp: successively_append_iff edge_def)
    then show ?thesis using "2.IH"(3) inner "2.prems" by auto
  next
    case later
    then show ?thesis using "2.IH"(4) "2.prems" by auto
  qed
qed simp

text \<open>The finished nodes, latest first: every edge leads to a node finished earlier.\<close>

fun finishOrder :: "nat list \<Rightarrow> (nat \<Rightarrow> nat list) \<Rightarrow> nat list \<Rightarrow> bool" where
  "finishOrder pending adj [] = True"
| "finishOrder pending adj (x # xs) \<longleftrightarrow> x \<in> set pending \<and> (\<forall>y. edge pending adj x y \<longrightarrow> y \<in> set xs) \<and> x \<notin> set xs \<and> finishOrder pending adj xs"

lemma visitAll_finished:
  assumes "visitAll pending adj stack visited js = Inr v" "finishOrder pending adj visited" "set stack \<inter> set visited = {}"
  shows "finishOrder pending adj v \<and> set visited \<subseteq> set v \<and> set js \<inter> set pending \<subseteq> set v \<and> set stack \<inter> set v = {}"
  using assms
proof (induction pending adj stack visited js arbitrary: v rule: visitAll.induct)
  case (2 pending adj stack visited j js)
  show ?case
  proof (cases "j \<notin> set pending \<or> j \<in> set visited")
    case True
    then show ?thesis using 2 by (auto split: if_splits)
  next
    case False
    then obtain finished where f: "j \<notin> set stack" "visitAll pending adj (stack @ [j]) visited (adj j) = Inr finished"
      "visitAll pending adj stack (j # finished) js = Inr v"
      using "2.prems"(1) by (auto split: if_splits sum.splits)
    have inner: "finishOrder pending adj finished" "set visited \<subseteq> set finished" "set (adj j) \<inter> set pending \<subseteq> set finished"
      "set (stack @ [j]) \<inter> set finished = {}"
      using "2.IH"(3) False f "2.prems"(2,3) by auto
    then have "finishOrder pending adj (j # finished)" using False by (auto simp: edge_def)
    then show ?thesis using "2.IH"(4) [of finished v] False f inner "2.prems" by auto
  qed
qed simp

lemma finishOrder_acyclic: "finishOrder pending adj v \<Longrightarrow> x \<in> set v \<Longrightarrow> (edge pending adj)\<^sup>+\<^sup>+ x y \<Longrightarrow> y \<in> set v \<and> x \<noteq> y"
proof (induction v arbitrary: x y)
  case (Cons a v)
  have sub: "z \<in> set v" if "edge pending adj a z" for z using Cons.prems(1) that by simp
  have inv: "w \<in> set v" if "(edge pending adj)\<^sup>+\<^sup>+ z w" "z \<in> set v" for z w using Cons.IH Cons.prems(1) that by auto
  show ?case
  proof (cases "x = a")
    case True
    have "y \<in> set v" using Cons.prems(3) unfolding True
    proof (induction rule: tranclp_induct)
      case base
      then show ?case by (rule sub)
    next
      case (step u w)
      then show ?case using inv by blast
    qed
    then show ?thesis using True Cons.prems(1) by auto
  next
    case False
    then show ?thesis using Cons by auto
  qed
qed simp

lemma findDependencyCycle_spec:
  "if findDependencyCycle pending adj = [] then \<not> (\<exists>x. (edge pending adj)\<^sup>+\<^sup>+ x x)
   else isCycle pending adj (findDependencyCycle pending adj)"
proof (cases "visitAll pending adj [] [] pending")
  case (Inl c)
  then have "isCycle pending adj c" by (rule visitAll_cycle) auto
  with Inl show ?thesis by (simp add: findDependencyCycle_def isCycle_def)
next
  case (Inr v)
  then have v: "finishOrder pending adj v" "set pending \<subseteq> set v" using visitAll_finished [of pending adj "[]" "[]" pending v] by auto
  have "x \<in> set pending" if "(edge pending adj)\<^sup>+\<^sup>+ x x" for x
    using that by (cases rule: tranclp_induct) (auto simp: edge_def elim: converse_tranclpE)
  then have "\<not> (edge pending adj)\<^sup>+\<^sup>+ x x" for x using finishOrder_acyclic [OF v(1)] v(2) by blast
  with Inr show ?thesis by (simp add: findDependencyCycle_def)
qed

text \<open>
  C19: The search for a dependency cycle is exact. What it returns is a cycle of the pending steps:
  distinct steps, each of which depends on the next and the last on the first; and it returns
  nothing exactly if the dependencies among the pending steps are acyclic.
\<close>

theorem findDependencyCycle_exact:
  "if findDependencyCycle pending adj = [] then \<not> (\<exists>x. (edge pending adj)\<^sup>+\<^sup>+ x x)
   else isCycle pending adj (findDependencyCycle pending adj)"
  by (rule findDependencyCycle_spec)

subsection \<open>The loop\<close>

lemma successively_edge: "successively (edge pending adj) c \<Longrightarrow> x \<in> set c \<Longrightarrow> x \<in> set pending \<or> x = last c"
  by (induction c rule: induct_list012) (auto simp: edge_def)

lemma isCycle_sub: "isCycle pending adj c \<Longrightarrow> set c \<subseteq> set pending"
  using successively_edge [of pending adj c] by (auto simp: isCycle_def edge_def [of pending adj "last c"])

lemma cycleIndexes_ok: "pending \<noteq> [] \<Longrightarrow> cycleIndexes pending adj \<noteq> [] \<and> set (cycleIndexes pending adj) \<subseteq> set pending"
  using findDependencyCycle_spec [of pending adj] by (auto simp: cycleIndexes_def Let_def dest: isCycle_sub split: if_splits)

lemma planSkip_unavailable [simp]: "\<not> runIsAvailable (planSkip steps base now i code details)"
  by (simp add: planSkip_def runIsAvailable_def frameworkReport_def)

lemma planSkip_token [simp]: "er_token (planSkip steps base now i code details) = pe_token (steps ! i)"
  by (simp add: planSkip_def)

text \<open>The blocked steps of a pass get a report of the framework each.\<close>

lemma skipBlocked_extends:
  "\<exists>new. skipBlocked steps base now is runs = runs ++ new \<and> dom new = set is
     \<and> (\<forall>i run. new i = Some run \<longrightarrow> (\<exists>details. run = planSkip steps base now i Prerequisite_unavailable details))"
proof (induction "is" arbitrary: runs)
  case Nil
  show ?case by (rule exI [of _ Map.empty]) simp
next
  case (Cons i "is")
  define run where "run = planSkip steps base now i Prerequisite_unavailable
    (Some (obj [(''prerequisites'', Arr (map StrVal (filter (settled steps runs False) (pe_dependencies (steps ! i)))))]))"
  obtain new where new: "skipBlocked steps base now is (runs(i \<mapsto> run)) = runs(i \<mapsto> run) ++ new" "dom new = set is"
    "\<forall>i run. new i = Some run \<longrightarrow> (\<exists>details. run = planSkip steps base now i Prerequisite_unavailable details)"
    using Cons.IH by blast
  then show ?case
    by (intro exI [of _ "[i \<mapsto> run] ++ new"]) (auto simp: run_def Let_def map_add_Some_iff split: if_splits)
qed

lemma dom_some_in [simp]: "dom (\<lambda>i. if i \<in> set is then Some (f i) else None) = set is"
  by (auto split: if_splits)

lemma skipAll_extends:
  "skipAll report is st = st\<lparr>ps_runs := ps_runs st ++ (\<lambda>i. if i \<in> set is then Some (report i) else None),
     ps_pending := filter (\<lambda>i. i \<notin> dom (\<lambda>i. if i \<in> set is then Some (report i) else None)) (ps_pending st)\<rparr>"
  by (auto simp: skipAll_def map_add_def fun_eq_iff)

text \<open>
  A pass adds runs for some pending steps, at least one, and possibly a stage; a run is a report of
  the framework or what the execution returned.
\<close>

lemma planPass_extends:
  assumes pass: "planPass steps base now exec abort st = Some st'" and ne: "ps_pending st \<noteq> []"
  obtains new extra where "st' = \<lparr>ps_runs = ps_runs st ++ new, ps_pending = filter (\<lambda>i. i \<notin> dom new) (ps_pending st),
      ps_stages = ps_stages st @ extra\<rparr>"
    "dom new \<noteq> {}" "dom new \<subseteq> set (ps_pending st)"
    "\<And>i run. new i = Some run \<Longrightarrow> (\<exists>code details. run = planSkip steps base now i code details) \<or> (\<exists>previous. exec i previous = Some run)"
proof -
  let ?ready = "filter (\<lambda>i. list_all (settled steps (ps_runs st) True) (pe_dependencies (steps ! i))) (ps_pending st)"
  let ?blocked = "filter (\<lambda>i. list_ex (settled steps (ps_runs st) False) (pe_dependencies (steps ! i))) (ps_pending st)"
  let ?prev = "previousOutcomes steps (ps_runs st)"
  consider (skip) code details ids where "st' = skipAll (\<lambda>i. planSkip steps base now i code (details i)) ids st" "ids \<noteq> []" "set ids \<subseteq> set (ps_pending st)"
    | (ready) results where "?ready \<noteq> []" "those (map (\<lambda>i. exec i ?prev) ?ready) = Some results"
        "st' = \<lparr>ps_runs = ps_runs st ++ map_of (zip ?ready results), ps_pending = filter (\<lambda>i. i \<notin> set ?ready) (ps_pending st),
          ps_stages = ps_stages st @ [(?ready, ?prev)]\<rparr>"
    | (blocked) "?blocked \<noteq> []" "st' = st\<lparr>ps_runs := skipBlocked steps base now ?blocked (ps_runs st),
          ps_pending := filter (\<lambda>i. i \<notin> set ?blocked) (ps_pending st)\<rparr>"
    using pass ne cycleIndexes_ok [OF ne, of "dependencyIndexes steps"]
    by (auto simp: planPass_def Let_def split: if_splits option.splits)
  then show thesis
  proof cases
    case skip
    then show thesis
      by (intro that [of "\<lambda>i. if i \<in> set ids then Some (planSkip steps base now i code (details i)) else None" "[]"])
        (auto simp: skipAll_extends split: if_splits)
  next
    case ready
    have res: "map (\<lambda>i. exec i ?prev) ?ready = map Some results" using ready(2) by (simp add: those_Some)
    then have len: "length results = length ?ready" by (metis length_map)
    have "exec i ?prev = Some run" if "(i, run) \<in> set (zip ?ready results)" for i run
      using that res by (auto simp: set_zip) (metis length_map nth_map)
    then have exec: "map_of (zip ?ready results) i = Some run \<Longrightarrow> \<exists>previous. exec i previous = Some run" for i run
      by (blast dest: map_of_SomeD)
    have dom: "dom (map_of (zip ?ready results)) = set ?ready" using len by (intro dom_map_of_zip) simp
    show thesis
    proof (rule that [of "map_of (zip ?ready results)" "[(?ready, ?prev)]"])
      show "dom (map_of (zip ?ready results)) \<noteq> {}" unfolding dom set_empty by (rule ready(1))
    qed (use exec ready(3) in \<open>simp_all only: dom set_filter, auto\<close>)
  next
    case blocked
    obtain new where "skipBlocked steps base now ?blocked (ps_runs st) = ps_runs st ++ new" "dom new = set ?blocked"
      "\<forall>i run. new i = Some run \<longrightarrow> (\<exists>details. run = planSkip steps base now i Prerequisite_unavailable details)"
      using skipBlocked_extends by blast
    then show thesis using blocked by (intro that [of new "[]"]) (auto, blast)
  qed
qed

lemma planPass_shrinks:
  assumes "planPass steps base now exec abort st = Some st'" "ps_pending st \<noteq> []"
  shows "length (ps_pending st') < length (ps_pending st)"
  using assms
proof (cases rule: planPass_extends)
  case (1 new extra)
  then obtain i where "i \<in> dom new" "i \<in> set (ps_pending st)" by blast
  then show ?thesis using 1(1) by (auto intro: length_filter_less)
qed

function planLoop ::
    "PlannedEnricher list \<Rightarrow> InspectResult \<Rightarrow> (nat \<Rightarrow> ustring) \<Rightarrow> (nat \<Rightarrow> jsval list \<Rightarrow> EnricherRun option) \<Rightarrow> (nat \<Rightarrow> bool) \<Rightarrow>
     nat \<Rightarrow> plan_state \<Rightarrow> plan_state option" where
  "planLoop steps base now exec aborted k st =
     (if ps_pending st = [] then Some st
      else case planPass steps base now exec (aborted k) st of
        None \<Rightarrow> None
      | Some st' \<Rightarrow> planLoop steps base now exec aborted (Suc k) st')"
  by pat_completeness auto
termination
  by (relation "measure (\<lambda>(steps, base, now, exec, aborted, k, st). length (ps_pending st))") (auto dest: planPass_shrinks)

declare planLoop.simps [simp del]

text \<open>What holds of every report of the framework and of everything the execution returns holds of all runs.\<close>

lemma planLoop_runs:
  assumes "planLoop steps base now exec aborted k st = Some st'"
    "\<And>i code details. P i (planSkip steps base now i code details)"
    "\<And>i previous run. i < length steps \<Longrightarrow> exec i previous = Some run \<Longrightarrow> P i run"
    "set (ps_pending st) \<subseteq> {..<length steps}" "\<forall>i run. ps_runs st i = Some run \<longrightarrow> i < length steps \<and> P i run"
  shows "\<forall>i run. ps_runs st' i = Some run \<longrightarrow> i < length steps \<and> P i run"
  using assms
proof (induction steps base now exec aborted k st rule: planLoop.induct)
  case (1 steps base now exec aborted k st)
  show ?case
  proof (cases "ps_pending st = []")
    case True
    with "1.prems" show ?thesis by (simp add: planLoop.simps)
  next
    case False
    with "1.prems"(1) obtain st1 where s: "planPass steps base now exec (aborted k) st = Some st1"
      "planLoop steps base now exec aborted (Suc k) st1 = Some st'"
      by (auto simp: planLoop.simps [of steps base now exec aborted k st] split: option.splits)
    obtain new extra where n: "st1 = \<lparr>ps_runs = ps_runs st ++ new, ps_pending = filter (\<lambda>i. i \<notin> dom new) (ps_pending st),
        ps_stages = ps_stages st @ extra\<rparr>" "dom new \<subseteq> set (ps_pending st)"
      "\<And>i run. new i = Some run \<Longrightarrow> (\<exists>code details. run = planSkip steps base now i code details) \<or> (\<exists>previous. exec i previous = Some run)"
      using planPass_extends [OF s(1) False] by metis
    have "i < length steps \<and> P i run" if "new i = Some run" for i run
    proof -
      have "i < length steps" using that n(2) "1.prems"(4) by auto
      then show ?thesis using n(3) [OF that] "1.prems"(2,3) by blast
    qed
    then have "\<forall>i run. ps_runs st1 i = Some run \<longrightarrow> i < length steps \<and> P i run"
      using "1.prems"(5) by (auto simp: n(1) map_add_Some_iff)
    moreover have "set (ps_pending st1) \<subseteq> {..<length steps}" using "1.prems"(4) by (auto simp: n(1))
    ultimately show ?thesis using "1.IH" [OF False s] "1.prems"(2,3) by blast
  qed
qed

lemma planLoop_total:
  assumes "\<And>i previous. i < length steps \<Longrightarrow> exec i previous \<noteq> None" "set (ps_pending st) \<subseteq> {..<length steps}"
  shows "\<exists>st'. planLoop steps base now exec aborted k st = Some st'"
  using assms
proof (induction steps base now exec aborted k st rule: planLoop.induct)
  case (1 steps base now exec aborted k st)
  show ?case
  proof (cases "ps_pending st = []")
    case False
    have "those (map (\<lambda>i. exec i previous) (filter P (ps_pending st))) \<noteq> None" for P previous
    proof
      assume "those (map (\<lambda>i. exec i previous) (filter P (ps_pending st))) = None"
      then obtain i where "i \<in> set (ps_pending st)" "exec i previous = None" by (auto simp: those_None)
      with "1.prems" show False by blast
    qed
    then obtain results where "those (map (\<lambda>i. exec i (previousOutcomes steps (ps_runs st)))
        (filter (\<lambda>i. list_all (settled steps (ps_runs st) True) (pe_dependencies (steps ! i))) (ps_pending st))) = Some results"
      by blast
    then have "planPass steps base now exec (aborted k) st \<noteq> None"
      by (simp add: planPass_def Let_def)
    then obtain st1 where s: "planPass steps base now exec (aborted k) st = Some st1" by blast
    have "set (ps_pending st1) \<subseteq> set (ps_pending st)"
      using planPass_extends [OF s False] by (metis filter_is_subset plan_state.select_convs(2))
    then show ?thesis
      using "1.IH" [OF False s] "1.prems" False s by (simp add: planLoop.simps [of steps base now exec aborted k st])
  qed (simp add: planLoop.simps)
qed

definition planRun ::
    "Enricher list \<Rightarrow> InspectResult \<Rightarrow> (nat \<Rightarrow> ustring) \<Rightarrow> (nat \<Rightarrow> jsval list \<Rightarrow> EnricherRun option) \<Rightarrow> (nat \<Rightarrow> bool) \<Rightarrow> plan_state option" where
  "planRun plan base now exec aborted =
     (let steps = map planStep plan in planLoop steps base now exec aborted 0 (preflightState steps base now))"

definition executeEnrichmentPlan ::
    "Enricher list \<Rightarrow> InspectResult \<Rightarrow> (nat \<Rightarrow> ustring) \<Rightarrow> (nat \<Rightarrow> jsval list \<Rightarrow> EnricherRun option) \<Rightarrow> (nat \<Rightarrow> bool) \<Rightarrow> EnricherRun list option" where
  "executeEnrichmentPlan plan base now exec aborted =
     map_option (\<lambda>st. map (\<lambda>i. case ps_runs st i of
         Some run \<Rightarrow> run
       | None \<Rightarrow> planSkip (map planStep plan) base now i Invalid_plan (Some (obj [(''reason'', strval ''unsettled-plan-node'')])))
       [0..<length plan]) (planRun plan base now exec aborted)"

subsection \<open>What the loop guarantees\<close>

definition executed :: "plan_state \<Rightarrow> nat set" where
  "executed st = set (concat (map fst (ps_stages st)))"

text \<open>A prerequisite whose run is available, and whose outcomes were handed over.\<close>

definition handed :: "PlannedEnricher list \<Rightarrow> (nat \<rightharpoonup> EnricherRun) \<Rightarrow> jsval list \<Rightarrow> ustring \<Rightarrow> bool" where
  "handed steps runs previous d \<longleftrightarrow> (\<exists>j run. tokenToIndex steps d = Some j \<and> runs j = Some run \<and> runIsAvailable run
     \<and> set (outcomesOf (er_report run)) \<subseteq> set previous)"

definition executedOk ::
    "PlannedEnricher list \<Rightarrow> (nat \<Rightarrow> jsval list \<Rightarrow> EnricherRun option) \<Rightarrow> (nat \<rightharpoonup> EnricherRun) \<Rightarrow> jsval list \<Rightarrow> nat \<Rightarrow> bool" where
  "executedOk steps exec runs previous i \<longleftrightarrow> i < length steps \<and> preflight steps i = None
     \<and> (\<exists>run. runs i = Some run \<and> exec i previous = Some run)
     \<and> list_all (handed steps runs previous) (pe_dependencies (steps ! i))"

text \<open>A step that was not executed has a prerequisite that is settled and not available.\<close>

definition skippedOk :: "PlannedEnricher list \<Rightarrow> (nat \<rightharpoonup> EnricherRun) \<Rightarrow> nat \<Rightarrow> bool" where
  "skippedOk steps runs i \<longleftrightarrow> preflight steps i \<noteq> None \<or> list_ex (settled steps runs False) (pe_dependencies (steps ! i))"

definition planInv :: "PlannedEnricher list \<Rightarrow> (nat \<Rightarrow> jsval list \<Rightarrow> EnricherRun option) \<Rightarrow> bool \<Rightarrow> plan_state \<Rightarrow> bool" where
  "planInv steps exec calm st \<longleftrightarrow>
     distinct (ps_pending st) \<and> set (ps_pending st) = {i. i < length steps \<and> ps_runs st i = None}
     \<and> (\<forall>i \<in> set (ps_pending st). preflight steps i = None)
     \<and> distinct (concat (map fst (ps_stages st)))
     \<and> (\<forall>(ready, previous) \<in> set (ps_stages st). \<forall>i \<in> set ready. executedOk steps exec (ps_runs st) previous i)
     \<and> (\<forall>i run. ps_runs st i = Some run \<and> i \<notin> executed st \<longrightarrow> \<not> runIsAvailable run \<and> (calm \<longrightarrow> skippedOk steps (ps_runs st) i))"

lemma map_le_fresh:
  assumes "\<And>i. i \<in> dom new \<Longrightarrow> runs i = None"
  shows "runs \<subseteq>\<^sub>m runs ++ new"
proof (unfold map_le_def, intro ballI)
  fix i assume "i \<in> dom runs"
  then have "i \<notin> dom new" using assms by fastforce
  then show "runs i = (runs ++ new) i" by (simp add: map_add_dom_app_simps)
qed

lemma handed_mono: "runs \<subseteq>\<^sub>m runs' \<Longrightarrow> handed steps runs previous d \<Longrightarrow> handed steps runs' previous d"
  unfolding handed_def map_le_def by (metis domI)

lemma settled_mono: "runs \<subseteq>\<^sub>m runs' \<Longrightarrow> settled steps runs b d \<Longrightarrow> settled steps runs' b d"
  by (auto simp: settled_def map_le_def dom_def split: option.splits)

lemma executedOk_mono: "runs \<subseteq>\<^sub>m runs' \<Longrightarrow> executedOk steps exec runs previous i \<Longrightarrow> executedOk steps exec runs' previous i"
  unfolding executedOk_def by (auto simp: list_all_iff map_le_def dom_def intro: handed_mono [unfolded map_le_def])

lemma skippedOk_mono: "runs \<subseteq>\<^sub>m runs' \<Longrightarrow> skippedOk steps runs i \<Longrightarrow> skippedOk steps runs' i"
  by (auto simp: skippedOk_def list_ex_iff intro: settled_mono)

lemma tokenToIndex_less: "tokenToIndex steps d = Some j \<Longrightarrow> j < length steps"
  by (auto simp: tokenToIndex_def find_Some_iff split: if_splits)

text \<open>A pass adds runs for some of the pending steps, and possibly one stage with exactly these.\<close>

lemma planInv_extend:
  assumes inv: "planInv steps exec calm st" and new: "dom new \<subseteq> set (ps_pending st)"
    and ids: "concat (map fst extra) = ids" "ids = [] \<or> set ids = dom new \<and> distinct ids"
    and ran: "\<forall>(ready, previous) \<in> set extra. \<forall>i \<in> set ready. executedOk steps exec (ps_runs st ++ new) previous i"
    and skipped: "ids = [] \<longrightarrow> (\<forall>i run. new i = Some run \<longrightarrow> \<not> runIsAvailable run
        \<and> (calm \<longrightarrow> skippedOk steps (ps_runs st ++ new) i))"
  shows "planInv steps exec calm \<lparr>ps_runs = ps_runs st ++ new, ps_pending = filter (\<lambda>i. i \<notin> dom new) (ps_pending st),
     ps_stages = ps_stages st @ extra\<rparr>"
    (is "planInv steps exec calm ?st")
proof -
  have fresh: "ps_runs st i = None" if "new i = Some run" for i run
    using that inv new by (auto simp: planInv_def dom_def)
  then have le: "ps_runs st \<subseteq>\<^sub>m ps_runs st ++ new" by (intro map_le_fresh) auto
  have old: "i \<notin> dom new" if "i \<in> executed st" for i
    using that inv fresh by (auto simp: planInv_def executed_def executedOk_def dom_def) fastforce
  have ex: "executed ?st = executed st \<union> set ids" using ids(1) by (auto simp: executed_def)
  have "set ids \<subseteq> dom new" "distinct ids" using ids(2) by auto
  then have "distinct (concat (map fst (ps_stages ?st)))"
    using inv ids(1) old by (auto simp: planInv_def executed_def)
  moreover have "set (ps_pending ?st) = {i. i < length steps \<and> ps_runs ?st i = None}"
    using inv by (auto simp: planInv_def map_add_def dom_def split: option.splits)
  moreover have "\<forall>(ready, previous) \<in> set (ps_stages ?st). \<forall>i \<in> set ready. executedOk steps exec (ps_runs ?st) previous i"
    using inv ran executedOk_mono [OF le] by (fastforce simp: planInv_def)
  moreover have "\<not> runIsAvailable run \<and> (calm \<longrightarrow> skippedOk steps (ps_runs ?st) i)"
    if "ps_runs ?st i = Some run" "i \<notin> executed ?st" for i run
  proof (cases "new i")
    case None
    then show ?thesis using that inv ex skippedOk_mono [OF le] by (auto simp: planInv_def map_add_def)
  next
    case (Some x)
    then show ?thesis using that ids(2) skipped ex by (auto simp: map_add_def)
  qed
  moreover have "distinct (ps_pending ?st)" "\<forall>i \<in> set (ps_pending ?st). preflight steps i = None"
    using inv by (auto simp: planInv_def)
  ultimately show ?thesis unfolding planInv_def by blast
qed

text \<open>When nothing is ready and nothing blocked, every pending step waits for another pending step.\<close>

lemma stuck_edge:
  assumes inv: "planInv steps exec calm st" and i: "i \<in> set (ps_pending st)"
    and not_ready: "\<not> list_all (settled steps (ps_runs st) True) (pe_dependencies (steps ! i))"
    and not_blocked: "\<not> list_ex (settled steps (ps_runs st) False) (pe_dependencies (steps ! i))"
  shows "\<exists>j. edge (ps_pending st) (dependencyIndexes steps) i j"
proof -
  obtain d where d: "d \<in> set (pe_dependencies (steps ! i))" "\<not> settled steps (ps_runs st) True d" "\<not> settled steps (ps_runs st) False d"
    using not_ready not_blocked by (auto simp: list_all_iff list_ex_iff)
  have "preflight steps i = None" using inv i by (auto simp: planInv_def)
  then obtain j where j: "tokenToIndex steps d = Some j"
    using d(1) by (auto simp: preflight_def Let_def filter_empty_conv split: if_splits)
  with d have "ps_runs st j = None" by (auto simp: settled_def split: option.splits)
  with j have "j \<in> set (ps_pending st)" using inv tokenToIndex_less by (auto simp: planInv_def)
  moreover have "j \<in> set (dependencyIndexes steps i)" using d(1) j by (force simp: dependencyIndexes_def List.map_filter_def)
  ultimately show ?thesis using i by (auto simp: edge_def)
qed

lemma stuck_cycle:
  assumes "pending \<noteq> []" "\<forall>i \<in> set pending. \<exists>j. edge pending adj i j"
  shows "isCycle pending adj (cycleIndexes pending adj)"
proof -
  have "\<exists>x. (edge pending adj)\<^sup>+\<^sup>+ x x"
  proof (rule ccontr)
    assume none: "\<nexists>x. (edge pending adj)\<^sup>+\<^sup>+ x x"
    let ?R = "{(x, y). edge pending adj x y}"
    have "finite (?R\<inverse>)" by (rule finite_subset [of _ "set pending \<times> set pending"]) (auto simp: edge_def)
    moreover have "acyclic ?R" using none unfolding acyclic_def tranclp_unfold by blast
    then have "acyclic (?R\<inverse>)" by (simp only: acyclic_converse)
    ultimately have "wf (?R\<inverse>)" by (rule finite_acyclic_wf)
    moreover have "hd pending \<in> set pending" using assms(1) by simp
    ultimately obtain x where "x \<in> set pending" "\<forall>y. edge pending adj x y \<longrightarrow> y \<notin> set pending"
      unfolding wf_eq_minimal converse_iff mem_Collect_eq case_prod_conv by blast
    moreover obtain y where y: "edge pending adj x y" using assms(2) \<open>x \<in> set pending\<close> by blast
    ultimately have "y \<notin> set pending" by blast
    with y show False unfolding edge_def by blast
  qed
  moreover note findDependencyCycle_spec [of pending adj]
  ultimately have "findDependencyCycle pending adj \<noteq> []" by meson
  then show ?thesis using findDependencyCycle_spec [of pending adj] by (simp add: cycleIndexes_def Let_def)
qed

lemma isCycle_successor: "isCycle pending adj c \<Longrightarrow> x \<in> set c \<Longrightarrow> \<exists>y \<in> set c. y \<in> set (adj x)"
proof -
  assume c: "isCycle pending adj c" and x: "x \<in> set c"
  have step: "successively (edge pending adj) c \<Longrightarrow> x \<in> set c \<Longrightarrow> x = last c \<or> (\<exists>y \<in> set c. edge pending adj x y)" for c
    by (induction c rule: induct_list012) auto
  show ?thesis
  proof (cases "x = last c")
    case True
    then show ?thesis using c by (auto simp: isCycle_def edge_def [of pending adj "last c"] intro!: bexI [of _ "hd c"])
  next
    case False
    then show ?thesis using c x step [of c] by (auto simp: isCycle_def edge_def [of pending adj x])
  qed
qed

lemma planInv_skip:
  assumes "planInv steps exec calm st" "dom new \<subseteq> set (ps_pending st)"
    "\<And>i run. new i = Some run \<Longrightarrow> \<not> runIsAvailable run \<and> (calm \<longrightarrow> skippedOk steps (ps_runs st ++ new) i)"
  shows "planInv steps exec calm (st\<lparr>ps_runs := ps_runs st ++ new, ps_pending := filter (\<lambda>i. i \<notin> dom new) (ps_pending st)\<rparr>)"
proof -
  have "st\<lparr>ps_runs := ps_runs st ++ new, ps_pending := filter (\<lambda>i. i \<notin> dom new) (ps_pending st)\<rparr>
      = \<lparr>ps_runs = ps_runs st ++ new, ps_pending = filter (\<lambda>i. i \<notin> dom new) (ps_pending st), ps_stages = ps_stages st @ []\<rparr>"
    by simp
  then show ?thesis using planInv_extend [OF assms(1,2), of "[]" "[]"] assms(3) by (simp only:) simp
qed

lemma previousOutcomes_handed:
  assumes "settled steps runs True d" "runs \<subseteq>\<^sub>m runs'"
  shows "handed steps runs' (previousOutcomes steps runs) d"
proof -
  obtain j run where j: "tokenToIndex steps d = Some j" "runs j = Some run" "runIsAvailable run"
    using assms(1) by (auto simp: settled_def split: option.splits)
  then have "set (outcomesOf (er_report run)) \<subseteq> set (previousOutcomes steps runs)"
    using tokenToIndex_less [OF j(1)] by (force simp: previousOutcomes_def)
  with j assms(2) show ?thesis by (auto simp: handed_def map_le_def dom_def)
qed

lemma planInv_ready:
  assumes inv: "planInv steps exec calm st"
    and ready: "ready = filter (\<lambda>i. list_all (settled steps (ps_runs st) True) (pe_dependencies (steps ! i))) (ps_pending st)"
    and results: "those (map (\<lambda>i. exec i (previousOutcomes steps (ps_runs st))) ready) = Some results"
  shows "planInv steps exec calm \<lparr>ps_runs = ps_runs st ++ map_of (zip ready results),
     ps_pending = filter (\<lambda>i. i \<notin> set ready) (ps_pending st), ps_stages = ps_stages st @ [(ready, previousOutcomes steps (ps_runs st))]\<rparr>"
proof -
  let ?prev = "previousOutcomes steps (ps_runs st)" and ?new = "map_of (zip ready results)"
  have res: "map (\<lambda>i. exec i ?prev) ready = map Some results" using results by (simp add: those_Some)
  then have len: "length results = length ready" by (metis length_map)
  have d: "distinct ready" "set ready \<subseteq> set (ps_pending st)" using inv ready by (auto simp: planInv_def)
  have dom: "dom ?new = set ready" using len by (simp add: dom_map_of_zip)
  have fresh: "ps_runs st i = None" if "i \<in> set ready" for i using that d(2) inv by (auto simp: planInv_def)
  have le: "ps_runs st \<subseteq>\<^sub>m ps_runs st ++ ?new"
    using fresh dom by (intro map_le_fresh) auto
  have "executedOk steps exec (ps_runs st ++ ?new) ?prev i" if i: "i \<in> set ready" for i
  proof -
    obtain k where k: "k < length ready" "ready ! k = i" using i by (auto simp: in_set_conv_nth)
    have "exec i ?prev = Some (results ! k)" using res k len by (metis nth_map)
    moreover have "?new i = Some (results ! k)" using k len d(1) map_of_zip_nth [of ready results k] by simp
    moreover have "list_all (settled steps (ps_runs st) True) (pe_dependencies (steps ! i))" using i ready by simp
    moreover have "i < length steps" "preflight steps i = None" using i d(2) inv by (auto simp: planInv_def)
    ultimately show ?thesis by (auto simp: executedOk_def list_all_iff intro: previousOutcomes_handed [OF _ le])
  qed
  then have "planInv steps exec calm \<lparr>ps_runs = ps_runs st ++ ?new, ps_pending = filter (\<lambda>i. i \<notin> dom ?new) (ps_pending st),
      ps_stages = ps_stages st @ [(ready, ?prev)]\<rparr>"
    using d dom by (intro planInv_extend [OF inv]) auto
  then show ?thesis by (simp add: dom)
qed

lemma planInv_cycle:
  assumes inv: "planInv steps exec calm st" and ne: "ps_pending st \<noteq> []"
    and stuck: "\<forall>i \<in> set (ps_pending st). \<not> list_all (settled steps (ps_runs st) True) (pe_dependencies (steps ! i))
       \<and> \<not> list_ex (settled steps (ps_runs st) False) (pe_dependencies (steps ! i))"
  shows "planInv steps exec calm (skipAll (\<lambda>i. planSkip steps base now i code (details i)) (cycleIndexes (ps_pending st) (dependencyIndexes steps)) st)"
proof -
  let ?c = "cycleIndexes (ps_pending st) (dependencyIndexes steps)"
  have c: "isCycle (ps_pending st) (dependencyIndexes steps) ?c"
    using stuck stuck_edge [OF inv] ne by (intro stuck_cycle) auto
  show ?thesis
    unfolding skipAll_extends
  proof (rule planInv_skip [OF inv])
    let ?new = "\<lambda>i. if i \<in> set ?c then Some (planSkip steps base now i code (details i)) else None"
    show "dom ?new \<subseteq> set (ps_pending st)" using isCycle_sub [OF c] by (auto split: if_splits)
    fix i run assume "?new i = Some run"
    then have i: "i \<in> set ?c" "run = planSkip steps base now i code (details i)" by (auto split: if_splits)
    obtain j where j: "j \<in> set ?c" "j \<in> set (dependencyIndexes steps i)" using isCycle_successor [OF c i(1)] by blast
    then obtain d where d: "d \<in> set (pe_dependencies (steps ! i))" "tokenToIndex steps d = Some j"
      by (auto simp: dependencyIndexes_def List.map_filter_def)
    then have "settled steps (ps_runs st ++ ?new) False d" using j(1) by (simp add: settled_def)
    then show "\<not> runIsAvailable run \<and> (calm \<longrightarrow> skippedOk steps (ps_runs st ++ ?new) i)"
      using d(1) i(2) by (auto simp: skippedOk_def list_ex_iff)
  qed
qed

lemma planPass_inv:
  assumes pass: "planPass steps base now exec abort st = Some st'" and inv: "planInv steps exec (calm \<and> \<not> abort) st"
    and ne: "ps_pending st \<noteq> []"
  shows "planInv steps exec (calm \<and> \<not> abort) st'"
proof (cases abort)
  case True
  have "planInv steps exec False (skipAll (\<lambda>i. planSkip steps base now i Caller_aborted None) (ps_pending st) st)"
    unfolding skipAll_extends using inv True by (intro planInv_skip) (auto split: if_splits)
  with True pass show ?thesis by (simp add: planPass_def)
next
  case False
  let ?ready = "filter (\<lambda>i. list_all (settled steps (ps_runs st) True) (pe_dependencies (steps ! i))) (ps_pending st)"
  let ?blocked = "filter (\<lambda>i. list_ex (settled steps (ps_runs st) False) (pe_dependencies (steps ! i))) (ps_pending st)"
  consider (ready) results where "those (map (\<lambda>i. exec i (previousOutcomes steps (ps_runs st))) ?ready) = Some results"
      "st' = \<lparr>ps_runs = ps_runs st ++ map_of (zip ?ready results), ps_pending = filter (\<lambda>i. i \<notin> set ?ready) (ps_pending st),
        ps_stages = ps_stages st @ [(?ready, previousOutcomes steps (ps_runs st))]\<rparr>"
    | (blocked) "st' = st\<lparr>ps_runs := skipBlocked steps base now ?blocked (ps_runs st), ps_pending := filter (\<lambda>i. i \<notin> set ?blocked) (ps_pending st)\<rparr>"
    | (cycle) "?ready = []" "?blocked = []" "st' = skipAll (\<lambda>i. planSkip steps base now i Dependency_cycle
        (Some (obj [(''prerequisites'', Arr (map StrVal (pe_dependencies (steps ! i))))]))) (cycleIndexes (ps_pending st) (dependencyIndexes steps)) st"
    using pass False by (auto simp: planPass_def Let_def split: if_splits option.splits)
  then show ?thesis
  proof cases
    case ready
    then show ?thesis using planInv_ready [OF inv refl ready(1)] by simp
  next
    case blocked
    obtain new where new: "skipBlocked steps base now ?blocked (ps_runs st) = ps_runs st ++ new" "dom new = set ?blocked"
      "\<forall>i run. new i = Some run \<longrightarrow> (\<exists>details. run = planSkip steps base now i Prerequisite_unavailable details)"
      using skipBlocked_extends by blast
    have "skippedOk steps (ps_runs st) i" if "new i = Some run" for i run
      using that new(2) by (auto simp: skippedOk_def dom_def)
    moreover have "ps_runs st \<subseteq>\<^sub>m ps_runs st ++ new"
      using inv new(2) by (intro map_le_fresh) (auto simp: planInv_def)
    moreover have "\<not> runIsAvailable run" if "new i = Some run" for i run
      using that new(3) planSkip_unavailable by blast
    ultimately have "planInv steps exec (calm \<and> \<not> abort) (st\<lparr>ps_runs := ps_runs st ++ new, ps_pending := filter (\<lambda>i. i \<notin> dom new) (ps_pending st)\<rparr>)"
      using new(2) by (intro planInv_skip [OF inv]) (auto intro: skippedOk_mono)
    then show ?thesis using blocked new(1,2) by simp
  next
    case cycle
    then show ?thesis using planInv_cycle [OF inv ne] by (auto simp: filter_empty_conv)
  qed
qed

lemma planLoop_inv:
  assumes "planLoop steps base now exec aborted k st = Some st'" "planInv steps exec calm st" "calm \<longrightarrow> (\<forall>m \<ge> k. \<not> aborted m)"
  shows "planInv steps exec calm st' \<and> ps_pending st' = []"
  using assms
proof (induction steps base now exec aborted k st rule: planLoop.induct)
  case (1 steps base now exec aborted k st)
  show ?case
  proof (cases "ps_pending st = []")
    case True
    with "1.prems" show ?thesis by (simp add: planLoop.simps)
  next
    case False
    with "1.prems"(1) obtain st1 where s: "planPass steps base now exec (aborted k) st = Some st1"
      "planLoop steps base now exec aborted (Suc k) st1 = Some st'"
      by (auto simp: planLoop.simps [of steps base now exec aborted k st] split: option.splits)
    have c: "(calm \<and> \<not> aborted k) = calm" using "1.prems"(3) by auto
    then have "planInv steps exec calm st1" using planPass_inv [OF s(1), of calm] "1.prems"(2) False unfolding c by blast
    then show ?thesis using "1.IH" [OF False s] "1.prems"(3) by simp
  qed
qed

lemma preflightState_inv: "planInv steps exec calm (preflightState steps base now)"
  by (auto simp: planInv_def preflightState_def executed_def skippedOk_def)

lemma planRun_inv:
  assumes "planRun plan base now exec aborted = Some st" "calm \<longrightarrow> (\<forall>k. \<not> aborted k)"
  shows "planInv (map planStep plan) exec calm st" "ps_pending st = []"
  using planLoop_inv [OF _ preflightState_inv] assms by (auto simp: planRun_def Let_def)

lemma planRun_runs:
  assumes "planRun plan base now exec aborted = Some st"
    "\<And>i code details. P i (planSkip (map planStep plan) base now i code details)"
    "\<And>i previous run. i < length plan \<Longrightarrow> exec i previous = Some run \<Longrightarrow> P i run"
    "ps_runs st i = Some run"
  shows "i < length plan \<and> P i run"
proof -
  have "\<forall>i run. ps_runs st i = Some run \<longrightarrow> i < length (map planStep plan) \<and> P i run"
    using assms(1) unfolding planRun_def Let_def
    by (rule planLoop_runs) (use assms(2,3) in \<open>auto simp: preflightState_def split: if_splits\<close>)
  then show ?thesis using assms(4) by simp
qed

lemma planRun_domain:
  assumes "planRun plan base now exec aborted = Some st"
  shows "dom (ps_runs st) = {..<length plan}"
  using planRun_runs [OF assms, of "\<lambda>_ _. True"] planRun_inv [OF assms, of False] by (auto simp: planInv_def)

lemma planRun_total:
  assumes "\<And>i previous. i < length plan \<Longrightarrow> exec i previous \<noteq> None"
  shows "\<exists>st. planRun plan base now exec aborted = Some st"
  unfolding planRun_def Let_def
  by (rule planLoop_total) (use assms in \<open>auto simp: preflightState_def\<close>)

text \<open>What holds of the reports of the framework and of every run that is started holds of all runs.\<close>

lemma executeEnrichmentPlan_runs:
  assumes "executeEnrichmentPlan plan base now exec aborted = Some runs"
    "\<And>i code details. i < length plan \<Longrightarrow> P i (planSkip (map planStep plan) base now i code details)"
    "\<And>i previous run. i < length plan \<Longrightarrow> exec i previous = Some run \<Longrightarrow> P i run"
  shows "length runs = length plan \<and> (\<forall>i < length plan. P i (runs ! i))"
proof -
  obtain st where st: "planRun plan base now exec aborted = Some st"
    using assms(1) by (auto simp: executeEnrichmentPlan_def)
  have "P i run" if "ps_runs st i = Some run" for i run
  proof -
    have "i < length plan \<and> (i < length plan \<longrightarrow> P i run)"
      by (rule planRun_runs [OF st _ _ that]) (use assms(2,3) in auto)
    then show ?thesis by simp
  qed
  then show ?thesis using assms(1,2) st by (auto simp: executeEnrichmentPlan_def split: option.split)
qed

lemma executeEnrichmentPlan_settles:
  assumes "\<And>i previous. i < length plan \<Longrightarrow> exec i previous \<noteq> None"
  shows "\<exists>runs. executeEnrichmentPlan plan base now exec aborted = Some runs"
  using planRun_total [OF assms] by (auto simp: executeEnrichmentPlan_def)

lemma settled_excl: "settled steps runs True d \<Longrightarrow> \<not> settled steps runs False d"
  by (auto simp: settled_def split: option.splits)

lemma handed_settled: "handed steps runs previous d \<Longrightarrow> settled steps runs True d"
  by (auto simp: handed_def settled_def)

text \<open>
  C18: What the execution of a plan guarantees, whatever its steps do. Every step ends with a run. A
  step is executed at most once, in one stage, only if it passed the preflight and all its
  prerequisites have available runs, whose outcomes are among those the step is given; its run is
  the one the execution returned. A step that was not executed never counts as available. And unless
  the caller aborts, exactly the steps that pass the preflight and whose prerequisites are all
  available are executed: nothing that could run is skipped, and cycles skip only themselves and
  what depends on them.
\<close>

theorem plan_respects_dependencies:
  assumes "planRun plan base now exec aborted = Some st"
  shows "dom (ps_runs st) = {..<length plan}
   \<and> distinct (concat (map fst (ps_stages st)))
   \<and> (\<forall>(ready, previous) \<in> set (ps_stages st). \<forall>i \<in> set ready. executedOk (map planStep plan) exec (ps_runs st) previous i)
   \<and> (\<forall>i run. ps_runs st i = Some run \<and> i \<notin> executed st \<longrightarrow> \<not> runIsAvailable run)
   \<and> ((\<forall>k. \<not> aborted k) \<longrightarrow> (\<forall>i < length plan. i \<in> executed st \<longleftrightarrow>
        preflight (map planStep plan) i = None
        \<and> list_all (settled (map planStep plan) (ps_runs st) True) (pe_dependencies (map planStep plan ! i))))"
proof (intro conjI impI)
  let ?steps = "map planStep plan"
  note inv = planRun_inv [OF assms, of False, simplified]
  show "\<forall>(ready, previous) \<in> set (ps_stages st). \<forall>i \<in> set ready. executedOk ?steps exec (ps_runs st) previous i"
    using inv by (auto simp: planInv_def)
  show "distinct (concat (map fst (ps_stages st)))"
    "\<forall>i run. ps_runs st i = Some run \<and> i \<notin> executed st \<longrightarrow> \<not> runIsAvailable run"
    using inv(1) by (simp_all add: planInv_def)
  show dom: "dom (ps_runs st) = {..<length plan}"
    by (rule planRun_domain [OF assms])
  assume "\<forall>k. \<not> aborted k"
  then have calm: "planInv ?steps exec True st" using planRun_inv(1) [OF assms] by simp
  show "\<forall>i < length plan. i \<in> executed st \<longleftrightarrow> preflight ?steps i = None
        \<and> list_all (settled ?steps (ps_runs st) True) (pe_dependencies (?steps ! i))"
  proof (intro allI impI iffI)
    fix i assume "i < length plan" "i \<in> executed st"
    then obtain previous where "executedOk ?steps exec (ps_runs st) previous i"
      using inv(1) by (fastforce simp: planInv_def executed_def)
    then show "preflight ?steps i = None \<and> list_all (settled ?steps (ps_runs st) True) (pe_dependencies (?steps ! i))"
      by (auto simp: executedOk_def list_all_iff intro: handed_settled)
  next
    fix i assume i: "i < length plan" "preflight ?steps i = None \<and> list_all (settled ?steps (ps_runs st) True) (pe_dependencies (?steps ! i))"
    then obtain run where run: "ps_runs st i = Some run" using dom by blast
    show "i \<in> executed st"
    proof (rule ccontr)
      assume "i \<notin> executed st"
      then have "skippedOk ?steps (ps_runs st) i" using calm run by (auto simp: planInv_def)
      then show False using i(2) settled_excl by (auto simp: skippedOk_def list_ex_iff list_all_iff)
    qed
  qed
qed

text \<open>
  A plan always comes to an end, in plan order. If every run that is started settles, the whole
  execution does, whatever the plan's dependencies are, and it returns one run per enricher, in the
  order of the plan and under the enricher's own token.
\<close>

lemma executeEnrichmentPlan_total:
  assumes "\<And>i previous. i < length plan \<Longrightarrow> \<exists>run. exec i previous = Some run \<and> er_token run = checkToken (plan ! i)"
  shows "\<exists>runs. executeEnrichmentPlan plan base now exec aborted = Some runs \<and> map er_token runs = map checkToken plan"
proof -
  have "exec i previous \<noteq> None" if "i < length plan" for i previous using assms [OF that, of previous] by auto
  then obtain runs where runs: "executeEnrichmentPlan plan base now exec aborted = Some runs"
    using executeEnrichmentPlan_settles by blast
  have "length runs = length plan \<and> (\<forall>i < length plan. er_token (runs ! i) = checkToken (plan ! i))"
  proof (rule executeEnrichmentPlan_runs [OF runs])
    show "er_token run = checkToken (plan ! i)" if "i < length plan" "exec i previous = Some run" for i previous run
      using assms [OF that(1), of previous] that(2) by auto
  qed (simp add: planStep_def Let_def)
  then show ?thesis using runs by (auto intro: nth_equalityI)
qed

definition samplePlan :: "Enricher list" where
  "samplePlan = [sampleEnricher, sampleEnricher\<lparr>en_id := str ''dns'', en_dependsOn := Arr [strval ''reputation:rdap'']\<rparr>]"

definition sampleExec :: "nat \<Rightarrow> jsval list \<Rightarrow> EnricherRun option" where
  "sampleExec i previous = Some \<lparr>er_token = checkToken (samplePlan ! i), er_report = legacyReport (samplePlan ! i) sampleBase [] []\<rparr>"

theorem plan_respects_dependencies_witness:
  "\<exists>st. planRun samplePlan sampleBase (\<lambda>_. []) sampleExec (\<lambda>_. False) = Some st
     \<and> dom (ps_runs st) = {..<2} \<and> distinct (concat (map fst (ps_stages st)))"
proof -
  have "sampleExec i previous \<noteq> None" for i previous by (simp add: sampleExec_def)
  then obtain st where st: "planRun samplePlan sampleBase (\<lambda>_. []) sampleExec (\<lambda>_. False) = Some st"
    using planRun_total by blast
  then show ?thesis using plan_respects_dependencies [OF st] by (simp add: samplePlan_def)
qed

lemma executeEnrichmentPlan_total_witness:
  "\<exists>runs. executeEnrichmentPlan samplePlan sampleBase (\<lambda>_. []) sampleExec (\<lambda>_. False) = Some runs
     \<and> map er_token runs = [str ''reputation:rdap'', str ''reputation:dns'']"
proof -
  have "\<exists>runs. executeEnrichmentPlan samplePlan sampleBase (\<lambda>_. []) sampleExec (\<lambda>_. False) = Some runs
     \<and> map er_token runs = map checkToken samplePlan"
    by (rule executeEnrichmentPlan_total) (simp add: sampleExec_def)
  then show ?thesis by (simp add: samplePlan_def sampleEnricher_def checkToken_def str_def)
qed

end
