(* ===== verification/Compare.thy ===== *)
theory Compare
  imports Context Provenance
begin

text \<open>
  The comparison of two URLs (\<open>compare/compare-urls.ts\<close>): the canonical view of one input, the
  origin relation, the site relation on the two views of the Public Suffix List and \<open>compareUrls\<close>.
  The properties: being of the same origin is symmetric and transitive, and reflexive exactly on
  inputs with a tuple origin; the canonical host does not depend on the root label or on the
  spelling of an address; and two URLs of one origin are of one site.
\<close>

subsection \<open>compare/compare-urls.ts\<close>

datatype UrlRelation = Same | Different | Undetermined

datatype OriginKind = TupleOrigin | OpaqueOrigin | UndeterminedOrigin

record ComparedUrl =
  cu_input :: "ustring option"
  cu_scheme :: "ustring option"
  cu_originKind :: OriginKind
  cu_host :: "ustring option"
  cu_port :: "nat option"
  cu_site :: "ustring option"
  cu_siteIcann :: "ustring option"

record UrlComparison =
  uc_sameOrigin :: UrlRelation
  uc_sameSite :: UrlRelation
  uc_sameSiteIcann :: UrlRelation
  uc_left :: ComparedUrl
  uc_right :: ComparedUrl
  uc_pslSnapshot :: PslSnapshot

definition TUPLE_ORIGIN_SCHEMES :: "ustring set" where
  "TUPLE_ORIGIN_SCHEMES = set (map str [''http'', ''https'', ''ws'', ''wss'', ''ftp''])"

definition DEFAULT_PORTS :: "ustring \<rightharpoonup> nat" where
  "DEFAULT_PORTS = map_of [(str ''http'', 80), (str ''https'', 443), (str ''ws'', 80), (str ''wss'', 443), (str ''ftp'', 21)]"

definition undeterminedSide :: "ustring option \<Rightarrow> ComparedUrl" where
  "undeterminedSide input =
     \<lparr>cu_input = input, cu_scheme = None, cu_originKind = UndeterminedOrigin, cu_host = None,
      cu_port = None, cu_site = None, cu_siteIcann = None\<rparr>"

definition canonicalHost :: "platform \<Rightarrow> ustring \<Rightarrow> bool \<Rightarrow> ustring option" where
  "canonicalHost E host isIp =
     (if host = [] then None
      else (let bare = stripTrailingRootDot host in
        if bare = [] then None
        else if isIp then
          (case analyzeIpv4 bare of
             Some v4 \<Rightarrow> Some (v4_canonical v4)
           | None \<Rightarrow> (case analyzeIpv6 bare of
               Some v6 \<Rightarrow> Some (v6_canonical v6)
             | None \<Rightarrow> Some (pf_toLowerCase E bare)))
        else toAsciiUnder E bare False))"

text \<open>The view of an input that parsed.\<close>

definition describeParsed :: "platform \<Rightarrow> ustring \<Rightarrow> InspectionContext \<Rightarrow> ComparedUrl" where
  "describeParsed E input ctx =
     (case canonicalHost E (cx_host ctx) (cx_isIp ctx) of
        None \<Rightarrow>
          (let rejected = (cx_host ctx \<noteq> [] \<and> stripTrailingRootDot (cx_host ctx) \<noteq> []) in
           \<lparr>cu_input = Some input, cu_scheme = cx_scheme ctx,
            cu_originKind = (if rejected then UndeterminedOrigin else OpaqueOrigin),
            cu_host = None, cu_port = None, cu_site = None, cu_siteIcann = None\<rparr>)
      | Some host \<Rightarrow>
          \<lparr>cu_input = Some input, cu_scheme = cx_scheme ctx,
           cu_originKind = (case cx_scheme ctx of None \<Rightarrow> UndeterminedOrigin
             | Some s \<Rightarrow> if s \<in> TUPLE_ORIGIN_SCHEMES then TupleOrigin else OpaqueOrigin),
           cu_host = Some host,
           cu_port = (if cx_port ctx \<noteq> None
               \<and> cx_port ctx = DEFAULT_PORTS (case cx_scheme ctx of Some s \<Rightarrow> s | None \<Rightarrow> [])
             then None else cx_port ctx),
           cu_site = Some (if cx_isIp ctx then host
             else case privateRegistrableDomain E host of Some d \<Rightarrow> d | None \<Rightarrow> host),
           cu_siteIcann = Some (if cx_isIp ctx then host
             else case ps_registrableDomain (analyzeHost E host) of Some d \<Rightarrow> d | None \<Rightarrow> host)\<rparr>)"

text \<open>
  An argument is a string or, as \<open>None\<close>, any other value. The runtime configuration is the default
  of \<open>parse\<close>, \<open>normalizeOptions({})\<close>.
\<close>

definition defaultRuntime :: "platform \<Rightarrow> RuntimeConfig" where
  "defaultRuntime E = the (normalizeOptions E (Obj True []))"

definition describeUrl :: "platform \<Rightarrow> ustring option \<Rightarrow> ComparedUrl" where
  "describeUrl E input =
     (case input of
        None \<Rightarrow> undeterminedSide None
      | Some s \<Rightarrow> (case parse E s (defaultRuntime E) of
            None \<Rightarrow> undeterminedSide (Some s)
          | Some ctx \<Rightarrow> describeParsed E s ctx))"

definition relateOrigin :: "ComparedUrl \<Rightarrow> ComparedUrl \<Rightarrow> UrlRelation" where
  "relateOrigin left right =
     (if cu_originKind left = UndeterminedOrigin \<or> cu_originKind right = UndeterminedOrigin then Undetermined
      else if cu_originKind left = OpaqueOrigin \<or> cu_originKind right = OpaqueOrigin then Different
      else if cu_scheme left = cu_scheme right \<and> cu_host left = cu_host right \<and> cu_port left = cu_port right
      then Same else Different)"

definition siteUndetermined :: "ComparedUrl \<Rightarrow> bool" where
  "siteUndetermined side \<longleftrightarrow> cu_originKind side = UndeterminedOrigin \<and> cu_host side = None"

definition relateSite :: "ComparedUrl \<Rightarrow> ComparedUrl \<Rightarrow> (ComparedUrl \<Rightarrow> ustring option) \<Rightarrow> UrlRelation" where
  "relateSite left right pick =
     (if siteUndetermined left \<or> siteUndetermined right then Undetermined
      else case (pick left, pick right) of
        (Some l, Some r) \<Rightarrow> if l = r then Same else Different
      | _ \<Rightarrow> Different)"

definition compareUrls ::
    "platform \<Rightarrow> PslSnapshot \<Rightarrow> ustring option \<Rightarrow> ustring option \<Rightarrow> UrlComparison" where
  "compareUrls E snapshot left right =
     (let a = describeUrl E left; b = describeUrl E right in
      \<lparr>uc_sameOrigin = relateOrigin a b, uc_sameSite = relateSite a b cu_site,
       uc_sameSiteIcann = relateSite a b cu_siteIcann, uc_left = a, uc_right = b,
       uc_pslSnapshot = snapshot\<rparr>)"

lemmas compare_defs = compareUrls_def Let_def relateOrigin_def relateSite_def siteUndetermined_def

subsection \<open>The relations\<close>

lemma relateOrigin_same:
  "relateOrigin a b = Same \<longleftrightarrow> cu_originKind a = TupleOrigin \<and> cu_originKind b = TupleOrigin
     \<and> cu_scheme a = cu_scheme b \<and> cu_host a = cu_host b \<and> cu_port a = cu_port b"
  by (cases "cu_originKind a"; cases "cu_originKind b") (simp_all add: relateOrigin_def)

lemma relateOrigin_commute: "relateOrigin a b = relateOrigin b a"
  by (auto simp: relateOrigin_def)

lemma relateSite_commute: "relateSite a b pick = relateSite b a pick"
  by (auto simp: relateSite_def split: option.split)

lemma describeUrl_hostless:
  "cu_host (describeUrl E u) = None \<Longrightarrow> cu_site (describeUrl E u) = None"
  "cu_host (describeUrl E u) = None \<Longrightarrow> cu_siteIcann (describeUrl E u) = None"
  by (auto simp: describeUrl_def undeterminedSide_def describeParsed_def Let_def split: option.splits)

lemma relateSite_same:
  assumes "\<And>u. cu_host (view u) = None \<Longrightarrow> pick (view u) = None"
  shows "relateSite (view a) (view b) pick = Same \<longleftrightarrow> pick (view a) \<noteq> None \<and> pick (view a) = pick (view b)"
  using assms [of a] assms [of b] by (auto simp: relateSite_def siteUndetermined_def split: option.splits)

lemma describeUrl_tuple:
  assumes "cu_originKind (describeUrl E u) = TupleOrigin"
  obtains s ctx host where "u = Some s" "parse E s (defaultRuntime E) = Some ctx" "describeUrl E u = describeParsed E s ctx"
    "canonicalHost E (cx_host ctx) (cx_isIp ctx) = Some host"
  using assms
  by (auto simp: describeUrl_def undeterminedSide_def describeParsed_def Let_def split: option.splits if_splits)

lemma canonicalHost_ip:
  assumes "canonicalHost E h True = Some host"
  shows "(\<exists>n. host = toDotted n) \<or> (\<exists>g. length g = 8 \<and> groups_ok g \<and> host = canonicalizeIpv6 g)
     \<or> analyzeIpv4 (stripTrailingRootDot h) = None \<and> analyzeIpv6 (stripTrailingRootDot h) = None
        \<and> host = pf_toLowerCase E (stripTrailingRootDot h)"
proof -
  let ?bare = "stripTrailingRootDot h"
  consider (v4) r where "analyzeIpv4 ?bare = Some r" "host = v4_canonical r"
    | (v6) r where "analyzeIpv6 ?bare = Some r" "host = v6_canonical r"
    | (other) "analyzeIpv4 ?bare = None" "analyzeIpv6 ?bare = None" "host = pf_toLowerCase E ?bare"
    using assms by (auto simp: canonicalHost_def Let_def split: if_splits option.splits)
  then show ?thesis
  proof cases
    case v4
    then show ?thesis using analyzeIpv4_canonical by blast
  next
    case v6
    obtain g where "length g = 8" "groups_ok g" "r = analysisOf g (v6_obfuscated r)"
      using v6(1) by (rule analyzeIpv6_Some)
    then have "host = canonicalizeIpv6 g" using v6(2) by (metis analysisOf_def Ipv6Analysis.select_convs(2))
    then show ?thesis using \<open>length g = 8\<close> \<open>groups_ok g\<close> by blast
  qed blast
qed

lemma parse_isIp:
  assumes "parse E s runtime = Some ctx" "cx_isIp ctx"
    "analyzeIpv4 (stripTrailingRootDot (cx_host ctx)) = None" "analyzeIpv6 (stripTrailingRootDot (cx_host ctx)) = None"
  shows "td_isIp (pf_tldts E False (cx_host ctx)) = Some True"
proof -
  obtain raw where raw: "ctx = buildInspectionContext E s raw (deriveHostFacts E (rp_rawHost raw))
       (buildParsedUrl raw (deriveHostFacts E (rp_rawHost raw))) runtime"
    using assms(1) by (auto simp: parse_def Let_def split: if_splits elim: parsePrepared_Some)
  let ?f = "deriveHostFacts E (rp_rawHost raw)"
  have h: "cx_host ctx = hf_host ?f" "cx_isIp ctx = ps_isIp (hf_psl ?f)"
    by (simp_all add: raw buildInspectionContext_def Let_def)
  have "analyzeIpv4 (cx_host ctx) = None" using assms(3) stripTrailingRootDot_analyzed [of "cx_host ctx"] by (cases "analyzeIpv4 (cx_host ctx)") auto
  moreover have "analyzeIpv6 (cx_host ctx) = None"
    using assms(4) stripTrailingRootDot_analyzed6 [of "cx_host ctx"] by force
  ultimately show ?thesis
    using assms(2) h by (auto simp: deriveHostFacts_def Let_def emptyPsl_def analyzeHost_def split: if_splits option.splits)
qed

subsection \<open>Properties\<close>

text \<open>
  When two URLs relate. They are same-origin exactly if both have a tuple origin and agree in
  scheme, canonical host and port with the scheme's default elided, and same-site exactly if both
  have a host and the same site, so both relations are transitive; all three answers are symmetric.
  Compared with itself an input is same-origin if its origin is a tuple, different if it is opaque
  and undetermined otherwise; an opaque origin differs from every determined one.
\<close>

lemma compareUrls_relations:
  "(uc_sameOrigin (compareUrls E sn a b) = Same \<longleftrightarrow>
      cu_originKind (describeUrl E a) = TupleOrigin \<and> cu_originKind (describeUrl E b) = TupleOrigin
      \<and> (cu_scheme (describeUrl E a), cu_host (describeUrl E a), cu_port (describeUrl E a)) 
         = (cu_scheme (describeUrl E b), cu_host (describeUrl E b), cu_port (describeUrl E b)))
   \<and> (uc_sameSite (compareUrls E sn a b) = Same \<longleftrightarrow> cu_site (describeUrl E a) \<noteq> None \<and> cu_site (describeUrl E a) = cu_site (describeUrl E b))
   \<and> (uc_sameSiteIcann (compareUrls E sn a b) = Same \<longleftrightarrow> cu_siteIcann (describeUrl E a) \<noteq> None \<and> cu_siteIcann (describeUrl E a) = cu_siteIcann (describeUrl E b))
   \<and> (uc_sameOrigin (compareUrls E sn a a) = (case cu_originKind (describeUrl E a) of
        TupleOrigin \<Rightarrow> Same | OpaqueOrigin \<Rightarrow> Different | UndeterminedOrigin \<Rightarrow> Undetermined))
   \<and> uc_sameOrigin (compareUrls E sn a b) = uc_sameOrigin (compareUrls E sn b a) \<and> uc_sameSite (compareUrls E sn a b) = uc_sameSite (compareUrls E sn b a)
   \<and> uc_sameSiteIcann (compareUrls E sn a b) = uc_sameSiteIcann (compareUrls E sn b a)"
  unfolding compareUrls_def Let_def UrlComparison.select_convs prod.inject relateOrigin_same
  by (intro conjI refl relateOrigin_commute relateSite_commute relateSite_same describeUrl_hostless)
    (simp_all add: relateOrigin_def split: OriginKind.split)

text \<open>The documented behaviour of the suffix list on addresses: it knows no domain for them.\<close>

definition addressesHaveNoDomain :: "platform \<Rightarrow> bool" where
  "addressesHaveNoDomain E \<longleftrightarrow>
     (\<forall>private n. td_domain (pf_tldts E private (toDotted n)) = None)
     \<and> (\<forall>private g. length g = 8 \<and> groups_ok g \<longrightarrow> td_domain (pf_tldts E private (canonicalizeIpv6 g)) = None)
     \<and> (\<forall>private h. td_isIp (pf_tldts E False h) = Some True
          \<longrightarrow> td_domain (pf_tldts E private (pf_toLowerCase E (stripTrailingRootDot h))) = None)"

lemma ip_site:
  assumes "addressesHaveNoDomain E" "parse E s runtime = Some ctx" "cx_isIp ctx"
    "canonicalHost E (cx_host ctx) True = Some host"
  shows "td_domain (pf_tldts E private host) = None"
  using canonicalHost_ip [OF assms(4)] parse_isIp [OF assms(2,3)] assms(1) by (auto simp: addressesHaveNoDomain_def)

lemma describeParsed_site:
  assumes "addressesHaveNoDomain E" "parse E s runtime = Some ctx"
    "canonicalHost E (cx_host ctx) (cx_isIp ctx) = Some host"
  shows "cu_host (describeParsed E s ctx) = Some host"
    "cu_site (describeParsed E s ctx) = Some (case privateRegistrableDomain E host of Some d \<Rightarrow> d | None \<Rightarrow> host)"
    "cu_siteIcann (describeParsed E s ctx) = Some (case ps_registrableDomain (analyzeHost E host) of Some d \<Rightarrow> d | None \<Rightarrow> host)"
  using assms ip_site [OF assms(1,2)]
  by (auto simp: describeParsed_def privateRegistrableDomain_def analyzeHost_def Let_def)

text \<open>
  C40: Same origin implies same site, in both views of the suffix list, provided the list gives no
  registrable domain for addresses: the site of a side is a function of its canonical host.
\<close>

theorem same_origin_same_site:
  assumes "addressesHaveNoDomain E" "uc_sameOrigin (compareUrls E sn a b) = Same"
  shows "uc_sameSite (compareUrls E sn a b) = Same \<and> uc_sameSiteIcann (compareUrls E sn a b) = Same"
proof -
  let ?a = "describeUrl E a" and ?b = "describeUrl E b"
  have rel: "cu_originKind ?a = TupleOrigin" "cu_originKind ?b = TupleOrigin" "cu_host ?a = cu_host ?b"
    using assms(2) by (simp_all add: compareUrls_def Let_def relateOrigin_same)
  obtain s x g where a: "parse E s (defaultRuntime E) = Some x" "?a = describeParsed E s x" "canonicalHost E (cx_host x) (cx_isIp x) = Some g"
    using rel(1) by (rule describeUrl_tuple)
  obtain t y h where b: "parse E t (defaultRuntime E) = Some y" "?b = describeParsed E t y" "canonicalHost E (cx_host y) (cx_isIp y) = Some h"
    using rel(2) by (rule describeUrl_tuple)
  show ?thesis
    using rel by (auto simp: compareUrls_def Let_def relateSite_def siteUndetermined_def a(2) b(2)
      describeParsed_site [OF assms(1) a(1,3)] describeParsed_site [OF assms(1) b(1,3)])
qed

theorem same_origin_same_site_witness:
  "uc_sameSite (compareUrls ascii_platform (currentPslSnapshot (\<lambda>_. None) 0) (Some (str ''https://0x7f.1:443/'')) (Some (str ''HTTPS://127.0.0.1./x''))) = Same"
proof -
  have "addressesHaveNoDomain ascii_platform" by (simp add: addressesHaveNoDomain_def ascii_platform_def)
  moreover have "uc_sameOrigin (compareUrls ascii_platform (currentPslSnapshot (\<lambda>_. None) 0) (Some (str ''https://0x7f.1:443/'')) (Some (str ''HTTPS://127.0.0.1./x''))) = Same"
    by (simp add: compareUrls_def relateOrigin_def describeUrl_def describeParsed_def canonicalHost_def
        TUPLE_ORIGIN_SCHEMES_def DEFAULT_PORTS_def ascii_platform_def context_eval)
  ultimately show ?thesis using same_origin_same_site by blast
qed

end
