(* ===== verification/Punycode.thy ===== *)
theory Punycode
  imports Platform
begin

text \<open>
  The Punycode sub-code analysis (\<open>unicode/punycode.ts\<close>): a checked port of the RFC 3492 decoder, the
  encoder, and the classification of an ACE label by decoding and encoding again. Code points and the
  delta arithmetic are naturals; the bias is an integer, as \<open>adapt\<close> shifts in 32 bits. The encoder's
  outer loop has a fuel argument, which the length of the label is always enough for. The main
  property is the round trip: what the encoder writes the decoder reads back.
\<close>

datatype PunycodeSubCode = Empty_ace_payload | Invalid_punycode_digit | Truncated_punycode_input
  | Punycode_overflow | Decoded_code_point_out_of_range | Non_canonical_encoding | Invalid_idna_label

fun SUBCODE_DESCRIPTION :: "PunycodeSubCode \<Rightarrow> string" where
  "SUBCODE_DESCRIPTION Empty_ace_payload = ''the xn-- prefix has no payload to decode''"
| "SUBCODE_DESCRIPTION Invalid_punycode_digit = ''the payload contains a non-base-36 digit''"
| "SUBCODE_DESCRIPTION Truncated_punycode_input = ''a generalized-integer sequence ends early''"
| "SUBCODE_DESCRIPTION Punycode_overflow = ''delta/bias arithmetic overflowed during decode''"
| "SUBCODE_DESCRIPTION Decoded_code_point_out_of_range =
     ''a decoded code point is a surrogate or above U+10FFFF''"
| "SUBCODE_DESCRIPTION Non_canonical_encoding =
     ''decodes but is not the canonical encoding (fails the A-label round-trip)''"
| "SUBCODE_DESCRIPTION Invalid_idna_label = ''decodes but is not a valid IDNA U-label''"

definition BASE :: nat where "BASE = 36"
definition TMIN :: nat where "TMIN = 1"
definition TMAX :: nat where "TMAX = 26"
definition SKEW :: int where "SKEW = 38"
definition DAMP :: int where "DAMP = 700"
definition INITIAL_BIAS :: int where "INITIAL_BIAS = 72"
definition INITIAL_N :: nat where "INITIAL_N = 128"
definition MAXINT :: nat where "MAXINT = 0x7fffffff"

definition decodeDigit :: "nat \<Rightarrow> nat option" where
  "decodeDigit c =
     (if 0x30 \<le> c \<and> c \<le> 0x39 then Some (c - 0x30 + 26)
      else if 0x61 \<le> c \<and> c \<le> 0x7a then Some (c - 0x61)
      else if 0x41 \<le> c \<and> c \<le> 0x5a then Some (c - 0x41)
      else None)"

definition encodeDigit :: "nat \<Rightarrow> nat" where
  "encodeDigit d = (if d < 26 then d + 0x61 else d - 26 + 0x30)"

definition threshold :: "nat \<Rightarrow> int \<Rightarrow> nat" where
  "threshold k bias =
     (if int k \<le> bias then TMIN
      else if int k \<ge> bias + int TMAX then TMAX
      else nat (int k - bias))"

text \<open>\<open>delta >> 1\<close>: the operand is taken modulo \<open>2\<^sup>3\<^sup>2\<close> as a signed 32-bit integer first.\<close>

definition shr1 :: "int \<Rightarrow> int" where
  "shr1 d = ((d + 2 ^ 31) mod 2 ^ 32 - 2 ^ 31) div 2"

function adaptLoop :: "int \<Rightarrow> int \<Rightarrow> int \<times> int" where
  "adaptLoop delta k = (if delta > (35 * 26) div 2 then adaptLoop (delta div 35) (k + 36) else (delta, k))"
  by pat_completeness auto
termination by (relation "measure (\<lambda>(d, k). nat d)") auto

declare adaptLoop.simps [simp del]

text \<open>
  A quotient by zero (only for a delta that wrapped to a negative number) is minus infinity in the
  code; as a bias it acts like any number below all thresholds.
\<close>

definition adapt :: "int \<Rightarrow> int \<Rightarrow> bool \<Rightarrow> int" where
  "adapt delta numpoints isFirst =
     (let d0 = (if isFirst then delta div DAMP else shr1 delta);
          (d, k) = adaptLoop (d0 + d0 div numpoints) 0
      in if d + SKEW = 0 then - (2 ^ 53) else k + (36 * d) div (d + SKEW))"

definition isUnicodeScalar :: "nat \<Rightarrow> bool" where
  "isUnicodeScalar n \<longleftrightarrow> n \<le> 0x10ffff \<and> \<not> (0xd800 \<le> n \<and> n \<le> 0xdfff)"

text \<open>One variable-length integer: the inner loop, with the code units still to be read.\<close>

fun decodeVar :: "ustring \<Rightarrow> nat \<Rightarrow> nat \<Rightarrow> nat \<Rightarrow> int \<Rightarrow> PunycodeSubCode + (nat \<times> ustring)" where
  "decodeVar [] i w k bias = Inl Truncated_punycode_input"
| "decodeVar (c # cs) i w k bias =
     (case decodeDigit c of
        None \<Rightarrow> Inl Invalid_punycode_digit
      | Some digit \<Rightarrow>
          if digit > (MAXINT - i) div w then Inl Punycode_overflow
          else (let t = threshold k bias in
            if digit < t then Inr (i + digit * w, cs)
            else if w > MAXINT div (BASE - t) then Inl Punycode_overflow
            else decodeVar cs (i + digit * w) (w * (BASE - t)) (k + BASE) bias))"

lemma decodeVar_shorter: "decodeVar s i w k bias = Inr (i', s') \<Longrightarrow> length s' < length s"
  by (induction s i w k bias rule: decodeVar.induct)
    (auto simp: Let_def less_Suc_eq split: option.splits if_splits)

text \<open>The outer loop over the payload; \<open>output.splice(i, 0, n)\<close> inserts at \<open>i\<close>.\<close>

function decodeLoop :: "ustring \<Rightarrow> nat \<Rightarrow> nat \<Rightarrow> int \<Rightarrow> nat list \<Rightarrow> PunycodeSubCode + nat list" where
  "decodeLoop s n i bias output =
     (if s = [] then Inr output
      else case decodeVar s i 1 BASE bias of
        Inl e \<Rightarrow> Inl e
      | Inr (i', s') \<Rightarrow>
          (let outLen = length output + 1;
               bias' = adapt (int i' - int i) (int outLen) (i = 0);
               increment = i' div outLen
           in if increment > MAXINT - n then Inl Punycode_overflow
              else (let n' = n + increment; j = i' mod outLen in
                if \<not> isUnicodeScalar n' then Inl Decoded_code_point_out_of_range
                else decodeLoop s' n' (j + 1) bias' (take j output @ n' # drop j output))))"
  by pat_completeness auto
termination
  by (relation "measure (\<lambda>(s, _). length s)") (auto dest: decodeVar_shorter)

declare decodeLoop.simps [simp del]

definition decodeAceLabel :: "ustring \<Rightarrow> PunycodeSubCode + nat list" where
  "decodeAceLabel label =
     (if length label = 4 then Inl Empty_ace_payload
      else case lastIndexOf 45 label of
        Some h \<Rightarrow> if h \<ge> 4 then decodeLoop (drop (h + 1) label) INITIAL_N 0 INITIAL_BIAS
                                  (take (h - 4) (drop 4 label))
                 else decodeLoop (drop 4 label) INITIAL_N 0 INITIAL_BIAS []
      | None \<Rightarrow> decodeLoop (drop 4 label) INITIAL_N 0 INITIAL_BIAS [])"

lemma threshold_bounds: "1 \<le> threshold k bias" "threshold k bias \<le> 26"
  by (auto simp: threshold_def TMIN_def TMAX_def)

function encodeVar :: "nat \<Rightarrow> nat \<Rightarrow> int \<Rightarrow> ustring" where
  "encodeVar q k bias =
     (let t = threshold k bias in
      if q < t then [encodeDigit q]
      else encodeDigit (t + (q - t) mod (BASE - t)) # encodeVar ((q - t) div (BASE - t)) (k + BASE) bias)"
  by pat_completeness auto
termination
proof (relation "measure (\<lambda>(q, k, b). q)")
  fix q k t :: nat and bias :: int
  assume t: "t = threshold k bias" and q: "\<not> q < t"
  have "(q - t) div (BASE - t) \<le> q - t" by (rule div_le_dividend)
  also have "\<dots> < q" using q threshold_bounds [of k bias] t by linarith
  finally show "(((q - t) div (BASE - t), k + BASE, bias), (q, k, bias)) \<in> measure (\<lambda>(q, k, b). q)" by simp
qed simp

declare encodeVar.simps [simp del]

record encoder =
  en_delta :: nat
  en_bias :: int
  en_handled :: nat
  en_out :: ustring

text \<open>The inner loop over all code points, for one value of \<open>n\<close>.\<close>

fun encodeInner :: "nat \<Rightarrow> nat \<Rightarrow> nat list \<Rightarrow> encoder \<Rightarrow> encoder" where
  "encodeInner n basic [] st = st"
| "encodeInner n basic (cp # cps) st =
     (let delta = (if cp < n then en_delta st + 1 else en_delta st) in
      if cp = n then
        encodeInner n basic cps
          \<lparr>en_delta = 0, en_bias = adapt (int delta) (int (en_handled st + 1)) (en_handled st = basic),
           en_handled = en_handled st + 1, en_out = en_out st @ encodeVar delta BASE (en_bias st)\<rparr>
      else encodeInner n basic cps (st\<lparr>en_delta := delta\<rparr>))"

text \<open>\<open>m = MAXINT; for (const cp of codepoints) if (cp >= n && cp < m) m = cp\<close>.\<close>

definition nextCodePoint :: "nat \<Rightarrow> nat list \<Rightarrow> nat" where
  "nextCodePoint n cps = foldl (\<lambda>m cp. if cp \<ge> n \<and> cp < m then cp else m) MAXINT cps"

text \<open>The outer loop; \<open>None\<close> when the fuel is spent.\<close>

fun encodeOuter :: "nat \<Rightarrow> nat list \<Rightarrow> nat \<Rightarrow> nat \<Rightarrow> encoder \<Rightarrow> ustring option" where
  "encodeOuter fuel cps basic n st =
     (if en_handled st < length cps then
        (case fuel of
           0 \<Rightarrow> None
         | Suc fuel' \<Rightarrow>
            (let m = nextCodePoint n cps;
                 st' = encodeInner m basic cps (st\<lparr>en_delta := en_delta st + (m - n) * (en_handled st + 1)\<rparr>)
             in encodeOuter fuel' cps basic (m + 1) (st'\<lparr>en_delta := en_delta st' + 1\<rparr>)))
      else Some (en_out st))"

declare encodeOuter.simps [simp del]

text \<open>The inner option is the \<open>null\<close> of an all-ASCII label; the outer one is the fuel.\<close>

definition encodeAceLabel :: "nat list \<Rightarrow> ustring option option" where
  "encodeAceLabel codepoints =
     (if \<not> list_ex (\<lambda>c. c \<ge> 0x80) codepoints then Some None
      else (let basics = filter (\<lambda>c. c < 0x80) codepoints; basic = length basics;
                out = str ''xn--'' @ basics @ (if basic > 0 then [45] else [])
            in map_option Some (encodeOuter (length codepoints) codepoints basic INITIAL_N
                 \<lparr>en_delta = 0, en_bias = INITIAL_BIAS, en_handled = basic, en_out = out\<rparr>)))"

definition classifyAceLabel :: "platform \<Rightarrow> ustring \<Rightarrow> PunycodeSubCode option" where
  "classifyAceLabel E label =
     (let lowered = pf_toLowerCase E label in
      case decodeAceLabel lowered of
        Inl e \<Rightarrow> Some e
      | Inr codepoints \<Rightarrow>
          if encodeAceLabel codepoints \<noteq> Some (Some lowered) then Some Non_canonical_encoding else None)"

record MalformedPunycode =
  mp_label :: ustring
  mp_subCode :: PunycodeSubCode
  mp_description :: string

fun firstSubCode :: "platform \<Rightarrow> ustring list \<Rightarrow> MalformedPunycode option" where
  "firstSubCode E [] = None"
| "firstSubCode E (l # ls) =
     (case classifyAceLabel E l of
        Some sub \<Rightarrow> Some \<lparr>mp_label = l, mp_subCode = sub, mp_description = SUBCODE_DESCRIPTION sub\<rparr>
      | None \<Rightarrow> firstSubCode E ls)"

definition analyzeMalformedPunycode :: "platform \<Rightarrow> ustring \<Rightarrow> MalformedPunycode option" where
  "analyzeMalformedPunycode E host =
     (if host = [] \<or> \<not> hasMalformedPunycode E host then None
      else (let aceLabels = filter ace_label (split_on 46 host) in
        case firstSubCode E aceLabels of
          Some r \<Rightarrow> Some r
        | None \<Rightarrow> Some \<lparr>mp_label = (case aceLabels of l # _ \<Rightarrow> l | [] \<Rightarrow> host),
                     mp_subCode = Invalid_idna_label,
                     mp_description = SUBCODE_DESCRIPTION Invalid_idna_label\<rparr>))"

subsection \<open>Digits and variable-length integers\<close>

lemma decode_encode_digit: "d < 36 \<Longrightarrow> decodeDigit (encodeDigit d) = Some d"
  by (auto simp: decodeDigit_def encodeDigit_def)

lemma encodeDigit_plain: "d < 36 \<Longrightarrow> is_lower (encodeDigit d) \<or> is_digit (encodeDigit d)"
  by (auto simp: encodeDigit_def is_lower_def is_digit_def)

lemma digit_less:
  assumes "t \<le> 26"
  shows "t + (q - t) mod (BASE - t) < 36"
proof -
  have "(q - t) mod (BASE - t) < BASE - t" using assms by (intro mod_less_divisor) (simp add: BASE_def)
  with assms show ?thesis unfolding BASE_def by linarith
qed

lemma encodeVar_plain: "c \<in> set (encodeVar q k bias) \<Longrightarrow> is_lower c \<or> is_digit c"
proof (induction q k bias rule: encodeVar.induct)
  case (1 q k bias)
  define t where "t = threshold k bias"
  have t: "1 \<le> t" "t \<le> 26" unfolding t_def by (rule threshold_bounds)+
  have "t + (q - t) mod (BASE - t) < 36" by (rule digit_less [OF t(2)])
  with encodeDigit_plain [of "t + (q - t) mod (BASE - t)"] encodeDigit_plain [of q] 1 t show ?case
    by (subst (asm) (2) encodeVar.simps) (auto simp: Let_def t_def [symmetric] split: if_splits)
qed

text \<open>
  Reading what \<open>encodeVar\<close> wrote adds its value times the place value, when the accumulator stays in
  range with a factor of 35 to spare (a trailing zero digit is read at a place value that the number
  itself does not reach).
\<close>

lemma decodeVar_encodeVar:
  assumes "i + q * w \<le> MAXINT" "35 * (q * w) \<le> MAXINT" "0 < w"
  shows "decodeVar (encodeVar q k bias @ rest) i w k bias = Inr (i + q * w, rest)"
  using assms
proof (induction q k bias arbitrary: i w rule: encodeVar.induct)
  case (1 q k bias)
  define t where "t = threshold k bias"
  have t: "1 \<le> t" "t \<le> 26" unfolding t_def by (rule threshold_bounds)+
  show ?case
  proof (cases "q < t")
    case True
    then have "q < 36" using t by simp
    moreover have "q \<le> (MAXINT - i) div w"
      using "1.prems" by (simp add: less_eq_div_iff_mult_less_eq)
    ultimately show ?thesis
      using True by (subst encodeVar.simps) (simp add: Let_def t_def [symmetric] decode_encode_digit not_less)
  next
    case False
    define d where "d = t + (q - t) mod (BASE - t)"
    define q' where "q' = (q - t) div (BASE - t)"
    have q: "q = d + q' * (BASE - t)"
      using False mod_div_mult_eq [of "q - t" "BASE - t"] unfolding d_def q'_def by linarith
    have d: "d < 36" "t \<le> d" using digit_less [OF t(2)] by (simp_all add: d_def)
    have qw: "q * w = d * w + q' * (w * (BASE - t))" by (subst q) (simp add: algebra_simps)
    have fits: "d \<le> (MAXINT - i) div w"
      using "1.prems"(1,3) qw by (simp add: less_eq_div_iff_mult_less_eq)
    have "BASE - t \<le> 35" using t by (simp add: BASE_def)
    then have "w * (BASE - t) \<le> 35 * w" by (metis mult.commute mult_le_mono2)
    also have "\<dots> \<le> 35 * (q * w)" using False t by simp
    also note "1.prems"(2)
    finally have place: "w \<le> MAXINT div (BASE - t)"
      using t by (simp add: less_eq_div_iff_mult_less_eq BASE_def)
    have "decodeVar (encodeVar q' (k + BASE) bias @ rest) (i + d * w) (w * (BASE - t)) (k + BASE) bias
        = Inr (i + d * w + q' * (w * (BASE - t)), rest)"
    proof -
      have "0 < w * (BASE - t)" using "1.prems"(3) t by (simp add: BASE_def)
      with "1.prems"(1,2) qw show ?thesis
        using "1.IH" [OF t_def False, folded q'_def, of "i + d * w" "w * (BASE - t)"] by simp
    qed
    moreover have "encodeVar q k bias = encodeDigit d # encodeVar q' (k + BASE) bias"
      using False by (subst encodeVar.simps) (simp add: Let_def t_def [symmetric] d_def q'_def)
    ultimately show ?thesis
      using fits place d False qw by (simp add: decode_encode_digit t_def [symmetric] not_less)
  qed
qed

text \<open>One step of the outer decoder loop on the encoding of a delta.\<close>

lemma decodeLoop_step:
  assumes i: "i + delta = j + (n' - n) * (length out + 1)" "j \<le> length out" "n \<le> n'"
    and fits: "i + delta \<le> MAXINT" "35 * delta \<le> MAXINT" and scalar: "isUnicodeScalar n'"
  shows "decodeLoop (encodeVar delta BASE bias @ rest) n i bias out
    = decodeLoop rest n' (j + 1) (adapt (int delta) (int (length out + 1)) (i = 0))
        (take j out @ n' # drop j out)"
proof -
  have var: "decodeVar (encodeVar delta BASE bias @ rest) i 1 BASE bias = Inr (i + delta, rest)"
    using decodeVar_encodeVar [of i delta 1] fits by simp
  have ne: "encodeVar delta BASE bias \<noteq> []"
    by (subst encodeVar.simps) (simp add: Let_def)
  have q: "(i + delta) div (length out + 1) = n' - n" "(i + delta) mod (length out + 1) = j"
    using i(2) by (simp_all only: i(1) mod_mult_self1 div_mult_self1, simp_all)
  have "n' \<le> MAXINT" using scalar by (simp add: isUnicodeScalar_def MAXINT_def)
  then have "n' - n \<le> MAXINT - n" by (rule diff_le_mono)
  with scalar i(3) q ne var show ?thesis
    by (subst decodeLoop.simps) (simp add: Let_def)
qed

subsection \<open>The encoder drives the decoder\<close>

text \<open>
  The relation between the two machines while the encoder, at code point \<open>n\<close>, has read the prefix
  \<open>pre\<close> of the label and has \<open>suf\<close> to read. The decoder's output is the label restricted to the code
  points handled so far; \<open>j\<close> is the place in it; and the decoder's position plus the pending delta is
  the distance from its state \<open>(nd, i)\<close> to \<open>(n, j)\<close>.
\<close>

definition handledPart :: "nat \<Rightarrow> nat list \<Rightarrow> nat list \<Rightarrow> nat list" where
  "handledPart n pre suf = filter (\<lambda>c. c \<le> n) pre @ filter (\<lambda>c. c < n) suf"

definition in_step :: "nat \<Rightarrow> nat list \<Rightarrow> nat list \<Rightarrow> nat \<Rightarrow> encoder \<Rightarrow> nat \<Rightarrow> nat \<Rightarrow> bool" where
  "in_step n pre suf basic st nd i \<longleftrightarrow>
     en_handled st = length (handledPart n pre suf)
     \<and> i + en_delta st = length (filter (\<lambda>c. c \<le> n) pre) + (n - nd) * (en_handled st + 1)
     \<and> nd \<le> n \<and> (i = 0 \<longleftrightarrow> en_handled st = basic) \<and> basic \<le> en_handled st"

text \<open>Deltas are small: at most 55 code points, all of them scalars.\<close>

lemma delta_fits:
  assumes "in_step n pre suf basic st nd i" "n \<le> 0x10ffff" "128 \<le> nd" "length pre + length suf \<le> 55"
    "en_handled st < length pre + length suf"
  shows "35 * (i + en_delta st) \<le> MAXINT"
proof -
  define h where "h = en_handled st"
  have "length (filter (\<lambda>c. c \<le> n) pre) \<le> h"
    using assms(1) by (simp add: in_step_def handledPart_def h_def)
  moreover have "(n - nd) * (h + 1) \<le> (0x10ffff - 128) * (h + 1)"
    using assms(2,3) by (intro mult_right_mono) auto
  ultimately have "i + en_delta st \<le> h + (0x10ffff - 128) * (h + 1)"
    using assms(1) by (simp add: in_step_def h_def)
  also have "\<dots> \<le> 54 + (0x10ffff - 128) * 55"
  proof -
    have "h \<le> 54" using assms(4,5) by (simp add: h_def)
    then show ?thesis by simp
  qed
  finally show ?thesis by (simp add: MAXINT_def)
qed

lemma handledPart_snoc:
  "handledPart n (pre @ [c]) suf = filter (\<lambda>c. c \<le> n) pre @ (if c \<le> n then [c] else []) @ filter (\<lambda>c. c < n) suf"
  "handledPart n pre (c # suf) = filter (\<lambda>c. c \<le> n) pre @ (if c < n then [c] else []) @ filter (\<lambda>c. c < n) suf"
  by (simp_all add: handledPart_def)

lemma encodeInner_simulates:
  assumes "in_step n pre suf basic st nd i" "isUnicodeScalar n" "128 \<le> nd" "length pre + length suf \<le> 55"
  shows "\<exists>s nd' i'. let st' = encodeInner n basic suf st in
     en_out st' = en_out st @ s \<and> in_step n (pre @ suf) [] basic st' nd' i' \<and> 128 \<le> nd'
     \<and> set s \<subseteq> {c. is_lower c \<or> is_digit c} \<and> (\<forall>rest. decodeLoop (s @ rest) nd i (en_bias st) (handledPart n pre suf)
          = decodeLoop rest nd' i' (en_bias st') (handledPart n (pre @ suf) []))"
  using assms
proof (induction suf arbitrary: pre st nd i)
  case Nil
  then show ?case by (intro exI [of _ "[]"] exI [of _ nd] exI [of _ i]) simp
next
  case (Cons c suf)
  have len: "length (pre @ [c]) + length suf \<le> 55" using Cons.prems(4) by simp
  show ?case
  proof (cases "c = n")
    case False
    let ?st = "st\<lparr>en_delta := if c < n then en_delta st + 1 else en_delta st\<rparr>"
    have part: "handledPart n (pre @ [c]) suf = handledPart n pre (c # suf)"
      using False by (simp add: handledPart_snoc)
    have "in_step n (pre @ [c]) suf basic ?st nd i"
      using Cons.prems(1) False unfolding in_step_def part by auto
    from Cons.IH [OF this Cons.prems(2,3) len] False show ?thesis
      by (simp add: part Let_def)
  next
    case True
    let ?out = "handledPart n pre (c # suf)" and ?j = "length (filter (\<lambda>c. c \<le> n) pre)"
    let ?st = "\<lparr>en_delta = 0, en_bias = adapt (int (en_delta st)) (int (en_handled st + 1)) (en_handled st = basic),
       en_handled = en_handled st + 1, en_out = en_out st @ encodeVar (en_delta st) BASE (en_bias st)\<rparr>"
    note inv = Cons.prems(1)[unfolded in_step_def]
    have part: "handledPart n (pre @ [c]) suf = take ?j ?out @ n # drop ?j ?out" "?j \<le> length ?out"
      using True by (simp_all add: handledPart_snoc)
    have h: "en_handled st = length ?out" using inv by simp
    have "en_handled st < length pre + length (c # suf)"
      using h add_mono [OF length_filter_le [of "\<lambda>c. c \<le> n" pre] length_filter_le [of "\<lambda>c. c < n" suf]] True
      by (simp add: handledPart_snoc)
    then have fits: "35 * (i + en_delta st) \<le> MAXINT"
      using delta_fits [OF Cons.prems(1)] Cons.prems(2-4) by (simp add: isUnicodeScalar_def)
    have step: "decodeLoop (encodeVar (en_delta st) BASE (en_bias st) @ rest) nd i (en_bias st) ?out
       = decodeLoop rest n (?j + 1) (en_bias ?st) (handledPart n (pre @ [c]) suf)" for rest
    proof -
      have cond: "i + en_delta st = ?j + (n - nd) * (length ?out + 1)" "nd \<le> n"
        and isFirst: "(en_handled st = basic) = (i = 0)"
        using inv by simp_all
      have small: "i + en_delta st \<le> MAXINT" "35 * en_delta st \<le> MAXINT" using fits by simp_all
      show ?thesis
        unfolding part(1) encoder.select_convs isFirst
        using decodeLoop_step [OF cond(1) part(2) cond(2) small Cons.prems(2), of "en_bias st" rest]
        by (simp only: h)
    qed
    have "in_step n (pre @ [c]) suf basic ?st n (?j + 1)"
      using inv True part h unfolding in_step_def by auto
    from Cons.IH [OF this Cons.prems(2) _ len] Cons.prems(3) inv obtain s nd' i' where
      s: "en_out (encodeInner n basic suf ?st) = en_out ?st @ s"
        "in_step n ((pre @ [c]) @ suf) [] basic (encodeInner n basic suf ?st) nd' i'" "128 \<le> nd'"
        "set s \<subseteq> {c. is_lower c \<or> is_digit c}"
      and dec: "\<And>rest. decodeLoop (s @ rest) n (?j + 1) (en_bias ?st) (handledPart n (pre @ [c]) suf)
          = decodeLoop rest nd' i' (en_bias (encodeInner n basic suf ?st)) (handledPart n ((pre @ [c]) @ suf) [])"
      by (auto simp: Let_def)
    have "set (encodeVar (en_delta st) BASE (en_bias st)) \<subseteq> {c. is_lower c \<or> is_digit c}"
      using encodeVar_plain by blast
    with s dec step True show ?thesis
      by (intro exI [of _ "encodeVar (en_delta st) BASE (en_bias st) @ s"] exI [of _ nd'] exI [of _ i'])
        (simp add: Let_def)
  qed
qed

lemma nextCodePoint_least:
  assumes "c \<in> set cps" "n \<le> c" "\<forall>c \<in> set cps. c < MAXINT"
  shows "nextCodePoint n cps \<in> set cps" "n \<le> nextCodePoint n cps"
    "\<And>c'. c' \<in> set cps \<Longrightarrow> n \<le> c' \<Longrightarrow> nextCodePoint n cps \<le> c'"
proof -
  let ?f = "\<lambda>m cp. if cp \<ge> n \<and> cp < m then cp else (m :: nat)"
  have gen: "foldl ?f m0 xs \<le> m0 \<and> (foldl ?f m0 xs = m0 \<or> foldl ?f m0 xs \<in> set xs \<and> n \<le> foldl ?f m0 xs)
      \<and> (\<forall>c \<in> set xs. n \<le> c \<longrightarrow> foldl ?f m0 xs \<le> c)" for m0 xs
  proof (induction xs arbitrary: m0)
    case (Cons x xs)
    from Cons [of "?f m0 x"] show ?case by (auto split: if_splits)
  qed simp
  from gen [of MAXINT cps]
  show least: "\<And>c'. c' \<in> set cps \<Longrightarrow> n \<le> c' \<Longrightarrow> nextCodePoint n cps \<le> c'"
    by (simp add: nextCodePoint_def)
  have "nextCodePoint n cps < MAXINT" using least [OF assms(1,2)] assms(1,3) by force
  with gen [of MAXINT cps] show "nextCodePoint n cps \<in> set cps" "n \<le> nextCodePoint n cps"
    by (auto simp: nextCodePoint_def)
qed

lemma in_step_next_round:
  assumes "in_step m cps [] basic st nd i"
  shows "in_step (m + 1) [] cps basic (st\<lparr>en_delta := en_delta st + 1\<rparr>) nd i"
    "handledPart m cps [] = handledPart (m + 1) [] cps"
proof -
  have eq: "filter (\<lambda>c. c < Suc m) cps = filter (\<lambda>c. c \<le> m) cps"
    by (simp add: less_Suc_eq_le)
  then show "handledPart m cps [] = handledPart (m + 1) [] cps" by (simp add: handledPart_def)
  show "in_step (m + 1) [] cps basic (st\<lparr>en_delta := en_delta st + 1\<rparr>) nd i"
    using assms by (auto simp: in_step_def handledPart_def eq Suc_diff_le)
qed

lemma encodeOuter_simulates:
  assumes "in_step n [] cps basic st nd i" "128 \<le> nd" "length cps \<le> 55" "\<forall>c \<in> set cps. isUnicodeScalar c"
    "length cps \<le> fuel + en_handled st"
  shows "\<exists>s. encodeOuter fuel cps basic n st = Some (en_out st @ s) \<and> set s \<subseteq> {c. is_lower c \<or> is_digit c}
     \<and> decodeLoop s nd i (en_bias st) (handledPart n [] cps) = Inr cps"
  using assms
proof (induction fuel arbitrary: n st nd i)
  case 0
  then have h: "en_handled st = length (filter (\<lambda>c. c < n) cps)" "length cps \<le> en_handled st"
    by (auto simp: in_step_def handledPart_def)
  then have "filter (\<lambda>c. c < n) cps = cps"
    by (metis filter_id_conv length_filter_less linorder_not_le)
  with h show ?case by (simp add: handledPart_def decodeLoop.simps encodeOuter.simps)
next
  case (Suc fuel)
  have h: "en_handled st = length (filter (\<lambda>c. c < n) cps)"
    using Suc.prems(1) by (simp add: in_step_def handledPart_def)
  show ?case
  proof (cases "en_handled st < length cps")
    case False
    then have "filter (\<lambda>c. c < n) cps = cps"
      using h by (metis filter_id_conv length_filter_less)
    with False show ?thesis by (simp add: handledPart_def decodeLoop.simps encodeOuter.simps)
  next
    case True
    have "\<exists>c \<in> set cps. n \<le> c"
      using True h by (metis filter_True linorder_not_le nat_neq_iff)
    then obtain c where c: "c \<in> set cps" "n \<le> c" by blast
    have max: "\<forall>c \<in> set cps. c < MAXINT" using Suc.prems(4) by (auto simp: isUnicodeScalar_def MAXINT_def)
    define m where "m = nextCodePoint n cps"
    note m = nextCodePoint_least [OF c max, folded m_def]
    have eq: "filter (\<lambda>c. c < m) cps = filter (\<lambda>c. c < n) cps"
      using m by (intro filter_cong) (auto simp: not_less [symmetric])
    define st1 where "st1 = st\<lparr>en_delta := en_delta st + (m - n) * (en_handled st + 1)\<rparr>"
    have "m - nd = (n - nd) + (m - n)" using Suc.prems(1) m(2) by (simp add: in_step_def)
    then have "(m - nd) * (en_handled st + 1) = (n - nd) * (en_handled st + 1) + (m - n) * (en_handled st + 1)"
      by (simp only: add_mult_distrib)
    moreover have "i + en_delta st = (n - nd) * (en_handled st + 1)"
      using Suc.prems(1) by (simp add: in_step_def)
    moreover have "en_delta st1 = en_delta st + (m - n) * (en_handled st + 1)" "en_handled st1 = en_handled st"
      by (simp_all add: st1_def)
    ultimately have "i + en_delta st1 = (m - nd) * (en_handled st1 + 1)" by (simp only: add.assoc [symmetric])
    then have in1: "in_step m [] cps basic st1 nd i"
      using Suc.prems(1) m(2) by (simp add: in_step_def handledPart_def eq st1_def)
    define st2 where "st2 = encodeInner m basic cps st1"
    obtain s1 nd' i' where s1: "en_out st2 = en_out st @ s1" "in_step m cps [] basic st2 nd' i'" "128 \<le> nd'"
        "set s1 \<subseteq> {c. is_lower c \<or> is_digit c}"
      and dec1: "\<And>rest. decodeLoop (s1 @ rest) nd i (en_bias st) (handledPart m [] cps)
          = decodeLoop rest nd' i' (en_bias st2) (handledPart m cps [])"
      using encodeInner_simulates [OF in1 _ Suc.prems(2)] Suc.prems(3,4) m(1)
      by (auto simp: Let_def st2_def st1_def)
    note next_round = in_step_next_round [OF s1(2)]
    have "en_handled st < en_handled st2"
    proof -
      have "length (filter (\<lambda>c. c < m) cps) < length (filter (\<lambda>c. c \<le> m) cps)"
      proof -
        have "filter (\<lambda>c. c < m) cps = filter (\<lambda>c. c < m) (filter (\<lambda>c. c \<le> m) cps)"
          by (simp, rule filter_cong) auto
        moreover have "m \<in> set (filter (\<lambda>c. c \<le> m) cps)" using m(1) by simp
        ultimately show ?thesis by (metis length_filter_less nat_less_le)
      qed
      then show ?thesis using s1(2) h eq by (simp add: in_step_def handledPart_def)
    qed
    then obtain s2 where s2: "encodeOuter fuel cps basic (m + 1) (st2\<lparr>en_delta := en_delta st2 + 1\<rparr>)
        = Some (en_out st2 @ s2)" "set s2 \<subseteq> {c. is_lower c \<or> is_digit c}"
      "decodeLoop s2 nd' i' (en_bias st2) (handledPart (m + 1) [] cps) = Inr cps"
      using Suc.IH [OF next_round(1) s1(3) Suc.prems(3,4)] Suc.prems(5) by auto
    have "encodeOuter (Suc fuel) cps basic n st = Some (en_out st @ s1 @ s2)"
      using True s2(1) s1(1) by (subst encodeOuter.simps)
        (simp only: if_True nat.case Let_def m_def [symmetric] st1_def [symmetric] st2_def [symmetric] append_assoc)
    moreover have "decodeLoop (s1 @ s2) nd i (en_bias st) (handledPart n [] cps) = Inr cps"
      using dec1 [of s2] s2(3) next_round(2) eq by (simp add: handledPart_def)
    ultimately show ?thesis using s1(4) s2(2) by (intro exI [of _ "s1 @ s2"]) auto
  qed
qed

text \<open>Splitting an encoded label at its last hyphen.\<close>

lemma decodeAceLabel_split:
  assumes "set s \<subseteq> {c. is_lower c \<or> is_digit c}" "s \<noteq> []"
  shows "decodeAceLabel (str ''xn--'' @ basics @ (if basics = [] then [] else [45]) @ s)
    = decodeLoop s INITIAL_N 0 INITIAL_BIAS basics"
proof -
  have free: "45 \<notin> set s" using assms(1) by (auto simp: is_lower_def is_digit_def)
  have last: "lastIndexOf 45 (xs @ 45 # s) = Some (length xs)" for xs
    using free by (induction xs) (simp_all add: lastIndexOf_None [THEN iffD2])
  show ?thesis
  proof (cases "basics = []")
    case True
    have "lastIndexOf 45 (str ''xn--'' @ s) = Some 3"
      using last [of "str ''xn-''"] by (simp add: str_def)
    with True assms(2) show ?thesis by (simp add: decodeAceLabel_def str_def)
  next
    case False
    have "lastIndexOf 45 (str ''xn--'' @ basics @ [45] @ s) = Some (4 + length basics)"
      using last [of "str ''xn--'' @ basics"] by (simp add: str_def)
    moreover have "drop (4 + length basics + 1) (str ''xn--'' @ basics @ [45] @ s) = s"
    proof -
      have "length (str ''xn--'' @ basics @ [45]) = 4 + length basics + 1" by (simp add: str_def)
      then show ?thesis by (metis append_assoc append_eq_conv_conj)
    qed
    moreover have "take (4 + length basics - 4) (drop 4 (str ''xn--'' @ basics @ [45] @ s)) = basics"
      by (simp add: str_def)
    moreover have "length (str ''xn--'' @ basics @ [45] @ s) \<noteq> 4" by (simp add: str_def)
    ultimately show ?thesis using False by (simp only: decodeAceLabel_def if_False option.case) simp
  qed
qed

lemma encodeAceLabel_decodes:
  assumes "list_ex (\<lambda>c. 0x80 \<le> c) cps" "list_all isUnicodeScalar cps" "length cps \<le> 55"
  shows "\<exists>s. encodeAceLabel cps = Some (Some (str ''xn--'' @ filter (\<lambda>c. c < 0x80) cps
        @ (if filter (\<lambda>c. c < 0x80) cps = [] then [] else [45]) @ s))
     \<and> set s \<subseteq> {c. is_lower c \<or> is_digit c} \<and> s \<noteq> []
     \<and> decodeLoop s INITIAL_N 0 INITIAL_BIAS (filter (\<lambda>c. c < 0x80) cps) = Inr cps"
proof -
  let ?b = "filter (\<lambda>c. c < 0x80) cps"
  define st where "st = \<lparr>en_delta = 0, en_bias = INITIAL_BIAS, en_handled = length ?b,
     en_out = str ''xn--'' @ ?b @ (if length ?b > 0 then [45] else [])\<rparr>"
  have "in_step INITIAL_N [] cps (length ?b) st INITIAL_N 0"
    by (simp add: in_step_def handledPart_def st_def INITIAL_N_def)
  from encodeOuter_simulates [OF this, of "length cps"] assms(2,3)
  obtain s where s: "encodeOuter (length cps) cps (length ?b) INITIAL_N st = Some (en_out st @ s)"
    "set s \<subseteq> {c. is_lower c \<or> is_digit c}"
    "decodeLoop s INITIAL_N 0 INITIAL_BIAS ?b = Inr cps"
    by (auto simp: list_all_iff INITIAL_N_def st_def handledPart_def)
  have "s \<noteq> []"
  proof
    assume "s = []"
    with s(3) have "?b = cps" by (simp add: decodeLoop.simps)
    with assms(1) show False by (auto simp: filter_id_conv list_ex_iff)
  qed
  with s assms(1) show ?thesis
    by (intro exI [of _ s]) (simp add: encodeAceLabel_def Let_def st_def list_ex_iff)
qed

subsection \<open>Properties\<close>

text \<open>
  C30: The round trip. Every label of at most 55 code points, all of them Unicode scalar values and at
  least one outside ASCII, is encoded to a label that the decoder reads back to exactly the same
  code points: no overflow check of the decoder fires, the encoder's loop ends, and both keep the
  same bias throughout.
\<close>

theorem punycode_roundtrip:
  assumes "list_ex (\<lambda>c. 0x80 \<le> c) cps" "list_all isUnicodeScalar cps" "length cps \<le> 55"
  shows "\<exists>label. encodeAceLabel cps = Some (Some label) \<and> decodeAceLabel label = Inr cps"
proof -
  obtain s where "encodeAceLabel cps = Some (Some (str ''xn--'' @ filter (\<lambda>c. c < 0x80) cps
        @ (if filter (\<lambda>c. c < 0x80) cps = [] then [] else [45]) @ s))"
    "set s \<subseteq> {c. is_lower c \<or> is_digit c}" "s \<noteq> []"
    "decodeLoop s INITIAL_N 0 INITIAL_BIAS (filter (\<lambda>c. c < 0x80) cps) = Inr cps"
    using encodeAceLabel_decodes [OF assms] by blast
  with decodeAceLabel_split [of s "filter (\<lambda>c. c < 0x80) cps"] show ?thesis by simp
qed

theorem punycode_roundtrip_witness:
  "\<exists>label. encodeAceLabel [0x62, 0xFC, 0x63, 0x68, 0x65, 0x72] = Some (Some label)
     \<and> decodeAceLabel label = Inr [0x62, 0xFC, 0x63, 0x68, 0x65, 0x72]"
  by (rule punycode_roundtrip) (simp_all add: isUnicodeScalar_def)

text \<open>
  A canonical label is never reported. The ACE form of a label without upper-case ASCII is
  classified as clean, whatever its case in the input, for every platform whose lower-casing is the
  ASCII one on ASCII text; so a reported sub-code always means the label is not what the encoder
  writes.
\<close>

lemma canonical_label_clean:
  assumes "list_ex (\<lambda>c. 0x80 \<le> c) cps" "list_all isUnicodeScalar cps" "length cps \<le> 55"
    and "list_all (\<lambda>c. \<not> is_upper c) cps"
    and lower_law: "\<And>s. \<forall>c \<in> set s. c < 0x80 \<Longrightarrow> pf_toLowerCase E s = lower s"
    and label: "encodeAceLabel cps = Some (Some label)" "lower written = label"
  shows "classifyAceLabel E written = None"
proof -
  let ?b = "filter (\<lambda>c. c < 0x80) cps"
  obtain s where s: "encodeAceLabel cps = Some (Some (str ''xn--'' @ ?b @ (if ?b = [] then [] else [45]) @ s))"
    "set s \<subseteq> {c. is_lower c \<or> is_digit c}" "s \<noteq> []" "decodeLoop s INITIAL_N 0 INITIAL_BIAS ?b = Inr cps"
    using encodeAceLabel_decodes [OF assms(1-3)] by blast
  have dec: "decodeAceLabel label = Inr cps"
    using s label(1) decodeAceLabel_split [OF s(2,3), of ?b] by simp
  have "\<forall>c \<in> set label. c < 0x80"
    using s(1,2) label(1) by (auto simp: str_def is_lower_def is_digit_def split: if_splits)
  then have "\<forall>c \<in> set written. c < 0x80"
    using label(2) by (auto simp: lower_def ascii_lower_def is_upper_def split: if_splits)
  then have "pf_toLowerCase E written = label" using lower_law label(2) by simp
  with dec label(1) show ?thesis by (simp add: classifyAceLabel_def)
qed

lemma canonical_label_clean_witness:
  "\<exists>label. encodeAceLabel [0xFC] = Some (Some label) \<and> classifyAceLabel ascii_platform label = None"
proof -
  have c: "list_ex (\<lambda>c. 0x80 \<le> c) [0xFC :: nat]" "list_all isUnicodeScalar [0xFC]" "length [0xFC :: nat] \<le> 55"
    "list_all (\<lambda>c. \<not> is_upper c) [0xFC]"
    by (simp_all add: isUnicodeScalar_def is_upper_def)
  obtain s where l: "encodeAceLabel [0xFC] = Some (Some (str ''xn--'' @ s))"
    and s: "set s \<subseteq> {c. is_lower c \<or> is_digit c}"
    using encodeAceLabel_decodes [OF c(1-3)] by auto
  have "ascii_lower x = x" if "x \<in> set s" for x
    using that s by (auto simp: ascii_lower_def is_upper_def is_lower_def is_digit_def)
  then have "map ascii_lower s = s" by (simp add: map_idI)
  then have w: "lower (str ''xn--'' @ s) = str ''xn--'' @ s"
    by (simp add: lower_def str_def ascii_lower_def is_upper_def)
  have "pf_toLowerCase ascii_platform x = lower x" for x by (simp add: ascii_platform_def)
  from canonical_label_clean [OF c this l w] l show ?thesis by blast
qed

end
