(* ===== verification/Confusables.thy ===== *)
theory Confusables
  imports Platform
begin

text \<open>
  The confusables table of Unicode UTS 39 as \<open>data/confusables.generated.ts\<close> has it, in parts of about
  a hundred rows: the code point, the prototype it is confused with and the name of the prototype.
  The lemmas of this theory are what the algorithms over the table rely on: the code points are
  strictly increasing and outside ASCII, the prototypes are non-empty words of ASCII letters and digits.
\<close>

type_synonym raw_row = "nat \<times> string \<times> string"

definition confusables_01 :: "raw_row list" where
  "confusables_01 =
     [(0xc6, ''AE'', ''LATIN CAPITAL LETTER A, LATIN CAPITAL LETTER E''),
      (0xe6, ''ae'', ''LATIN SMALL LETTER A, LATIN SMALL LETTER E''),
      (0x131, ''i'', ''LATIN SMALL LETTER I''),
      (0x132, ''lJ'', ''LATIN SMALL LETTER L, LATIN CAPITAL LETTER J''),
      (0x133, ''ij'', ''LATIN SMALL LETTER I, LATIN SMALL LETTER J''),
      (0x152, ''OE'', ''LATIN CAPITAL LETTER O, LATIN CAPITAL LETTER E''),
      (0x153, ''oe'', ''LATIN SMALL LETTER O, LATIN SMALL LETTER E''),
      (0x17f, ''f'', ''LATIN SMALL LETTER F''),
      (0x184, ''b'', ''LATIN SMALL LETTER B''),
      (0x18d, ''g'', ''LATIN SMALL LETTER G''),
      (0x196, ''l'', ''LATIN SMALL LETTER L''),
      (0x1a6, ''R'', ''LATIN CAPITAL LETTER R''),
      (0x1a7, ''2'', ''DIGIT TWO''),
      (0x1b7, ''3'', ''DIGIT THREE''),
      (0x1bc, ''5'', ''DIGIT FIVE''),
      (0x1bd, ''s'', ''LATIN SMALL LETTER S''),
      (0x1c0, ''l'', ''LATIN SMALL LETTER L''),
      (0x1c1, ''ll'', ''LATIN SMALL LETTER L, LATIN SMALL LETTER L''),
      (0x1c7, ''LJ'', ''LATIN CAPITAL LETTER L, LATIN CAPITAL LETTER J''),
      (0x1c8, ''Lj'', ''LATIN CAPITAL LETTER L, LATIN SMALL LETTER J''),
      (0x1c9, ''lj'', ''LATIN SMALL LETTER L, LATIN SMALL LETTER J''),
      (0x1ca, ''NJ'', ''LATIN CAPITAL LETTER N, LATIN CAPITAL LETTER J''),
      (0x1cb, ''Nj'', ''LATIN CAPITAL LETTER N, LATIN SMALL LETTER J''),
      (0x1cc, ''nj'', ''LATIN SMALL LETTER N, LATIN SMALL LETTER J''),
      (0x1f1, ''DZ'', ''LATIN CAPITAL LETTER D, LATIN CAPITAL LETTER Z''),
      (0x1f2, ''Dz'', ''LATIN CAPITAL LETTER D, LATIN SMALL LETTER Z''),
      (0x1f3, ''dz'', ''LATIN SMALL LETTER D, LATIN SMALL LETTER Z''),
      (0x21c, ''3'', ''DIGIT THREE''),
      (0x222, ''8'', ''DIGIT EIGHT''),
      (0x223, ''8'', ''DIGIT EIGHT''),
      (0x251, ''a'', ''LATIN SMALL LETTER A''),
      (0x261, ''g'', ''LATIN SMALL LETTER G''),
      (0x263, ''y'', ''LATIN SMALL LETTER Y''),
      (0x269, ''i'', ''LATIN SMALL LETTER I''),
      (0x26a, ''i'', ''LATIN SMALL LETTER I''),
      (0x26f, ''w'', ''LATIN SMALL LETTER W''),
      (0x28b, ''u'', ''LATIN SMALL LETTER U''),
      (0x28f, ''y'', ''LATIN SMALL LETTER Y''),
      (0x2a3, ''dz'', ''LATIN SMALL LETTER D, LATIN SMALL LETTER Z''),
      (0x2a6, ''ts'', ''LATIN SMALL LETTER T, LATIN SMALL LETTER S''),
      (0x2aa, ''ls'', ''LATIN SMALL LETTER L, LATIN SMALL LETTER S''),
      (0x2ab, ''lz'', ''LATIN SMALL LETTER L, LATIN SMALL LETTER Z''),
      (0x37a, ''i'', ''LATIN SMALL LETTER I''),
      (0x37f, ''J'', ''LATIN CAPITAL LETTER J''),
      (0x391, ''A'', ''LATIN CAPITAL LETTER A''),
      (0x392, ''B'', ''LATIN CAPITAL LETTER B''),
      (0x395, ''E'', ''LATIN CAPITAL LETTER E''),
      (0x396, ''Z'', ''LATIN CAPITAL LETTER Z''),
      (0x397, ''H'', ''LATIN CAPITAL LETTER H''),
      (0x399, ''l'', ''LATIN SMALL LETTER L''),
      (0x39a, ''K'', ''LATIN CAPITAL LETTER K''),
      (0x39c, ''M'', ''LATIN CAPITAL LETTER M''),
      (0x39d, ''N'', ''LATIN CAPITAL LETTER N''),
      (0x39f, ''O'', ''LATIN CAPITAL LETTER O''),
      (0x3a1, ''P'', ''LATIN CAPITAL LETTER P''),
      (0x3a4, ''T'', ''LATIN CAPITAL LETTER T''),
      (0x3a5, ''Y'', ''LATIN CAPITAL LETTER Y''),
      (0x3a7, ''X'', ''LATIN CAPITAL LETTER X''),
      (0x3b1, ''a'', ''LATIN SMALL LETTER A''),
      (0x3b3, ''y'', ''LATIN SMALL LETTER Y''),
      (0x3b9, ''i'', ''LATIN SMALL LETTER I''),
      (0x3bd, ''v'', ''LATIN SMALL LETTER V''),
      (0x3bf, ''o'', ''LATIN SMALL LETTER O''),
      (0x3c1, ''p'', ''LATIN SMALL LETTER P''),
      (0x3c3, ''o'', ''LATIN SMALL LETTER O''),
      (0x3c5, ''u'', ''LATIN SMALL LETTER U''),
      (0x3d2, ''Y'', ''LATIN CAPITAL LETTER Y''),
      (0x3dc, ''F'', ''LATIN CAPITAL LETTER F''),
      (0x3e8, ''2'', ''DIGIT TWO''),
      (0x3f1, ''p'', ''LATIN SMALL LETTER P''),
      (0x3f2, ''c'', ''LATIN SMALL LETTER C''),
      (0x3f3, ''j'', ''LATIN SMALL LETTER J''),
      (0x3f9, ''C'', ''LATIN CAPITAL LETTER C''),
      (0x3fa, ''M'', ''LATIN CAPITAL LETTER M''),
      (0x405, ''S'', ''LATIN CAPITAL LETTER S''),
      (0x406, ''l'', ''LATIN SMALL LETTER L''),
      (0x408, ''J'', ''LATIN CAPITAL LETTER J''),
      (0x410, ''A'', ''LATIN CAPITAL LETTER A''),
      (0x412, ''B'', ''LATIN CAPITAL LETTER B''),
      (0x415, ''E'', ''LATIN CAPITAL LETTER E''),
      (0x417, ''3'', ''DIGIT THREE''),
      (0x41a, ''K'', ''LATIN CAPITAL LETTER K''),
      (0x41c, ''M'', ''LATIN CAPITAL LETTER M''),
      (0x41d, ''H'', ''LATIN CAPITAL LETTER H''),
      (0x41e, ''O'', ''LATIN CAPITAL LETTER O''),
      (0x420, ''P'', ''LATIN CAPITAL LETTER P''),
      (0x421, ''C'', ''LATIN CAPITAL LETTER C''),
      (0x422, ''T'', ''LATIN CAPITAL LETTER T''),
      (0x423, ''Y'', ''LATIN CAPITAL LETTER Y''),
      (0x425, ''X'', ''LATIN CAPITAL LETTER X''),
      (0x42b, ''bl'', ''LATIN SMALL LETTER B, LATIN SMALL LETTER L''),
      (0x42c, ''b'', ''LATIN SMALL LETTER B''),
      (0x42e, ''lO'', ''LATIN SMALL LETTER L, LATIN CAPITAL LETTER O''),
      (0x430, ''a'', ''LATIN SMALL LETTER A''),
      (0x431, ''6'', ''DIGIT SIX''),
      (0x433, ''r'', ''LATIN SMALL LETTER R''),
      (0x435, ''e'', ''LATIN SMALL LETTER E''),
      (0x43e, ''o'', ''LATIN SMALL LETTER O''),
      (0x440, ''p'', ''LATIN SMALL LETTER P''),
      (0x441, ''c'', ''LATIN SMALL LETTER C''),
      (0x443, ''y'', ''LATIN SMALL LETTER Y'')]"

definition confusables_02 :: "raw_row list" where
  "confusables_02 =
     [(0x445, ''x'', ''LATIN SMALL LETTER X''),
      (0x455, ''s'', ''LATIN SMALL LETTER S''),
      (0x456, ''i'', ''LATIN SMALL LETTER I''),
      (0x458, ''j'', ''LATIN SMALL LETTER J''),
      (0x461, ''w'', ''LATIN SMALL LETTER W''),
      (0x474, ''V'', ''LATIN CAPITAL LETTER V''),
      (0x475, ''v'', ''LATIN SMALL LETTER V''),
      (0x4ae, ''Y'', ''LATIN CAPITAL LETTER Y''),
      (0x4af, ''y'', ''LATIN SMALL LETTER Y''),
      (0x4bb, ''h'', ''LATIN SMALL LETTER H''),
      (0x4bd, ''e'', ''LATIN SMALL LETTER E''),
      (0x4c0, ''l'', ''LATIN SMALL LETTER L''),
      (0x4cf, ''i'', ''LATIN SMALL LETTER I''),
      (0x4d4, ''AE'', ''LATIN CAPITAL LETTER A, LATIN CAPITAL LETTER E''),
      (0x4d5, ''ae'', ''LATIN SMALL LETTER A, LATIN SMALL LETTER E''),
      (0x4e0, ''3'', ''DIGIT THREE''),
      (0x501, ''d'', ''LATIN SMALL LETTER D''),
      (0x50c, ''G'', ''LATIN CAPITAL LETTER G''),
      (0x51b, ''q'', ''LATIN SMALL LETTER Q''),
      (0x51c, ''W'', ''LATIN CAPITAL LETTER W''),
      (0x51d, ''w'', ''LATIN SMALL LETTER W''),
      (0x54d, ''U'', ''LATIN CAPITAL LETTER U''),
      (0x54f, ''S'', ''LATIN CAPITAL LETTER S''),
      (0x555, ''O'', ''LATIN CAPITAL LETTER O''),
      (0x561, ''w'', ''LATIN SMALL LETTER W''),
      (0x563, ''q'', ''LATIN SMALL LETTER Q''),
      (0x566, ''q'', ''LATIN SMALL LETTER Q''),
      (0x570, ''h'', ''LATIN SMALL LETTER H''),
      (0x578, ''n'', ''LATIN SMALL LETTER N''),
      (0x57c, ''n'', ''LATIN SMALL LETTER N''),
      (0x57d, ''u'', ''LATIN SMALL LETTER U''),
      (0x581, ''g'', ''LATIN SMALL LETTER G''),
      (0x584, ''f'', ''LATIN SMALL LETTER F''),
      (0x585, ''o'', ''LATIN SMALL LETTER O''),
      (0x5d5, ''l'', ''LATIN SMALL LETTER L''),
      (0x5d8, ''v'', ''LATIN SMALL LETTER V''),
      (0x5df, ''l'', ''LATIN SMALL LETTER L''),
      (0x5e1, ''o'', ''LATIN SMALL LETTER O''),
      (0x5f0, ''ll'', ''LATIN SMALL LETTER L, LATIN SMALL LETTER L''),
      (0x627, ''l'', ''LATIN SMALL LETTER L''),
      (0x647, ''o'', ''LATIN SMALL LETTER O''),
      (0x661, ''l'', ''LATIN SMALL LETTER L''),
      (0x665, ''o'', ''LATIN SMALL LETTER O''),
      (0x667, ''V'', ''LATIN CAPITAL LETTER V''),
      (0x6be, ''o'', ''LATIN SMALL LETTER O''),
      (0x6c1, ''o'', ''LATIN SMALL LETTER O''),
      (0x6d5, ''o'', ''LATIN SMALL LETTER O''),
      (0x6f1, ''l'', ''LATIN SMALL LETTER L''),
      (0x6f5, ''o'', ''LATIN SMALL LETTER O''),
      (0x6f7, ''V'', ''LATIN CAPITAL LETTER V''),
      (0x7c0, ''O'', ''LATIN CAPITAL LETTER O''),
      (0x7ca, ''l'', ''LATIN SMALL LETTER L''),
      (0x966, ''o'', ''LATIN SMALL LETTER O''),
      (0x9e6, ''O'', ''LATIN CAPITAL LETTER O''),
      (0x9ea, ''8'', ''DIGIT EIGHT''),
      (0x9ed, ''9'', ''DIGIT NINE''),
      (0xa66, ''o'', ''LATIN SMALL LETTER O''),
      (0xa67, ''9'', ''DIGIT NINE''),
      (0xa6a, ''8'', ''DIGIT EIGHT''),
      (0xae6, ''o'', ''LATIN SMALL LETTER O''),
      (0xb03, ''8'', ''DIGIT EIGHT''),
      (0xb20, ''O'', ''LATIN CAPITAL LETTER O''),
      (0xb66, ''O'', ''LATIN CAPITAL LETTER O''),
      (0xb68, ''9'', ''DIGIT NINE''),
      (0xbe6, ''o'', ''LATIN SMALL LETTER O''),
      (0xc02, ''o'', ''LATIN SMALL LETTER O''),
      (0xc66, ''o'', ''LATIN SMALL LETTER O''),
      (0xc82, ''o'', ''LATIN SMALL LETTER O''),
      (0xce6, ''o'', ''LATIN SMALL LETTER O''),
      (0xd02, ''o'', ''LATIN SMALL LETTER O''),
      (0xd20, ''o'', ''LATIN SMALL LETTER O''),
      (0xd66, ''o'', ''LATIN SMALL LETTER O''),
      (0xd6d, ''9'', ''DIGIT NINE''),
      (0xd82, ''o'', ''LATIN SMALL LETTER O''),
      (0xe50, ''o'', ''LATIN SMALL LETTER O''),
      (0xed0, ''o'', ''LATIN SMALL LETTER O''),
      (0x101d, ''o'', ''LATIN SMALL LETTER O''),
      (0x1040, ''o'', ''LATIN SMALL LETTER O''),
      (0x10e7, ''y'', ''LATIN SMALL LETTER Y''),
      (0x10ff, ''o'', ''LATIN SMALL LETTER O''),
      (0x1200, ''U'', ''LATIN CAPITAL LETTER U''),
      (0x12d0, ''O'', ''LATIN CAPITAL LETTER O''),
      (0x13a0, ''D'', ''LATIN CAPITAL LETTER D''),
      (0x13a1, ''R'', ''LATIN CAPITAL LETTER R''),
      (0x13a2, ''T'', ''LATIN CAPITAL LETTER T''),
      (0x13a5, ''i'', ''LATIN SMALL LETTER I''),
      (0x13a9, ''Y'', ''LATIN CAPITAL LETTER Y''),
      (0x13aa, ''A'', ''LATIN CAPITAL LETTER A''),
      (0x13ab, ''J'', ''LATIN CAPITAL LETTER J''),
      (0x13ac, ''E'', ''LATIN CAPITAL LETTER E''),
      (0x13b3, ''W'', ''LATIN CAPITAL LETTER W''),
      (0x13b7, ''M'', ''LATIN CAPITAL LETTER M''),
      (0x13bb, ''H'', ''LATIN CAPITAL LETTER H''),
      (0x13bd, ''Y'', ''LATIN CAPITAL LETTER Y''),
      (0x13c0, ''G'', ''LATIN CAPITAL LETTER G''),
      (0x13c2, ''h'', ''LATIN SMALL LETTER H''),
      (0x13c3, ''Z'', ''LATIN CAPITAL LETTER Z''),
      (0x13ce, ''4'', ''DIGIT FOUR''),
      (0x13cf, ''b'', ''LATIN SMALL LETTER B''),
      (0x13d2, ''R'', ''LATIN CAPITAL LETTER R''),
      (0x13d4, ''W'', ''LATIN CAPITAL LETTER W'')]"

definition confusables_03 :: "raw_row list" where
  "confusables_03 =
     [(0x13d5, ''S'', ''LATIN CAPITAL LETTER S''),
      (0x13d9, ''V'', ''LATIN CAPITAL LETTER V''),
      (0x13da, ''S'', ''LATIN CAPITAL LETTER S''),
      (0x13de, ''L'', ''LATIN CAPITAL LETTER L''),
      (0x13df, ''C'', ''LATIN CAPITAL LETTER C''),
      (0x13e2, ''P'', ''LATIN CAPITAL LETTER P''),
      (0x13e6, ''K'', ''LATIN CAPITAL LETTER K''),
      (0x13e7, ''d'', ''LATIN SMALL LETTER D''),
      (0x13ee, ''6'', ''DIGIT SIX''),
      (0x13f3, ''G'', ''LATIN CAPITAL LETTER G''),
      (0x13f4, ''B'', ''LATIN CAPITAL LETTER B''),
      (0x142f, ''V'', ''LATIN CAPITAL LETTER V''),
      (0x144c, ''U'', ''LATIN CAPITAL LETTER U''),
      (0x146d, ''P'', ''LATIN CAPITAL LETTER P''),
      (0x146f, ''d'', ''LATIN SMALL LETTER D''),
      (0x1472, ''b'', ''LATIN SMALL LETTER B''),
      (0x148d, ''J'', ''LATIN CAPITAL LETTER J''),
      (0x14aa, ''L'', ''LATIN CAPITAL LETTER L''),
      (0x14bf, ''2'', ''DIGIT TWO''),
      (0x1541, ''x'', ''LATIN SMALL LETTER X''),
      (0x157c, ''H'', ''LATIN CAPITAL LETTER H''),
      (0x157d, ''x'', ''LATIN SMALL LETTER X''),
      (0x1587, ''R'', ''LATIN CAPITAL LETTER R''),
      (0x15af, ''b'', ''LATIN SMALL LETTER B''),
      (0x15b4, ''F'', ''LATIN CAPITAL LETTER F''),
      (0x15c5, ''A'', ''LATIN CAPITAL LETTER A''),
      (0x15de, ''D'', ''LATIN CAPITAL LETTER D''),
      (0x15ea, ''D'', ''LATIN CAPITAL LETTER D''),
      (0x15f0, ''M'', ''LATIN CAPITAL LETTER M''),
      (0x15f7, ''B'', ''LATIN CAPITAL LETTER B''),
      (0x16b7, ''X'', ''LATIN CAPITAL LETTER X''),
      (0x16c1, ''l'', ''LATIN SMALL LETTER L''),
      (0x16d5, ''K'', ''LATIN CAPITAL LETTER K''),
      (0x16d6, ''M'', ''LATIN CAPITAL LETTER M''),
      (0x1d04, ''c'', ''LATIN SMALL LETTER C''),
      (0x1d0f, ''o'', ''LATIN SMALL LETTER O''),
      (0x1d11, ''o'', ''LATIN SMALL LETTER O''),
      (0x1d1c, ''u'', ''LATIN SMALL LETTER U''),
      (0x1d20, ''v'', ''LATIN SMALL LETTER V''),
      (0x1d21, ''w'', ''LATIN SMALL LETTER W''),
      (0x1d22, ''z'', ''LATIN SMALL LETTER Z''),
      (0x1d26, ''r'', ''LATIN SMALL LETTER R''),
      (0x1d6b, ''ue'', ''LATIN SMALL LETTER U, LATIN SMALL LETTER E''),
      (0x1d83, ''g'', ''LATIN SMALL LETTER G''),
      (0x1d8c, ''y'', ''LATIN SMALL LETTER Y''),
      (0x1e9d, ''f'', ''LATIN SMALL LETTER F''),
      (0x1eff, ''y'', ''LATIN SMALL LETTER Y''),
      (0x1fbe, ''i'', ''LATIN SMALL LETTER I''),
      (0x2102, ''C'', ''LATIN CAPITAL LETTER C''),
      (0x210a, ''g'', ''LATIN SMALL LETTER G''),
      (0x210b, ''H'', ''LATIN CAPITAL LETTER H''),
      (0x210c, ''H'', ''LATIN CAPITAL LETTER H''),
      (0x210d, ''H'', ''LATIN CAPITAL LETTER H''),
      (0x210e, ''h'', ''LATIN SMALL LETTER H''),
      (0x2110, ''l'', ''LATIN SMALL LETTER L''),
      (0x2111, ''l'', ''LATIN SMALL LETTER L''),
      (0x2112, ''L'', ''LATIN CAPITAL LETTER L''),
      (0x2113, ''l'', ''LATIN SMALL LETTER L''),
      (0x2115, ''N'', ''LATIN CAPITAL LETTER N''),
      (0x2119, ''P'', ''LATIN CAPITAL LETTER P''),
      (0x211a, ''Q'', ''LATIN CAPITAL LETTER Q''),
      (0x211b, ''R'', ''LATIN CAPITAL LETTER R''),
      (0x211c, ''R'', ''LATIN CAPITAL LETTER R''),
      (0x211d, ''R'', ''LATIN CAPITAL LETTER R''),
      (0x2124, ''Z'', ''LATIN CAPITAL LETTER Z''),
      (0x2128, ''Z'', ''LATIN CAPITAL LETTER Z''),
      (0x212a, ''K'', ''LATIN CAPITAL LETTER K''),
      (0x212c, ''B'', ''LATIN CAPITAL LETTER B''),
      (0x212d, ''C'', ''LATIN CAPITAL LETTER C''),
      (0x212f, ''e'', ''LATIN SMALL LETTER E''),
      (0x2130, ''E'', ''LATIN CAPITAL LETTER E''),
      (0x2131, ''F'', ''LATIN CAPITAL LETTER F''),
      (0x2133, ''M'', ''LATIN CAPITAL LETTER M''),
      (0x2134, ''o'', ''LATIN SMALL LETTER O''),
      (0x2139, ''i'', ''LATIN SMALL LETTER I''),
      (0x213d, ''y'', ''LATIN SMALL LETTER Y''),
      (0x2145, ''D'', ''LATIN CAPITAL LETTER D''),
      (0x2146, ''d'', ''LATIN SMALL LETTER D''),
      (0x2147, ''e'', ''LATIN SMALL LETTER E''),
      (0x2148, ''i'', ''LATIN SMALL LETTER I''),
      (0x2149, ''j'', ''LATIN SMALL LETTER J''),
      (0x2160, ''l'', ''LATIN SMALL LETTER L''),
      (0x2161, ''ll'', ''LATIN SMALL LETTER L, LATIN SMALL LETTER L''),
      (0x2162, ''lll'', ''LATIN SMALL LETTER L, LATIN SMALL LETTER L, LATIN SMALL LETTER L''),
      (0x2163, ''lV'', ''LATIN SMALL LETTER L, LATIN CAPITAL LETTER V''),
      (0x2164, ''V'', ''LATIN CAPITAL LETTER V''),
      (0x2165, ''Vl'', ''LATIN CAPITAL LETTER V, LATIN SMALL LETTER L''),
      (0x2166, ''Vll'', ''LATIN CAPITAL LETTER V, LATIN SMALL LETTER L, LATIN SMALL LETTER L''),
      (0x2167, ''Vlll'', ''LATIN CAPITAL LETTER V, LATIN SMALL LETTER L, LATIN SMALL LETTER L, LATIN SMALL LETTER L''),
      (0x2168, ''lX'', ''LATIN SMALL LETTER L, LATIN CAPITAL LETTER X''),
      (0x2169, ''X'', ''LATIN CAPITAL LETTER X''),
      (0x216a, ''Xl'', ''LATIN CAPITAL LETTER X, LATIN SMALL LETTER L''),
      (0x216b, ''Xll'', ''LATIN CAPITAL LETTER X, LATIN SMALL LETTER L, LATIN SMALL LETTER L''),
      (0x216c, ''L'', ''LATIN CAPITAL LETTER L''),
      (0x216d, ''C'', ''LATIN CAPITAL LETTER C''),
      (0x216e, ''D'', ''LATIN CAPITAL LETTER D''),
      (0x216f, ''M'', ''LATIN CAPITAL LETTER M''),
      (0x2170, ''i'', ''LATIN SMALL LETTER I''),
      (0x2171, ''ii'', ''LATIN SMALL LETTER I, LATIN SMALL LETTER I''),
      (0x2172, ''iii'', ''LATIN SMALL LETTER I, LATIN SMALL LETTER I, LATIN SMALL LETTER I''),
      (0x2173, ''iv'', ''LATIN SMALL LETTER I, LATIN SMALL LETTER V'')]"

definition confusables_04 :: "raw_row list" where
  "confusables_04 =
     [(0x2174, ''v'', ''LATIN SMALL LETTER V''),
      (0x2175, ''vi'', ''LATIN SMALL LETTER V, LATIN SMALL LETTER I''),
      (0x2176, ''vii'', ''LATIN SMALL LETTER V, LATIN SMALL LETTER I, LATIN SMALL LETTER I''),
      (0x2177, ''viii'', ''LATIN SMALL LETTER V, LATIN SMALL LETTER I, LATIN SMALL LETTER I, LATIN SMALL LETTER I''),
      (0x2178, ''ix'', ''LATIN SMALL LETTER I, LATIN SMALL LETTER X''),
      (0x2179, ''x'', ''LATIN SMALL LETTER X''),
      (0x217a, ''xi'', ''LATIN SMALL LETTER X, LATIN SMALL LETTER I''),
      (0x217b, ''xii'', ''LATIN SMALL LETTER X, LATIN SMALL LETTER I, LATIN SMALL LETTER I''),
      (0x217c, ''l'', ''LATIN SMALL LETTER L''),
      (0x217d, ''c'', ''LATIN SMALL LETTER C''),
      (0x217e, ''d'', ''LATIN SMALL LETTER D''),
      (0x217f, ''rn'', ''LATIN SMALL LETTER R, LATIN SMALL LETTER N''),
      (0x2c85, ''r'', ''LATIN SMALL LETTER R''),
      (0x2c8e, ''H'', ''LATIN CAPITAL LETTER H''),
      (0x2c92, ''l'', ''LATIN SMALL LETTER L''),
      (0x2c94, ''K'', ''LATIN CAPITAL LETTER K''),
      (0x2c98, ''M'', ''LATIN CAPITAL LETTER M''),
      (0x2c9a, ''N'', ''LATIN CAPITAL LETTER N''),
      (0x2c9e, ''O'', ''LATIN CAPITAL LETTER O''),
      (0x2c9f, ''o'', ''LATIN SMALL LETTER O''),
      (0x2ca2, ''P'', ''LATIN CAPITAL LETTER P''),
      (0x2ca3, ''p'', ''LATIN SMALL LETTER P''),
      (0x2ca4, ''C'', ''LATIN CAPITAL LETTER C''),
      (0x2ca5, ''c'', ''LATIN SMALL LETTER C''),
      (0x2ca6, ''T'', ''LATIN CAPITAL LETTER T''),
      (0x2ca8, ''Y'', ''LATIN CAPITAL LETTER Y''),
      (0x2cac, ''X'', ''LATIN CAPITAL LETTER X''),
      (0x2cca, ''9'', ''DIGIT NINE''),
      (0x2ccc, ''3'', ''DIGIT THREE''),
      (0x2cd0, ''L'', ''LATIN CAPITAL LETTER L''),
      (0x2cd2, ''6'', ''DIGIT SIX''),
      (0x2d38, ''V'', ''LATIN CAPITAL LETTER V''),
      (0x2d39, ''E'', ''LATIN CAPITAL LETTER E''),
      (0x2d4f, ''l'', ''LATIN SMALL LETTER L''),
      (0x2d54, ''O'', ''LATIN CAPITAL LETTER O''),
      (0x2d55, ''Q'', ''LATIN CAPITAL LETTER Q''),
      (0x2d5d, ''X'', ''LATIN CAPITAL LETTER X''),
      (0x3007, ''O'', ''LATIN CAPITAL LETTER O''),
      (0xa4d0, ''B'', ''LATIN CAPITAL LETTER B''),
      (0xa4d1, ''P'', ''LATIN CAPITAL LETTER P''),
      (0xa4d2, ''d'', ''LATIN SMALL LETTER D''),
      (0xa4d3, ''D'', ''LATIN CAPITAL LETTER D''),
      (0xa4d4, ''T'', ''LATIN CAPITAL LETTER T''),
      (0xa4d6, ''G'', ''LATIN CAPITAL LETTER G''),
      (0xa4d7, ''K'', ''LATIN CAPITAL LETTER K''),
      (0xa4d9, ''J'', ''LATIN CAPITAL LETTER J''),
      (0xa4da, ''C'', ''LATIN CAPITAL LETTER C''),
      (0xa4dc, ''Z'', ''LATIN CAPITAL LETTER Z''),
      (0xa4dd, ''F'', ''LATIN CAPITAL LETTER F''),
      (0xa4df, ''M'', ''LATIN CAPITAL LETTER M''),
      (0xa4e0, ''N'', ''LATIN CAPITAL LETTER N''),
      (0xa4e1, ''L'', ''LATIN CAPITAL LETTER L''),
      (0xa4e2, ''S'', ''LATIN CAPITAL LETTER S''),
      (0xa4e3, ''R'', ''LATIN CAPITAL LETTER R''),
      (0xa4e6, ''V'', ''LATIN CAPITAL LETTER V''),
      (0xa4e7, ''H'', ''LATIN CAPITAL LETTER H''),
      (0xa4ea, ''W'', ''LATIN CAPITAL LETTER W''),
      (0xa4eb, ''X'', ''LATIN CAPITAL LETTER X''),
      (0xa4ec, ''Y'', ''LATIN CAPITAL LETTER Y''),
      (0xa4ee, ''A'', ''LATIN CAPITAL LETTER A''),
      (0xa4f0, ''E'', ''LATIN CAPITAL LETTER E''),
      (0xa4f2, ''l'', ''LATIN SMALL LETTER L''),
      (0xa4f3, ''O'', ''LATIN CAPITAL LETTER O''),
      (0xa4f4, ''U'', ''LATIN CAPITAL LETTER U''),
      (0xa644, ''2'', ''DIGIT TWO''),
      (0xa647, ''i'', ''LATIN SMALL LETTER I''),
      (0xa698, ''OO'', ''LATIN CAPITAL LETTER O, LATIN CAPITAL LETTER O''),
      (0xa699, ''oo'', ''LATIN SMALL LETTER O, LATIN SMALL LETTER O''),
      (0xa6df, ''V'', ''LATIN CAPITAL LETTER V''),
      (0xa6ef, ''2'', ''DIGIT TWO''),
      (0xa728, ''T3'', ''LATIN CAPITAL LETTER T, DIGIT THREE''),
      (0xa731, ''s'', ''LATIN SMALL LETTER S''),
      (0xa732, ''AA'', ''LATIN CAPITAL LETTER A, LATIN CAPITAL LETTER A''),
      (0xa733, ''aa'', ''LATIN SMALL LETTER A, LATIN SMALL LETTER A''),
      (0xa734, ''AO'', ''LATIN CAPITAL LETTER A, LATIN CAPITAL LETTER O''),
      (0xa735, ''ao'', ''LATIN SMALL LETTER A, LATIN SMALL LETTER O''),
      (0xa736, ''AU'', ''LATIN CAPITAL LETTER A, LATIN CAPITAL LETTER U''),
      (0xa737, ''au'', ''LATIN SMALL LETTER A, LATIN SMALL LETTER U''),
      (0xa738, ''AV'', ''LATIN CAPITAL LETTER A, LATIN CAPITAL LETTER V''),
      (0xa739, ''av'', ''LATIN SMALL LETTER A, LATIN SMALL LETTER V''),
      (0xa73a, ''AV'', ''LATIN CAPITAL LETTER A, LATIN CAPITAL LETTER V''),
      (0xa73b, ''av'', ''LATIN SMALL LETTER A, LATIN SMALL LETTER V''),
      (0xa73c, ''AY'', ''LATIN CAPITAL LETTER A, LATIN CAPITAL LETTER Y''),
      (0xa73d, ''ay'', ''LATIN SMALL LETTER A, LATIN SMALL LETTER Y''),
      (0xa74e, ''OO'', ''LATIN CAPITAL LETTER O, LATIN CAPITAL LETTER O''),
      (0xa74f, ''oo'', ''LATIN SMALL LETTER O, LATIN SMALL LETTER O''),
      (0xa75a, ''2'', ''DIGIT TWO''),
      (0xa76a, ''3'', ''DIGIT THREE''),
      (0xa76e, ''9'', ''DIGIT NINE''),
      (0xa777, ''tf'', ''LATIN SMALL LETTER T, LATIN SMALL LETTER F''),
      (0xa798, ''F'', ''LATIN CAPITAL LETTER F''),
      (0xa799, ''f'', ''LATIN SMALL LETTER F''),
      (0xa79f, ''u'', ''LATIN SMALL LETTER U''),
      (0xa7ab, ''3'', ''DIGIT THREE''),
      (0xa7b2, ''J'', ''LATIN CAPITAL LETTER J''),
      (0xa7b3, ''X'', ''LATIN CAPITAL LETTER X''),
      (0xa7b4, ''B'', ''LATIN CAPITAL LETTER B''),
      (0xab32, ''e'', ''LATIN SMALL LETTER E''),
      (0xab35, ''f'', ''LATIN SMALL LETTER F''),
      (0xab3d, ''o'', ''LATIN SMALL LETTER O''),
      (0xab47, ''r'', ''LATIN SMALL LETTER R'')]"

definition confusables_05 :: "raw_row list" where
  "confusables_05 =
     [(0xab48, ''r'', ''LATIN SMALL LETTER R''),
      (0xab4e, ''u'', ''LATIN SMALL LETTER U''),
      (0xab52, ''u'', ''LATIN SMALL LETTER U''),
      (0xab5a, ''y'', ''LATIN SMALL LETTER Y''),
      (0xab63, ''uo'', ''LATIN SMALL LETTER U, LATIN SMALL LETTER O''),
      (0xab75, ''i'', ''LATIN SMALL LETTER I''),
      (0xab81, ''r'', ''LATIN SMALL LETTER R''),
      (0xab83, ''w'', ''LATIN SMALL LETTER W''),
      (0xab93, ''z'', ''LATIN SMALL LETTER Z''),
      (0xaba9, ''v'', ''LATIN SMALL LETTER V''),
      (0xabaa, ''s'', ''LATIN SMALL LETTER S''),
      (0xabaf, ''c'', ''LATIN SMALL LETTER C''),
      (0xfb00, ''ff'', ''LATIN SMALL LETTER F, LATIN SMALL LETTER F''),
      (0xfb01, ''fi'', ''LATIN SMALL LETTER F, LATIN SMALL LETTER I''),
      (0xfb02, ''fl'', ''LATIN SMALL LETTER F, LATIN SMALL LETTER L''),
      (0xfb03, ''ffi'', ''LATIN SMALL LETTER F, LATIN SMALL LETTER F, LATIN SMALL LETTER I''),
      (0xfb04, ''ffl'', ''LATIN SMALL LETTER F, LATIN SMALL LETTER F, LATIN SMALL LETTER L''),
      (0xfb06, ''st'', ''LATIN SMALL LETTER S, LATIN SMALL LETTER T''),
      (0xfba6, ''o'', ''LATIN SMALL LETTER O''),
      (0xfba7, ''o'', ''LATIN SMALL LETTER O''),
      (0xfba8, ''o'', ''LATIN SMALL LETTER O''),
      (0xfba9, ''o'', ''LATIN SMALL LETTER O''),
      (0xfbaa, ''o'', ''LATIN SMALL LETTER O''),
      (0xfbab, ''o'', ''LATIN SMALL LETTER O''),
      (0xfbac, ''o'', ''LATIN SMALL LETTER O''),
      (0xfbad, ''o'', ''LATIN SMALL LETTER O''),
      (0xfe8d, ''l'', ''LATIN SMALL LETTER L''),
      (0xfe8e, ''l'', ''LATIN SMALL LETTER L''),
      (0xfee9, ''o'', ''LATIN SMALL LETTER O''),
      (0xfeea, ''o'', ''LATIN SMALL LETTER O''),
      (0xfeeb, ''o'', ''LATIN SMALL LETTER O''),
      (0xfeec, ''o'', ''LATIN SMALL LETTER O''),
      (0xff21, ''A'', ''LATIN CAPITAL LETTER A''),
      (0xff22, ''B'', ''LATIN CAPITAL LETTER B''),
      (0xff23, ''C'', ''LATIN CAPITAL LETTER C''),
      (0xff25, ''E'', ''LATIN CAPITAL LETTER E''),
      (0xff28, ''H'', ''LATIN CAPITAL LETTER H''),
      (0xff29, ''l'', ''LATIN SMALL LETTER L''),
      (0xff2a, ''J'', ''LATIN CAPITAL LETTER J''),
      (0xff2b, ''K'', ''LATIN CAPITAL LETTER K''),
      (0xff2d, ''M'', ''LATIN CAPITAL LETTER M''),
      (0xff2e, ''N'', ''LATIN CAPITAL LETTER N''),
      (0xff2f, ''O'', ''LATIN CAPITAL LETTER O''),
      (0xff30, ''P'', ''LATIN CAPITAL LETTER P''),
      (0xff33, ''S'', ''LATIN CAPITAL LETTER S''),
      (0xff34, ''T'', ''LATIN CAPITAL LETTER T''),
      (0xff38, ''X'', ''LATIN CAPITAL LETTER X''),
      (0xff39, ''Y'', ''LATIN CAPITAL LETTER Y''),
      (0xff3a, ''Z'', ''LATIN CAPITAL LETTER Z''),
      (0xff41, ''a'', ''LATIN SMALL LETTER A''),
      (0xff43, ''c'', ''LATIN SMALL LETTER C''),
      (0xff45, ''e'', ''LATIN SMALL LETTER E''),
      (0xff47, ''g'', ''LATIN SMALL LETTER G''),
      (0xff48, ''h'', ''LATIN SMALL LETTER H''),
      (0xff49, ''i'', ''LATIN SMALL LETTER I''),
      (0xff4a, ''j'', ''LATIN SMALL LETTER J''),
      (0xff4c, ''l'', ''LATIN SMALL LETTER L''),
      (0xff4f, ''o'', ''LATIN SMALL LETTER O''),
      (0xff50, ''p'', ''LATIN SMALL LETTER P''),
      (0xff53, ''s'', ''LATIN SMALL LETTER S''),
      (0xff56, ''v'', ''LATIN SMALL LETTER V''),
      (0xff58, ''x'', ''LATIN SMALL LETTER X''),
      (0xff59, ''y'', ''LATIN SMALL LETTER Y''),
      (0x10282, ''B'', ''LATIN CAPITAL LETTER B''),
      (0x10286, ''E'', ''LATIN CAPITAL LETTER E''),
      (0x10287, ''F'', ''LATIN CAPITAL LETTER F''),
      (0x1028a, ''l'', ''LATIN SMALL LETTER L''),
      (0x10290, ''X'', ''LATIN CAPITAL LETTER X''),
      (0x10292, ''O'', ''LATIN CAPITAL LETTER O''),
      (0x10295, ''P'', ''LATIN CAPITAL LETTER P''),
      (0x10296, ''S'', ''LATIN CAPITAL LETTER S''),
      (0x10297, ''T'', ''LATIN CAPITAL LETTER T''),
      (0x102a0, ''A'', ''LATIN CAPITAL LETTER A''),
      (0x102a1, ''B'', ''LATIN CAPITAL LETTER B''),
      (0x102a2, ''C'', ''LATIN CAPITAL LETTER C''),
      (0x102a5, ''F'', ''LATIN CAPITAL LETTER F''),
      (0x102ab, ''O'', ''LATIN CAPITAL LETTER O''),
      (0x102b0, ''M'', ''LATIN CAPITAL LETTER M''),
      (0x102b1, ''T'', ''LATIN CAPITAL LETTER T''),
      (0x102b2, ''Y'', ''LATIN CAPITAL LETTER Y''),
      (0x102b4, ''X'', ''LATIN CAPITAL LETTER X''),
      (0x102cf, ''H'', ''LATIN CAPITAL LETTER H''),
      (0x102f5, ''Z'', ''LATIN CAPITAL LETTER Z''),
      (0x10301, ''B'', ''LATIN CAPITAL LETTER B''),
      (0x10302, ''C'', ''LATIN CAPITAL LETTER C''),
      (0x10309, ''l'', ''LATIN SMALL LETTER L''),
      (0x10311, ''M'', ''LATIN CAPITAL LETTER M''),
      (0x10315, ''T'', ''LATIN CAPITAL LETTER T''),
      (0x10317, ''X'', ''LATIN CAPITAL LETTER X''),
      (0x1031a, ''8'', ''DIGIT EIGHT''),
      (0x10320, ''l'', ''LATIN SMALL LETTER L''),
      (0x10322, ''X'', ''LATIN CAPITAL LETTER X''),
      (0x10404, ''O'', ''LATIN CAPITAL LETTER O''),
      (0x10415, ''C'', ''LATIN CAPITAL LETTER C''),
      (0x1041b, ''L'', ''LATIN CAPITAL LETTER L''),
      (0x10420, ''S'', ''LATIN CAPITAL LETTER S''),
      (0x1042c, ''o'', ''LATIN SMALL LETTER O''),
      (0x1043d, ''c'', ''LATIN SMALL LETTER C''),
      (0x10448, ''s'', ''LATIN SMALL LETTER S''),
      (0x104b4, ''R'', ''LATIN CAPITAL LETTER R''),
      (0x104c2, ''O'', ''LATIN CAPITAL LETTER O'')]"

definition confusables_06 :: "raw_row list" where
  "confusables_06 =
     [(0x104ce, ''U'', ''LATIN CAPITAL LETTER U''),
      (0x104d2, ''7'', ''DIGIT SEVEN''),
      (0x104ea, ''o'', ''LATIN SMALL LETTER O''),
      (0x104f6, ''u'', ''LATIN SMALL LETTER U''),
      (0x10513, ''N'', ''LATIN CAPITAL LETTER N''),
      (0x10516, ''O'', ''LATIN CAPITAL LETTER O''),
      (0x10518, ''K'', ''LATIN CAPITAL LETTER K''),
      (0x1051c, ''C'', ''LATIN CAPITAL LETTER C''),
      (0x1051d, ''V'', ''LATIN CAPITAL LETTER V''),
      (0x10525, ''F'', ''LATIN CAPITAL LETTER F''),
      (0x10526, ''L'', ''LATIN CAPITAL LETTER L''),
      (0x10527, ''X'', ''LATIN CAPITAL LETTER X''),
      (0x114d0, ''O'', ''LATIN CAPITAL LETTER O''),
      (0x11700, ''rn'', ''LATIN SMALL LETTER R, LATIN SMALL LETTER N''),
      (0x11706, ''v'', ''LATIN SMALL LETTER V''),
      (0x1170a, ''w'', ''LATIN SMALL LETTER W''),
      (0x1170e, ''w'', ''LATIN SMALL LETTER W''),
      (0x1170f, ''w'', ''LATIN SMALL LETTER W''),
      (0x118a0, ''V'', ''LATIN CAPITAL LETTER V''),
      (0x118a2, ''F'', ''LATIN CAPITAL LETTER F''),
      (0x118a3, ''L'', ''LATIN CAPITAL LETTER L''),
      (0x118a4, ''Y'', ''LATIN CAPITAL LETTER Y''),
      (0x118a6, ''E'', ''LATIN CAPITAL LETTER E''),
      (0x118a9, ''Z'', ''LATIN CAPITAL LETTER Z''),
      (0x118ac, ''9'', ''DIGIT NINE''),
      (0x118ae, ''E'', ''LATIN CAPITAL LETTER E''),
      (0x118af, ''4'', ''DIGIT FOUR''),
      (0x118b2, ''L'', ''LATIN CAPITAL LETTER L''),
      (0x118b5, ''O'', ''LATIN CAPITAL LETTER O''),
      (0x118b8, ''U'', ''LATIN CAPITAL LETTER U''),
      (0x118bb, ''5'', ''DIGIT FIVE''),
      (0x118bc, ''T'', ''LATIN CAPITAL LETTER T''),
      (0x118c0, ''v'', ''LATIN SMALL LETTER V''),
      (0x118c1, ''s'', ''LATIN SMALL LETTER S''),
      (0x118c2, ''F'', ''LATIN CAPITAL LETTER F''),
      (0x118c3, ''i'', ''LATIN SMALL LETTER I''),
      (0x118c4, ''z'', ''LATIN SMALL LETTER Z''),
      (0x118c6, ''7'', ''DIGIT SEVEN''),
      (0x118c8, ''o'', ''LATIN SMALL LETTER O''),
      (0x118ca, ''3'', ''DIGIT THREE''),
      (0x118cc, ''9'', ''DIGIT NINE''),
      (0x118d5, ''6'', ''DIGIT SIX''),
      (0x118d6, ''9'', ''DIGIT NINE''),
      (0x118d7, ''o'', ''LATIN SMALL LETTER O''),
      (0x118d8, ''u'', ''LATIN SMALL LETTER U''),
      (0x118dc, ''y'', ''LATIN SMALL LETTER Y''),
      (0x118e0, ''O'', ''LATIN CAPITAL LETTER O''),
      (0x118e3, ''rn'', ''LATIN SMALL LETTER R, LATIN SMALL LETTER N''),
      (0x118e5, ''Z'', ''LATIN CAPITAL LETTER Z''),
      (0x118e6, ''W'', ''LATIN CAPITAL LETTER W''),
      (0x118e9, ''C'', ''LATIN CAPITAL LETTER C''),
      (0x118ec, ''X'', ''LATIN CAPITAL LETTER X''),
      (0x118ef, ''W'', ''LATIN CAPITAL LETTER W''),
      (0x118f2, ''C'', ''LATIN CAPITAL LETTER C''),
      (0x16f08, ''V'', ''LATIN CAPITAL LETTER V''),
      (0x16f0a, ''T'', ''LATIN CAPITAL LETTER T''),
      (0x16f16, ''L'', ''LATIN CAPITAL LETTER L''),
      (0x16f28, ''l'', ''LATIN SMALL LETTER L''),
      (0x16f35, ''R'', ''LATIN CAPITAL LETTER R''),
      (0x16f3a, ''S'', ''LATIN CAPITAL LETTER S''),
      (0x16f3b, ''3'', ''DIGIT THREE''),
      (0x16f40, ''A'', ''LATIN CAPITAL LETTER A''),
      (0x16f42, ''U'', ''LATIN CAPITAL LETTER U''),
      (0x16f43, ''Y'', ''LATIN CAPITAL LETTER Y''),
      (0x1ccf0, ''O'', ''LATIN CAPITAL LETTER O''),
      (0x1ccf1, ''l'', ''LATIN SMALL LETTER L''),
      (0x1ccf2, ''2'', ''DIGIT TWO''),
      (0x1ccf3, ''3'', ''DIGIT THREE''),
      (0x1ccf4, ''4'', ''DIGIT FOUR''),
      (0x1ccf5, ''5'', ''DIGIT FIVE''),
      (0x1ccf6, ''6'', ''DIGIT SIX''),
      (0x1ccf7, ''7'', ''DIGIT SEVEN''),
      (0x1ccf8, ''8'', ''DIGIT EIGHT''),
      (0x1ccf9, ''9'', ''DIGIT NINE''),
      (0x1d400, ''A'', ''LATIN CAPITAL LETTER A''),
      (0x1d401, ''B'', ''LATIN CAPITAL LETTER B''),
      (0x1d402, ''C'', ''LATIN CAPITAL LETTER C''),
      (0x1d403, ''D'', ''LATIN CAPITAL LETTER D''),
      (0x1d404, ''E'', ''LATIN CAPITAL LETTER E''),
      (0x1d405, ''F'', ''LATIN CAPITAL LETTER F''),
      (0x1d406, ''G'', ''LATIN CAPITAL LETTER G''),
      (0x1d407, ''H'', ''LATIN CAPITAL LETTER H''),
      (0x1d408, ''l'', ''LATIN SMALL LETTER L''),
      (0x1d409, ''J'', ''LATIN CAPITAL LETTER J''),
      (0x1d40a, ''K'', ''LATIN CAPITAL LETTER K''),
      (0x1d40b, ''L'', ''LATIN CAPITAL LETTER L''),
      (0x1d40c, ''M'', ''LATIN CAPITAL LETTER M''),
      (0x1d40d, ''N'', ''LATIN CAPITAL LETTER N''),
      (0x1d40e, ''O'', ''LATIN CAPITAL LETTER O''),
      (0x1d40f, ''P'', ''LATIN CAPITAL LETTER P''),
      (0x1d410, ''Q'', ''LATIN CAPITAL LETTER Q''),
      (0x1d411, ''R'', ''LATIN CAPITAL LETTER R''),
      (0x1d412, ''S'', ''LATIN CAPITAL LETTER S''),
      (0x1d413, ''T'', ''LATIN CAPITAL LETTER T''),
      (0x1d414, ''U'', ''LATIN CAPITAL LETTER U''),
      (0x1d415, ''V'', ''LATIN CAPITAL LETTER V''),
      (0x1d416, ''W'', ''LATIN CAPITAL LETTER W''),
      (0x1d417, ''X'', ''LATIN CAPITAL LETTER X''),
      (0x1d418, ''Y'', ''LATIN CAPITAL LETTER Y''),
      (0x1d419, ''Z'', ''LATIN CAPITAL LETTER Z''),
      (0x1d41a, ''a'', ''LATIN SMALL LETTER A'')]"

definition confusables_07 :: "raw_row list" where
  "confusables_07 =
     [(0x1d41b, ''b'', ''LATIN SMALL LETTER B''),
      (0x1d41c, ''c'', ''LATIN SMALL LETTER C''),
      (0x1d41d, ''d'', ''LATIN SMALL LETTER D''),
      (0x1d41e, ''e'', ''LATIN SMALL LETTER E''),
      (0x1d41f, ''f'', ''LATIN SMALL LETTER F''),
      (0x1d420, ''g'', ''LATIN SMALL LETTER G''),
      (0x1d421, ''h'', ''LATIN SMALL LETTER H''),
      (0x1d422, ''i'', ''LATIN SMALL LETTER I''),
      (0x1d423, ''j'', ''LATIN SMALL LETTER J''),
      (0x1d424, ''k'', ''LATIN SMALL LETTER K''),
      (0x1d425, ''l'', ''LATIN SMALL LETTER L''),
      (0x1d426, ''rn'', ''LATIN SMALL LETTER R, LATIN SMALL LETTER N''),
      (0x1d427, ''n'', ''LATIN SMALL LETTER N''),
      (0x1d428, ''o'', ''LATIN SMALL LETTER O''),
      (0x1d429, ''p'', ''LATIN SMALL LETTER P''),
      (0x1d42a, ''q'', ''LATIN SMALL LETTER Q''),
      (0x1d42b, ''r'', ''LATIN SMALL LETTER R''),
      (0x1d42c, ''s'', ''LATIN SMALL LETTER S''),
      (0x1d42d, ''t'', ''LATIN SMALL LETTER T''),
      (0x1d42e, ''u'', ''LATIN SMALL LETTER U''),
      (0x1d42f, ''v'', ''LATIN SMALL LETTER V''),
      (0x1d430, ''w'', ''LATIN SMALL LETTER W''),
      (0x1d431, ''x'', ''LATIN SMALL LETTER X''),
      (0x1d432, ''y'', ''LATIN SMALL LETTER Y''),
      (0x1d433, ''z'', ''LATIN SMALL LETTER Z''),
      (0x1d434, ''A'', ''LATIN CAPITAL LETTER A''),
      (0x1d435, ''B'', ''LATIN CAPITAL LETTER B''),
      (0x1d436, ''C'', ''LATIN CAPITAL LETTER C''),
      (0x1d437, ''D'', ''LATIN CAPITAL LETTER D''),
      (0x1d438, ''E'', ''LATIN CAPITAL LETTER E''),
      (0x1d439, ''F'', ''LATIN CAPITAL LETTER F''),
      (0x1d43a, ''G'', ''LATIN CAPITAL LETTER G''),
      (0x1d43b, ''H'', ''LATIN CAPITAL LETTER H''),
      (0x1d43c, ''l'', ''LATIN SMALL LETTER L''),
      (0x1d43d, ''J'', ''LATIN CAPITAL LETTER J''),
      (0x1d43e, ''K'', ''LATIN CAPITAL LETTER K''),
      (0x1d43f, ''L'', ''LATIN CAPITAL LETTER L''),
      (0x1d440, ''M'', ''LATIN CAPITAL LETTER M''),
      (0x1d441, ''N'', ''LATIN CAPITAL LETTER N''),
      (0x1d442, ''O'', ''LATIN CAPITAL LETTER O''),
      (0x1d443, ''P'', ''LATIN CAPITAL LETTER P''),
      (0x1d444, ''Q'', ''LATIN CAPITAL LETTER Q''),
      (0x1d445, ''R'', ''LATIN CAPITAL LETTER R''),
      (0x1d446, ''S'', ''LATIN CAPITAL LETTER S''),
      (0x1d447, ''T'', ''LATIN CAPITAL LETTER T''),
      (0x1d448, ''U'', ''LATIN CAPITAL LETTER U''),
      (0x1d449, ''V'', ''LATIN CAPITAL LETTER V''),
      (0x1d44a, ''W'', ''LATIN CAPITAL LETTER W''),
      (0x1d44b, ''X'', ''LATIN CAPITAL LETTER X''),
      (0x1d44c, ''Y'', ''LATIN CAPITAL LETTER Y''),
      (0x1d44d, ''Z'', ''LATIN CAPITAL LETTER Z''),
      (0x1d44e, ''a'', ''LATIN SMALL LETTER A''),
      (0x1d44f, ''b'', ''LATIN SMALL LETTER B''),
      (0x1d450, ''c'', ''LATIN SMALL LETTER C''),
      (0x1d451, ''d'', ''LATIN SMALL LETTER D''),
      (0x1d452, ''e'', ''LATIN SMALL LETTER E''),
      (0x1d453, ''f'', ''LATIN SMALL LETTER F''),
      (0x1d454, ''g'', ''LATIN SMALL LETTER G''),
      (0x1d456, ''i'', ''LATIN SMALL LETTER I''),
      (0x1d457, ''j'', ''LATIN SMALL LETTER J''),
      (0x1d458, ''k'', ''LATIN SMALL LETTER K''),
      (0x1d459, ''l'', ''LATIN SMALL LETTER L''),
      (0x1d45a, ''rn'', ''LATIN SMALL LETTER R, LATIN SMALL LETTER N''),
      (0x1d45b, ''n'', ''LATIN SMALL LETTER N''),
      (0x1d45c, ''o'', ''LATIN SMALL LETTER O''),
      (0x1d45d, ''p'', ''LATIN SMALL LETTER P''),
      (0x1d45e, ''q'', ''LATIN SMALL LETTER Q''),
      (0x1d45f, ''r'', ''LATIN SMALL LETTER R''),
      (0x1d460, ''s'', ''LATIN SMALL LETTER S''),
      (0x1d461, ''t'', ''LATIN SMALL LETTER T''),
      (0x1d462, ''u'', ''LATIN SMALL LETTER U''),
      (0x1d463, ''v'', ''LATIN SMALL LETTER V''),
      (0x1d464, ''w'', ''LATIN SMALL LETTER W''),
      (0x1d465, ''x'', ''LATIN SMALL LETTER X''),
      (0x1d466, ''y'', ''LATIN SMALL LETTER Y''),
      (0x1d467, ''z'', ''LATIN SMALL LETTER Z''),
      (0x1d468, ''A'', ''LATIN CAPITAL LETTER A''),
      (0x1d469, ''B'', ''LATIN CAPITAL LETTER B''),
      (0x1d46a, ''C'', ''LATIN CAPITAL LETTER C''),
      (0x1d46b, ''D'', ''LATIN CAPITAL LETTER D''),
      (0x1d46c, ''E'', ''LATIN CAPITAL LETTER E''),
      (0x1d46d, ''F'', ''LATIN CAPITAL LETTER F''),
      (0x1d46e, ''G'', ''LATIN CAPITAL LETTER G''),
      (0x1d46f, ''H'', ''LATIN CAPITAL LETTER H''),
      (0x1d470, ''l'', ''LATIN SMALL LETTER L''),
      (0x1d471, ''J'', ''LATIN CAPITAL LETTER J''),
      (0x1d472, ''K'', ''LATIN CAPITAL LETTER K''),
      (0x1d473, ''L'', ''LATIN CAPITAL LETTER L''),
      (0x1d474, ''M'', ''LATIN CAPITAL LETTER M''),
      (0x1d475, ''N'', ''LATIN CAPITAL LETTER N''),
      (0x1d476, ''O'', ''LATIN CAPITAL LETTER O''),
      (0x1d477, ''P'', ''LATIN CAPITAL LETTER P''),
      (0x1d478, ''Q'', ''LATIN CAPITAL LETTER Q''),
      (0x1d479, ''R'', ''LATIN CAPITAL LETTER R''),
      (0x1d47a, ''S'', ''LATIN CAPITAL LETTER S''),
      (0x1d47b, ''T'', ''LATIN CAPITAL LETTER T''),
      (0x1d47c, ''U'', ''LATIN CAPITAL LETTER U''),
      (0x1d47d, ''V'', ''LATIN CAPITAL LETTER V''),
      (0x1d47e, ''W'', ''LATIN CAPITAL LETTER W''),
      (0x1d47f, ''X'', ''LATIN CAPITAL LETTER X''),
      (0x1d480, ''Y'', ''LATIN CAPITAL LETTER Y'')]"

definition confusables_08 :: "raw_row list" where
  "confusables_08 =
     [(0x1d481, ''Z'', ''LATIN CAPITAL LETTER Z''),
      (0x1d482, ''a'', ''LATIN SMALL LETTER A''),
      (0x1d483, ''b'', ''LATIN SMALL LETTER B''),
      (0x1d484, ''c'', ''LATIN SMALL LETTER C''),
      (0x1d485, ''d'', ''LATIN SMALL LETTER D''),
      (0x1d486, ''e'', ''LATIN SMALL LETTER E''),
      (0x1d487, ''f'', ''LATIN SMALL LETTER F''),
      (0x1d488, ''g'', ''LATIN SMALL LETTER G''),
      (0x1d489, ''h'', ''LATIN SMALL LETTER H''),
      (0x1d48a, ''i'', ''LATIN SMALL LETTER I''),
      (0x1d48b, ''j'', ''LATIN SMALL LETTER J''),
      (0x1d48c, ''k'', ''LATIN SMALL LETTER K''),
      (0x1d48d, ''l'', ''LATIN SMALL LETTER L''),
      (0x1d48e, ''rn'', ''LATIN SMALL LETTER R, LATIN SMALL LETTER N''),
      (0x1d48f, ''n'', ''LATIN SMALL LETTER N''),
      (0x1d490, ''o'', ''LATIN SMALL LETTER O''),
      (0x1d491, ''p'', ''LATIN SMALL LETTER P''),
      (0x1d492, ''q'', ''LATIN SMALL LETTER Q''),
      (0x1d493, ''r'', ''LATIN SMALL LETTER R''),
      (0x1d494, ''s'', ''LATIN SMALL LETTER S''),
      (0x1d495, ''t'', ''LATIN SMALL LETTER T''),
      (0x1d496, ''u'', ''LATIN SMALL LETTER U''),
      (0x1d497, ''v'', ''LATIN SMALL LETTER V''),
      (0x1d498, ''w'', ''LATIN SMALL LETTER W''),
      (0x1d499, ''x'', ''LATIN SMALL LETTER X''),
      (0x1d49a, ''y'', ''LATIN SMALL LETTER Y''),
      (0x1d49b, ''z'', ''LATIN SMALL LETTER Z''),
      (0x1d49c, ''A'', ''LATIN CAPITAL LETTER A''),
      (0x1d49e, ''C'', ''LATIN CAPITAL LETTER C''),
      (0x1d49f, ''D'', ''LATIN CAPITAL LETTER D''),
      (0x1d4a2, ''G'', ''LATIN CAPITAL LETTER G''),
      (0x1d4a5, ''J'', ''LATIN CAPITAL LETTER J''),
      (0x1d4a6, ''K'', ''LATIN CAPITAL LETTER K''),
      (0x1d4a9, ''N'', ''LATIN CAPITAL LETTER N''),
      (0x1d4aa, ''O'', ''LATIN CAPITAL LETTER O''),
      (0x1d4ab, ''P'', ''LATIN CAPITAL LETTER P''),
      (0x1d4ac, ''Q'', ''LATIN CAPITAL LETTER Q''),
      (0x1d4ae, ''S'', ''LATIN CAPITAL LETTER S''),
      (0x1d4af, ''T'', ''LATIN CAPITAL LETTER T''),
      (0x1d4b0, ''U'', ''LATIN CAPITAL LETTER U''),
      (0x1d4b1, ''V'', ''LATIN CAPITAL LETTER V''),
      (0x1d4b2, ''W'', ''LATIN CAPITAL LETTER W''),
      (0x1d4b3, ''X'', ''LATIN CAPITAL LETTER X''),
      (0x1d4b4, ''Y'', ''LATIN CAPITAL LETTER Y''),
      (0x1d4b5, ''Z'', ''LATIN CAPITAL LETTER Z''),
      (0x1d4b6, ''a'', ''LATIN SMALL LETTER A''),
      (0x1d4b7, ''b'', ''LATIN SMALL LETTER B''),
      (0x1d4b8, ''c'', ''LATIN SMALL LETTER C''),
      (0x1d4b9, ''d'', ''LATIN SMALL LETTER D''),
      (0x1d4bb, ''f'', ''LATIN SMALL LETTER F''),
      (0x1d4bd, ''h'', ''LATIN SMALL LETTER H''),
      (0x1d4be, ''i'', ''LATIN SMALL LETTER I''),
      (0x1d4bf, ''j'', ''LATIN SMALL LETTER J''),
      (0x1d4c0, ''k'', ''LATIN SMALL LETTER K''),
      (0x1d4c1, ''l'', ''LATIN SMALL LETTER L''),
      (0x1d4c2, ''rn'', ''LATIN SMALL LETTER R, LATIN SMALL LETTER N''),
      (0x1d4c3, ''n'', ''LATIN SMALL LETTER N''),
      (0x1d4c5, ''p'', ''LATIN SMALL LETTER P''),
      (0x1d4c6, ''q'', ''LATIN SMALL LETTER Q''),
      (0x1d4c7, ''r'', ''LATIN SMALL LETTER R''),
      (0x1d4c8, ''s'', ''LATIN SMALL LETTER S''),
      (0x1d4c9, ''t'', ''LATIN SMALL LETTER T''),
      (0x1d4ca, ''u'', ''LATIN SMALL LETTER U''),
      (0x1d4cb, ''v'', ''LATIN SMALL LETTER V''),
      (0x1d4cc, ''w'', ''LATIN SMALL LETTER W''),
      (0x1d4cd, ''x'', ''LATIN SMALL LETTER X''),
      (0x1d4ce, ''y'', ''LATIN SMALL LETTER Y''),
      (0x1d4cf, ''z'', ''LATIN SMALL LETTER Z''),
      (0x1d4d0, ''A'', ''LATIN CAPITAL LETTER A''),
      (0x1d4d1, ''B'', ''LATIN CAPITAL LETTER B''),
      (0x1d4d2, ''C'', ''LATIN CAPITAL LETTER C''),
      (0x1d4d3, ''D'', ''LATIN CAPITAL LETTER D''),
      (0x1d4d4, ''E'', ''LATIN CAPITAL LETTER E''),
      (0x1d4d5, ''F'', ''LATIN CAPITAL LETTER F''),
      (0x1d4d6, ''G'', ''LATIN CAPITAL LETTER G''),
      (0x1d4d7, ''H'', ''LATIN CAPITAL LETTER H''),
      (0x1d4d8, ''l'', ''LATIN SMALL LETTER L''),
      (0x1d4d9, ''J'', ''LATIN CAPITAL LETTER J''),
      (0x1d4da, ''K'', ''LATIN CAPITAL LETTER K''),
      (0x1d4db, ''L'', ''LATIN CAPITAL LETTER L''),
      (0x1d4dc, ''M'', ''LATIN CAPITAL LETTER M''),
      (0x1d4dd, ''N'', ''LATIN CAPITAL LETTER N''),
      (0x1d4de, ''O'', ''LATIN CAPITAL LETTER O''),
      (0x1d4df, ''P'', ''LATIN CAPITAL LETTER P''),
      (0x1d4e0, ''Q'', ''LATIN CAPITAL LETTER Q''),
      (0x1d4e1, ''R'', ''LATIN CAPITAL LETTER R''),
      (0x1d4e2, ''S'', ''LATIN CAPITAL LETTER S''),
      (0x1d4e3, ''T'', ''LATIN CAPITAL LETTER T''),
      (0x1d4e4, ''U'', ''LATIN CAPITAL LETTER U''),
      (0x1d4e5, ''V'', ''LATIN CAPITAL LETTER V''),
      (0x1d4e6, ''W'', ''LATIN CAPITAL LETTER W''),
      (0x1d4e7, ''X'', ''LATIN CAPITAL LETTER X''),
      (0x1d4e8, ''Y'', ''LATIN CAPITAL LETTER Y''),
      (0x1d4e9, ''Z'', ''LATIN CAPITAL LETTER Z''),
      (0x1d4ea, ''a'', ''LATIN SMALL LETTER A''),
      (0x1d4eb, ''b'', ''LATIN SMALL LETTER B''),
      (0x1d4ec, ''c'', ''LATIN SMALL LETTER C''),
      (0x1d4ed, ''d'', ''LATIN SMALL LETTER D''),
      (0x1d4ee, ''e'', ''LATIN SMALL LETTER E''),
      (0x1d4ef, ''f'', ''LATIN SMALL LETTER F''),
      (0x1d4f0, ''g'', ''LATIN SMALL LETTER G'')]"

definition confusables_09 :: "raw_row list" where
  "confusables_09 =
     [(0x1d4f1, ''h'', ''LATIN SMALL LETTER H''),
      (0x1d4f2, ''i'', ''LATIN SMALL LETTER I''),
      (0x1d4f3, ''j'', ''LATIN SMALL LETTER J''),
      (0x1d4f4, ''k'', ''LATIN SMALL LETTER K''),
      (0x1d4f5, ''l'', ''LATIN SMALL LETTER L''),
      (0x1d4f6, ''rn'', ''LATIN SMALL LETTER R, LATIN SMALL LETTER N''),
      (0x1d4f7, ''n'', ''LATIN SMALL LETTER N''),
      (0x1d4f8, ''o'', ''LATIN SMALL LETTER O''),
      (0x1d4f9, ''p'', ''LATIN SMALL LETTER P''),
      (0x1d4fa, ''q'', ''LATIN SMALL LETTER Q''),
      (0x1d4fb, ''r'', ''LATIN SMALL LETTER R''),
      (0x1d4fc, ''s'', ''LATIN SMALL LETTER S''),
      (0x1d4fd, ''t'', ''LATIN SMALL LETTER T''),
      (0x1d4fe, ''u'', ''LATIN SMALL LETTER U''),
      (0x1d4ff, ''v'', ''LATIN SMALL LETTER V''),
      (0x1d500, ''w'', ''LATIN SMALL LETTER W''),
      (0x1d501, ''x'', ''LATIN SMALL LETTER X''),
      (0x1d502, ''y'', ''LATIN SMALL LETTER Y''),
      (0x1d503, ''z'', ''LATIN SMALL LETTER Z''),
      (0x1d504, ''A'', ''LATIN CAPITAL LETTER A''),
      (0x1d505, ''B'', ''LATIN CAPITAL LETTER B''),
      (0x1d507, ''D'', ''LATIN CAPITAL LETTER D''),
      (0x1d508, ''E'', ''LATIN CAPITAL LETTER E''),
      (0x1d509, ''F'', ''LATIN CAPITAL LETTER F''),
      (0x1d50a, ''G'', ''LATIN CAPITAL LETTER G''),
      (0x1d50d, ''J'', ''LATIN CAPITAL LETTER J''),
      (0x1d50e, ''K'', ''LATIN CAPITAL LETTER K''),
      (0x1d50f, ''L'', ''LATIN CAPITAL LETTER L''),
      (0x1d510, ''M'', ''LATIN CAPITAL LETTER M''),
      (0x1d511, ''N'', ''LATIN CAPITAL LETTER N''),
      (0x1d512, ''O'', ''LATIN CAPITAL LETTER O''),
      (0x1d513, ''P'', ''LATIN CAPITAL LETTER P''),
      (0x1d514, ''Q'', ''LATIN CAPITAL LETTER Q''),
      (0x1d516, ''S'', ''LATIN CAPITAL LETTER S''),
      (0x1d517, ''T'', ''LATIN CAPITAL LETTER T''),
      (0x1d518, ''U'', ''LATIN CAPITAL LETTER U''),
      (0x1d519, ''V'', ''LATIN CAPITAL LETTER V''),
      (0x1d51a, ''W'', ''LATIN CAPITAL LETTER W''),
      (0x1d51b, ''X'', ''LATIN CAPITAL LETTER X''),
      (0x1d51c, ''Y'', ''LATIN CAPITAL LETTER Y''),
      (0x1d51e, ''a'', ''LATIN SMALL LETTER A''),
      (0x1d51f, ''b'', ''LATIN SMALL LETTER B''),
      (0x1d520, ''c'', ''LATIN SMALL LETTER C''),
      (0x1d521, ''d'', ''LATIN SMALL LETTER D''),
      (0x1d522, ''e'', ''LATIN SMALL LETTER E''),
      (0x1d523, ''f'', ''LATIN SMALL LETTER F''),
      (0x1d524, ''g'', ''LATIN SMALL LETTER G''),
      (0x1d525, ''h'', ''LATIN SMALL LETTER H''),
      (0x1d526, ''i'', ''LATIN SMALL LETTER I''),
      (0x1d527, ''j'', ''LATIN SMALL LETTER J''),
      (0x1d528, ''k'', ''LATIN SMALL LETTER K''),
      (0x1d529, ''l'', ''LATIN SMALL LETTER L''),
      (0x1d52a, ''rn'', ''LATIN SMALL LETTER R, LATIN SMALL LETTER N''),
      (0x1d52b, ''n'', ''LATIN SMALL LETTER N''),
      (0x1d52c, ''o'', ''LATIN SMALL LETTER O''),
      (0x1d52d, ''p'', ''LATIN SMALL LETTER P''),
      (0x1d52e, ''q'', ''LATIN SMALL LETTER Q''),
      (0x1d52f, ''r'', ''LATIN SMALL LETTER R''),
      (0x1d530, ''s'', ''LATIN SMALL LETTER S''),
      (0x1d531, ''t'', ''LATIN SMALL LETTER T''),
      (0x1d532, ''u'', ''LATIN SMALL LETTER U''),
      (0x1d533, ''v'', ''LATIN SMALL LETTER V''),
      (0x1d534, ''w'', ''LATIN SMALL LETTER W''),
      (0x1d535, ''x'', ''LATIN SMALL LETTER X''),
      (0x1d536, ''y'', ''LATIN SMALL LETTER Y''),
      (0x1d537, ''z'', ''LATIN SMALL LETTER Z''),
      (0x1d538, ''A'', ''LATIN CAPITAL LETTER A''),
      (0x1d539, ''B'', ''LATIN CAPITAL LETTER B''),
      (0x1d53b, ''D'', ''LATIN CAPITAL LETTER D''),
      (0x1d53c, ''E'', ''LATIN CAPITAL LETTER E''),
      (0x1d53d, ''F'', ''LATIN CAPITAL LETTER F''),
      (0x1d53e, ''G'', ''LATIN CAPITAL LETTER G''),
      (0x1d540, ''l'', ''LATIN SMALL LETTER L''),
      (0x1d541, ''J'', ''LATIN CAPITAL LETTER J''),
      (0x1d542, ''K'', ''LATIN CAPITAL LETTER K''),
      (0x1d543, ''L'', ''LATIN CAPITAL LETTER L''),
      (0x1d544, ''M'', ''LATIN CAPITAL LETTER M''),
      (0x1d546, ''O'', ''LATIN CAPITAL LETTER O''),
      (0x1d54a, ''S'', ''LATIN CAPITAL LETTER S''),
      (0x1d54b, ''T'', ''LATIN CAPITAL LETTER T''),
      (0x1d54c, ''U'', ''LATIN CAPITAL LETTER U''),
      (0x1d54d, ''V'', ''LATIN CAPITAL LETTER V''),
      (0x1d54e, ''W'', ''LATIN CAPITAL LETTER W''),
      (0x1d54f, ''X'', ''LATIN CAPITAL LETTER X''),
      (0x1d550, ''Y'', ''LATIN CAPITAL LETTER Y''),
      (0x1d552, ''a'', ''LATIN SMALL LETTER A''),
      (0x1d553, ''b'', ''LATIN SMALL LETTER B''),
      (0x1d554, ''c'', ''LATIN SMALL LETTER C''),
      (0x1d555, ''d'', ''LATIN SMALL LETTER D''),
      (0x1d556, ''e'', ''LATIN SMALL LETTER E''),
      (0x1d557, ''f'', ''LATIN SMALL LETTER F''),
      (0x1d558, ''g'', ''LATIN SMALL LETTER G''),
      (0x1d559, ''h'', ''LATIN SMALL LETTER H''),
      (0x1d55a, ''i'', ''LATIN SMALL LETTER I''),
      (0x1d55b, ''j'', ''LATIN SMALL LETTER J''),
      (0x1d55c, ''k'', ''LATIN SMALL LETTER K''),
      (0x1d55d, ''l'', ''LATIN SMALL LETTER L''),
      (0x1d55e, ''rn'', ''LATIN SMALL LETTER R, LATIN SMALL LETTER N''),
      (0x1d55f, ''n'', ''LATIN SMALL LETTER N''),
      (0x1d560, ''o'', ''LATIN SMALL LETTER O''),
      (0x1d561, ''p'', ''LATIN SMALL LETTER P'')]"

definition confusables_10 :: "raw_row list" where
  "confusables_10 =
     [(0x1d562, ''q'', ''LATIN SMALL LETTER Q''),
      (0x1d563, ''r'', ''LATIN SMALL LETTER R''),
      (0x1d564, ''s'', ''LATIN SMALL LETTER S''),
      (0x1d565, ''t'', ''LATIN SMALL LETTER T''),
      (0x1d566, ''u'', ''LATIN SMALL LETTER U''),
      (0x1d567, ''v'', ''LATIN SMALL LETTER V''),
      (0x1d568, ''w'', ''LATIN SMALL LETTER W''),
      (0x1d569, ''x'', ''LATIN SMALL LETTER X''),
      (0x1d56a, ''y'', ''LATIN SMALL LETTER Y''),
      (0x1d56b, ''z'', ''LATIN SMALL LETTER Z''),
      (0x1d56c, ''A'', ''LATIN CAPITAL LETTER A''),
      (0x1d56d, ''B'', ''LATIN CAPITAL LETTER B''),
      (0x1d56e, ''C'', ''LATIN CAPITAL LETTER C''),
      (0x1d56f, ''D'', ''LATIN CAPITAL LETTER D''),
      (0x1d570, ''E'', ''LATIN CAPITAL LETTER E''),
      (0x1d571, ''F'', ''LATIN CAPITAL LETTER F''),
      (0x1d572, ''G'', ''LATIN CAPITAL LETTER G''),
      (0x1d573, ''H'', ''LATIN CAPITAL LETTER H''),
      (0x1d574, ''l'', ''LATIN SMALL LETTER L''),
      (0x1d575, ''J'', ''LATIN CAPITAL LETTER J''),
      (0x1d576, ''K'', ''LATIN CAPITAL LETTER K''),
      (0x1d577, ''L'', ''LATIN CAPITAL LETTER L''),
      (0x1d578, ''M'', ''LATIN CAPITAL LETTER M''),
      (0x1d579, ''N'', ''LATIN CAPITAL LETTER N''),
      (0x1d57a, ''O'', ''LATIN CAPITAL LETTER O''),
      (0x1d57b, ''P'', ''LATIN CAPITAL LETTER P''),
      (0x1d57c, ''Q'', ''LATIN CAPITAL LETTER Q''),
      (0x1d57d, ''R'', ''LATIN CAPITAL LETTER R''),
      (0x1d57e, ''S'', ''LATIN CAPITAL LETTER S''),
      (0x1d57f, ''T'', ''LATIN CAPITAL LETTER T''),
      (0x1d580, ''U'', ''LATIN CAPITAL LETTER U''),
      (0x1d581, ''V'', ''LATIN CAPITAL LETTER V''),
      (0x1d582, ''W'', ''LATIN CAPITAL LETTER W''),
      (0x1d583, ''X'', ''LATIN CAPITAL LETTER X''),
      (0x1d584, ''Y'', ''LATIN CAPITAL LETTER Y''),
      (0x1d585, ''Z'', ''LATIN CAPITAL LETTER Z''),
      (0x1d586, ''a'', ''LATIN SMALL LETTER A''),
      (0x1d587, ''b'', ''LATIN SMALL LETTER B''),
      (0x1d588, ''c'', ''LATIN SMALL LETTER C''),
      (0x1d589, ''d'', ''LATIN SMALL LETTER D''),
      (0x1d58a, ''e'', ''LATIN SMALL LETTER E''),
      (0x1d58b, ''f'', ''LATIN SMALL LETTER F''),
      (0x1d58c, ''g'', ''LATIN SMALL LETTER G''),
      (0x1d58d, ''h'', ''LATIN SMALL LETTER H''),
      (0x1d58e, ''i'', ''LATIN SMALL LETTER I''),
      (0x1d58f, ''j'', ''LATIN SMALL LETTER J''),
      (0x1d590, ''k'', ''LATIN SMALL LETTER K''),
      (0x1d591, ''l'', ''LATIN SMALL LETTER L''),
      (0x1d592, ''rn'', ''LATIN SMALL LETTER R, LATIN SMALL LETTER N''),
      (0x1d593, ''n'', ''LATIN SMALL LETTER N''),
      (0x1d594, ''o'', ''LATIN SMALL LETTER O''),
      (0x1d595, ''p'', ''LATIN SMALL LETTER P''),
      (0x1d596, ''q'', ''LATIN SMALL LETTER Q''),
      (0x1d597, ''r'', ''LATIN SMALL LETTER R''),
      (0x1d598, ''s'', ''LATIN SMALL LETTER S''),
      (0x1d599, ''t'', ''LATIN SMALL LETTER T''),
      (0x1d59a, ''u'', ''LATIN SMALL LETTER U''),
      (0x1d59b, ''v'', ''LATIN SMALL LETTER V''),
      (0x1d59c, ''w'', ''LATIN SMALL LETTER W''),
      (0x1d59d, ''x'', ''LATIN SMALL LETTER X''),
      (0x1d59e, ''y'', ''LATIN SMALL LETTER Y''),
      (0x1d59f, ''z'', ''LATIN SMALL LETTER Z''),
      (0x1d5a0, ''A'', ''LATIN CAPITAL LETTER A''),
      (0x1d5a1, ''B'', ''LATIN CAPITAL LETTER B''),
      (0x1d5a2, ''C'', ''LATIN CAPITAL LETTER C''),
      (0x1d5a3, ''D'', ''LATIN CAPITAL LETTER D''),
      (0x1d5a4, ''E'', ''LATIN CAPITAL LETTER E''),
      (0x1d5a5, ''F'', ''LATIN CAPITAL LETTER F''),
      (0x1d5a6, ''G'', ''LATIN CAPITAL LETTER G''),
      (0x1d5a7, ''H'', ''LATIN CAPITAL LETTER H''),
      (0x1d5a8, ''l'', ''LATIN SMALL LETTER L''),
      (0x1d5a9, ''J'', ''LATIN CAPITAL LETTER J''),
      (0x1d5aa, ''K'', ''LATIN CAPITAL LETTER K''),
      (0x1d5ab, ''L'', ''LATIN CAPITAL LETTER L''),
      (0x1d5ac, ''M'', ''LATIN CAPITAL LETTER M''),
      (0x1d5ad, ''N'', ''LATIN CAPITAL LETTER N''),
      (0x1d5ae, ''O'', ''LATIN CAPITAL LETTER O''),
      (0x1d5af, ''P'', ''LATIN CAPITAL LETTER P''),
      (0x1d5b0, ''Q'', ''LATIN CAPITAL LETTER Q''),
      (0x1d5b1, ''R'', ''LATIN CAPITAL LETTER R''),
      (0x1d5b2, ''S'', ''LATIN CAPITAL LETTER S''),
      (0x1d5b3, ''T'', ''LATIN CAPITAL LETTER T''),
      (0x1d5b4, ''U'', ''LATIN CAPITAL LETTER U''),
      (0x1d5b5, ''V'', ''LATIN CAPITAL LETTER V''),
      (0x1d5b6, ''W'', ''LATIN CAPITAL LETTER W''),
      (0x1d5b7, ''X'', ''LATIN CAPITAL LETTER X''),
      (0x1d5b8, ''Y'', ''LATIN CAPITAL LETTER Y''),
      (0x1d5b9, ''Z'', ''LATIN CAPITAL LETTER Z''),
      (0x1d5ba, ''a'', ''LATIN SMALL LETTER A''),
      (0x1d5bb, ''b'', ''LATIN SMALL LETTER B''),
      (0x1d5bc, ''c'', ''LATIN SMALL LETTER C''),
      (0x1d5bd, ''d'', ''LATIN SMALL LETTER D''),
      (0x1d5be, ''e'', ''LATIN SMALL LETTER E''),
      (0x1d5bf, ''f'', ''LATIN SMALL LETTER F''),
      (0x1d5c0, ''g'', ''LATIN SMALL LETTER G''),
      (0x1d5c1, ''h'', ''LATIN SMALL LETTER H''),
      (0x1d5c2, ''i'', ''LATIN SMALL LETTER I''),
      (0x1d5c3, ''j'', ''LATIN SMALL LETTER J''),
      (0x1d5c4, ''k'', ''LATIN SMALL LETTER K''),
      (0x1d5c5, ''l'', ''LATIN SMALL LETTER L''),
      (0x1d5c6, ''rn'', ''LATIN SMALL LETTER R, LATIN SMALL LETTER N'')]"

definition confusables_11 :: "raw_row list" where
  "confusables_11 =
     [(0x1d5c7, ''n'', ''LATIN SMALL LETTER N''),
      (0x1d5c8, ''o'', ''LATIN SMALL LETTER O''),
      (0x1d5c9, ''p'', ''LATIN SMALL LETTER P''),
      (0x1d5ca, ''q'', ''LATIN SMALL LETTER Q''),
      (0x1d5cb, ''r'', ''LATIN SMALL LETTER R''),
      (0x1d5cc, ''s'', ''LATIN SMALL LETTER S''),
      (0x1d5cd, ''t'', ''LATIN SMALL LETTER T''),
      (0x1d5ce, ''u'', ''LATIN SMALL LETTER U''),
      (0x1d5cf, ''v'', ''LATIN SMALL LETTER V''),
      (0x1d5d0, ''w'', ''LATIN SMALL LETTER W''),
      (0x1d5d1, ''x'', ''LATIN SMALL LETTER X''),
      (0x1d5d2, ''y'', ''LATIN SMALL LETTER Y''),
      (0x1d5d3, ''z'', ''LATIN SMALL LETTER Z''),
      (0x1d5d4, ''A'', ''LATIN CAPITAL LETTER A''),
      (0x1d5d5, ''B'', ''LATIN CAPITAL LETTER B''),
      (0x1d5d6, ''C'', ''LATIN CAPITAL LETTER C''),
      (0x1d5d7, ''D'', ''LATIN CAPITAL LETTER D''),
      (0x1d5d8, ''E'', ''LATIN CAPITAL LETTER E''),
      (0x1d5d9, ''F'', ''LATIN CAPITAL LETTER F''),
      (0x1d5da, ''G'', ''LATIN CAPITAL LETTER G''),
      (0x1d5db, ''H'', ''LATIN CAPITAL LETTER H''),
      (0x1d5dc, ''l'', ''LATIN SMALL LETTER L''),
      (0x1d5dd, ''J'', ''LATIN CAPITAL LETTER J''),
      (0x1d5de, ''K'', ''LATIN CAPITAL LETTER K''),
      (0x1d5df, ''L'', ''LATIN CAPITAL LETTER L''),
      (0x1d5e0, ''M'', ''LATIN CAPITAL LETTER M''),
      (0x1d5e1, ''N'', ''LATIN CAPITAL LETTER N''),
      (0x1d5e2, ''O'', ''LATIN CAPITAL LETTER O''),
      (0x1d5e3, ''P'', ''LATIN CAPITAL LETTER P''),
      (0x1d5e4, ''Q'', ''LATIN CAPITAL LETTER Q''),
      (0x1d5e5, ''R'', ''LATIN CAPITAL LETTER R''),
      (0x1d5e6, ''S'', ''LATIN CAPITAL LETTER S''),
      (0x1d5e7, ''T'', ''LATIN CAPITAL LETTER T''),
      (0x1d5e8, ''U'', ''LATIN CAPITAL LETTER U''),
      (0x1d5e9, ''V'', ''LATIN CAPITAL LETTER V''),
      (0x1d5ea, ''W'', ''LATIN CAPITAL LETTER W''),
      (0x1d5eb, ''X'', ''LATIN CAPITAL LETTER X''),
      (0x1d5ec, ''Y'', ''LATIN CAPITAL LETTER Y''),
      (0x1d5ed, ''Z'', ''LATIN CAPITAL LETTER Z''),
      (0x1d5ee, ''a'', ''LATIN SMALL LETTER A''),
      (0x1d5ef, ''b'', ''LATIN SMALL LETTER B''),
      (0x1d5f0, ''c'', ''LATIN SMALL LETTER C''),
      (0x1d5f1, ''d'', ''LATIN SMALL LETTER D''),
      (0x1d5f2, ''e'', ''LATIN SMALL LETTER E''),
      (0x1d5f3, ''f'', ''LATIN SMALL LETTER F''),
      (0x1d5f4, ''g'', ''LATIN SMALL LETTER G''),
      (0x1d5f5, ''h'', ''LATIN SMALL LETTER H''),
      (0x1d5f6, ''i'', ''LATIN SMALL LETTER I''),
      (0x1d5f7, ''j'', ''LATIN SMALL LETTER J''),
      (0x1d5f8, ''k'', ''LATIN SMALL LETTER K''),
      (0x1d5f9, ''l'', ''LATIN SMALL LETTER L''),
      (0x1d5fa, ''rn'', ''LATIN SMALL LETTER R, LATIN SMALL LETTER N''),
      (0x1d5fb, ''n'', ''LATIN SMALL LETTER N''),
      (0x1d5fc, ''o'', ''LATIN SMALL LETTER O''),
      (0x1d5fd, ''p'', ''LATIN SMALL LETTER P''),
      (0x1d5fe, ''q'', ''LATIN SMALL LETTER Q''),
      (0x1d5ff, ''r'', ''LATIN SMALL LETTER R''),
      (0x1d600, ''s'', ''LATIN SMALL LETTER S''),
      (0x1d601, ''t'', ''LATIN SMALL LETTER T''),
      (0x1d602, ''u'', ''LATIN SMALL LETTER U''),
      (0x1d603, ''v'', ''LATIN SMALL LETTER V''),
      (0x1d604, ''w'', ''LATIN SMALL LETTER W''),
      (0x1d605, ''x'', ''LATIN SMALL LETTER X''),
      (0x1d606, ''y'', ''LATIN SMALL LETTER Y''),
      (0x1d607, ''z'', ''LATIN SMALL LETTER Z''),
      (0x1d608, ''A'', ''LATIN CAPITAL LETTER A''),
      (0x1d609, ''B'', ''LATIN CAPITAL LETTER B''),
      (0x1d60a, ''C'', ''LATIN CAPITAL LETTER C''),
      (0x1d60b, ''D'', ''LATIN CAPITAL LETTER D''),
      (0x1d60c, ''E'', ''LATIN CAPITAL LETTER E''),
      (0x1d60d, ''F'', ''LATIN CAPITAL LETTER F''),
      (0x1d60e, ''G'', ''LATIN CAPITAL LETTER G''),
      (0x1d60f, ''H'', ''LATIN CAPITAL LETTER H''),
      (0x1d610, ''l'', ''LATIN SMALL LETTER L''),
      (0x1d611, ''J'', ''LATIN CAPITAL LETTER J''),
      (0x1d612, ''K'', ''LATIN CAPITAL LETTER K''),
      (0x1d613, ''L'', ''LATIN CAPITAL LETTER L''),
      (0x1d614, ''M'', ''LATIN CAPITAL LETTER M''),
      (0x1d615, ''N'', ''LATIN CAPITAL LETTER N''),
      (0x1d616, ''O'', ''LATIN CAPITAL LETTER O''),
      (0x1d617, ''P'', ''LATIN CAPITAL LETTER P''),
      (0x1d618, ''Q'', ''LATIN CAPITAL LETTER Q''),
      (0x1d619, ''R'', ''LATIN CAPITAL LETTER R''),
      (0x1d61a, ''S'', ''LATIN CAPITAL LETTER S''),
      (0x1d61b, ''T'', ''LATIN CAPITAL LETTER T''),
      (0x1d61c, ''U'', ''LATIN CAPITAL LETTER U''),
      (0x1d61d, ''V'', ''LATIN CAPITAL LETTER V''),
      (0x1d61e, ''W'', ''LATIN CAPITAL LETTER W''),
      (0x1d61f, ''X'', ''LATIN CAPITAL LETTER X''),
      (0x1d620, ''Y'', ''LATIN CAPITAL LETTER Y''),
      (0x1d621, ''Z'', ''LATIN CAPITAL LETTER Z''),
      (0x1d622, ''a'', ''LATIN SMALL LETTER A''),
      (0x1d623, ''b'', ''LATIN SMALL LETTER B''),
      (0x1d624, ''c'', ''LATIN SMALL LETTER C''),
      (0x1d625, ''d'', ''LATIN SMALL LETTER D''),
      (0x1d626, ''e'', ''LATIN SMALL LETTER E''),
      (0x1d627, ''f'', ''LATIN SMALL LETTER F''),
      (0x1d628, ''g'', ''LATIN SMALL LETTER G''),
      (0x1d629, ''h'', ''LATIN SMALL LETTER H''),
      (0x1d62a, ''i'', ''LATIN SMALL LETTER I''),
      (0x1d62b, ''j'', ''LATIN SMALL LETTER J'')]"

definition confusables_12 :: "raw_row list" where
  "confusables_12 =
     [(0x1d62c, ''k'', ''LATIN SMALL LETTER K''),
      (0x1d62d, ''l'', ''LATIN SMALL LETTER L''),
      (0x1d62e, ''rn'', ''LATIN SMALL LETTER R, LATIN SMALL LETTER N''),
      (0x1d62f, ''n'', ''LATIN SMALL LETTER N''),
      (0x1d630, ''o'', ''LATIN SMALL LETTER O''),
      (0x1d631, ''p'', ''LATIN SMALL LETTER P''),
      (0x1d632, ''q'', ''LATIN SMALL LETTER Q''),
      (0x1d633, ''r'', ''LATIN SMALL LETTER R''),
      (0x1d634, ''s'', ''LATIN SMALL LETTER S''),
      (0x1d635, ''t'', ''LATIN SMALL LETTER T''),
      (0x1d636, ''u'', ''LATIN SMALL LETTER U''),
      (0x1d637, ''v'', ''LATIN SMALL LETTER V''),
      (0x1d638, ''w'', ''LATIN SMALL LETTER W''),
      (0x1d639, ''x'', ''LATIN SMALL LETTER X''),
      (0x1d63a, ''y'', ''LATIN SMALL LETTER Y''),
      (0x1d63b, ''z'', ''LATIN SMALL LETTER Z''),
      (0x1d63c, ''A'', ''LATIN CAPITAL LETTER A''),
      (0x1d63d, ''B'', ''LATIN CAPITAL LETTER B''),
      (0x1d63e, ''C'', ''LATIN CAPITAL LETTER C''),
      (0x1d63f, ''D'', ''LATIN CAPITAL LETTER D''),
      (0x1d640, ''E'', ''LATIN CAPITAL LETTER E''),
      (0x1d641, ''F'', ''LATIN CAPITAL LETTER F''),
      (0x1d642, ''G'', ''LATIN CAPITAL LETTER G''),
      (0x1d643, ''H'', ''LATIN CAPITAL LETTER H''),
      (0x1d644, ''l'', ''LATIN SMALL LETTER L''),
      (0x1d645, ''J'', ''LATIN CAPITAL LETTER J''),
      (0x1d646, ''K'', ''LATIN CAPITAL LETTER K''),
      (0x1d647, ''L'', ''LATIN CAPITAL LETTER L''),
      (0x1d648, ''M'', ''LATIN CAPITAL LETTER M''),
      (0x1d649, ''N'', ''LATIN CAPITAL LETTER N''),
      (0x1d64a, ''O'', ''LATIN CAPITAL LETTER O''),
      (0x1d64b, ''P'', ''LATIN CAPITAL LETTER P''),
      (0x1d64c, ''Q'', ''LATIN CAPITAL LETTER Q''),
      (0x1d64d, ''R'', ''LATIN CAPITAL LETTER R''),
      (0x1d64e, ''S'', ''LATIN CAPITAL LETTER S''),
      (0x1d64f, ''T'', ''LATIN CAPITAL LETTER T''),
      (0x1d650, ''U'', ''LATIN CAPITAL LETTER U''),
      (0x1d651, ''V'', ''LATIN CAPITAL LETTER V''),
      (0x1d652, ''W'', ''LATIN CAPITAL LETTER W''),
      (0x1d653, ''X'', ''LATIN CAPITAL LETTER X''),
      (0x1d654, ''Y'', ''LATIN CAPITAL LETTER Y''),
      (0x1d655, ''Z'', ''LATIN CAPITAL LETTER Z''),
      (0x1d656, ''a'', ''LATIN SMALL LETTER A''),
      (0x1d657, ''b'', ''LATIN SMALL LETTER B''),
      (0x1d658, ''c'', ''LATIN SMALL LETTER C''),
      (0x1d659, ''d'', ''LATIN SMALL LETTER D''),
      (0x1d65a, ''e'', ''LATIN SMALL LETTER E''),
      (0x1d65b, ''f'', ''LATIN SMALL LETTER F''),
      (0x1d65c, ''g'', ''LATIN SMALL LETTER G''),
      (0x1d65d, ''h'', ''LATIN SMALL LETTER H''),
      (0x1d65e, ''i'', ''LATIN SMALL LETTER I''),
      (0x1d65f, ''j'', ''LATIN SMALL LETTER J''),
      (0x1d660, ''k'', ''LATIN SMALL LETTER K''),
      (0x1d661, ''l'', ''LATIN SMALL LETTER L''),
      (0x1d662, ''rn'', ''LATIN SMALL LETTER R, LATIN SMALL LETTER N''),
      (0x1d663, ''n'', ''LATIN SMALL LETTER N''),
      (0x1d664, ''o'', ''LATIN SMALL LETTER O''),
      (0x1d665, ''p'', ''LATIN SMALL LETTER P''),
      (0x1d666, ''q'', ''LATIN SMALL LETTER Q''),
      (0x1d667, ''r'', ''LATIN SMALL LETTER R''),
      (0x1d668, ''s'', ''LATIN SMALL LETTER S''),
      (0x1d669, ''t'', ''LATIN SMALL LETTER T''),
      (0x1d66a, ''u'', ''LATIN SMALL LETTER U''),
      (0x1d66b, ''v'', ''LATIN SMALL LETTER V''),
      (0x1d66c, ''w'', ''LATIN SMALL LETTER W''),
      (0x1d66d, ''x'', ''LATIN SMALL LETTER X''),
      (0x1d66e, ''y'', ''LATIN SMALL LETTER Y''),
      (0x1d66f, ''z'', ''LATIN SMALL LETTER Z''),
      (0x1d670, ''A'', ''LATIN CAPITAL LETTER A''),
      (0x1d671, ''B'', ''LATIN CAPITAL LETTER B''),
      (0x1d672, ''C'', ''LATIN CAPITAL LETTER C''),
      (0x1d673, ''D'', ''LATIN CAPITAL LETTER D''),
      (0x1d674, ''E'', ''LATIN CAPITAL LETTER E''),
      (0x1d675, ''F'', ''LATIN CAPITAL LETTER F''),
      (0x1d676, ''G'', ''LATIN CAPITAL LETTER G''),
      (0x1d677, ''H'', ''LATIN CAPITAL LETTER H''),
      (0x1d678, ''l'', ''LATIN SMALL LETTER L''),
      (0x1d679, ''J'', ''LATIN CAPITAL LETTER J''),
      (0x1d67a, ''K'', ''LATIN CAPITAL LETTER K''),
      (0x1d67b, ''L'', ''LATIN CAPITAL LETTER L''),
      (0x1d67c, ''M'', ''LATIN CAPITAL LETTER M''),
      (0x1d67d, ''N'', ''LATIN CAPITAL LETTER N''),
      (0x1d67e, ''O'', ''LATIN CAPITAL LETTER O''),
      (0x1d67f, ''P'', ''LATIN CAPITAL LETTER P''),
      (0x1d680, ''Q'', ''LATIN CAPITAL LETTER Q''),
      (0x1d681, ''R'', ''LATIN CAPITAL LETTER R''),
      (0x1d682, ''S'', ''LATIN CAPITAL LETTER S''),
      (0x1d683, ''T'', ''LATIN CAPITAL LETTER T''),
      (0x1d684, ''U'', ''LATIN CAPITAL LETTER U''),
      (0x1d685, ''V'', ''LATIN CAPITAL LETTER V''),
      (0x1d686, ''W'', ''LATIN CAPITAL LETTER W''),
      (0x1d687, ''X'', ''LATIN CAPITAL LETTER X''),
      (0x1d688, ''Y'', ''LATIN CAPITAL LETTER Y''),
      (0x1d689, ''Z'', ''LATIN CAPITAL LETTER Z''),
      (0x1d68a, ''a'', ''LATIN SMALL LETTER A''),
      (0x1d68b, ''b'', ''LATIN SMALL LETTER B''),
      (0x1d68c, ''c'', ''LATIN SMALL LETTER C''),
      (0x1d68d, ''d'', ''LATIN SMALL LETTER D''),
      (0x1d68e, ''e'', ''LATIN SMALL LETTER E''),
      (0x1d68f, ''f'', ''LATIN SMALL LETTER F''),
      (0x1d690, ''g'', ''LATIN SMALL LETTER G'')]"

definition confusables_13 :: "raw_row list" where
  "confusables_13 =
     [(0x1d691, ''h'', ''LATIN SMALL LETTER H''),
      (0x1d692, ''i'', ''LATIN SMALL LETTER I''),
      (0x1d693, ''j'', ''LATIN SMALL LETTER J''),
      (0x1d694, ''k'', ''LATIN SMALL LETTER K''),
      (0x1d695, ''l'', ''LATIN SMALL LETTER L''),
      (0x1d696, ''rn'', ''LATIN SMALL LETTER R, LATIN SMALL LETTER N''),
      (0x1d697, ''n'', ''LATIN SMALL LETTER N''),
      (0x1d698, ''o'', ''LATIN SMALL LETTER O''),
      (0x1d699, ''p'', ''LATIN SMALL LETTER P''),
      (0x1d69a, ''q'', ''LATIN SMALL LETTER Q''),
      (0x1d69b, ''r'', ''LATIN SMALL LETTER R''),
      (0x1d69c, ''s'', ''LATIN SMALL LETTER S''),
      (0x1d69d, ''t'', ''LATIN SMALL LETTER T''),
      (0x1d69e, ''u'', ''LATIN SMALL LETTER U''),
      (0x1d69f, ''v'', ''LATIN SMALL LETTER V''),
      (0x1d6a0, ''w'', ''LATIN SMALL LETTER W''),
      (0x1d6a1, ''x'', ''LATIN SMALL LETTER X''),
      (0x1d6a2, ''y'', ''LATIN SMALL LETTER Y''),
      (0x1d6a3, ''z'', ''LATIN SMALL LETTER Z''),
      (0x1d6a4, ''i'', ''LATIN SMALL LETTER I''),
      (0x1d6a8, ''A'', ''LATIN CAPITAL LETTER A''),
      (0x1d6a9, ''B'', ''LATIN CAPITAL LETTER B''),
      (0x1d6ac, ''E'', ''LATIN CAPITAL LETTER E''),
      (0x1d6ad, ''Z'', ''LATIN CAPITAL LETTER Z''),
      (0x1d6ae, ''H'', ''LATIN CAPITAL LETTER H''),
      (0x1d6b0, ''l'', ''LATIN SMALL LETTER L''),
      (0x1d6b1, ''K'', ''LATIN CAPITAL LETTER K''),
      (0x1d6b3, ''M'', ''LATIN CAPITAL LETTER M''),
      (0x1d6b4, ''N'', ''LATIN CAPITAL LETTER N''),
      (0x1d6b6, ''O'', ''LATIN CAPITAL LETTER O''),
      (0x1d6b8, ''P'', ''LATIN CAPITAL LETTER P''),
      (0x1d6bb, ''T'', ''LATIN CAPITAL LETTER T''),
      (0x1d6bc, ''Y'', ''LATIN CAPITAL LETTER Y''),
      (0x1d6be, ''X'', ''LATIN CAPITAL LETTER X''),
      (0x1d6c2, ''a'', ''LATIN SMALL LETTER A''),
      (0x1d6c4, ''y'', ''LATIN SMALL LETTER Y''),
      (0x1d6ca, ''i'', ''LATIN SMALL LETTER I''),
      (0x1d6ce, ''v'', ''LATIN SMALL LETTER V''),
      (0x1d6d0, ''o'', ''LATIN SMALL LETTER O''),
      (0x1d6d2, ''p'', ''LATIN SMALL LETTER P''),
      (0x1d6d4, ''o'', ''LATIN SMALL LETTER O''),
      (0x1d6d6, ''u'', ''LATIN SMALL LETTER U''),
      (0x1d6e0, ''p'', ''LATIN SMALL LETTER P''),
      (0x1d6e2, ''A'', ''LATIN CAPITAL LETTER A''),
      (0x1d6e3, ''B'', ''LATIN CAPITAL LETTER B''),
      (0x1d6e6, ''E'', ''LATIN CAPITAL LETTER E''),
      (0x1d6e7, ''Z'', ''LATIN CAPITAL LETTER Z''),
      (0x1d6e8, ''H'', ''LATIN CAPITAL LETTER H''),
      (0x1d6ea, ''l'', ''LATIN SMALL LETTER L''),
      (0x1d6eb, ''K'', ''LATIN CAPITAL LETTER K''),
      (0x1d6ed, ''M'', ''LATIN CAPITAL LETTER M''),
      (0x1d6ee, ''N'', ''LATIN CAPITAL LETTER N''),
      (0x1d6f0, ''O'', ''LATIN CAPITAL LETTER O''),
      (0x1d6f2, ''P'', ''LATIN CAPITAL LETTER P''),
      (0x1d6f5, ''T'', ''LATIN CAPITAL LETTER T''),
      (0x1d6f6, ''Y'', ''LATIN CAPITAL LETTER Y''),
      (0x1d6f8, ''X'', ''LATIN CAPITAL LETTER X''),
      (0x1d6fc, ''a'', ''LATIN SMALL LETTER A''),
      (0x1d6fe, ''y'', ''LATIN SMALL LETTER Y''),
      (0x1d704, ''i'', ''LATIN SMALL LETTER I''),
      (0x1d708, ''v'', ''LATIN SMALL LETTER V''),
      (0x1d70a, ''o'', ''LATIN SMALL LETTER O''),
      (0x1d70c, ''p'', ''LATIN SMALL LETTER P''),
      (0x1d70e, ''o'', ''LATIN SMALL LETTER O''),
      (0x1d710, ''u'', ''LATIN SMALL LETTER U''),
      (0x1d71a, ''p'', ''LATIN SMALL LETTER P''),
      (0x1d71c, ''A'', ''LATIN CAPITAL LETTER A''),
      (0x1d71d, ''B'', ''LATIN CAPITAL LETTER B''),
      (0x1d720, ''E'', ''LATIN CAPITAL LETTER E''),
      (0x1d721, ''Z'', ''LATIN CAPITAL LETTER Z''),
      (0x1d722, ''H'', ''LATIN CAPITAL LETTER H''),
      (0x1d724, ''l'', ''LATIN SMALL LETTER L''),
      (0x1d725, ''K'', ''LATIN CAPITAL LETTER K''),
      (0x1d727, ''M'', ''LATIN CAPITAL LETTER M''),
      (0x1d728, ''N'', ''LATIN CAPITAL LETTER N''),
      (0x1d72a, ''O'', ''LATIN CAPITAL LETTER O''),
      (0x1d72c, ''P'', ''LATIN CAPITAL LETTER P''),
      (0x1d72f, ''T'', ''LATIN CAPITAL LETTER T''),
      (0x1d730, ''Y'', ''LATIN CAPITAL LETTER Y''),
      (0x1d732, ''X'', ''LATIN CAPITAL LETTER X''),
      (0x1d736, ''a'', ''LATIN SMALL LETTER A''),
      (0x1d738, ''y'', ''LATIN SMALL LETTER Y''),
      (0x1d73e, ''i'', ''LATIN SMALL LETTER I''),
      (0x1d742, ''v'', ''LATIN SMALL LETTER V''),
      (0x1d744, ''o'', ''LATIN SMALL LETTER O''),
      (0x1d746, ''p'', ''LATIN SMALL LETTER P''),
      (0x1d748, ''o'', ''LATIN SMALL LETTER O''),
      (0x1d74a, ''u'', ''LATIN SMALL LETTER U''),
      (0x1d754, ''p'', ''LATIN SMALL LETTER P''),
      (0x1d756, ''A'', ''LATIN CAPITAL LETTER A''),
      (0x1d757, ''B'', ''LATIN CAPITAL LETTER B''),
      (0x1d75a, ''E'', ''LATIN CAPITAL LETTER E''),
      (0x1d75b, ''Z'', ''LATIN CAPITAL LETTER Z''),
      (0x1d75c, ''H'', ''LATIN CAPITAL LETTER H''),
      (0x1d75e, ''l'', ''LATIN SMALL LETTER L''),
      (0x1d75f, ''K'', ''LATIN CAPITAL LETTER K''),
      (0x1d761, ''M'', ''LATIN CAPITAL LETTER M''),
      (0x1d762, ''N'', ''LATIN CAPITAL LETTER N''),
      (0x1d764, ''O'', ''LATIN CAPITAL LETTER O''),
      (0x1d766, ''P'', ''LATIN CAPITAL LETTER P''),
      (0x1d769, ''T'', ''LATIN CAPITAL LETTER T'')]"

definition confusables_14 :: "raw_row list" where
  "confusables_14 =
     [(0x1d76a, ''Y'', ''LATIN CAPITAL LETTER Y''),
      (0x1d76c, ''X'', ''LATIN CAPITAL LETTER X''),
      (0x1d770, ''a'', ''LATIN SMALL LETTER A''),
      (0x1d772, ''y'', ''LATIN SMALL LETTER Y''),
      (0x1d778, ''i'', ''LATIN SMALL LETTER I''),
      (0x1d77c, ''v'', ''LATIN SMALL LETTER V''),
      (0x1d77e, ''o'', ''LATIN SMALL LETTER O''),
      (0x1d780, ''p'', ''LATIN SMALL LETTER P''),
      (0x1d782, ''o'', ''LATIN SMALL LETTER O''),
      (0x1d784, ''u'', ''LATIN SMALL LETTER U''),
      (0x1d78e, ''p'', ''LATIN SMALL LETTER P''),
      (0x1d790, ''A'', ''LATIN CAPITAL LETTER A''),
      (0x1d791, ''B'', ''LATIN CAPITAL LETTER B''),
      (0x1d794, ''E'', ''LATIN CAPITAL LETTER E''),
      (0x1d795, ''Z'', ''LATIN CAPITAL LETTER Z''),
      (0x1d796, ''H'', ''LATIN CAPITAL LETTER H''),
      (0x1d798, ''l'', ''LATIN SMALL LETTER L''),
      (0x1d799, ''K'', ''LATIN CAPITAL LETTER K''),
      (0x1d79b, ''M'', ''LATIN CAPITAL LETTER M''),
      (0x1d79c, ''N'', ''LATIN CAPITAL LETTER N''),
      (0x1d79e, ''O'', ''LATIN CAPITAL LETTER O''),
      (0x1d7a0, ''P'', ''LATIN CAPITAL LETTER P''),
      (0x1d7a3, ''T'', ''LATIN CAPITAL LETTER T''),
      (0x1d7a4, ''Y'', ''LATIN CAPITAL LETTER Y''),
      (0x1d7a6, ''X'', ''LATIN CAPITAL LETTER X''),
      (0x1d7aa, ''a'', ''LATIN SMALL LETTER A''),
      (0x1d7ac, ''y'', ''LATIN SMALL LETTER Y''),
      (0x1d7b2, ''i'', ''LATIN SMALL LETTER I''),
      (0x1d7b6, ''v'', ''LATIN SMALL LETTER V''),
      (0x1d7b8, ''o'', ''LATIN SMALL LETTER O''),
      (0x1d7ba, ''p'', ''LATIN SMALL LETTER P''),
      (0x1d7bc, ''o'', ''LATIN SMALL LETTER O''),
      (0x1d7be, ''u'', ''LATIN SMALL LETTER U''),
      (0x1d7c8, ''p'', ''LATIN SMALL LETTER P''),
      (0x1d7ca, ''F'', ''LATIN CAPITAL LETTER F''),
      (0x1d7ce, ''O'', ''LATIN CAPITAL LETTER O''),
      (0x1d7cf, ''l'', ''LATIN SMALL LETTER L''),
      (0x1d7d0, ''2'', ''DIGIT TWO''),
      (0x1d7d1, ''3'', ''DIGIT THREE''),
      (0x1d7d2, ''4'', ''DIGIT FOUR''),
      (0x1d7d3, ''5'', ''DIGIT FIVE''),
      (0x1d7d4, ''6'', ''DIGIT SIX''),
      (0x1d7d5, ''7'', ''DIGIT SEVEN''),
      (0x1d7d6, ''8'', ''DIGIT EIGHT''),
      (0x1d7d7, ''9'', ''DIGIT NINE''),
      (0x1d7d8, ''O'', ''LATIN CAPITAL LETTER O''),
      (0x1d7d9, ''l'', ''LATIN SMALL LETTER L''),
      (0x1d7da, ''2'', ''DIGIT TWO''),
      (0x1d7db, ''3'', ''DIGIT THREE''),
      (0x1d7dc, ''4'', ''DIGIT FOUR''),
      (0x1d7dd, ''5'', ''DIGIT FIVE''),
      (0x1d7de, ''6'', ''DIGIT SIX''),
      (0x1d7df, ''7'', ''DIGIT SEVEN''),
      (0x1d7e0, ''8'', ''DIGIT EIGHT''),
      (0x1d7e1, ''9'', ''DIGIT NINE''),
      (0x1d7e2, ''O'', ''LATIN CAPITAL LETTER O''),
      (0x1d7e3, ''l'', ''LATIN SMALL LETTER L''),
      (0x1d7e4, ''2'', ''DIGIT TWO''),
      (0x1d7e5, ''3'', ''DIGIT THREE''),
      (0x1d7e6, ''4'', ''DIGIT FOUR''),
      (0x1d7e7, ''5'', ''DIGIT FIVE''),
      (0x1d7e8, ''6'', ''DIGIT SIX''),
      (0x1d7e9, ''7'', ''DIGIT SEVEN''),
      (0x1d7ea, ''8'', ''DIGIT EIGHT''),
      (0x1d7eb, ''9'', ''DIGIT NINE''),
      (0x1d7ec, ''O'', ''LATIN CAPITAL LETTER O''),
      (0x1d7ed, ''l'', ''LATIN SMALL LETTER L''),
      (0x1d7ee, ''2'', ''DIGIT TWO''),
      (0x1d7ef, ''3'', ''DIGIT THREE''),
      (0x1d7f0, ''4'', ''DIGIT FOUR''),
      (0x1d7f1, ''5'', ''DIGIT FIVE''),
      (0x1d7f2, ''6'', ''DIGIT SIX''),
      (0x1d7f3, ''7'', ''DIGIT SEVEN''),
      (0x1d7f4, ''8'', ''DIGIT EIGHT''),
      (0x1d7f5, ''9'', ''DIGIT NINE''),
      (0x1d7f6, ''O'', ''LATIN CAPITAL LETTER O''),
      (0x1d7f7, ''l'', ''LATIN SMALL LETTER L''),
      (0x1d7f8, ''2'', ''DIGIT TWO''),
      (0x1d7f9, ''3'', ''DIGIT THREE''),
      (0x1d7fa, ''4'', ''DIGIT FOUR''),
      (0x1d7fb, ''5'', ''DIGIT FIVE''),
      (0x1d7fc, ''6'', ''DIGIT SIX''),
      (0x1d7fd, ''7'', ''DIGIT SEVEN''),
      (0x1d7fe, ''8'', ''DIGIT EIGHT''),
      (0x1d7ff, ''9'', ''DIGIT NINE''),
      (0x1e8c7, ''l'', ''LATIN SMALL LETTER L''),
      (0x1e8cb, ''8'', ''DIGIT EIGHT''),
      (0x1ee00, ''l'', ''LATIN SMALL LETTER L''),
      (0x1ee24, ''o'', ''LATIN SMALL LETTER O''),
      (0x1ee64, ''o'', ''LATIN SMALL LETTER O''),
      (0x1ee80, ''l'', ''LATIN SMALL LETTER L''),
      (0x1ee84, ''o'', ''LATIN SMALL LETTER O''),
      (0x1fbf0, ''O'', ''LATIN CAPITAL LETTER O''),
      (0x1fbf1, ''l'', ''LATIN SMALL LETTER L''),
      (0x1fbf2, ''2'', ''DIGIT TWO''),
      (0x1fbf3, ''3'', ''DIGIT THREE''),
      (0x1fbf4, ''4'', ''DIGIT FOUR''),
      (0x1fbf5, ''5'', ''DIGIT FIVE''),
      (0x1fbf6, ''6'', ''DIGIT SIX''),
      (0x1fbf7, ''7'', ''DIGIT SEVEN''),
      (0x1fbf8, ''8'', ''DIGIT EIGHT'')]"

definition confusables_15 :: "raw_row list" where
  "confusables_15 =
     [(0x1fbf9, ''9'', ''DIGIT NINE'')]"

definition confusable_rows :: "raw_row list" where
  "confusable_rows = concat [confusables_01, confusables_02, confusables_03, confusables_04, confusables_05, confusables_06, confusables_07, confusables_08,
     confusables_09, confusables_10, confusables_11, confusables_12, confusables_13, confusables_14, confusables_15]"

definition CONFUSABLES_RAW :: "ConfusableRow list" where
  "CONFUSABLES_RAW = map (\<lambda>(cp, target, name). (cp, str target, str name))
     confusable_rows"

subsection \<open>Facts about the rows\<close>

definition okRow :: "raw_row \<Rightarrow> bool" where
  "okRow row \<longleftrightarrow> (case row of (cp, target, name) \<Rightarrow>
     target \<noteq> [] \<and> list_all (\<lambda>c. is_digit (of_char c) \<or> is_alpha (of_char c)) target)"

text \<open>The code points of a part increase strictly from above \<open>lo\<close> to at most \<open>hi\<close>.\<close>

fun climbs :: "nat \<Rightarrow> raw_row list \<Rightarrow> nat \<Rightarrow> bool" where
  "climbs lo [] hi \<longleftrightarrow> lo \<le> hi"
| "climbs lo (row # rows) hi \<longleftrightarrow> lo < fst row \<and> climbs (fst row) rows hi"

lemma part_01:
  "climbs 0x7f confusables_01 0x443"
  "list_all okRow confusables_01"
  by (simp_all add: confusables_01_def okRow_def is_digit_def is_alpha_def is_upper_def is_lower_def)

lemma part_02:
  "climbs 0x443 confusables_02 0x13d4"
  "list_all okRow confusables_02"
  by (simp_all add: confusables_02_def okRow_def is_digit_def is_alpha_def is_upper_def is_lower_def)

lemma part_03:
  "climbs 0x13d4 confusables_03 0x2173"
  "list_all okRow confusables_03"
  by (simp_all add: confusables_03_def okRow_def is_digit_def is_alpha_def is_upper_def is_lower_def)

lemma part_04:
  "climbs 0x2173 confusables_04 0xab47"
  "list_all okRow confusables_04"
  by (simp_all add: confusables_04_def okRow_def is_digit_def is_alpha_def is_upper_def is_lower_def)

lemma part_05:
  "climbs 0xab47 confusables_05 0x104c2"
  "list_all okRow confusables_05"
  by (simp_all add: confusables_05_def okRow_def is_digit_def is_alpha_def is_upper_def is_lower_def)

lemma part_06:
  "climbs 0x104c2 confusables_06 0x1d41a"
  "list_all okRow confusables_06"
  by (simp_all add: confusables_06_def okRow_def is_digit_def is_alpha_def is_upper_def is_lower_def)

lemma part_07:
  "climbs 0x1d41a confusables_07 0x1d480"
  "list_all okRow confusables_07"
  by (simp_all add: confusables_07_def okRow_def is_digit_def is_alpha_def is_upper_def is_lower_def)

lemma part_08:
  "climbs 0x1d480 confusables_08 0x1d4f0"
  "list_all okRow confusables_08"
  by (simp_all add: confusables_08_def okRow_def is_digit_def is_alpha_def is_upper_def is_lower_def)

lemma part_09:
  "climbs 0x1d4f0 confusables_09 0x1d561"
  "list_all okRow confusables_09"
  by (simp_all add: confusables_09_def okRow_def is_digit_def is_alpha_def is_upper_def is_lower_def)

lemma part_10:
  "climbs 0x1d561 confusables_10 0x1d5c6"
  "list_all okRow confusables_10"
  by (simp_all add: confusables_10_def okRow_def is_digit_def is_alpha_def is_upper_def is_lower_def)

lemma part_11:
  "climbs 0x1d5c6 confusables_11 0x1d62b"
  "list_all okRow confusables_11"
  by (simp_all add: confusables_11_def okRow_def is_digit_def is_alpha_def is_upper_def is_lower_def)

lemma part_12:
  "climbs 0x1d62b confusables_12 0x1d690"
  "list_all okRow confusables_12"
  by (simp_all add: confusables_12_def okRow_def is_digit_def is_alpha_def is_upper_def is_lower_def)

lemma part_13:
  "climbs 0x1d690 confusables_13 0x1d769"
  "list_all okRow confusables_13"
  by (simp_all add: confusables_13_def okRow_def is_digit_def is_alpha_def is_upper_def is_lower_def)

lemma part_14:
  "climbs 0x1d769 confusables_14 0x1fbf8"
  "list_all okRow confusables_14"
  by (simp_all add: confusables_14_def okRow_def is_digit_def is_alpha_def is_upper_def is_lower_def)

lemma part_15:
  "climbs 0x1fbf8 confusables_15 0x1fbf9"
  "list_all okRow confusables_15"
  by (simp_all add: confusables_15_def okRow_def is_digit_def is_alpha_def is_upper_def is_lower_def)

lemma climbs_append: "climbs lo xs mid \<Longrightarrow> climbs mid ys hi \<Longrightarrow> climbs lo (xs @ ys) hi"
proof (induction xs arbitrary: lo)
  case Nil
  then show ?case by (cases ys) auto
qed simp

lemma climbs_sound:
  "climbs lo rows hi \<Longrightarrow> lo \<le> hi \<and> distinct (map fst rows) \<and> (\<forall>row \<in> set rows. lo < fst row \<and> fst row \<le> hi)"
  by (induction rows arbitrary: lo) fastforce+

lemmas confusables_climb = climbs_append [OF part_01(1)
  climbs_append [OF part_02(1)
  climbs_append [OF part_03(1)
  climbs_append [OF part_04(1)
  climbs_append [OF part_05(1)
  climbs_append [OF part_06(1)
  climbs_append [OF part_07(1)
  climbs_append [OF part_08(1)
  climbs_append [OF part_09(1)
  climbs_append [OF part_10(1)
  climbs_append [OF part_11(1)
  climbs_append [OF part_12(1)
  climbs_append [OF part_13(1)
  climbs_append [OF part_14(1)
  part_15(1)]]]]]]]]]]]]]]

lemma raw_climb: "climbs 127 confusable_rows 0x1fbf9"
  using confusables_climb by (simp add: confusable_rows_def)

lemma raw_ok: "list_all okRow confusable_rows"
  by (simp add: confusable_rows_def part_01(2) part_02(2) part_03(2) part_04(2) part_05(2) part_06(2) part_07(2) part_08(2) part_09(2) part_10(2) part_11(2) part_12(2) part_13(2) part_14(2) part_15(2))

text \<open>What the algorithms over the table use.\<close>

lemma CONFUSABLES_RAW_row:
  assumes "(cp, target, name) \<in> set CONFUSABLES_RAW"
  shows "128 \<le> cp" "cp \<le> 0x1fbf9" "target \<noteq> []" "\<forall>c \<in> set target. is_digit c \<or> is_alpha c"
proof -
  obtain t n where r: "(cp, t, n) \<in> set confusable_rows" "target = str t"
    using assms unfolding CONFUSABLES_RAW_def by auto
  have "127 < cp \<and> cp \<le> 0x1fbf9" using climbs_sound [OF raw_climb] r(1) by fastforce
  then show "128 \<le> cp" "cp \<le> 0x1fbf9" by simp_all
  have "okRow (cp, t, n)" using raw_ok r(1) by (simp only: list_all_iff)
  then show "target \<noteq> []" "\<forall>c \<in> set target. is_digit c \<or> is_alpha c"
    by (auto simp: r(2) okRow_def str_def list_all_iff)
qed

lemma CONFUSABLES_RAW_distinct: "distinct (map fst CONFUSABLES_RAW)"
proof -
  have "map fst CONFUSABLES_RAW = map fst confusable_rows"
    unfolding CONFUSABLES_RAW_def map_map by (rule map_cong) auto
  then show ?thesis using climbs_sound [OF raw_climb] by simp
qed

end
