(* ===== verification/TextChecks.thy ===== *)
theory TextChecks
  imports PolicyAxes Decode Regex Punycode Confusables
begin

text \<open>
  The detectors that read the text of a URL component by component: delimiters and controls,
  percent escapes, invisible and look-alike characters, file names. One definition per detector of
  \<open>detectors/\<close>, with its tables; a detector is a function of the inspection context, a structural
  scan a function of the prepared input and its authority region. Messages are spelled out.
\<close>

subsection \<open>Shared helpers\<close>

text \<open>\<open>n > 1 ? "s" : ""\<close>.\<close>

definition plural :: "nat \<Rightarrow> ustring" where
  "plural n = (if n > 1 then str ''s'' else [])"

definition decimal :: "nat \<Rightarrow> ustring" where
  "decimal n = to_radix 10 n"

definition is_alnum :: "nat \<Rightarrow> bool" where
  "is_alnum c \<longleftrightarrow> is_alpha c \<or> is_digit c"

definition hasNonAscii :: "ustring \<Rightarrow> bool" where
  "hasNonAscii s \<longleftrightarrow> list_ex (\<lambda>c. c > 0x7f) s"

text \<open>\<open>ctx.query ?? ""\<close>, and a component that is null or empty is skipped.\<close>

definition orEmpty :: "ustring option \<Rightarrow> ustring" where
  "orEmpty s = (case s of None \<Rightarrow> [] | Some t \<Rightarrow> t)"

text \<open>The cap on the tokens a message lists, with the remark on what was left out.\<close>

definition MAX_TOKENS :: nat where "MAX_TOKENS = 3"

definition capped :: "ustring list \<Rightarrow> ustring" where
  "capped hits = join (str '', '') (take MAX_TOKENS hits)
     @ (if length hits > length (take MAX_TOKENS hits)
        then (str '' (+'' @ (decimal (length hits - length (take MAX_TOKENS hits))) @ str '' more)'') else [])"

subsection \<open>userinfo-present.ts, dangerous-scheme.ts, normalization-delta.ts\<close>

definition userinfoPresent :: "InspectionContext \<Rightarrow> CollectedFinding list" where
  "userinfoPresent ctx =
     (case cx_userinfo ctx of
        None \<Rightarrow> []
      | Some userinfo \<Rightarrow>
          if userinfo = [] then []
          else (let realHost = (if cx_host ctx = [] then str ''(none)'' else cx_host ctx) in
            [finding userinfo_present
        (str ''authority hidden behind '' @ quoted (userinfo @ [64])
        @ str ''; the real host is '' @ quoted realHost)]))"

definition DANGEROUS_SCHEMES :: "ustring set" where
  "DANGEROUS_SCHEMES = {str ''javascript'', str ''data'', str ''blob'', str ''file'', str ''vbscript''}"

definition dangerousScheme :: "InspectionContext \<Rightarrow> CollectedFinding list" where
  "dangerousScheme ctx =
     (case cx_scheme ctx of
        None \<Rightarrow> []
      | Some scheme \<Rightarrow>
          if scheme = [] \<or> scheme \<notin> DANGEROUS_SCHEMES then []
          else [finding dangerous_scheme
        (str ''scheme '' @ quoted (scheme @ [58]) @ str '' can execute or embed content'')])"

definition normalizationDelta :: "platform \<Rightarrow> InspectionContext \<Rightarrow> CollectedFinding list" where
  "normalizationDelta E ctx =
     (if cx_host ctx = [] \<or> \<not> hasNormalizationDelta (cx_host ctx) then []
      else [finding normalization_delta
        (str ''host is an internationalized domain (IDN); Unicode form ''
        @ quoted (toUnicode E (cx_host ctx)) @ str '', ASCII/punycode form ''
        @ quoted (toAscii E (cx_host ctx)))])"

subsection \<open>bidi-override.ts, invisible-char.ts\<close>

definition bidiOverride :: "InspectionContext \<Rightarrow> CollectedFinding list" where
  "bidiOverride ctx =
     (let found = filter isBidiControl (codePoints (cx_input ctx)) in
      if found = [] then []
      else [finding bidi_override
        (str ''bidirectional override character(s) in URL (''
        @ (join (str '', '') (dedup (map codepointOf found))) @ str '')'')])"

definition invisibleChar :: "platform \<Rightarrow> InspectionContext \<Rightarrow> CollectedFinding list" where
  "invisibleChar E ctx =
     (let found = filter (isInvisibleNonBidi E) (codePoints (cx_input ctx)); n = length found in
      if found = [] then []
      else [finding invisible_char
        ((decimal n) @ str '' invisible/control character'' @ (plural n) @ str '' in URL (''
        @ (join (str '', '') (dedup (map codepointOf found))) @ str '')'')])"

subsection \<open>unicode/confusables.ts, confusable-char.ts, confusable-in-path.ts\<close>

text \<open>
  The lookup \<open>CONFUSABLES\<close> of \<open>data/confusables.ts\<close>: a map built from the rows, so a later row for the
  same code point wins.
\<close>

definition describeConfusable :: "ustring \<Rightarrow> ustring \<Rightarrow> ustring" where
  "describeConfusable target name =
     (target @ str '' ('' @ (join [32] (map codepointOf (codePoints target))) @ str '', ''
        @ name @ str '')'')"

definition CONFUSABLES :: "nat \<rightharpoonup> ustring \<times> ustring" where
  "CONFUSABLES = map_of (rev (map (\<lambda>(cp, target, name). (cp, target, describeConfusable target name))
     CONFUSABLES_RAW))"

fun findConfusablesFrom :: "ConfusableComponent \<Rightarrow> nat \<Rightarrow> nat list \<Rightarrow> Confusable list" where
  "findConfusablesFrom component position [] = []"
| "findConfusablesFrom component position (ch # cs) =
     (case CONFUSABLES ch of
        Some (target, confusableWith) \<Rightarrow>
          [\<lparr>cb_char = utf16 ch, cb_codepoint = codepointOf ch, cb_confusableWith = confusableWith,
            cb_component = component, cb_position = position\<rparr>]
      | None \<Rightarrow> []) @ findConfusablesFrom component (position + 1) cs"

definition findConfusables :: "ustring \<Rightarrow> ConfusableComponent \<Rightarrow> Confusable list" where
  "findConfusables input component = findConfusablesFrom component 0 (codePoints input)"

definition confusableChar :: "platform \<Rightarrow> InspectionContext \<Rightarrow> CollectedFinding list" where
  "confusableChar E ctx =
     (if cx_host ctx = [] then []
      else (let confusables = findConfusables (cx_hostUnicode ctx) HostComponent; n = length confusables in
        if confusables = [] then []
        else [\<lparr>cf_code = confusable_char,
               cf_detail = ((decimal n) @ str '' confusable character'' @ (plural n) @ str '' in host''),
               cf_confusables = Some confusables\<rparr>]))"

definition confusableInPath :: "platform \<Rightarrow> InspectionContext \<Rightarrow> CollectedFinding list" where
  "confusableInPath E ctx =
     (let confusables = findConfusables (cx_path ctx) PathComponent
            @ (if truthy (cx_query ctx) then findConfusables (the (cx_query ctx)) QueryComponent else []);
          n = length confusables
      in if confusables = [] then []
         else [\<lparr>cf_code = confusable_in_path,
                cf_detail = ((decimal n) @ str '' confusable character'' @ (plural n) @ str '' in path/query''),
                cf_confusables = Some confusables\<rparr>])"

subsection \<open>unicode/scripts.ts, mixed-script.ts\<close>

definition SCRIPT_TESTS :: "string list" where
  "SCRIPT_TESTS = [''Latin'', ''Cyrillic'', ''Greek'', ''Armenian'', ''Hebrew'', ''Arabic'', ''Han'',
     ''Hiragana'', ''Katakana'', ''Hangul'', ''Bopomofo'', ''Thai'', ''Devanagari'', ''Georgian'']"

definition SCRIPT_NEUTRAL :: "platform \<Rightarrow> nat \<Rightarrow> bool" where
  "SCRIPT_NEUTRAL E ch \<longleftrightarrow> pf_script E ''Common'' ch \<or> pf_script E ''Inherited'' ch"

definition scriptOf :: "platform \<Rightarrow> nat \<Rightarrow> string option" where
  "scriptOf E ch = (if SCRIPT_NEUTRAL E ch then None else find (\<lambda>name. pf_script E name ch) SCRIPT_TESTS)"

definition COMPATIBLE_GROUPS :: "string set list" where
  "COMPATIBLE_GROUPS = [{''Han'', ''Hiragana'', ''Katakana''}, {''Han'', ''Hangul''}, {''Han'', ''Bopomofo''}]"

definition isCompatible :: "string list \<Rightarrow> bool" where
  "isCompatible scripts \<longleftrightarrow>
     length scripts \<le> 1 \<or> list_ex (\<lambda>group. list_all (\<lambda>s. s \<in> group) scripts) COMPATIBLE_GROUPS"

definition analyzeLabelScripts :: "platform \<Rightarrow> ustring \<Rightarrow> bool \<times> string list" where
  "analyzeLabelScripts E label =
     (let scripts = dedup (List.map_filter (scriptOf E) (codePoints label)) in
      (\<not> isCompatible scripts, scripts))"

fun mixedScriptLabels :: "platform \<Rightarrow> ustring list \<Rightarrow> CollectedFinding list" where
  "mixedScriptLabels E [] = []"
| "mixedScriptLabels E (label # labels) =
     (let (mixed, scripts) = analyzeLabelScripts E label in
      if mixed then [finding mixed_script
        (str ''host label '' @ quoted label @ str '' mixes scripts: ''
        @ (join (str '' + '') (map str scripts)))]
      else mixedScriptLabels E labels)"

definition mixedScript :: "platform \<Rightarrow> InspectionContext \<Rightarrow> CollectedFinding list" where
  "mixedScript E ctx =
     (if cx_host ctx = [] then []
      else mixedScriptLabels E (split_on 46 (stripFinalDot (cx_hostUnicode ctx))))"

subsection \<open>punycode-malformed.ts\<close>

fun subCodeName :: "PunycodeSubCode \<Rightarrow> string" where
  "subCodeName Empty_ace_payload = ''empty_ace_payload''"
| "subCodeName Invalid_punycode_digit = ''invalid_punycode_digit''"
| "subCodeName Truncated_punycode_input = ''truncated_punycode_input''"
| "subCodeName Punycode_overflow = ''punycode_overflow''"
| "subCodeName Decoded_code_point_out_of_range = ''decoded_code_point_out_of_range''"
| "subCodeName Non_canonical_encoding = ''non_canonical_encoding''"
| "subCodeName Invalid_idna_label = ''invalid_idna_label''"

definition punycodeMalformed :: "platform \<Rightarrow> InspectionContext \<Rightarrow> CollectedFinding list" where
  "punycodeMalformed E ctx =
     (case analyzeMalformedPunycode E (cx_host ctx) of
        None \<Rightarrow> []
      | Some m \<Rightarrow> [finding punycode_malformed
        (str ''host '' @ quoted (cx_host ctx) @ str '' has a malformed xn-- label ''
        @ quoted (mp_label m) @ str '': '' @ (str (subCodeName (mp_subCode m))) @ str '' (''
        @ (str (mp_description m)) @ str '')'')])"

subsection \<open>percent-encoding-malformed.ts\<close>

text \<open>The tokens of \<open>value.matchAll(/%(?![0-9a-fA-F]{2})/g)\<close>: what follows each bad percent sign.\<close>

definition escapeToken :: "ustring \<Rightarrow> ustring" where
  "escapeToken tail = (if tail = [] then str ''%<end>'' else [37] @ take 2 tail)"

fun badEscapes :: "ustring \<Rightarrow> ustring list" where
  "badEscapes [] = []"
| "badEscapes (c # s) =
     (if c = 37 \<and> \<not> (length s \<ge> 2 \<and> is_hex (s ! 0) \<and> is_hex (s ! 1)) then [escapeToken s] else [])
     @ badEscapes s"

definition COMPONENTS :: "(string \<times> (InspectionContext \<Rightarrow> ustring option)) list" where
  "COMPONENTS = [(''userinfo'', cx_userinfo), (''host'', Some \<circ> cx_rawHost), (''path'', Some \<circ> cx_path),
     (''query'', cx_query), (''fragment'', cx_fragment)]"

text \<open>The tokens of all components, each named after its component.\<close>

definition componentTokens ::
    "(string \<times> (InspectionContext \<Rightarrow> ustring option)) list \<Rightarrow> (string \<Rightarrow> ustring \<Rightarrow> ustring list) \<Rightarrow>
     InspectionContext \<Rightarrow> ustring list" where
  "componentTokens components tokens ctx =
     concat (map (\<lambda>(name, get). if truthy (get ctx) then tokens name (the (get ctx)) else []) components)"

definition percentEncodingMalformed :: "InspectionContext \<Rightarrow> CollectedFinding list" where
  "percentEncodingMalformed ctx =
     (let hits = componentTokens COMPONENTS (\<lambda>name value.
            if 37 \<in> set value then map (\<lambda>t. (t @ str '' in '' @ (str name))) (badEscapes value) else []) ctx
      in if hits = [] then []
         else [finding percent_encoding_malformed
        (str ''malformed percent-encoding: '' @ (capped hits) @ str '' '' @ dash @ str '' ''
        @ quoted (str ''%'') @ str '' is not followed by two hex digits (RFC 3986 '' @ [167]
        @ str ''2.4), so the string declares an escape it does not carry'')])"

subsection \<open>low-byte-truncation.ts\<close>

definition DANGEROUS_LOW_BYTE :: "(nat \<times> ustring) list" where
  "DANGEROUS_LOW_BYTE =
     [(0x00, (str ''NUL '' @ dash @ str '' truncates the string for a C-string resolver'')),
      (0x09, (str ''TAB '' @ dash @ str '' terminates the host so validator and resolver disagree'')),
      (0x0a, (str ''LF '' @ dash @ str '' injects a header / smuggles a second protocol'')),
      (0x0b, (str ''VT '' @ dash @ str '' whitespace a lenient parser strips'')),
      (0x0c, (str ''FF '' @ dash @ str '' whitespace a lenient parser strips'')),
      (0x0d, (str ''CR '' @ dash @ str '' injects a header / smuggles a second protocol'')),
      (0x20, (str ''SPACE '' @ dash @ str '' terminates the host for getaddrinfo'')),
      (0x23, (quoted (str ''#'') @ str '' '' @ dash @ str '' starts a fragment, discarding the rest'')),
      (0x2f, (quoted (str ''/'') @ str '' '' @ dash @ str '' ends the authority'')),
      (0x3a, (quoted (str '':'') @ str '' '' @ dash @ str '' forges a port separator'')),
      (0x3f, (quoted (str ''?'') @ str '' '' @ dash @ str '' starts a query, discarding the rest'')),
      (0x40, (quoted (str ''@'') @ str '' '' @ dash
        @ str '' moves the authority, so the real host changes''))]"

fun lowByteTokens :: "string \<Rightarrow> nat list \<Rightarrow> ustring list" where
  "lowByteTokens name (a # cp # b # cps) =
     (case (if cp < 0x80 then None else map_of DANGEROUS_LOW_BYTE (cp mod 0x100)) of
        None \<Rightarrow> []
      | Some gloss \<Rightarrow>
          if is_alnum a \<and> is_alnum b then [((codepointOf cp) @ str '' in '' @ (str name) @ str '' (low byte '' @ gloss @ str '')'')] else [])
     @ lowByteTokens name (cp # b # cps)"
| "lowByteTokens name cps = []"

definition scanLowByte :: "string \<Rightarrow> ustring \<Rightarrow> ustring list" where
  "scanLowByte name value = (if hasNonAscii value then lowByteTokens name (codePoints value) else [])"

definition lowByteTruncation :: "InspectionContext \<Rightarrow> CollectedFinding list" where
  "lowByteTruncation ctx =
     (let hits = componentTokens COMPONENTS scanLowByte ctx in
      if hits = [] then []
      else [finding low_byte_truncation
        (str ''non-ASCII code point wedged between ASCII alphanumerics whose low byte is a dangerous ASCII byte: ''
        @ (capped hits) @ str '' '' @ dash
        @ str '' a lossy UTF-16-to-byte narrowing materializes that byte, and no byte-scan of the input can see it'')])"

subsection \<open>best-fit-mapping.ts\<close>

definition WINDOWS_PATH :: ustring where "WINDOWS_PATH = str ''a Windows path separator''"
definition SHELL_QUOTE :: ustring where "SHELL_QUOTE = str ''a command-line quote delimiter''"
definition SHELL_OP :: ustring where "SHELL_OP = str ''a command-line operator''"
definition URL_DELIM :: ustring where "URL_DELIM = str ''a URL delimiter''"

text \<open>Code point, the ASCII code unit it becomes, and where that is a delimiter.\<close>

definition BEST_FIT :: "(nat \<times> nat \<times> ustring) list" where
  "BEST_FIT =
     [(0x00a5, 92, WINDOWS_PATH @ (str '' (codepage 932 '' @ dash @ str '' JIS X 0201 puts '' @ [165] @ str '' at 0x5C)'')),
      (0x20a9, 92, WINDOWS_PATH @ (str '' (codepage 949 '' @ dash @ str '' KS X 1003 puts '' @ [8361] @ str '' at 0x5C)'')),
      (0xffe5, 92, WINDOWS_PATH), (0xffe6, 92, WINDOWS_PATH), (0xff3c, 92, WINDOWS_PATH),
      (0xfe68, 92, WINDOWS_PATH), (0xff0f, 47, URL_DELIM), (0xff02, 34, SHELL_QUOTE),
      (0xff07, 39, SHELL_QUOTE), (0xff06, 38, (URL_DELIM @ str '' and '' @ SHELL_OP)), (0xff1d, 61, URL_DELIM),
      (0xff5c, 124, SHELL_OP), (0xff1c, 60, SHELL_OP), (0xff1e, 62, SHELL_OP)]"

text \<open>The neighbours of a character; a missing neighbour is \<open>None\<close>.\<close>

definition isAsciiLetter :: "nat option \<Rightarrow> bool" where
  "isAsciiLetter ch = (case ch of None \<Rightarrow> False | Some c \<Rightarrow> is_alpha c)"

definition isForeign :: "nat option \<Rightarrow> bool" where
  "isForeign ch = (case ch of None \<Rightarrow> False | Some c \<Rightarrow> c > 0x7f \<and> map_of BEST_FIT c = None)"

fun bestFitTokens :: "string \<Rightarrow> nat option \<Rightarrow> nat list \<Rightarrow> ustring list" where
  "bestFitTokens name before [] = []"
| "bestFitTokens name before (c # cs) =
     (let after = (case cs of [] \<Rightarrow> None | d # _ \<Rightarrow> Some d) in
      case map_of BEST_FIT c of
        None \<Rightarrow> []
      | Some (to, gloss) \<Rightarrow>
          if isForeign before \<or> isForeign after then []
          else if \<not> isAsciiLetter before \<and> \<not> isAsciiLetter after then []
          else [(quoted (utf16 c) @ str '' ('' @ (codepointOf c) @ str '' '' @ [8594] @ str '' ''
        @ quoted ([to]) @ str '', '' @ gloss @ str '') in '' @ (str name))])
     @ bestFitTokens name (Some c) cs"

definition scanBestFit :: "string \<Rightarrow> ustring \<Rightarrow> ustring list" where
  "scanBestFit name value = (if hasNonAscii value then bestFitTokens name None (codePoints value) else [])"

definition bestFitMapping :: "InspectionContext \<Rightarrow> CollectedFinding list" where
  "bestFitMapping ctx =
     (let hits = componentTokens [(''path'', Some \<circ> cx_path), (''query'', cx_query)] scanBestFit ctx in
      if hits = [] then []
      else [finding best_fit_mapping
        (str ''path/query carries a code point that a Windows ANSI best-fit conversion replaces with an ASCII delimiter, placed between name-shaped tokens: ''
        @ (capped hits) @ str '' '' @ dash
        @ str '' a consumer converting without WC_NO_BEST_FIT_CHARS reads a boundary the URL does not declare'')])"

subsection \<open>encoding-obfuscation.ts\<close>

definition hexClass :: rexp where "hexClass = Cls is_hex"
definition oneOf :: "string \<Rightarrow> rexp" where "oneOf cs = Cls (\<lambda>c. c \<in> set (str cs))"

definition HAS_PERCENT :: rexp where
  "HAS_PERCENT = seqs [oneOf ''%'', hexClass, hexClass]"

definition OVERLONG_UTF8 :: rexp where
  "OVERLONG_UTF8 =
     alts (seqs [oneOf ''%'', oneOf ''cC'', oneOf ''01'', oneOf ''%'', oneOf ''89aAbB'', hexClass])
       [seqs [oneOf ''%'', oneOf ''eE'', oneOf ''0'', oneOf ''%'', oneOf ''89'', hexClass,
          oneOf ''%'', oneOf ''89aAbB'', hexClass],
        seqs [oneOf ''%'', oneOf ''fF'', oneOf ''0'', oneOf ''%'', oneOf ''8'', hexClass,
          oneOf ''%'', oneOf ''89aAbB'', hexClass, oneOf ''%'', oneOf ''89aAbB'', hexClass]]"

definition ENCODED_DOUBLE_DOT_SEGMENT :: "ustring \<Rightarrow> bool" where
  "ENCODED_DOUBLE_DOT_SEGMENT segment \<longleftrightarrow> lower segment \<in> {str ''.%2e'', str ''%2e.'', str ''%2e%2e''}"

text \<open>The values of the matches of \<open>/%[0-9a-fA-F]{2}/g\<close>, left to right.\<close>

fun percentMatches :: "ustring \<Rightarrow> nat list" where
  "percentMatches (p # a # b # s) =
     (if p = 37 \<and> is_hex a \<and> is_hex b then radix_val 16 [a, b] # percentMatches s
      else percentMatches (a # b # s))"
| "percentMatches s = []"

definition encodingSignals :: "InspectionContext \<Rightarrow> ustring list" where
  "encodingSignals ctx =
     (let all = join [32] [cx_rawHost ctx, orEmpty (cx_userinfo ctx), cx_path ctx, orEmpty (cx_query ctx),
            orEmpty (cx_fragment ctx)];
          deep = boundedDecode all (rt_maxDecodeDepth (cx_runtime ctx))
      in (if test HAS_PERCENT (cx_rawHost ctx) then [str ''percent-encoding in host''] else [])
       @ (if includesStr (str ''%25'') all then [str ''double-encoded (%25)''] else [])
       @ (if test HAS_PERCENT all \<and> (bd_passes deep \<ge> 3 \<or> bd_truncated deep)
          then [(str ''triple-encoded ('' @ [8805] @ str ''3 levels)'')] else [])
       @ (if test OVERLONG_UTF8 all then [str ''overlong UTF-8 sequence''] else [])
       @ (if list_ex (\<lambda>code. code < 0x20 \<or> code = 0x7f) (percentMatches all)
          then [str ''encoded control character''] else [])
       @ (if includesStr (str ''%2f'') (lower (cx_path ctx)) \<or> includesStr (str ''%5c'') (lower (cx_path ctx))
          then [str ''encoded path separator''] else [])
       @ (if list_ex ENCODED_DOUBLE_DOT_SEGMENT (split_on 47 (cx_path ctx))
          then [(str ''encoded '' @ quoted (str ''..'') @ str '' traversal'')] else []))"

definition encodingObfuscation :: "InspectionContext \<Rightarrow> CollectedFinding list" where
  "encodingObfuscation ctx =
     (let signals = encodingSignals ctx in
      if signals = [] then []
      else [finding encoding_obfuscation
        (str ''percent-encoding obfuscation: '' @ (join (str '', '') (dedup signals)))])"

subsection \<open>suspicious-extension.ts\<close>

definition DANGEROUS_EXTENSIONS :: "ustring set" where
  "DANGEROUS_EXTENSIONS = set (map str [''exe'', ''scr'', ''apk'', ''iso'', ''bat'', ''msi'', ''cmd'', ''com'',
     ''vbs'', ''jar'', ''dmg'', ''pkg'', ''dll'', ''msix'', ''ps1'', ''deb''])"

text \<open>\<open>path.slice(path.lastIndexOf("/") + 1)\<close>.\<close>

definition lastSegment :: "ustring \<Rightarrow> ustring" where
  "lastSegment path = (case lastIndexOf 47 path of None \<Rightarrow> path | Some i \<Rightarrow> drop (i + 1) path)"

definition suspiciousExtension :: "platform \<Rightarrow> InspectionContext \<Rightarrow> CollectedFinding list" where
  "suspiciousExtension E ctx =
     (if (case cx_scheme ctx of None \<Rightarrow> False | Some s \<Rightarrow> isOpaqueScheme (pf_toLowerCase E s)) then []
      else (let segment = lastSegment (cx_path ctx); parts = split_on 46 segment;
                lst = pf_toLowerCase E (last parts);
                inner = (if length parts \<ge> 3 then parts ! (length parts - 2) else []);
                isDouble = (length parts \<ge> 3 \<and> hd parts \<noteq> [] \<and> inner \<noteq> [])
            in if cx_path ctx = [] \<or> segment = [] \<or> length parts < 2 then []
               else if lst = [] \<or> lst \<notin> DANGEROUS_EXTENSIONS then []
               else [finding suspicious_extension
                 (if isDouble then
        (str ''path ends in a deceptive double-extension '' @ quoted ([46] @ inner @ [46] @ lst)
        @ str '' '' @ dash @ str '' the visible '' @ quoted ([46] @ inner)
        @ str '' reads as a safe file while the real extension '' @ quoted ([46] @ lst)
        @ str '' is an executable'')
                  else
        (str ''path ends in the dangerous executable extension '' @ quoted ([46] @ lst)
        @ str '' '' @ dash @ str '' a direct-download link''))]))"

subsection \<open>header-shaped-token.ts\<close>

text \<open>
  The expressions carry the flag \<open>i\<close>; without the flag \<open>u\<close> it identifies exactly the two cases of an
  ASCII letter, so they are matched against the lower-cased text.
\<close>

definition encodedBlank :: rexp where "encodedBlank = Alt (Lit (str ''%20'')) (Lit (str ''%09''))"
definition digitClass :: rexp where "digitClass = Cls is_digit"
definition COLON :: rexp where "COLON = Alt (Lit [58]) (Lit (str ''%3a''))"

definition nameChar :: "nat \<Rightarrow> bool" where
  "nameChar c \<longleftrightarrow> is_lower c \<or> is_digit c \<or> c = 45"

definition REQUEST_LINE :: rexp where
  "REQUEST_LINE = seqs [encodedBlank, Lit (str ''http''), Alt (Lit [47]) (Lit (str ''%2f'')), digitClass,
     Lit [46], digitClass]"

definition ENCODED_CRLF :: rexp where "ENCODED_CRLF = Alt (Lit (str ''%0d'')) (Lit (str ''%0a''))"

definition hostLabelRx :: rexp where
  "hostLabelRx = (let an = Cls (\<lambda>c. is_lower c \<or> is_digit c) in Sq an (Opt (Sq (Rep (Cls nameChar)) an)))"

definition HOST_VALUE :: rexp where
  "HOST_VALUE = seqs [hostLabelRx, Rep1 (Sq (Lit [46]) hostLabelRx),
     Opt (seqs [COLON, digitClass, Opt digitClass, Opt digitClass, Opt digitClass, Opt digitClass])]"

definition TRANSFER_CODING :: rexp where
  "TRANSFER_CODING = alts (Lit (str ''chunked'')) (map (Lit \<circ> str)
     [''compress'', ''deflate'', ''gzip'', ''identity'', ''x-gzip'', ''x-compress''])"

definition FIELDS :: "(string \<times> rexp \<times> ustring) list" where
  "FIELDS =
     [(''host'', HOST_VALUE, (str ''a host-shaped value '' @ dash @ str '' the field that re-targets the request'')),
      (''content-length'', Rep1 digitClass, (str ''a decimal length '' @ dash @ str '' the field a desync disagrees about'')),
      (''transfer-encoding'', TRANSFER_CODING, (str ''a registered transfer coding (RFC 9112 '' @ [167] @ str ''7)'')),
      (''expect'', Lit (str ''100-continue''), (str ''the only registered expectation (RFC 9110 '' @ [167] @ str ''10.1.1)''))]"

definition FIELD_LINE :: "string \<Rightarrow> rexp \<Rightarrow> rexp" where
  "FIELD_LINE name value = seqs [Alt Bol (Cls (\<lambda>c. \<not> nameChar c)), Lit (str name), COLON, Rep1 encodedBlank,
     value, Alt Eol (Cls (\<lambda>c. \<not> nameChar c))]"

definition CRLF_FIELD_LINE :: "string \<Rightarrow> rexp" where
  "CRLF_FIELD_LINE name = seqs [ENCODED_CRLF, Rep encodedBlank, Lit (str name), COLON]"

definition shapesIn :: "ustring \<Rightarrow> ustring list" where
  "shapesIn surface =
     (let s = lower surface in
      (if test REQUEST_LINE s
       then [(str ''an encoded space directly in front of an HTTP-version token '' @ dash
        @ str '' the request-line shape (RFC 9112 '' @ [167] @ str ''3)'')]
       else [])
      @ concat (map (\<lambda>(name, value, gloss). if test (CRLF_FIELD_LINE name) s
          then [(str ''an encoded line break directly in front of a '' @ quoted (str name @ [58])
        @ str '' field name'')] else []) FIELDS)
      @ concat (map (\<lambda>(name, value, gloss). if test (FIELD_LINE name value) s
          then [(quoted (str name @ [58]) @ str '' followed by an encoded space and '' @ gloss)] else []) FIELDS))"

definition headerShapedToken :: "InspectionContext \<Rightarrow> CollectedFinding list" where
  "headerShapedToken ctx =
     (let surface = cx_path ctx @ (case cx_query ctx of None \<Rightarrow> [] | Some q \<Rightarrow> [63] @ q) in
      if surface = [] \<or> 37 \<notin> set surface then []
      else (let shapes = shapesIn surface in
        if shapes = [] then []
        else [finding header_shaped_token
        (str ''path/query carries an HTTP request-line or header field-line token in wire form: ''
        @ (join (str ''; '') shapes) @ str '' '' @ dash
        @ str '' a component that re-emits the request target undecoded writes a second line onto the wire'')]))"

subsection \<open>The structural scans\<close>

text \<open>\<open>separator-lookalike.ts\<close>: code point and the delimiter it impersonates.\<close>

definition LOOKALIKES :: "(nat \<times> nat) list" where
  "LOOKALIKES = [(0x3002, 46), (0xff0e, 46), (0xff61, 46), (0x2024, 46), (0xff0f, 47), (0x2215, 47)]"

definition lookalikePart :: "nat \<Rightarrow> ustring" where
  "lookalikePart c = (quoted ([c]) @ str '' ('' @ (codepointOf c) @ str '' '' @ [8594] @ str '' ''
        @ quoted ([the (map_of LOOKALIKES c)]) @ str '')'')"

definition scanSeparatorLookalike :: "ustring \<Rightarrow> AuthorityRegion \<Rightarrow> CollectedFinding list" where
  "scanSeparatorLookalike prepared region =
     (let authority = ar_authority region;
          found = dedup (filter (\<lambda>c. map_of LOOKALIKES c \<noteq> None) (codePoints authority))
      in if prepared = [] \<or> ar_opaque region \<or> authority = [] \<or> \<not> list_ex is_alnum authority \<or> found = [] then []
         else [finding separator_lookalike
        (str ''authority uses delimiter look-alikes that normalize to ASCII separators, hiding the real host from a non-normalizing parser: ''
        @ (join (str '', '') (map lookalikePart found)))])"

text \<open>\<open>control-char.ts\<close>.\<close>

definition classifyControl :: "nat \<Rightarrow> string option" where
  "classifyControl code =
     (if code = 0x0d \<or> code = 0x0a then Some ''crlf''
      else if code = 0x09 then Some ''tab''
      else if code = 0 then Some ''null''
      else if (0x01 \<le> code \<and> code \<le> 0x1f) \<or> code = 0x7f then Some ''control''
      else None)"

definition CONTROL_SIGNAL_DETAIL :: "(string \<times> ustring) list" where
  "CONTROL_SIGNAL_DETAIL =
     [(''crlf'', (str ''CR/LF '' @ dash
        @ str '' lets a requester smuggle a second protocol (Redis/SMTP/Memcached) on the wire'')),
      (''tab'', (str ''TAB '' @ dash @ str '' terminates the host so validator and resolver disagree'')),
      (''null'', (str ''NUL '' @ dash @ str '' truncates the host for a C-string resolver'')),
      (''control'', str ''other C0/DEL control character''),
      (''whitespace_in_host'', (str ''whitespace inside the authority '' @ dash
        @ str '' getaddrinfo strips the trailing rubbish''))]"

definition signalGloss :: "(string \<times> ustring) list \<Rightarrow> string \<Rightarrow> ustring" where
  "signalGloss table s = ((str s) @ str '' ('' @ (the (map_of table s)) @ str '')'')"

text \<open>The part of an authority after the last at sign.\<close>

definition hostportOf :: "ustring \<Rightarrow> ustring" where
  "hostportOf authority = (case lastIndexOf 64 authority of None \<Rightarrow> authority | Some i \<Rightarrow> drop (i + 1) authority)"

text \<open>Whitespace inside a host-shaped authority.\<close>

definition whitespaceInHost :: "AuthorityRegion \<Rightarrow> bool" where
  "whitespaceInHost region \<longleftrightarrow>
     (let hostport = hostportOf (ar_authority region) in
      \<not> ar_opaque region \<and> ar_authority region \<noteq> [] \<and> (32 \<in> set hostport \<or> 9 \<in> set hostport)
      \<and> 46 \<in> set hostport \<and> list_ex is_alnum hostport)"

definition scanControlChar :: "ustring \<Rightarrow> RuntimeConfig \<Rightarrow> AuthorityRegion \<Rightarrow> CollectedFinding list" where
  "scanControlChar prepared runtime region =
     (if prepared = [] then []
      else (let raw = List.map_filter classifyControl (codePoints prepared);
                dec = boundedDecode prepared (rt_maxDecodeDepth runtime);
                encoded = (if 37 \<in> set prepared \<and> bd_decoded dec \<noteq> prepared
                  then List.map_filter classifyControl (codePoints (bd_decoded dec)) else []);
                white = whitespaceInHost region;
                signals = dedup (raw @ encoded @ (if white then [''whitespace_in_host''] else []));
                forms = dedup ((if raw = [] then [] else [''raw''])
                  @ (if encoded = [] then []
                     else [if bd_passes dec \<ge> 2 then ''double-encoded'' else ''percent-encoded''])
                  @ (if white then [''raw''] else []))
            in if signals = [] then []
               else [finding control_char
        (str ''URL carries control/whitespace characters used to smuggle a protocol or terminate the host [''
        @ (join (str '', '') (map str forms)) @ str '']: ''
        @ (join (str ''; '') (map (signalGloss CONTROL_SIGNAL_DETAIL) signals)))]))"

text \<open>\<open>ambiguous-authority.ts\<close>.\<close>

definition AUTHORITY_SIGNAL_DETAIL :: "(string \<times> ustring) list" where
  "AUTHORITY_SIGNAL_DETAIL =
     [(''multiple_userinfo'', (str ''more than one '' @ quoted (str ''@'') @ str '' in the authority'')),
      (''whitespace_in_authority'', str ''whitespace inside the authority''),
      (''multiple_port'', (str ''more than one '' @ quoted (str '':'') @ str '' port separator on the host'')),
      (''backslash'', (str ''a backslash that browsers fold to '' @ quoted (str ''/''))),
      (''slash_confusion'', str ''3+ slashes after the scheme, i.e. an empty authority'')]"

definition DIFFERENT_HOST :: "string set" where
  "DIFFERENT_HOST = {''backslash'', ''whitespace_in_authority'', ''slash_confusion''}"

definition countChar :: "ustring \<Rightarrow> nat \<Rightarrow> nat" where
  "countChar s ch = length (filter ((=) ch) s)"

definition hasMultiplePort :: "ustring \<Rightarrow> bool" where
  "hasMultiplePort hostport =
     (if startsWith [91] hostport then
        (case indexOf 93 hostport of
           None \<Rightarrow> False
         | Some close \<Rightarrow> countChar (drop (close + 1) hostport) 58 > 1)
      else countChar hostport 58 > 1)"

definition describeSignals :: "string list \<Rightarrow> ustring" where
  "describeSignals signals =
     (let gloss = signalGloss AUTHORITY_SIGNAL_DETAIL;
          differentHost = filter (\<lambda>s. s \<in> DIFFERENT_HOST) signals;
          acceptVsReject = filter (\<lambda>s. s \<notin> DIFFERENT_HOST) signals
      in join (str '' '' @ dash @ str '' and separately, '')
           ((if differentHost = [] then []
             else [(str ''two conforming readers resolve a different host: ''
        @ (join (str ''; '') (map gloss differentHost)))])
          @ (if acceptVsReject = [] then []
             else [(str ''readers disagree on whether the string is a usable URL at all '' @ dash
        @ str '' one resolves a host, another refuses it, and none reaches a different host: ''
        @ (join (str ''; '') (map gloss acceptVsReject)))])))"

definition authoritySignals :: "AuthorityRegion \<Rightarrow> string list" where
  "authoritySignals region =
     (let separator = ar_separator region; authority = ar_authority region in
      (if countChar authority 64 > 1 then [''multiple_userinfo''] else [])
      @ (if list_ex is_space authority then [''whitespace_in_authority''] else [])
      @ (if hasMultiplePort (if countChar authority 64 > 0 then hostportOf authority else authority)
         then [''multiple_port''] else [])
      @ (if 92 \<in> set separator \<or> 92 \<in> set authority then [''backslash''] else [])
      @ (if length separator \<ge> 3 then [''slash_confusion''] else []))"

definition scanAmbiguousAuthority :: "ustring \<Rightarrow> AuthorityRegion \<Rightarrow> CollectedFinding list" where
  "scanAmbiguousAuthority prepared region =
     (if prepared = [] \<or> ar_opaque region \<or> (ar_scheme region = None \<and> \<not> ar_protocolRelative region) then []
      else (let signals = authoritySignals region in
        if signals = [] then []
        else [finding ambiguous_authority (str ''authority is parser-ambiguous '' @ dash @ str '' '' @ (describeSignals signals))]))"

end
