(* ===== verification/IpRanges.thy ===== *)
theory IpRanges
  imports Reasons "HOL-Library.Word"
begin

unbundle bit_operations_syntax

text \<open>
  The IANA special-purpose address registries (\<open>data/ip-ranges.generated.ts\<close>, with the multicast rows
  of \<open>data/ip-ranges.ts\<close>) and the two scans over them. An IPv4 address is a 32-bit word, an IPv6
  address eight hextets. The scans test a prefix with an exclusive or and a shift, and with a mask
  on the hextet the prefix ends in; the property says that both compute the longest-prefix match.
\<close>

subsection \<open>The tables\<close>

record Ipv4RangeRow =
  r4_base :: "32 word"
  r4_prefix :: nat
  r4_bucket :: "ReasonCode option"
  r4_name :: ustring
  r4_rfc :: ustring

record Ipv6RangeRow =
  r6_base :: "nat list"
  r6_prefix :: nat
  r6_bucket :: "ReasonCode option"
  r6_name :: ustring
  r6_rfc :: ustring

definition row4 :: "32 word \<Rightarrow> nat \<Rightarrow> ReasonCode option \<Rightarrow> ustring \<Rightarrow> ustring \<Rightarrow> Ipv4RangeRow" where
  "row4 b p k n r = \<lparr>r4_base = b, r4_prefix = p, r4_bucket = k, r4_name = n, r4_rfc = r\<rparr>"

definition row6 :: "nat list \<Rightarrow> nat \<Rightarrow> ReasonCode option \<Rightarrow> ustring \<Rightarrow> ustring \<Rightarrow> Ipv6RangeRow" where
  "row6 b p k n r = \<lparr>r6_base = b, r6_prefix = p, r6_bucket = k, r6_name = n, r6_rfc = r\<rparr>"

definition IPV4_SPECIAL_RANGES :: "Ipv4RangeRow list" where
  "IPV4_SPECIAL_RANGES =
     [row4 0x00000000 32 (Some ip_reserved) ([34] @ str ''This host on this network'' @ [34]) (str ''[RFC1122], Section 3.2.1.3''),
      row4 0xc0000008 32 (Some ip_reserved) (str ''IPv4 dummy address'') (str ''[RFC7600]''),
      row4 0xc0000009 32 (None) (str ''Port Control Protocol Anycast'') (str ''[RFC7723]''),
      row4 0xc000000a 32 (None) (str ''Traversal Using Relays around NAT Anycast'') (str ''[RFC8155]''),
      row4 0xc00000aa 32 (Some ip_reserved) (str ''NAT64/DNS64 Discovery'') (str ''[RFC8880][RFC7050], Section 2.2''),
      row4 0xc00000ab 32 (Some ip_reserved) (str ''NAT64/DNS64 Discovery'') (str ''[RFC8880][RFC7050], Section 2.2''),
      row4 0xc0586302 32 (Some ip_reserved) (str ''6a44-relay anycast address'') (str ''[RFC6751]''),
      row4 0xffffffff 32 (Some ip_reserved) (str ''Limited Broadcast'') (str ''[RFC8190] [RFC919], Section 7''),
      row4 0xc0000000 29 (Some ip_reserved) (str ''IPv4 Service Continuity Prefix'') (str ''[RFC7335]''),
      row4 0xc0000000 24 (Some ip_reserved) (str ''IETF Protocol Assignments'') (str ''[RFC6890], Section 2.1''),
      row4 0xc0000200 24 (None) (str ''Documentation (TEST-NET-1)'') (str ''[RFC5737]''),
      row4 0xc01fc400 24 (None) (str ''AS112-v4'') (str ''[RFC7535]''),
      row4 0xc034c100 24 (None) (str ''AMT'') (str ''[RFC7450]''),
      row4 0xc0586300 24 (Some ip_reserved) (str ''Deprecated (6to4 Relay Anycast)'') (str ''[RFC7526]''),
      row4 0xc0af3000 24 (None) (str ''Direct Delegation AS112 Service'') (str ''[RFC7534]''),
      row4 0xc6336400 24 (None) (str ''Documentation (TEST-NET-2)'') (str ''[RFC5737]''),
      row4 0xcb007100 24 (None) (str ''Documentation (TEST-NET-3)'') (str ''[RFC5737]''),
      row4 0xa9fe0000 16 (Some ip_link_local) (str ''Link Local'') (str ''[RFC3927]''),
      row4 0xc0a80000 16 (Some ip_private) (str ''Private-Use'') (str ''[RFC1918]''),
      row4 0xc6120000 15 (Some ip_reserved) (str ''Benchmarking'') (str ''[RFC2544]''),
      row4 0xac100000 12 (Some ip_private) (str ''Private-Use'') (str ''[RFC1918]''),
      row4 0x64400000 10 (Some ip_reserved) (str ''Shared Address Space'') (str ''[RFC6598]''),
      row4 0x00000000 8 (Some ip_reserved) ([34] @ str ''This network'' @ [34]) (str ''[RFC791], Section 3.2''),
      row4 0x0a000000 8 (Some ip_private) (str ''Private-Use'') (str ''[RFC1918]''),
      row4 0x7f000000 8 (Some ip_loopback) (str ''Loopback'') (str ''[RFC1122], Section 3.2.1.3''),
      row4 0xf0000000 4 (Some ip_reserved) (str ''Reserved'') (str ''[RFC1112], Section 4'')]"

definition IPV6_SPECIAL_RANGES :: "Ipv6RangeRow list" where
  "IPV6_SPECIAL_RANGES =
     [row6 [0x0, 0x0, 0x0, 0x0, 0x0, 0x0, 0x0, 0x0] 128 (Some ip_reserved) (str ''Unspecified Address'') (str ''[RFC4291]''),
      row6 [0x0, 0x0, 0x0, 0x0, 0x0, 0x0, 0x0, 0x1] 128 (Some ip_loopback) (str ''Loopback Address'') (str ''[RFC4291]''),
      row6 [0x2001, 0x1, 0x0, 0x0, 0x0, 0x0, 0x0, 0x1] 128 (None) (str ''Port Control Protocol Anycast'') (str ''[RFC7723]''),
      row6 [0x2001, 0x1, 0x0, 0x0, 0x0, 0x0, 0x0, 0x2] 128 (None) (str ''Traversal Using Relays around NAT Anycast'') (str ''[RFC8155]''),
      row6 [0x2001, 0x1, 0x0, 0x0, 0x0, 0x0, 0x0, 0x3] 128 (None) (str ''DNS-SD Service Registration Protocol Anycast'') (str ''[RFC9665]''),
      row6 [0x0, 0x0, 0x0, 0x0, 0x0, 0xffff, 0x0, 0x0] 96 (None) (str ''IPv4-mapped Address'') (str ''[RFC4291]''),
      row6 [0x64, 0xff9b, 0x0, 0x0, 0x0, 0x0, 0x0, 0x0] 96 (None) (str ''IPv4-IPv6 Translat.'') (str ''[RFC6052]''),
      row6 [0x100, 0x0, 0x0, 0x0, 0x0, 0x0, 0x0, 0x0] 64 (Some ip_reserved) (str ''Discard-Only Address Block'') (str ''[RFC6666]''),
      row6 [0x100, 0x0, 0x0, 0x1, 0x0, 0x0, 0x0, 0x0] 64 (Some ip_reserved) (str ''Dummy IPv6 Prefix'') (str ''[RFC9780]''),
      row6 [0x64, 0xff9b, 0x1, 0x0, 0x0, 0x0, 0x0, 0x0] 48 (None) (str ''IPv4-IPv6 Translat.'') (str ''[RFC8215]''),
      row6 [0x2001, 0x2, 0x0, 0x0, 0x0, 0x0, 0x0, 0x0] 48 (Some ip_reserved) (str ''Benchmarking'') (str ''[RFC5180][RFC Errata 1752]''),
      row6 [0x2001, 0x4, 0x112, 0x0, 0x0, 0x0, 0x0, 0x0] 48 (None) (str ''AS112-v6'') (str ''[RFC7535]''),
      row6 [0x2620, 0x4f, 0x8000, 0x0, 0x0, 0x0, 0x0, 0x0] 48 (None) (str ''Direct Delegation AS112 Service'') (str ''[RFC7534]''),
      row6 [0x2001, 0x0, 0x0, 0x0, 0x0, 0x0, 0x0, 0x0] 32 (None) (str ''TEREDO'') (str ''[RFC4380] [RFC8190]''),
      row6 [0x2001, 0x3, 0x0, 0x0, 0x0, 0x0, 0x0, 0x0] 32 (None) (str ''AMT'') (str ''[RFC7450]''),
      row6 [0x2001, 0xdb8, 0x0, 0x0, 0x0, 0x0, 0x0, 0x0] 32 (None) (str ''Documentation'') (str ''[RFC3849]''),
      row6 [0x2001, 0x10, 0x0, 0x0, 0x0, 0x0, 0x0, 0x0] 28 (Some ip_reserved) (str ''Deprecated (previously ORCHID)'') (str ''[RFC4843]''),
      row6 [0x2001, 0x20, 0x0, 0x0, 0x0, 0x0, 0x0, 0x0] 28 (None) (str ''ORCHIDv2'') (str ''[RFC7343]''),
      row6 [0x2001, 0x30, 0x0, 0x0, 0x0, 0x0, 0x0, 0x0] 28 (None) (str ''Drone Remote ID Protocol Entity Tags (DETs) Prefix'') (str ''[RFC9374]''),
      row6 [0x2001, 0x0, 0x0, 0x0, 0x0, 0x0, 0x0, 0x0] 23 (Some ip_reserved) (str ''IETF Protocol Assignments'') (str ''[RFC2928]''),
      row6 [0x3fff, 0x0, 0x0, 0x0, 0x0, 0x0, 0x0, 0x0] 20 (None) (str ''Documentation'') (str ''[RFC9637]''),
      row6 [0x2002, 0x0, 0x0, 0x0, 0x0, 0x0, 0x0, 0x0] 16 (None) (str ''6to4'') (str ''[RFC3056]''),
      row6 [0x5f00, 0x0, 0x0, 0x0, 0x0, 0x0, 0x0, 0x0] 16 (Some ip_reserved) (str ''Segment Routing (SRv6) SIDs'') (str ''[RFC9602]''),
      row6 [0xfe80, 0x0, 0x0, 0x0, 0x0, 0x0, 0x0, 0x0] 10 (Some ip_link_local) (str ''Link-Local Unicast'') (str ''[RFC4291]''),
      row6 [0xfc00, 0x0, 0x0, 0x0, 0x0, 0x0, 0x0, 0x0] 7 (Some ip_private) (str ''Unique-Local'') (str ''[RFC4193] [RFC8190]'')]"

definition MULTICAST_IPV4 :: Ipv4RangeRow where
  "MULTICAST_IPV4 = row4 0xe0000000 4 (Some ip_reserved) (str ''Multicast'') (str ''[RFC5771], Section 2'')"

definition MULTICAST_IPV6 :: Ipv6RangeRow where
  "MULTICAST_IPV6 = row6 [0xff00, 0, 0, 0, 0, 0, 0, 0] 8 (Some ip_reserved) (str ''Multicast'')
     (str ''[RFC4291], Section 2.7'')"

definition IPV4_RANGES :: "Ipv4RangeRow list" where
  "IPV4_RANGES = sort_key (\<lambda>r. - int (r4_prefix r)) (IPV4_SPECIAL_RANGES @ [MULTICAST_IPV4])"

definition IPV6_RANGES :: "Ipv6RangeRow list" where
  "IPV6_RANGES = sort_key (\<lambda>r. - int (r6_prefix r)) (IPV6_SPECIAL_RANGES @ [MULTICAST_IPV6])"

subsection \<open>The scans\<close>

record IpRangeMatch =
  rg_bucket :: ReasonCode
  rg_name :: ustring
  rg_rfc :: ustring

definition inRange4 :: "32 word \<Rightarrow> Ipv4RangeRow \<Rightarrow> bool" where
  "inRange4 addr row \<longleftrightarrow> drop_bit (32 - r4_prefix row) (addr XOR r4_base row) = 0"

definition matchIpv4Range :: "32 word \<Rightarrow> IpRangeMatch option" where
  "matchIpv4Range addr =
     (case find (inRange4 addr) IPV4_RANGES of
        None \<Rightarrow> None
      | Some row \<Rightarrow> map_option (\<lambda>b. \<lparr>rg_bucket = b, rg_name = r4_name row, rg_rfc = r4_rfc row\<rparr>) (r4_bucket row))"

definition inRange6 :: "nat list \<Rightarrow> Ipv6RangeRow \<Rightarrow> bool" where
  "inRange6 hextets row =
     (let whole = drop_bit 4 (r6_prefix row); rest = r6_prefix row AND 15;
          mask = push_bit (16 - rest) 0xffff AND 0xffff
      in list_all (\<lambda>i. hextets ! i = r6_base row ! i) [0..<whole]
         \<and> (if rest \<noteq> 0 then hextets ! whole AND mask = r6_base row ! whole else True))"

definition matchIpv6Range :: "nat list \<Rightarrow> IpRangeMatch option" where
  "matchIpv6Range hextets =
     (if length hextets \<noteq> 8 then None
      else case find (inRange6 hextets) IPV6_RANGES of
        None \<Rightarrow> None
      | Some row \<Rightarrow> map_option (\<lambda>b. \<lparr>rg_bucket = b, rg_name = r6_name row, rg_rfc = r6_rfc row\<rparr>) (r6_bucket row))"

subsection \<open>Prefixes as bits\<close>

text \<open>The specification: the first \<open>prefix\<close> bits of the address are those of the base.\<close>

definition samePrefix4 :: "32 word \<Rightarrow> Ipv4RangeRow \<Rightarrow> bool" where
  "samePrefix4 addr row \<longleftrightarrow> (\<forall>i < r4_prefix row. bit addr (31 - i) = bit (r4_base row) (31 - i))"

definition bit6 :: "nat list \<Rightarrow> nat \<Rightarrow> bool" where
  "bit6 hextets i = bit (hextets ! (i div 16)) (15 - i mod 16)"

definition samePrefix6 :: "nat list \<Rightarrow> Ipv6RangeRow \<Rightarrow> bool" where
  "samePrefix6 hextets row \<longleftrightarrow> (\<forall>i < r6_prefix row. bit6 hextets i = bit6 (r6_base row) i)"

lemma inRange4_iff:
  assumes "r4_prefix row \<le> 32"
  shows "inRange4 addr row \<longleftrightarrow> samePrefix4 addr row"
proof -
  have "inRange4 addr row \<longleftrightarrow> (\<forall>n. 32 - r4_prefix row + n < 32 \<longrightarrow>
      bit addr (32 - r4_prefix row + n) = bit (r4_base row) (32 - r4_prefix row + n))"
    using bit_imp_le_length [of addr] bit_imp_le_length [of "r4_base row"] unfolding inRange4_def bit_eq_iff
    by (fastforce simp: bit_drop_bit_eq bit_xor_iff simp del: drop_bit_xor)
  also have "\<dots> \<longleftrightarrow> samePrefix4 addr row"
  proof
    assume l: "\<forall>n. 32 - r4_prefix row + n < 32 \<longrightarrow>
      bit addr (32 - r4_prefix row + n) = bit (r4_base row) (32 - r4_prefix row + n)"
    show "samePrefix4 addr row"
      unfolding samePrefix4_def
    proof (intro allI impI)
      fix i assume i: "i < r4_prefix row"
      then have e: "32 - r4_prefix row + (r4_prefix row - 1 - i) = 31 - i" using assms by linarith
      show "bit addr (31 - i) = bit (r4_base row) (31 - i)"
        using l [THEN spec, of "r4_prefix row - 1 - i"] i assms unfolding e by simp
    qed
  next
    assume r: "samePrefix4 addr row"
    show "\<forall>n. 32 - r4_prefix row + n < 32 \<longrightarrow>
      bit addr (32 - r4_prefix row + n) = bit (r4_base row) (32 - r4_prefix row + n)"
    proof (intro allI impI)
      fix n assume n: "32 - r4_prefix row + n < 32"
      then have e: "31 - (r4_prefix row - 1 - n) = 32 - r4_prefix row + n" using assms by linarith
      show "bit addr (32 - r4_prefix row + n) = bit (r4_base row) (32 - r4_prefix row + n)"
        using r [unfolded samePrefix4_def, THEN spec, of "r4_prefix row - 1 - n"] n assms unfolding e by simp
    qed
  qed
  finally show ?thesis .
qed

text \<open>A row of the IPv6 table is aligned: the hextet its prefix ends in has no bits beyond it.\<close>

definition aligned6 :: "Ipv6RangeRow \<Rightarrow> bool" where
  "aligned6 row \<longleftrightarrow> length (r6_base row) = 8 \<and> r6_prefix row \<le> 128 \<and> list_all (\<lambda>h. h < 2 ^ 16) (r6_base row)
     \<and> (r6_prefix row mod 16 \<noteq> 0 \<longrightarrow> 2 ^ (16 - r6_prefix row mod 16) dvd r6_base row ! (r6_prefix row div 16))"

lemma bit_below:
  assumes "h < (2 :: nat) ^ k" "bit h n"
  shows "n < k"
proof (rule ccontr)
  assume "\<not> n < k"
  then have "h < 2 ^ n" using assms(1) less_le_trans [OF assms(1) power_increasing [of k n 2]] by simp
  then show False using assms(2) by (simp add: bit_iff_odd)
qed

lemma hextet_eq_iff:
  assumes "h < 2 ^ 16" "g < (2 :: nat) ^ 16"
  shows "h = g \<longleftrightarrow> (\<forall>j < 16. bit h (15 - j) = bit g (15 - j))"
proof
  assume r: "\<forall>j < 16. bit h (15 - j) = bit g (15 - j)"
  show "h = g"
  proof (rule bit_eqI)
    fix n
    show "bit h n = bit g n"
    proof (cases "n < 16")
      case True
      then show ?thesis using r [THEN spec, of "15 - n"] by simp
    next
      case False
      then show ?thesis using bit_below [OF assms(1)] bit_below [OF assms(2)] by blast
    qed
  qed
qed simp

lemma masked_eq_iff:
  assumes "g < (2 :: nat) ^ 16" "0 < r" "r < 16" "2 ^ (16 - r) dvd g"
  shows "h AND (push_bit (16 - r) 0xffff AND 0xffff) = g \<longleftrightarrow> (\<forall>j < r. bit h (15 - j) = bit g (15 - j))"
proof -
  have ffff: "bit (0xffff :: nat) n \<longleftrightarrow> n < 16" for n
    using bit_mask_iff [of 16 n, where ?'a = nat] by (simp add: mask_eq_exp_minus_1)
  have mask: "bit (push_bit (16 - r) 0xffff AND 0xffff :: nat) n \<longleftrightarrow> 16 - r \<le> n \<and> n < 16" for n
    by (auto simp: bit_and_iff bit_push_bit_iff ffff)
  obtain q where q: "g = push_bit (16 - r) q" using assms(4) by (auto simp: push_bit_eq_mult elim: dvdE)
  have g: "bit g n \<Longrightarrow> 16 - r \<le> n \<and> n < 16" for n
    using bit_below [OF assms(1)] by (auto simp: q bit_push_bit_iff)
  have "h AND (push_bit (16 - r) 0xffff AND 0xffff) = g \<longleftrightarrow> (\<forall>n. 16 - r \<le> n \<and> n < 16 \<longrightarrow> bit h n = bit g n)"
    unfolding bit_eq_iff using g by (auto simp: bit_and_iff [of h] mask)
  also have "\<dots> \<longleftrightarrow> (\<forall>j < r. bit h (15 - j) = bit g (15 - j))"
  proof
    assume l: "\<forall>n. 16 - r \<le> n \<and> n < 16 \<longrightarrow> bit h n = bit g n"
    show "\<forall>j < r. bit h (15 - j) = bit g (15 - j)"
    proof (intro allI impI)
      fix j assume "j < r"
      then show "bit h (15 - j) = bit g (15 - j)" using l [THEN spec, of "15 - j"] assms(3) by linarith
    qed
  next
    assume s: "\<forall>j < r. bit h (15 - j) = bit g (15 - j)"
    show "\<forall>n. 16 - r \<le> n \<and> n < 16 \<longrightarrow> bit h n = bit g n"
    proof (intro allI impI)
      fix n assume n: "16 - r \<le> n \<and> n < 16"
      then have "15 - n < r" "15 - (15 - n) = n" using assms(2,3) by linarith+
      then show "bit h n = bit g n" using s by metis
    qed
  qed
  finally show ?thesis .
qed

text \<open>The first \<open>p\<close> bits of an address: all bits of the whole hextets, and some of the next one.\<close>

lemma split_prefix:
  "(\<forall>i < p. Q (i div 16) (i mod 16)) \<longleftrightarrow>
     (\<forall>w < p div 16. \<forall>j < 16. Q w j) \<and> (\<forall>j < p mod 16. Q (p div 16) (j :: nat))"
proof (intro iffI conjI allI impI)
  fix w j assume a: "\<forall>i < p. Q (i div 16) (i mod 16)" and w: "w < p div 16" "j < (16 :: nat)"
  have "(w + 1) * 16 \<le> p div 16 * 16" using w(1) by (intro mult_le_mono1) simp
  then have "w * 16 + j < p" using w(2) div_times_less_eq_dividend [of p 16] by simp
  then have "Q ((w * 16 + j) div 16) ((w * 16 + j) mod 16)" using a by blast
  then show "Q w j" using w(2) by simp
next
  fix j assume a: "\<forall>i < p. Q (i div 16) (i mod 16)" and j: "j < p mod 16"
  have "p div 16 * 16 + j < p" using j div_mult_mod_eq [of p 16] by linarith
  then have "Q ((p div 16 * 16 + j) div 16) ((p div 16 * 16 + j) mod 16)" using a by blast
  moreover have "j < 16" using j mod_less_divisor [of 16 p] by linarith
  ultimately show "Q (p div 16) j" by simp
next
  fix i assume a: "(\<forall>w < p div 16. \<forall>j < 16. Q w j) \<and> (\<forall>j < p mod 16. Q (p div 16) j)" and i: "i < p"
  show "Q (i div 16) (i mod 16)"
  proof (cases "i div 16 < p div 16")
    case True
    then show ?thesis using a by simp
  next
    case False
    then have d: "i div 16 = p div 16" using i div_le_mono [of i p 16] by simp
    have "i mod 16 < p mod 16" using i d div_mult_mod_eq [of p 16] div_mult_mod_eq [of i 16] by linarith
    then show ?thesis using a d by simp
  qed
qed

lemma inRange6_iff:
  assumes "aligned6 row" "length hextets = 8" "list_all (\<lambda>h. h < 2 ^ 16) hextets"
  shows "inRange6 hextets row \<longleftrightarrow> samePrefix6 hextets row"
proof -
  define p where "p = r6_prefix row"
  define w where "w = p div 16"
  have p: "p \<le> 128" "w \<le> 8" using assms(1) by (auto simp: aligned6_def p_def w_def)
  have small: "hextets ! i < 2 ^ 16" "r6_base row ! i < 2 ^ 16" if "i < 8" for i
    using that assms by (auto simp: aligned6_def list_all_length)
  have whole: "(\<forall>i < w. hextets ! i = r6_base row ! i)
      \<longleftrightarrow> (\<forall>i < w. \<forall>j < 16. bit (hextets ! i) (15 - j) = bit (r6_base row ! i) (15 - j))"
    using hextet_eq_iff [OF small] p(2) by (metis order_less_le_trans)
  have rest: "(if p mod 16 \<noteq> 0 then hextets ! w AND (push_bit (16 - p mod 16) 0xffff AND 0xffff) = r6_base row ! w
        else True) \<longleftrightarrow> (\<forall>j < p mod 16. bit (hextets ! w) (15 - j) = bit (r6_base row ! w) (15 - j))"
  proof (cases "p mod 16 = 0")
    case False
    then have "w < 8" using p(1) div_mult_mod_eq [of p 16] unfolding w_def by linarith
    moreover have "2 ^ (16 - p mod 16) dvd r6_base row ! w"
      using assms(1) False by (simp add: aligned6_def p_def w_def)
    ultimately show ?thesis using masked_eq_iff [OF small(2), of w "p mod 16" "hextets ! w"] False by simp
  qed simp
  have "p AND 15 = p mod 16" using take_bit_eq_mask [of 4 p] by (simp add: take_bit_eq_mod mask_eq_exp_minus_1)
  then have "inRange6 hextets row \<longleftrightarrow> (\<forall>i < w. hextets ! i = r6_base row ! i) \<and>
      (if p mod 16 \<noteq> 0 then hextets ! w AND (push_bit (16 - p mod 16) 0xffff AND 0xffff) = r6_base row ! w else True)"
    by (simp add: inRange6_def Let_def p_def w_def drop_bit_eq_div list_all_iff Ball_def)
  also have "\<dots> \<longleftrightarrow> samePrefix6 hextets row"
    unfolding whole rest samePrefix6_def bit6_def
    using split_prefix [of p "\<lambda>w j. bit (hextets ! w) (15 - j) = bit (r6_base row ! w) (15 - j)"]
    by (simp add: p_def w_def)
  finally show ?thesis .
qed

lemma tables_aligned:
  "list_all (\<lambda>r. 0 < r4_prefix r \<and> r4_prefix r \<le> 32) (IPV4_SPECIAL_RANGES @ [MULTICAST_IPV4])"
  "list_all aligned6 (IPV6_SPECIAL_RANGES @ [MULTICAST_IPV6])"
  by (simp_all add: IPV4_SPECIAL_RANGES_def MULTICAST_IPV4_def row4_def IPV6_SPECIAL_RANGES_def MULTICAST_IPV6_def
      row6_def aligned6_def)

text \<open>The first hit in a list sorted by a key has the least key of all hits.\<close>

lemma find_sorted_least:
  assumes "find P (sort_key f xs) = Some r"
  shows "r \<in> set xs" "P r" "\<And>x. x \<in> set xs \<Longrightarrow> P x \<Longrightarrow> f r \<le> f x"
proof -
  obtain i where i: "i < length (sort_key f xs)" "P (sort_key f xs ! i)" "r = sort_key f xs ! i"
    "\<And>j. j < i \<Longrightarrow> \<not> P (sort_key f xs ! j)"
    using assms unfolding find_Some_iff by blast
  show "P r" using i by simp
  show "r \<in> set xs" using i nth_mem [of i "sort_key f xs"] by simp
  show "f r \<le> f x" if "x \<in> set xs" "P x" for x
  proof -
    have "x \<in> set (sort_key f xs)" using that(1) by simp
    then obtain j where j: "j < length (sort_key f xs)" "sort_key f xs ! j = x" unfolding in_set_conv_nth by blast
    have "i \<le> j" using i(4) [of j] j(2) that(2) by (auto simp: not_less [symmetric])
    then have "map f (sort_key f xs) ! i \<le> map f (sort_key f xs) ! j"
      using j(1) by (intro sorted_nth_mono) simp_all
    then show ?thesis using i(1,3) j by simp
  qed
qed

definition longest4 :: "32 word \<Rightarrow> Ipv4RangeRow \<Rightarrow> bool" where
  "longest4 addr row \<longleftrightarrow> row \<in> set IPV4_RANGES \<and> samePrefix4 addr row
     \<and> (\<forall>row' \<in> set IPV4_RANGES. samePrefix4 addr row' \<longrightarrow> r4_prefix row' \<le> r4_prefix row)"

definition longest6 :: "nat list \<Rightarrow> Ipv6RangeRow \<Rightarrow> bool" where
  "longest6 hextets row \<longleftrightarrow> row \<in> set IPV6_RANGES \<and> samePrefix6 hextets row
     \<and> (\<forall>row' \<in> set IPV6_RANGES. samePrefix6 hextets row' \<longrightarrow> r6_prefix row' \<le> r6_prefix row)"

lemma find_longest4:
  "case find (inRange4 addr) IPV4_RANGES of
     Some row \<Rightarrow> longest4 addr row | None \<Rightarrow> \<not> list_ex (samePrefix4 addr) IPV4_RANGES"
proof -
  have iff: "inRange4 addr row \<longleftrightarrow> samePrefix4 addr row" if "row \<in> set IPV4_RANGES" for row
    using that tables_aligned(1) by (intro inRange4_iff) (auto simp: IPV4_RANGES_def list_all_iff)
  show ?thesis
  proof (cases "find (inRange4 addr) IPV4_RANGES")
    case None
    then have "\<forall>row \<in> set IPV4_RANGES. \<not> inRange4 addr row" by (auto simp: find_None_iff)
    then show ?thesis using None iff by (simp add: list_ex_iff)
  next
    case (Some row)
    note least = find_sorted_least [OF Some [unfolded IPV4_RANGES_def]]
    have "row \<in> set IPV4_RANGES" using least(1) by (simp add: IPV4_RANGES_def)
    moreover have "r4_prefix row' \<le> r4_prefix row" if "row' \<in> set IPV4_RANGES" "samePrefix4 addr row'" for row'
      using least(3) [of row'] that iff by (simp add: IPV4_RANGES_def)
    ultimately show ?thesis using Some least(2) iff by (auto simp: longest4_def)
  qed
qed

lemma find_longest6:
  assumes "length hextets = 8" "list_all (\<lambda>h. h < 2 ^ 16) hextets"
  shows "case find (inRange6 hextets) IPV6_RANGES of
     Some row \<Rightarrow> longest6 hextets row | None \<Rightarrow> \<not> list_ex (samePrefix6 hextets) IPV6_RANGES"
proof -
  have iff: "inRange6 hextets row \<longleftrightarrow> samePrefix6 hextets row" if "row \<in> set IPV6_RANGES" for row
    using that tables_aligned(2) assms by (intro inRange6_iff) (auto simp: IPV6_RANGES_def list_all_iff)
  show ?thesis
  proof (cases "find (inRange6 hextets) IPV6_RANGES")
    case None
    then have "\<forall>row \<in> set IPV6_RANGES. \<not> inRange6 hextets row" by (auto simp: find_None_iff)
    then show ?thesis using None iff by (simp add: list_ex_iff)
  next
    case (Some row)
    note least = find_sorted_least [OF Some [unfolded IPV6_RANGES_def]]
    have "row \<in> set IPV6_RANGES" using least(1) by (simp add: IPV6_RANGES_def)
    moreover have "r6_prefix row' \<le> r6_prefix row" if "row' \<in> set IPV6_RANGES" "samePrefix6 hextets row'" for row'
      using least(3) [of row'] that iff by (simp add: IPV6_RANGES_def)
    ultimately show ?thesis using Some least(2) iff by (auto simp: longest6_def)
  qed
qed

text \<open>What a row reports: its bucket with the citation, or nothing for a carve-out.\<close>

definition cite4 :: "Ipv4RangeRow \<Rightarrow> IpRangeMatch option" where
  "cite4 row = map_option (\<lambda>b. \<lparr>rg_bucket = b, rg_name = r4_name row, rg_rfc = r4_rfc row\<rparr>) (r4_bucket row)"

definition cite6 :: "Ipv6RangeRow \<Rightarrow> IpRangeMatch option" where
  "cite6 row = map_option (\<lambda>b. \<lparr>rg_bucket = b, rg_name = r6_name row, rg_rfc = r6_rfc row\<rparr>) (r6_bucket row)"

text \<open>
  C35: The IPv4 and IPv6 range scans are longest-prefix matches: an address is classified by a
  registry row whose first \<open>prefix\<close> bits it shares and than which no matching row has a longer
  prefix (a carve-out classifies it as nothing), and as nothing when no row matches.
\<close>

theorem range_match_longest_prefix:
  assumes "length hextets = 8" "list_all (\<lambda>h. h < 2 ^ 16) hextets"
  shows "(if list_ex (samePrefix4 addr) IPV4_RANGES
            then \<exists>row. longest4 addr row \<and> matchIpv4Range addr = cite4 row else matchIpv4Range addr = None)
       \<and> (if list_ex (samePrefix6 hextets) IPV6_RANGES
            then \<exists>row. longest6 hextets row \<and> matchIpv6Range hextets = cite6 row else matchIpv6Range hextets = None)"
proof (intro conjI)
  show "if list_ex (samePrefix4 addr) IPV4_RANGES
      then \<exists>row. longest4 addr row \<and> matchIpv4Range addr = cite4 row else matchIpv4Range addr = None"
  proof (cases "find (inRange4 addr) IPV4_RANGES")
    case None
    then show ?thesis using find_longest4 [of addr] by (simp add: matchIpv4Range_def)
  next
    case (Some row)
    then have l: "longest4 addr row" using find_longest4 [of addr] by simp
    then have "list_ex (samePrefix4 addr) IPV4_RANGES" unfolding longest4_def list_ex_iff by blast
    moreover have "matchIpv4Range addr = cite4 row" using Some by (simp add: matchIpv4Range_def cite4_def)
    ultimately show ?thesis using l by auto
  qed
  show "if list_ex (samePrefix6 hextets) IPV6_RANGES
      then \<exists>row. longest6 hextets row \<and> matchIpv6Range hextets = cite6 row else matchIpv6Range hextets = None"
  proof (cases "find (inRange6 hextets) IPV6_RANGES")
    case None
    then show ?thesis using find_longest6 [OF assms] by (simp add: matchIpv6Range_def)
  next
    case (Some row)
    then have l: "longest6 hextets row" using find_longest6 [OF assms] by simp
    then have "list_ex (samePrefix6 hextets) IPV6_RANGES" unfolding longest6_def list_ex_iff by blast
    moreover have "matchIpv6Range hextets = cite6 row" using Some assms(1) by (simp add: matchIpv6Range_def cite6_def)
    ultimately show ?thesis using l by auto
  qed
qed

theorem range_match_longest_prefix_witness:
  "\<exists>row. longest4 0xa9fea9fe row \<and> matchIpv4Range 0xa9fea9fe = cite4 row"
proof -
  have "samePrefix4 0xa9fea9fe (row4 0xa9fe0000 16 (Some ip_link_local) (str ''Link Local'') (str ''[RFC3927]''))"
    by (subst inRange4_iff [symmetric]) (simp_all add: row4_def inRange4_def)
  moreover have "row4 0xa9fe0000 16 (Some ip_link_local) (str ''Link Local'') (str ''[RFC3927]'') \<in> set IPV4_RANGES"
    by (simp only: IPV4_RANGES_def IPV4_SPECIAL_RANGES_def set_sort set_append list.set Un_iff insert_iff simp_thms)
  ultimately have "list_ex (samePrefix4 0xa9fea9fe) IPV4_RANGES" by (auto simp: list_ex_iff)
  then show ?thesis
    using range_match_longest_prefix [of "[0, 0, 0, 0, 0, 0, 0, 1]" "0xa9fea9fe"] by simp
qed

end
