(* ===== verification/HostChecks.thy ===== *)
theory HostChecks
  imports TextChecks IpRanges
begin

text \<open>
  The detectors that read the host as a network name: literal addresses and their classification
  (\<open>ip-classification.ts\<close> over the registries and the cloud-metadata tables), numeric hosts readers
  disagree about, reserved names, DNS length limits and the shape of the subdomain. The properties
  say that classification depends on the address and not on its spelling, and that detectors the
  code means to be disjoint never fire together.
\<close>

subsection \<open>data/cloud-metadata.ts\<close>

datatype CloudEndpointKind = InstanceMetadata | ProviderInternal

record CloudMetadataEndpoint =
  ce_address :: ustring
  ce_provider :: ustring
  ce_kind :: "CloudEndpointKind option"
  ce_source :: ustring

record CloudMetadataHostname =
  ch_hostname :: ustring
  ch_address :: ustring
  ch_provider :: ustring
  ch_kind :: "CloudEndpointKind option"
  ch_source :: ustring

definition endpoint :: "string \<Rightarrow> string \<Rightarrow> CloudEndpointKind option \<Rightarrow> string \<Rightarrow> CloudMetadataEndpoint" where
  "endpoint a p k s = \<lparr>ce_address = str a, ce_provider = str p, ce_kind = k, ce_source = str s\<rparr>"

definition hostRow ::
    "string \<Rightarrow> string \<Rightarrow> string \<Rightarrow> CloudEndpointKind option \<Rightarrow> string \<Rightarrow> CloudMetadataHostname" where
  "hostRow h a p k s =
     \<lparr>ch_hostname = str h, ch_address = str a, ch_provider = str p, ch_kind = k, ch_source = str s\<rparr>"

definition CLOUD_METADATA_ENDPOINTS :: "CloudMetadataEndpoint list" where
  "CLOUD_METADATA_ENDPOINTS =
     [endpoint ''169.254.169.254'' ''AWS / Azure / GCP / DigitalOcean / OpenStack'' None
        ''https://docs.aws.amazon.com/AWSEC2/latest/UserGuide/instancedata-data-retrieval.html'',
      endpoint ''fd00:ec2::254'' ''AWS (IPv6 IMDS)'' None
        ''https://docs.aws.amazon.com/AWSEC2/latest/UserGuide/configuring-instance-metadata-service.html'',
      endpoint ''192.0.0.192'' ''Oracle Cloud'' None
        ''https://docs.oracle.com/en-us/iaas/Content/Compute/Tasks/gettingmetadata.htm'',
      endpoint ''100.100.100.200'' ''Alibaba Cloud'' None
        ''https://www.alibabacloud.com/help/en/ecs/user-guide/view-instance-metadata/'',
      endpoint ''168.63.129.16'' ''Azure (WireServer host channel)'' (Some ProviderInternal)
        ''https://learn.microsoft.com/en-us/azure/virtual-network/what-is-ip-address-168-63-129-16'',
      endpoint ''169.254.170.2'' ''AWS (ECS task credentials)'' None
        ''https://docs.aws.amazon.com/AmazonECS/latest/developerguide/task-iam-roles.html'',
      endpoint ''169.254.170.23'' ''AWS (EKS Pod Identity)'' None
        ''https://docs.aws.amazon.com/eks/latest/userguide/pod-id-agent-setup.html'',
      endpoint ''fd00:ec2::23'' ''AWS (EKS Pod Identity, IPv6)'' None
        ''https://docs.aws.amazon.com/eks/latest/userguide/pod-id-agent-setup.html'',
      endpoint ''169.254.0.23'' ''Tencent Cloud'' None
        ''https://www.tencentcloud.com/document/product/213/32364'',
      endpoint ''fd20:ce::254'' ''GCP (IPv6-only instances)'' None
        ''https://docs.cloud.google.com/compute/docs/metadata/querying-metadata'']"

definition CLOUD_METADATA_HOSTNAMES :: "CloudMetadataHostname list" where
  "CLOUD_METADATA_HOSTNAMES =
     [hostRow ''metadata.google.internal'' ''169.254.169.254'' ''GCP'' None
        ''https://docs.cloud.google.com/compute/docs/metadata/querying-metadata'',
      hostRow ''metadata.goog'' ''169.254.169.254'' ''GCP'' None
        ''https://docs.cloud.google.com/compute/docs/metadata/querying-metadata'',
      hostRow ''metadata.tencentyun.com'' ''169.254.0.23'' ''Tencent Cloud'' None
        ''https://www.tencentcloud.com/document/product/213/4934'',
      hostRow ''api.metadata.cloud.ibm.com'' ''169.254.169.254'' ''IBM Cloud VPC'' None
        ''https://cloud.ibm.com/apidocs/vpc-metadata'',
      hostRow ''metadata.exoscale.com'' ''169.254.169.254'' ''Exoscale'' None
        ''https://community.exoscale.com/product/compute/instances/how-to/cloud-init-user-data/'']"

text \<open>\<open>host.endsWith(".") ? host.slice(0, -1) : host\<close>.\<close>

definition bareHost :: "ustring \<Rightarrow> ustring" where
  "bareHost host = (if endsWith [46] host then butlast host else host)"

definition matchCloudMetadataHostname :: "platform \<Rightarrow> ustring \<Rightarrow> CloudMetadataHostname option" where
  "matchCloudMetadataHostname E host =
     (if host = [] then None
      else map_of (rev (map (\<lambda>row. (ch_hostname row, row)) CLOUD_METADATA_HOSTNAMES))
             (pf_toLowerCase E (bareHost host)))"

subsection \<open>data/special-use-names.ts, special-use-name.ts\<close>

datatype SpecialUseReferent = NoReferent | LocallyScoped | MachineRelative | SeparateNamespace

record SpecialUseName =
  su_name :: ustring
  su_citation :: ustring
  su_referent :: SpecialUseReferent
  su_note :: ustring

definition specialUse :: "string \<Rightarrow> ustring \<Rightarrow> SpecialUseReferent \<Rightarrow> ustring \<Rightarrow> SpecialUseName" where
  "specialUse n c r t = \<lparr>su_name = str n, su_citation = c, su_referent = r, su_note = t\<rparr>"

definition SPECIAL_USE_NAMES :: "SpecialUseName list" where
  "SPECIAL_USE_NAMES =
     [specialUse ''invalid'' (str ''RFC 6761 '' @ [167] @ str ''6.4'') NoReferent
        (str ''it names nothing on any network anywhere '' @ dash
        @ str '' the RFC guarantees a lookup returns NXDOMAIN, which is the point of the name''),
      specialUse ''alt'' (str ''RFC 9476'') NoReferent
        (str ''it is reserved for name systems that are NOT the DNS, so it has no DNS referent in any deployment''),
      specialUse ''localhost'' (str ''RFC 6761 '' @ [167] @ str ''6.3'') MachineRelative
        (str ''the RFC MANDATES loopback, so every resolver everywhere is required to give the same answer ''
        @ dash
        @ str '' the referent is fixed globally and is simply relative to the machine asking''),
      specialUse ''onion'' (str ''RFC 7686'') SeparateNamespace
        (str ''it addresses a Tor hidden service in a namespace that is not the DNS; resolution happens, through the Tor overlay''),
      specialUse ''internal'' (str ''ICANN Board resolution 2024-07-29'') LocallyScoped
        (str ''it is reserved for private-use applications, so it resolves only inside the deployment whose own resolver defines it''),
      specialUse ''local'' (str ''RFC 6762 '' @ [167] @ str ''3'') LocallyScoped
        (str ''it is answered by link-local multicast DNS, so it resolves only on the link the query was asked on''),
      specialUse ''home.arpa'' (str ''RFC 8375'') LocallyScoped
        (str ''it is the name for a home network'' @ [39]
        @ str ''s own zone, so it resolves only inside that home network''),
      specialUse ''test'' (str ''RFC 6761 '' @ [167] @ str ''6.2'') LocallyScoped
        (str ''it is reserved for testing, so any referent it has belongs to whichever test environment defined it''),
      specialUse ''example'' (str ''RFC 6761 '' @ [167] @ str ''6.5'') LocallyScoped
        (str ''it is reserved for documentation; the SECOND-LEVEL reservations in the same section ''
        @ dash @ str '' example.com, example.net, example.org '' @ dash
        @ str '' are deliberately NOT covered here, because those sit under a delegated TLD and do resolve'')]"

text \<open>The suffixes of the host, longest first.\<close>

fun firstSpecialUse :: "ustring list \<Rightarrow> SpecialUseName option" where
  "firstSpecialUse [] = None"
| "firstSpecialUse (l # ls) =
     (case map_of (rev (map (\<lambda>row. (su_name row, row)) SPECIAL_USE_NAMES)) (join [46] (l # ls)) of
        Some row \<Rightarrow> Some row
      | None \<Rightarrow> firstSpecialUse ls)"

definition matchSpecialUseName :: "platform \<Rightarrow> ustring \<Rightarrow> SpecialUseName option" where
  "matchSpecialUseName E host =
     (if host = [] then None else firstSpecialUse (split_on 46 (pf_toLowerCase E (bareHost host))))"

definition SPECIAL_USE_PREDICATE :: ustring where
  "SPECIAL_USE_PREDICATE = str ''reserved, never delegated in the global DNS root, never publicly resolvable''"

definition specialUseName :: "platform \<Rightarrow> InspectionContext \<Rightarrow> CollectedFinding list" where
  "specialUseName E ctx =
     (if cx_isIp ctx \<or> cx_host ctx = [] then []
      else case matchSpecialUseName E (cx_host ctx) of
        None \<Rightarrow> []
      | Some row \<Rightarrow>
          if matchCloudMetadataHostname E (cx_host ctx) \<noteq> None then []
          else [finding special_use_name
        (str ''host sits under the reserved special-use name '' @ [96] @ str ''.''
        @ (su_name row) @ [96] @ str '': '' @ SPECIAL_USE_PREDICATE @ str '' (''
        @ (su_citation row) @ str '') '' @ dash @ str '' '' @ (su_note row)
        @ str ''. Informational only '' @ dash
        @ str '' the string is well-formed, every reader agrees on it, and it makes no false claim about itself, so it is not a deception finding'')])"

subsection \<open>ip-classification.ts, ssrf-cloud-metadata.ts\<close>

record BucketMatch =
  bm_bucket :: ReasonCode
  bm_provider :: "ustring option"
  bm_endpointKind :: "CloudEndpointKind option"
  bm_rangeName :: "ustring option"
  bm_rangeRfc :: "ustring option"

text \<open>\<open>n >>> 0\<close> at the end reduces the number to 32 bits.\<close>

definition dottedToInt :: "ustring \<Rightarrow> 32 word" where
  "dottedToInt dotted = word_of_nat (foldl (\<lambda>n p. n * 256 + radix_val 10 p) 0 (split_on 46 dotted))"

text \<open>The two indexes the module builds when it is loaded; a later row for the same address wins.\<close>

definition METADATA_IPV4 :: "32 word \<rightharpoonup> CloudMetadataEndpoint" where
  "METADATA_IPV4 = map_of (rev (List.map_filter
     (\<lambda>e. map_option (\<lambda>v4. (dottedToInt (v4_canonical v4), e)) (analyzeIpv4 (ce_address e)))
     CLOUD_METADATA_ENDPOINTS))"

definition METADATA_IPV6 :: "ustring \<rightharpoonup> CloudMetadataEndpoint" where
  "METADATA_IPV6 = map_of (rev (List.map_filter
     (\<lambda>e. if analyzeIpv4 (ce_address e) \<noteq> None then None
          else map_option (\<lambda>v6. (v6_canonical v6, e)) (analyzeIpv6 (ce_address e)))
     CLOUD_METADATA_ENDPOINTS))"

definition metadataMatch :: "CloudMetadataEndpoint \<Rightarrow> BucketMatch" where
  "metadataMatch e =
     \<lparr>bm_bucket = ip_cloud_metadata, bm_provider = Some (ce_provider e),
      bm_endpointKind = Some (case ce_kind e of Some k \<Rightarrow> k | None \<Rightarrow> InstanceMetadata),
      bm_rangeName = None, bm_rangeRfc = None\<rparr>"

definition rangeMatch :: "IpRangeMatch \<Rightarrow> BucketMatch" where
  "rangeMatch r =
     \<lparr>bm_bucket = rg_bucket r, bm_provider = None, bm_endpointKind = None,
      bm_rangeName = Some (rg_name r), bm_rangeRfc = Some (rg_rfc r)\<rparr>"

text \<open>\<open>parseInt(h, 16)\<close> on a group of a canonical literal: its hexadecimal prefix, or not a number.\<close>

definition parseHexInt :: "ustring \<Rightarrow> nat option" where
  "parseHexInt h = (let d = takeWhile is_hex h in if d = [] then None else Some (radix_val 16 d))"

definition hexGroups :: "ustring \<Rightarrow> nat option list" where
  "hexGroups s = (if s = [] then [] else map parseHexInt (split_on 58 s))"

definition hextetsOf :: "ustring \<Rightarrow> nat list option" where
  "hextetsOf canonical =
     (let out = (case cutDbl canonical of
            None \<Rightarrow> Some (hexGroups canonical)
          | Some (l, r) \<Rightarrow>
              (let left = hexGroups l; right = hexGroups r in
               if length left + length right > 8 then None
               else Some (left @ replicate (8 - length left - length right) (Some 0) @ right)))
      in case out of None \<Rightarrow> None | Some gs \<Rightarrow> if length gs \<noteq> 8 then None else those gs)"

definition classifyIpv4 :: "ustring \<Rightarrow> BucketMatch option" where
  "classifyIpv4 dotted =
     (let n = dottedToInt dotted in
      case METADATA_IPV4 n of
        Some e \<Rightarrow> Some (metadataMatch e)
      | None \<Rightarrow> map_option rangeMatch (matchIpv4Range n))"

definition classifyIpv6 :: "ustring \<Rightarrow> BucketMatch option" where
  "classifyIpv6 canonical =
     (let c = lower canonical in
      case METADATA_IPV6 c of
        Some e \<Rightarrow> Some (metadataMatch e)
      | None \<Rightarrow> (case hextetsOf c of
            None \<Rightarrow> None
          | Some hextets \<Rightarrow> map_option rangeMatch (matchIpv6Range hextets)))"

record IpClassification =
  ic_match :: BucketMatch
  ic_shown :: ustring
  ic_canonical :: ustring
  ic_embeddedVia :: "string option"
  ic_viaHostname :: bool

definition classification :: "BucketMatch \<Rightarrow> ustring \<Rightarrow> ustring \<Rightarrow> string option \<Rightarrow> IpClassification" where
  "classification m shown canonical via =
     \<lparr>ic_match = m, ic_shown = shown, ic_canonical = canonical, ic_embeddedVia = via, ic_viaHostname = False\<rparr>"

definition classifyMetadataHostname :: "platform \<Rightarrow> ustring \<Rightarrow> IpClassification option" where
  "classifyMetadataHostname E host =
     map_option (\<lambda>row.
       \<lparr>ic_match = \<lparr>bm_bucket = ip_cloud_metadata, bm_provider = Some (ch_provider row),
          bm_endpointKind = Some (case ch_kind row of Some k \<Rightarrow> k | None \<Rightarrow> InstanceMetadata),
          bm_rangeName = None, bm_rangeRfc = None\<rparr>,
        ic_shown = host, ic_canonical = ch_address row, ic_embeddedVia = None, ic_viaHostname = True\<rparr>)
     (matchCloudMetadataHostname E host)"

definition bracketed :: "ustring \<Rightarrow> ustring" where
  "bracketed host = [91] @ host @ [93]"

definition classifyHost :: "ustring \<Rightarrow> IpClassification option" where
  "classifyHost host =
     (if host = [] then None
      else case analyzeIpv4 host of
        Some ip4 \<Rightarrow> map_option (\<lambda>m. classification m host (v4_canonical ip4) None) (classifyIpv4 (v4_canonical ip4))
      | None \<Rightarrow>
          (case analyzeIpv6 host of
             None \<Rightarrow> None
           | Some ip6 \<Rightarrow>
               (case Option.bind (v6_embeddedIpv4 ip6) (\<lambda>e. map_option (\<lambda>m. (e, m)) (classifyIpv4 e)) of
                  Some (e, m) \<Rightarrow> Some (classification m (bracketed host) e (v6_embeddedIpv4Via ip6))
                | None \<Rightarrow> map_option (\<lambda>m. classification m (bracketed host) (v6_canonical ip6) None)
                            (classifyIpv6 (v6_canonical ip6)))))"

definition cloudEndpointPhrase :: "IpClassification \<Rightarrow> ustring" where
  "cloudEndpointPhrase c =
     (let noun = (if bm_endpointKind (ic_match c) = Some ProviderInternal
            then str ''provider-internal infrastructure endpoint'' else str ''instance-metadata endpoint'')
      in case bm_provider (ic_match c) of
           None \<Rightarrow> (str ''the cloud '' @ noun)
         | Some p \<Rightarrow> (str ''the '' @ p @ str '' '' @ noun))"

definition endpointLocator :: "IpClassification \<Rightarrow> ustring" where
  "endpointLocator c =
     (if ic_viaHostname c then (str ''the vendor-documented name for '' @ (ic_canonical c)) else ic_canonical c)"

definition BUCKET_SUMMARY :: "(ReasonCode \<times> ustring) list" where
  "BUCKET_SUMMARY =
     [(ip_cloud_metadata, str ''a cloud provider-internal endpoint (SSRF target)''),
      (ip_loopback, str ''a loopback address''),
      (ip_link_local, str ''a link-local address''),
      (ip_private, str ''a private (internal) address''),
      (ip_reserved, str ''a reserved / special-use address'')]"

definition summaryFor :: "IpClassification \<Rightarrow> ustring" where
  "summaryFor c =
     (if bm_bucket (ic_match c) = ip_cloud_metadata \<and> bm_provider (ic_match c) \<noteq> None
      then ((cloudEndpointPhrase c) @ str '' (SSRF target)'')
      else the (map_of BUCKET_SUMMARY (bm_bucket (ic_match c))))"

definition trimEnd :: "ustring \<Rightarrow> ustring" where
  "trimEnd s = rev (dropWhile is_space (rev s))"

definition classificationFinding :: "IpClassification \<Rightarrow> CollectedFinding" where
  "classificationFinding c =
     (let via = (case ic_embeddedVia c of None \<Rightarrow> [] | Some v \<Rightarrow> (str '', unwrapped from the '' @ (str v)));
          cite = (case bm_rangeName (ic_match c) of
              None \<Rightarrow> []
            | Some name \<Rightarrow> trimEnd (str '' '' @ dash @ str '' IANA '' @ name @ str '', ''
        @ (orEmpty (bm_rangeRfc (ic_match c)))))
      in finding (bm_bucket (ic_match c))
           (if ic_viaHostname c then
        (str ''host '' @ quoted (ic_shown c) @ str '' is '' @ (summaryFor c) @ str '' '' @ dash
        @ str '' '' @ (endpointLocator c))
            else
        (str ''host '' @ quoted (ic_shown c) @ str '' resolves to '' @ (summaryFor c)
        @ str '' ('' @ (ic_canonical c) @ via @ str '')'' @ cite)))"

text \<open>\<open>classifyMetadataHostname(ctx.host) ?? classifyHost(ctx.host)\<close>.\<close>

definition classifyName :: "platform \<Rightarrow> ustring \<Rightarrow> IpClassification option" where
  "classifyName E host = (case classifyMetadataHostname E host of Some c \<Rightarrow> Some c | None \<Rightarrow> classifyHost host)"

definition ipClassification :: "platform \<Rightarrow> InspectionContext \<Rightarrow> CollectedFinding list" where
  "ipClassification E ctx =
     (case classifyName E (cx_host ctx) of None \<Rightarrow> [] | Some c \<Rightarrow> [classificationFinding c])"

definition ssrfCloudMetadata :: "platform \<Rightarrow> InspectionContext \<Rightarrow> CollectedFinding list" where
  "ssrfCloudMetadata E ctx =
     (case classifyName E (cx_host ctx) of
        None \<Rightarrow> []
      | Some c \<Rightarrow>
          if bm_bucket (ic_match c) \<noteq> ip_cloud_metadata then []
          else [finding ReasonCode.ssrf_cloud_metadata
        (str ''agent context: host '' @ quoted (ic_shown c) @ str '' is ''
        @ (cloudEndpointPhrase c) @ str '' ('' @ (endpointLocator c) @ str '') '' @ dash
        @ str '' an in-flight SSRF credential-theft target, blocked'')])"

subsection \<open>ip-obfuscation.ts, ambiguous-numeric-host.ts\<close>

definition ipObfuscation :: "InspectionContext \<Rightarrow> CollectedFinding list" where
  "ipObfuscation ctx =
     (if cx_host ctx = [] then []
      else case analyzeIpv4 (cx_host ctx) of
        Some ip4 \<Rightarrow>
          if \<not> v4_obfuscated ip4 then []
          else [finding ip_obfuscation
        (str ''host '' @ quoted (cx_host ctx) @ str '' is an obfuscated IP; canonical form is ''
        @ (v4_canonical ip4))]
      | None \<Rightarrow>
          (case analyzeIpv6 (cx_host ctx) of
             None \<Rightarrow> []
           | Some ip6 \<Rightarrow>
               if \<not> v6_obfuscated ip6 then []
               else (let embed = (case v6_embeddedIpv4 ip6 of None \<Rightarrow> [] | Some a \<Rightarrow> (str '' (embeds IPv4 '' @ a @ str '')'')) in
                 [finding ip_obfuscation
        (str ''host '' @ quoted (bracketed (cx_host ctx))
        @ str '' is a non-canonical IPv6 literal'' @ embed @ str ''; canonical form is ''
        @ (bracketed (v6_canonical ip6)))])))"

text \<open>\<open>/^(?:[0-9]+|0[xX][0-9a-fA-F]*)$/\<close>.\<close>

definition triggersIpv4Path :: "ustring \<Rightarrow> bool" where
  "triggersIpv4Path label = (label \<noteq> [] \<and> list_all is_digit label
     \<or> (case label of c # x # ds \<Rightarrow> c = 48 \<and> (x = 120 \<or> x = 88) \<and> list_all is_hex ds | _ \<Rightarrow> False))"

definition ambiguousNumericHost :: "InspectionContext \<Rightarrow> CollectedFinding list" where
  "ambiguousNumericHost ctx =
     (if cx_host ctx = [] then []
      else if analyzeIpv6 (cx_host ctx) \<noteq> None then []
      else (let host = stripTrailingRootDot (cx_host ctx); labels = split_on 46 host; lst = last labels in
        if lst = [] \<or> \<not> triggersIpv4Path lst then []
        else if analyzeIpv4 host \<noteq> None then []
        else [finding ambiguous_numeric_host
          (if list_all triggersIpv4Path labels then
        (str ''host '' @ quoted (cx_host ctx) @ str '' is a malformed IPv4 literal '' @ dash
        @ str '' a browser parses it as an IPv4 address and rejects it, but non-browser clients may resolve it as a hostname'')
           else
        (str ''host '' @ quoted (cx_host ctx) @ str '' ends in a numeric/hex label '' @ dash
        @ str '' a browser parses the whole host as IPv4 and rejects it, but non-browser clients may resolve it as a hostname''))]))"

subsection \<open>fqdn-root-label.ts, host-length-unresolvable.ts, excessive-subdomain-depth.ts\<close>

definition fqdnRootLabel :: "InspectionContext \<Rightarrow> CollectedFinding list" where
  "fqdnRootLabel ctx =
     (if cx_isIp ctx \<or> cx_host ctx = [] \<or> \<not> endsWith [46] (cx_host ctx) then []
      else (let bare = butlast (cx_host ctx) in
        [finding fqdn_root_label
        (str ''host '' @ quoted (cx_host ctx)
        @ str '' carries an explicit DNS root label (the trailing dot) '' @ dash
        @ str '' the fully-qualified form of '' @ quoted bare @ str ''. It is valid (RFC 1034 ''
        @ [167]
        @ str ''3.1) and resolves identically, so this is informational, not a deception finding. It is reported because a consumer that allow-lists host names by STRING comparison will not match ''
        @ quoted bare
        @ str '' against this input and can be bypassed by the single trailing character; compare registrable domains instead, as linklint''
        @ [39] @ str ''s own policy layer does'')]))"

definition MAX_LABEL_OCTETS :: nat where "MAX_LABEL_OCTETS = 63"
definition MAX_HOST_OCTETS :: nat where "MAX_HOST_OCTETS = 253"

text \<open>The length of the UTF-8 encoding; an unpaired surrogate is encoded as U+FFFD.\<close>

definition octetCount :: "ustring \<Rightarrow> nat" where
  "octetCount s = sum_list (map (\<lambda>c. if c < 0x80 then 1 else if c < 0x800 then 2 else if c < 0x10000 then 3 else 4)
     (codePoints s))"

definition longLabelNote :: "nat \<times> nat \<Rightarrow> ustring" where
  "longLabelNote e = (case e of (i, n) \<Rightarrow> (str ''label '' @ (decimal (i + 1)) @ str '' is '' @ (decimal n) @ str '' octets''))"

definition hostLengthParts :: "InspectionContext \<Rightarrow> ustring list" where
  "hostLengthParts ctx =
     (let total = octetCount (cx_host ctx);
          effective = (if endsWith [46] (cx_host ctx) then total - 1 else total);
          longLabels = filter (\<lambda>(i, n). n > MAX_LABEL_OCTETS) (enumerate 0 (map octetCount (cx_hostLabels ctx)));
          more = (if length longLabels > 2 then (str '' (+'' @ (decimal (length longLabels - 2)) @ str '' more)'') else [])
      in (if longLabels = [] then []
          else [((join (str '', '') (map longLabelNote (take 2 longLabels))) @ more @ str '' '' @ dash
        @ str '' the limit is '' @ (decimal MAX_LABEL_OCTETS) @ str '' (RFC 1035 '' @ [167]
        @ str ''2.3.4)'')])
       @ (if effective > MAX_HOST_OCTETS
          then [(str ''the whole hostname is '' @ (decimal effective) @ str '' octets '' @ dash
        @ str '' the limit is '' @ (decimal MAX_HOST_OCTETS))] else []))"

definition hostLengthUnresolvable :: "InspectionContext \<Rightarrow> CollectedFinding list" where
  "hostLengthUnresolvable ctx =
     (if cx_isIp ctx \<or> cx_host ctx = [] then []
      else (let parts = hostLengthParts ctx in
        if parts = [] then []
        else [finding host_length_unresolvable
        (str ''hostname exceeds a DNS length limit and cannot resolve: ''
        @ (join (str ''; '') parts) @ str ''. Informational only '' @ dash
        @ str '' every parser reads this host identically and nothing is disguised, so it is not a deception finding; it simply will not work'')]))"

definition SUBDOMAIN_DEPTH_THRESHOLD :: nat where "SUBDOMAIN_DEPTH_THRESHOLD = 5"

definition excessiveSubdomainDepth :: "InspectionContext \<Rightarrow> CollectedFinding list" where
  "excessiveSubdomainDepth ctx =
     (if cx_isIp ctx \<or> \<not> truthy (cx_subdomain ctx) \<or> \<not> truthy (cx_registrableDomain ctx) then []
      else (let count = length (filter (\<lambda>l. l \<noteq> []) (cx_subdomainLabels ctx)) in
        if count < SUBDOMAIN_DEPTH_THRESHOLD then []
        else [finding excessive_subdomain_depth
        (str ''Host has '' @ (decimal count)
        @ str '' subdomain labels left of the registrable domain ''
        @ quoted (the (cx_registrableDomain ctx)))]))"

subsection \<open>embedded-domain.ts\<close>

definition LEGACY_GTLDS :: "ustring set" where
  "LEGACY_GTLDS = set (map str [''com'', ''net'', ''org'', ''edu'', ''gov'', ''mil'', ''int'', ''arpa''])"

definition suffixCarriesSignal :: "platform \<Rightarrow> ustring \<Rightarrow> bool" where
  "suffixCarriesSignal E candidate =
     (let suffix = (case indexOf 46 candidate of None \<Rightarrow> candidate | Some i \<Rightarrow> drop (i + 1) candidate) in
      case lastIndexOf 46 suffix of
        None \<Rightarrow> pf_toLowerCase E suffix \<in> LEGACY_GTLDS
      | Some d \<Rightarrow> (let tld = drop (d + 1) suffix in length tld = 2 \<and> list_all is_alpha tld))"

text \<open>All windows of at least two labels, longest first, leftmost first.\<close>

definition labelWindows :: "ustring list \<Rightarrow> ustring list list" where
  "labelWindows labels =
     (let n = length labels in
      concat (map (\<lambda>len. map (\<lambda>start. take len (drop start labels)) [0..<n - len + 1]) (rev [2..<n + 1])))"

definition embeddedDomain :: "platform \<Rightarrow> InspectionContext \<Rightarrow> CollectedFinding list" where
  "embeddedDomain E ctx =
     (if \<not> truthy (cx_registrableDomain ctx) \<or> \<not> truthy (cx_subdomain ctx) then []
      else case find (\<lambda>c. looksLikeRegistrableDomain E c \<and> suffixCarriesSignal E c)
             (map (join [46]) (labelWindows (cx_subdomainLabels ctx))) of
        None \<Rightarrow> []
      | Some candidate \<Rightarrow> [finding embedded_domain_in_subdomain
        (quoted candidate @ str '' appears in the subdomain; the real registrable domain is ''
        @ quoted (the (cx_registrableDomain ctx)))])"

subsection \<open>file-extension-tld.ts, idn-host.ts\<close>

definition FILE_EXTENSION_TLDS :: "ustring set" where
  "FILE_EXTENSION_TLDS = {str ''zip'', str ''mov''}"

definition isFileExtensionTld :: "platform \<Rightarrow> ustring \<Rightarrow> bool" where
  "isFileExtensionTld E tld \<longleftrightarrow> pf_toLowerCase E tld \<in> FILE_EXTENSION_TLDS"

definition fileExtensionTld :: "platform \<Rightarrow> InspectionContext \<Rightarrow> CollectedFinding list" where
  "fileExtensionTld E ctx =
     (if \<not> truthy (cx_publicSuffix ctx) \<or> \<not> truthy (cx_registrableDomain ctx) then []
      else (let tld = the (cx_publicSuffixTld ctx); rd = the (cx_registrableDomain ctx);
                bareFilename = (\<not> truthy (cx_subdomain ctx));
                hiddenByUserinfo = truthy (cx_userinfo ctx);
                how = (if bareFilename
                  then (str ''the host is exactly '' @ quoted rd @ str '', which reads as a filename'')
                  else (quoted rd @ str '' is hidden behind userinfo, so it reads as a file/path token''))
            in if \<not> isFileExtensionTld E tld then []
               else if \<not> bareFilename \<and> \<not> hiddenByUserinfo then []
               else [finding file_extension_tld
        (str ''registrable domain '' @ quoted rd @ str '' uses the file-extension TLD ''
        @ quoted ([46] @ tld) @ str '' '' @ dash @ str '' '' @ how @ str '', not a website'')]))"

definition idnHost :: "platform \<Rightarrow> InspectionContext \<Rightarrow> CollectedFinding list" where
  "idnHost E ctx =
     (if rt_idnPolicy (cx_runtime ctx) = Allow then []
      else if \<not> truthy (cx_registrableDomainLower ctx) \<or> cx_isIp ctx then []
      else if hasMalformedPunycode E (cx_host ctx) then []
      else (let rdUnicode = pf_toLowerCase E (toUnicode E (the (cx_registrableDomainLower ctx))) in
        if \<not> hasNonAscii rdUnicode \<or> rdUnicode \<in> rt_idnAllowlist (cx_runtime ctx) then []
        else [finding idn_host
        (str ''registrable domain '' @ quoted (the (cx_registrableDomain ctx))
        @ str '' is an internationalized (non-ASCII) domain '' @ quoted rdUnicode @ str '' ''
        @ dash @ str '' blocked by default (idnPolicy '' @ quoted (str ''block'')
        @ str ''); set idnPolicy '' @ quoted (str ''allow'')
        @ str '' or add it to idnAllowlist to permit'')]))"

subsection \<open>Classification reads the address, not its spelling\<close>

lemma dottedToInt_toDotted [simp]: "dottedToInt (toDotted n) = n"
proof -
  have lead: "(unat n div 2 ^ 24 mod 256 * 256 + unat n div 2 ^ 16 mod 256) * 256 + unat n div 2 ^ 8 mod 256 = unat n div 256"
    using octets_value(1) [of n] by (simp add: octets_def split: if_splits)
  have "foldl (\<lambda>n p. n * 256 + radix_val 10 p) 0 (split_on 46 (toDotted n))
      = ((unat n div 2 ^ 24 mod 256 * 256 + unat n div 2 ^ 16 mod 256) * 256 + unat n div 2 ^ 8 mod 256) * 256 + unat n mod 256"
    by (simp add: split_toDotted octets_def radix_val_to_radix)
  also have "\<dots> = unat n div 256 * 256 + unat n mod 256" by (simp only: lead)
  also have "\<dots> = unat n" by (rule div_mult_mod_eq)
  finally show ?thesis by (simp add: dottedToInt_def)
qed

lemma parseHexInt_hextet: "x < 65536 \<Longrightarrow> parseHexInt (to_radix 16 x) = Some x"
  using hextet_text [of x] by (auto simp: parseHexInt_def Let_def list_all_iff radix_val_to_radix takeWhile_eq_all_conv [THEN iffD2])

lemma hexGroups_hexJoin: "groups_ok g \<Longrightarrow> hexGroups (hexJoin g) = map Some g"
  using split_on_join [of "map (to_radix 16) g" 58]
  by (cases "g = []") (auto simp: hexGroups_def groups_ok_def hextet_text parseHexInt_hextet simp flip: hexJoin_def)

lemma hextetsOf_canonical:
  assumes "length g = 8" "groups_ok g"
  shows "hextetsOf (canonicalizeIpv6 g) = Some g"
  using assms
proof (cases rule: canonicalizeIpv6_cases)
  case full
  then show ?thesis
    using plain_hexJoin [OF assms(2)] cutDbl_None [of "hexJoin g"] assms(1)
    by (simp add: hextetsOf_def plain_def hexGroups_hexJoin [OF assms(2)] those_map_Some)
next
  case (run s l)
  let ?l = "take s g" and ?r = "drop (s + l) g"
  note ok = groups_ok_sub [OF assms(2)]
  have "plain (hexJoin ?l)" "plain (hexJoin ?r)" by (simp_all add: plain_hexJoin ok)
  then have "cutDbl (canonicalizeIpv6 g) = Some (hexJoin ?l, hexJoin ?r)"
    using dbl_in_middle [of "hexJoin ?l" "hexJoin ?r"] run(1) by (auto simp: plain_def)
  moreover have "map Some ?l @ replicate (8 - length ?l - length ?r) (Some 0) @ map Some ?r = map Some g"
  proof -
    have "8 - length ?l - length ?r = l" using run(4) assms(1) by auto
    then show ?thesis by (subst (3) run(2)) simp
  qed
  ultimately show ?thesis
    using run(4) assms(1) by (simp add: hextetsOf_def Let_def hexGroups_hexJoin ok those_map_Some)
qed

text \<open>The reference: the address a host denotes, and the bucket of an address.\<close>

datatype address = V4 "32 word" | V6 "nat list"

definition address :: "ustring \<Rightarrow> address option" where
  "address host = (case analyzeIpv4 host of
       Some r \<Rightarrow> Some (V4 (dottedToInt (v4_canonical r)))
     | None \<Rightarrow> if analyzeIpv6 host = None then None else map_option V6 (parseGroups host))"

definition wrappedWord :: "nat list \<Rightarrow> 32 word option" where
  "wrappedWord g =
     (if take 6 g \<in> {[0, 0, 0, 0, 0, 0xffff], [0x64, 0xff9b, 0, 0, 0, 0], [0x64, 0xff9b, 1, 0, 0, 0]}
         \<or> take 6 g = [0, 0, 0, 0, 0, 0] \<and> low32 g \<noteq> 0 \<and> low32 g \<noteq> 1
      then Some (low32 g) else None)"

definition bucket4 :: "32 word \<Rightarrow> ReasonCode option" where
  "bucket4 n =
     (if n \<in> {0xA9FE0017, 0xA9FEAA17, 0xA9FEAA02, 0xA83F8110, 0x646464C8, 0xC00000C0, 0xA9FEA9FE}
      then Some ip_cloud_metadata else map_option rg_bucket (matchIpv4Range n))"

definition bucket6 :: "nat list \<Rightarrow> ReasonCode option" where
  "bucket6 g =
     (if g \<in> {[0xfd00, 0xec2, 0, 0, 0, 0, 0, 0x254], [0xfd00, 0xec2, 0, 0, 0, 0, 0, 0x23], [0xfd20, 0xce, 0, 0, 0, 0, 0, 0x254]}
      then Some ip_cloud_metadata else map_option rg_bucket (matchIpv6Range g))"

fun bucketOf :: "address \<Rightarrow> ReasonCode option" where
  "bucketOf (V4 n) = bucket4 n"
| "bucketOf (V6 g) = (case Option.bind (wrappedWord g) bucket4 of Some b \<Rightarrow> Some b | None \<Rightarrow> bucket6 g)"

lemma metadata_canonical6:
  "canonicalizeIpv6 [0xfd00, 0xec2, 0, 0, 0, 0, 0, 0x254] = str ''fd00:ec2::254''"
  "canonicalizeIpv6 [0xfd00, 0xec2, 0, 0, 0, 0, 0, 0x23] = str ''fd00:ec2::23''"
  "canonicalizeIpv6 [0xfd20, 0xce, 0, 0, 0, 0, 0, 0x254] = str ''fd20:ce::254''"
  by (simp_all add: ip_eval)

lemma metadata_analyze6:
  "analyzeIpv6 (str ''fd00:ec2::254'') = Some (analysisOf [0xfd00, 0xec2, 0, 0, 0, 0, 0, 0x254] False)"
  "analyzeIpv6 (str ''fd00:ec2::23'') = Some (analysisOf [0xfd00, 0xec2, 0, 0, 0, 0, 0, 0x23] False)"
  "analyzeIpv6 (str ''fd20:ce::254'') = Some (analysisOf [0xfd20, 0xce, 0, 0, 0, 0, 0, 0x254] False)"
  by (simp_all add: analyzeIpv6_canonical groups_ok_def flip: metadata_canonical6)

lemma metadata_analyze4:
  "map_option (dottedToInt \<circ> v4_canonical) (analyzeIpv4 (str ''169.254.169.254'')) = Some 0xA9FEA9FE"
  "map_option (dottedToInt \<circ> v4_canonical) (analyzeIpv4 (str ''192.0.0.192'')) = Some 0xC00000C0"
  "map_option (dottedToInt \<circ> v4_canonical) (analyzeIpv4 (str ''100.100.100.200'')) = Some 0x646464C8"
  "map_option (dottedToInt \<circ> v4_canonical) (analyzeIpv4 (str ''168.63.129.16'')) = Some 0xA83F8110"
  "map_option (dottedToInt \<circ> v4_canonical) (analyzeIpv4 (str ''169.254.170.2'')) = Some 0xA9FEAA02"
  "map_option (dottedToInt \<circ> v4_canonical) (analyzeIpv4 (str ''169.254.170.23'')) = Some 0xA9FEAA17"
  "map_option (dottedToInt \<circ> v4_canonical) (analyzeIpv4 (str ''169.254.0.23'')) = Some 0xA9FE0017"
  "analyzeIpv4 (str ''fd00:ec2::254'') = None" "analyzeIpv4 (str ''fd00:ec2::23'') = None"
  "analyzeIpv4 (str ''fd20:ce::254'') = None"
  by (simp_all add: ip_eval dottedToInt_def)

lemmas metadata_index = METADATA_IPV4_def METADATA_IPV6_def CLOUD_METADATA_ENDPOINTS_def endpoint_def List.map_filter_simps

lemma metadata_dom4:
  "dom METADATA_IPV4 = {0xA9FE0017, 0xA9FEAA17, 0xA9FEAA02, 0xA83F8110, 0x646464C8, 0xC00000C0, 0xA9FEA9FE}"
  using metadata_analyze4 by (clarsimp simp: metadata_index)

lemma metadata_dom6:
  "dom METADATA_IPV6 = canonicalizeIpv6 ` {[0xfd20, 0xce, 0, 0, 0, 0, 0, 0x254], [0xfd00, 0xec2, 0, 0, 0, 0, 0, 0x23],
     [0xfd00, 0xec2, 0, 0, 0, 0, 0, 0x254]}"
proof -
  have "\<exists>r. analyzeIpv4 (str a) = Some r" if "map_option (dottedToInt \<circ> v4_canonical) (analyzeIpv4 (str a)) = Some n" for a n
    using that by auto
  note some = metadata_analyze4(1-7) [THEN this]
  show ?thesis
    unfolding METADATA_IPV6_def
    by (simp only: CLOUD_METADATA_ENDPOINTS_def endpoint_def List.map_filter_simps metadata_analyze6 some
      metadata_analyze4(8-10) CloudMetadataEndpoint.simps not_None_eq simp_thms if_True if_False option.simps
      analysisOf_def Ipv6Analysis.simps rev.simps append.simps map_of.simps dom_fun_upd dom_empty image_insert
      image_empty fst_conv snd_conv)
qed

lemma classifyIpv4_bucket: "map_option bm_bucket (classifyIpv4 (toDotted n)) = bucket4 n"
proof (cases "METADATA_IPV4 n")
  case None
  then have "n \<notin> dom METADATA_IPV4" by auto
  then show ?thesis unfolding metadata_dom4 bucket4_def
    by (simp only: if_False) (simp add: classifyIpv4_def None rangeMatch_def option.map_comp comp_def)
next
  case (Some e)
  then have "n \<in> dom METADATA_IPV4" by auto
  then show ?thesis unfolding metadata_dom4 bucket4_def
    by (simp only: if_True) (simp add: classifyIpv4_def Some metadataMatch_def)
qed

lemma classifyIpv6_bucket:
  assumes "length g = 8" "groups_ok g"
  shows "map_option bm_bucket (classifyIpv6 (canonicalizeIpv6 g)) = bucket6 g"
proof -
  have inj: "canonicalizeIpv6 g = canonicalizeIpv6 h \<longleftrightarrow> g = h" if "length h = 8" "groups_ok h" for h
    by (rule canonicalizeIpv6_inject [OF assms that])
  have dom: "canonicalizeIpv6 g \<in> dom METADATA_IPV6 \<longleftrightarrow> g \<in> {[0xfd00, 0xec2, 0, 0, 0, 0, 0, 0x254],
      [0xfd00, 0xec2, 0, 0, 0, 0, 0, 0x23], [0xfd20, 0xce, 0, 0, 0, 0, 0, 0x254]}"
    unfolding metadata_dom6 image_insert image_empty insert_iff empty_iff
    by (simp add: inj groups_ok_def) blast
  note eval = classifyIpv6_def Let_def canonicalizeIpv6_text [OF assms] hextetsOf_canonical [OF assms]
      metadataMatch_def rangeMatch_def option.map_comp comp_def
  show ?thesis
  proof (cases "METADATA_IPV6 (canonicalizeIpv6 g)")
    case None
    with dom show ?thesis unfolding bucket6_def by (simp only: domIff not_True_eq_False if_False) (simp add: eval None)
  next
    case (Some e)
    with dom show ?thesis unfolding bucket6_def by (simp only: domIff option.distinct not_False_eq_True if_True) (simp add: eval Some)
  qed
qed

lemma unwrap_word: "length g = 8 \<Longrightarrow> map_option fst (unwrapLow32Ipv4 g) = map_option toDotted (wrappedWord g)"
  by (simp add: unwrapLow32Ipv4_def LOW32_WRAPPERS_def wrappedWord_def)

lemma analyzeIpv4_Nil [simp]: "analyzeIpv4 [] = None"
  by (simp add: analyzeIpv4_def stripTrailingRootDot_def endsWith_def parsePart_def)

lemma classifyHost_bucketOf:
  "map_option (bm_bucket \<circ> ic_match) (classifyHost host) = Option.bind (address host) bucketOf"
proof (cases "analyzeIpv4 host")
  case (Some r)
  then obtain n where "v4_canonical r = toDotted n" using analyzeIpv4_canonical by blast
  with Some show ?thesis using classifyIpv4_bucket [of n]
    by (auto simp: classifyHost_def address_def classification_def option.map_comp comp_def)
next
  case None
  show ?thesis
  proof (cases "analyzeIpv6 host")
    case (Some r)
    then obtain g where g: "parseGroups host = Some g" "length g = 8" "groups_ok g" "r = analysisOf g (v6_obfuscated r)"
      by (rule analyzeIpv6_Some)
    then have sel: "v6_canonical r = canonicalizeIpv6 g" "v6_embeddedIpv4 r = map_option toDotted (wrappedWord g)"
      using unwrap_word [of g] by (metis analysisOf_def Ipv6Analysis.select_convs)+
    have via: "map_option (bm_bucket \<circ> ic_match) (map_option (\<lambda>m. classification m shown c v) m) = map_option bm_bucket m"
      for shown c v m by (simp add: classification_def option.map_comp comp_def)
    have "host \<noteq> []" using Some by auto
    then have "map_option (bm_bucket \<circ> ic_match) (classifyHost host)
        = (case Option.bind (wrappedWord g) bucket4 of Some b \<Rightarrow> Some b | None \<Rightarrow> bucket6 g)"
      using Some None classifyIpv6_bucket [OF g(2,3)] classifyIpv4_bucket [of "the (wrappedWord g)"]
      by (cases "wrappedWord g"; cases "classifyIpv4 (toDotted (the (wrappedWord g)))")
        (auto simp: classifyHost_def sel via, auto simp: classification_def split: option.splits)
    then show ?thesis using Some None g(1) by (simp add: address_def)
  qed (use None in \<open>auto simp: classifyHost_def address_def\<close>)
qed

text \<open>
  C39: How a host is classified depends on the address it denotes and on nothing else of its spelling.
  The bucket of an accepted host is the reference bucket of its 32 or 128 bits: the cloud endpoints
  first, then the longest matching registry range; an IPv6 address that carries an IPv4 address
  (mapped, NAT64 or compatible) is classified as that IPv4 address whenever the latter has a bucket.
\<close>

theorem classification_by_address:
  "map_option (bm_bucket \<circ> ic_match) (classifyHost host) = Option.bind (address host) bucketOf"
  by (rule classifyHost_bucketOf)

end
