(* ===== verification/HomographChecks.thy ===== *)
theory HomographChecks
  imports HostChecks
begin

text \<open>
  The look-alike detectors: the confusable skeleton of UTS 39, the brand watchlist with the ASCII
  digit fold, the Turkish case fold, and the IDNA checks (two mapping standards that disagree, and
  the contextual rules of RFC 5892).
\<close>

subsection \<open>unicode/skeleton.ts\<close>

definition MAX_PASSES :: nat where "MAX_PASSES = 8"

definition mapPass :: "ustring \<Rightarrow> ustring" where
  "mapPass s = concat (map (\<lambda>ch. case CONFUSABLES ch of Some (target, _) \<Rightarrow> target | None \<Rightarrow> utf16 ch)
     (codePoints s))"

text \<open>The loop of at most \<open>MAX_PASSES\<close> substitution passes, left at the first that changes nothing.\<close>

fun skeletonLoop :: "nat \<Rightarrow> ustring \<Rightarrow> ustring" where
  "skeletonLoop 0 current = current"
| "skeletonLoop (Suc n) current =
     (let nxt = mapPass current in if nxt = current then current else skeletonLoop n nxt)"

definition skeleton :: "platform \<Rightarrow> ustring \<Rightarrow> ustring" where
  "skeleton E s = pf_normalize E NFD (skeletonLoop MAX_PASSES (pf_normalize E NFD s))"

subsection \<open>data/ascii-confusables.ts, data/brands.ts, brand-utils.ts\<close>

definition ASCII_DIGIT_HOMOGLYPHS :: "nat \<Rightarrow> nat option" where
  "ASCII_DIGIT_HOMOGLYPHS c = (if c = 48 then Some 111 else if c = 49 then Some 108 else if c = 53 then Some 115 else None)"

definition foldAsciiDigitHomoglyphs :: "ustring \<Rightarrow> ustring" where
  "foldAsciiDigitHomoglyphs s = map (\<lambda>c. case ASCII_DIGIT_HOMOGLYPHS c of Some l \<Rightarrow> l | None \<Rightarrow> c) s"

definition BRAND_WATCHLIST :: "string list" where
  "BRAND_WATCHLIST =
     [''paypal.com'', ''stripe.com'', ''venmo.com'', ''wise.com'', ''squareup.com'', ''cash.app'',
      ''coinbase.com'', ''binance.com'', ''kraken.com'', ''blockchain.com'', ''metamask.io'',
      ''ledger.com'', ''trezor.io'', ''chase.com'', ''wellsfargo.com'', ''bankofamerica.com'',
      ''citibank.com'', ''capitalone.com'', ''usbank.com'', ''barclays.co.uk'', ''hsbc.com'',
      ''lloydsbank.com'', ''natwest.com'', ''santander.com'', ''revolut.com'', ''monzo.com'',
      ''n26.com'', ''americanexpress.com'', ''mastercard.com'', ''visa.com'', ''westernunion.com'',
      ''fidelity.com'', ''schwab.com'', ''vanguard.com'', ''robinhood.com'', ''intuit.com'',
      ''turbotax.intuit.com'', ''klarna.com'', ''zellepay.com'', ''google.com'', ''youtube.com'',
      ''apple.com'', ''microsoft.com'', ''live.com'', ''amazon.com'', ''meta.com'',
      ''facebook.com'', ''instagram.com'', ''whatsapp.com'', ''messenger.com'', ''x.com'',
      ''linkedin.com'', ''tiktok.com'', ''snapchat.com'', ''pinterest.com'', ''reddit.com'',
      ''discord.com'', ''telegram.org'', ''netflix.com'', ''spotify.com'', ''disneyplus.com'',
      ''hulu.com'', ''twitch.tv'', ''dropbox.com'', ''box.com'', ''adobe.com'', ''docusign.com'',
      ''salesforce.com'', ''slack.com'', ''zoom.us'', ''github.com'', ''gitlab.com'',
      ''atlassian.com'', ''oracle.com'', ''ibm.com'', ''cloudflare.com'', ''godaddy.com'',
      ''namecheap.com'', ''wordpress.com'', ''shopify.com'', ''okta.com'', ''yahoo.com'',
      ''steampowered.com'', ''epicgames.com'', ''roblox.com'', ''playstation.com'',
      ''nintendo.com'', ''openai.com'', ''anthropic.com'', ''huggingface.co'', ''mistral.ai'',
      ''cohere.com'', ''ebay.com'', ''walmart.com'', ''target.com'', ''bestbuy.com'',
      ''costco.com'', ''etsy.com'', ''aliexpress.com'', ''alibaba.com'', ''booking.com'',
      ''airbnb.com'', ''expedia.com'', ''uber.com'', ''lyft.com'', ''dhl.com'', ''fedex.com'',
      ''ups.com'', ''usps.com'', ''royalmail.com'', ''dpd.com'']"

definition BRAND_DOMAINS :: "ustring list" where
  "BRAND_DOMAINS = dedup (map str BRAND_WATCHLIST)"

definition isExactBrandDomain :: "ustring \<Rightarrow> bool" where
  "isExactBrandDomain domain \<longleftrightarrow> domain \<in> set BRAND_DOMAINS"

definition significantLabel :: "ustring \<Rightarrow> ustring" where
  "significantLabel brandDomain = (case indexOf 46 brandDomain of None \<Rightarrow> brandDomain | Some d \<Rightarrow> take d brandDomain)"

definition BRAND_LABEL_SET :: "ustring set" where
  "BRAND_LABEL_SET = set (map significantLabel BRAND_DOMAINS)"

definition asciiRegistrableBrandCandidate :: "InspectionContext \<Rightarrow> ustring option" where
  "asciiRegistrableBrandCandidate ctx =
     (case cx_registrableDomain ctx of
        None \<Rightarrow> None
      | Some input \<Rightarrow>
          if input = [] \<or> cx_isIp ctx \<or> hasNonAscii input then None
          else (let raw = the (cx_registrableDomainLower ctx) in
            if isExactBrandDomain raw then None else Some raw))"

subsection \<open>ascii-homoglyph.ts, brand-homoglyph.ts\<close>

text \<open>
  One label: counts of letters and digits and the readable form, unless a digit has no letter
  shape, in which case the label is not mappable.
\<close>

fun readLabel :: "ustring \<Rightarrow> nat \<times> nat \<times> ustring \<Rightarrow> (nat \<times> nat \<times> ustring) option" where
  "readLabel [] acc = Some acc"
| "readLabel (ch # s) (letters, digits, skel) =
     (if is_lower ch then readLabel s (letters + 1, digits, skel @ [ch])
      else case ASCII_DIGIT_HOMOGLYPHS ch of
        None \<Rightarrow> None
      | Some mapped \<Rightarrow> readLabel s (letters, digits + 1, skel @ [mapped]))"

definition homoglyphHit :: "platform \<Rightarrow> ustring \<Rightarrow> (ustring \<times> ustring) option" where
  "homoglyphHit E raw =
     (let label = pf_toLowerCase E raw in
      if length label < 5 then None
      else if \<not> list_all (\<lambda>c. is_lower c \<or> is_digit c) label then None
      else if \<not> is_lower (hd label) then None
      else case readLabel label (0, 0, []) of
        None \<Rightarrow> None
      | Some (letters, digits, skel) \<Rightarrow>
          if digits = 0 \<or> letters \<le> digits then None else Some (label, skel))"

definition homoglyphPart :: "ustring \<times> ustring \<Rightarrow> ustring" where
  "homoglyphPart h = (case h of (label, skel) \<Rightarrow> (quoted label @ str '' (reads as '' @ quoted skel @ str '')''))"

definition asciiHomoglyph :: "platform \<Rightarrow> InspectionContext \<Rightarrow> CollectedFinding list" where
  "asciiHomoglyph E ctx =
     (if cx_isIp ctx \<or> cx_hostLabels ctx = [] then []
      else (let hits = List.map_filter (homoglyphHit E) (cx_hostLabels ctx) in
        if hits = [] then []
        else [finding ascii_homoglyph
        (str ''host uses ASCII digit look-alikes for letters '' @ dash
        @ str '' same-script disguise that cross-script checks miss: ''
        @ (join (str '', '') (map homoglyphPart hits)))]))"

definition foldNote :: ustring where
  "foldNote = str ''ASCII digit look-alikes (0->o, 1->l, 5->s)''"

definition brandDomainFold :: "InspectionContext \<Rightarrow> CollectedFinding list" where
  "brandDomainFold ctx =
     (case asciiRegistrableBrandCandidate ctx of
        None \<Rightarrow> []
      | Some raw \<Rightarrow>
          (let skel = foldAsciiDigitHomoglyphs raw in
           if skel \<noteq> raw \<and> isExactBrandDomain skel \<and> list_ex is_lower skel \<and> list_all (\<lambda>c. is_lower c \<or> c = 46) skel
           then [finding brand_homoglyph
        (str ''registrable domain '' @ quoted raw @ str '' folds to the known brand ''
        @ quoted skel @ str '' via '' @ foldNote)]
           else []))"

definition brandTokenHit :: "ustring \<Rightarrow> bool" where
  "brandTokenHit token =
     (let tokenSkel = foldAsciiDigitHomoglyphs token in
      token \<noteq> [] \<and> list_all (\<lambda>c. is_lower c \<or> is_digit c) token \<and> tokenSkel \<noteq> token
      \<and> list_all is_lower tokenSkel \<and> tokenSkel \<in> BRAND_LABEL_SET)"

text \<open>The tokens of all labels that are not ACE labels, in the order the loops visit them.\<close>

definition brandTokens :: "platform \<Rightarrow> ustring list \<Rightarrow> ustring list" where
  "brandTokens E labels = concat (map (\<lambda>raw. let label = pf_toLowerCase E raw in
     if startsWith (str ''xn--'') label then [] else split_on 45 label) labels)"

definition brandHomoglyph :: "platform \<Rightarrow> InspectionContext \<Rightarrow> CollectedFinding list" where
  "brandHomoglyph E ctx =
     (if cx_isIp ctx then []
      else if brandDomainFold ctx \<noteq> [] then brandDomainFold ctx
      else case find brandTokenHit (brandTokens E (cx_hostLabels ctx)) of
        None \<Rightarrow> []
      | Some token \<Rightarrow> [finding brand_homoglyph
        (str ''host token '' @ quoted token @ str '' folds to the known brand label ''
        @ quoted (foldAsciiDigitHomoglyphs token) @ str '' via '' @ foldNote)])"

subsection \<open>skeleton-collision.ts, latin-skeleton-homograph.ts\<close>

text \<open>The map from skeletons to brands, later brands first, as the map constructor keeps them.\<close>

definition BRAND_SKELETONS :: "platform \<Rightarrow> ustring \<rightharpoonup> ustring" where
  "BRAND_SKELETONS E = map_of (rev (map (\<lambda>brand. (skeleton E brand, brand)) BRAND_DOMAINS))"

definition shownDomain :: "platform \<Rightarrow> ustring \<Rightarrow> ustring \<Rightarrow> ustring" where
  "shownDomain E input host =
     (if host = pf_toLowerCase E input then quoted input else (quoted input @ str '' (Unicode form '' @ quoted host @ str '')''))"

definition skeletonCollision :: "platform \<Rightarrow> InspectionContext \<Rightarrow> CollectedFinding list" where
  "skeletonCollision E ctx =
     (if \<not> truthy (cx_registrableDomain ctx) \<or> cx_isIp ctx then []
      else (let input = the (cx_registrableDomain ctx); host = toUnicode E (pf_toLowerCase E input);
                skel = skeleton E host
            in if \<not> hasNonAscii host then []
               else if \<not> hasNonAscii (pf_normalize E NFKC host) then []
               else case BRAND_SKELETONS E skel of
                 None \<Rightarrow> []
               | Some brand \<Rightarrow> [finding homograph_skeleton_collision
        (str ''registrable domain '' @ (shownDomain E input host)
        @ str '' has the same UTS#39 confusable skeleton ('' @ quoted skel
        @ str '') as the known brand '' @ quoted brand @ str '' '' @ dash
        @ str '' a single-script whole-label homograph'')]))"

text \<open>The registrable domain without its public suffix, when it ends with it.\<close>

definition registrantLabel :: "platform \<Rightarrow> InspectionContext \<Rightarrow> ustring \<Rightarrow> ustring" where
  "registrantLabel E ctx host =
     (let suffix = (if truthy (cx_publicSuffix ctx) then toUnicode E (pf_toLowerCase E (the (cx_publicSuffix ctx))) else [])
      in if suffix \<noteq> [] \<and> endsWith ([46] @ suffix) host then take (length host - (length suffix + 1)) host else host)"

definition latinSkeletonHomograph :: "platform \<Rightarrow> InspectionContext \<Rightarrow> CollectedFinding list" where
  "latinSkeletonHomograph E ctx =
     (if \<not> truthy (cx_registrableDomain ctx) \<or> cx_isIp ctx then []
      else (let input = the (cx_registrableDomain ctx); host = toUnicode E (pf_toLowerCase E input);
                skel = skeleton E host
            in if \<not> hasNonAscii host \<or> \<not> hasNonAscii (pf_normalize E NFKC host) then []
               else if \<not> hasNonAscii (registrantLabel E ctx host) then []
               else if hasNonAscii skel then []
               else [finding homograph_latin_skeleton
        (str ''registrable domain '' @ (shownDomain E input host)
        @ str '' is non-Latin but its UTS#39 confusable skeleton ''
        @ quoted (pf_normalize E NFC skel)
        @ str '' is pure ASCII-Latin (the Basic Latin block, digits included) '' @ dash
        @ str '' a whole-label homograph masquerading as an ASCII domain'')]))"

subsection \<open>locale-case-collapse.ts\<close>

fun turkishLowercase :: "platform \<Rightarrow> ustring \<Rightarrow> ustring" where
  "turkishLowercase E [] = []"
| "turkishLowercase E (ch # s) =
     (if ch = 73 then
        (case s of
           n # s' \<Rightarrow> if n = 0x307 then 105 # turkishLowercase E s' else 0x131 # turkishLowercase E s
         | [] \<Rightarrow> [0x131])
      else if ch = 0x130 then 105 # turkishLowercase E s
      else pf_toLowerCase E [ch] @ turkishLowercase E s)"

definition localeCaseCollapse :: "platform \<Rightarrow> InspectionContext \<Rightarrow> CollectedFinding list" where
  "localeCaseCollapse E ctx =
     (if cx_isIp ctx then []
      else (let host = cx_host ctx; collapsed = turkishLowercase E host; resolved = toAscii E host;
                rdLabelCount = (case cx_registrableDomain ctx of None \<Rightarrow> 0 | Some rd \<Rightarrow> length (split_on 46 rd));
                labels = split_on 46 collapsed;
                collapsedRd = (if rdLabelCount > 0 then join [46] (drop (length labels - rdLabelCount) labels) else collapsed)
            in if host = [] \<or> \<not> hasNonAscii host then []
               else if hasNonAscii collapsed then []
               else if collapsed = resolved then []
               else if isExactBrandDomain collapsedRd then [finding brand_locale_collapse
        (str ''registrable domain ''
        @ quoted (case cx_registrableDomain ctx of None \<Rightarrow> str ''null'' | Some rd \<Rightarrow> rd)
        @ str '' collapses to exactly the brand domain '' @ quoted collapsedRd
        @ str '' under a Turkish/Azeri lowercase, while the URL Standard resolves it to ''
        @ quoted resolved @ str '' '' @ dash
        @ str '' a validator running under a Turkish locale would approve it as the brand and the request would still reach a different domain'')]
               else [finding locale_case_ambiguity
        (str ''host '' @ quoted host @ str '' collapses to the pure-ASCII domain ''
        @ quoted collapsed @ str '' under a Turkish/Azeri lowercase, but resolves to ''
        @ quoted resolved @ str '' under UTS-46 '' @ dash
        @ str '' a component that case-normalizes with an ambient locale reads a different domain than the one the request reaches'')]))"

subsection \<open>idna-mapping-ambiguity.ts\<close>

definition hostFromAuthority :: "ustring \<Rightarrow> ustring" where
  "hostFromAuthority authority =
     (let hostport = hostportOf authority in
      if startsWith [91] hostport then []
      else case lastIndexOf 58 hostport of
        None \<Rightarrow> hostport
      | Some colon \<Rightarrow>
          (let port = drop (colon + 1) hostport in
           if port \<noteq> [] \<and> list_all is_digit port then take colon hostport else hostport))"

definition differentDomains :: "ustring \<Rightarrow> ustring \<Rightarrow> CollectedFinding" where
  "differentDomains ace2003 ace2008 = finding idna_mapping_ambiguity
        (str ''host resolves to different domains across IDNA standards: '' @ quoted ace2003
        @ str '' under IDNA2003 vs '' @ quoted ace2008 @ str '' under UTS-46/IDNA2008 '' @ dash
        @ str '' a validator and a requester using different standards reach different sites'')"

definition mapsToAscii :: "ustring \<Rightarrow> CollectedFinding" where
  "mapsToAscii ace2008 = finding idna_mapping_ambiguity
        (str ''host'' @ [39] @ str ''s non-ASCII characters map to the ASCII domain ''
        @ quoted ace2008 @ str '' under IDNA '' @ dash
        @ str '' a parser that does not apply IDNA mapping would read a different host'')"

definition scanIdnaMappingAmbiguity :: "platform \<Rightarrow> ustring \<Rightarrow> AuthorityRegion \<Rightarrow> CollectedFinding list" where
  "scanIdnaMappingAmbiguity E prepared region =
     (let host = hostFromAuthority (ar_authority region) in
      if prepared = [] \<or> ar_opaque region \<or> ar_authority region = [] then []
      else if host = [] \<or> \<not> hasNonAscii host then []
      else case (toAsciiUnder E host False, toAsciiUnder E host True) of
        (Some ace2008, Some ace2003) \<Rightarrow>
          if ace2008 \<noteq> ace2003 then
            (case ps_registrableDomain (analyzeHost E ace2003) of
               Some rd2003 \<Rightarrow>
                 if isExactBrandDomain rd2003 then [finding brand_idna_collapse
        (str ''host maps to exactly the brand domain '' @ quoted rd2003
        @ str '' under IDNA2003 (as '' @ quoted ace2003
        @ str '') while UTS-46/IDNA2008 resolves it to '' @ quoted ace2008 @ str '' '' @ dash
        @ str '' a validator using the older standard would approve it as the brand and the request would still reach a different domain'')]
                 else [differentDomains ace2003 ace2008]
             | None \<Rightarrow> [differentDomains ace2003 ace2008])
          else if \<not> hasNonAscii ace2008 \<and> \<not> has_ace_label ace2008 then [mapsToAscii ace2008]
          else []
      | (None, Some ace2003) \<Rightarrow> [finding idna_mapping_ambiguity
        (str ''host is accepted by IDNA2003 (resolving to '' @ quoted ace2003
        @ str '') but rejected by UTS-46/IDNA2008 '' @ dash
        @ str '' parsers disagree on whether it is even valid'')]
      | (Some ace2008, None) \<Rightarrow>
          if \<not> hasNonAscii ace2008 \<and> \<not> has_ace_label ace2008 then [mapsToAscii ace2008] else []
      | (None, None) \<Rightarrow> [])"

subsection \<open>idna-protocol-violation.ts\<close>

definition ZWNJ :: nat where "ZWNJ = 0x200c"
definition ZWJ :: nat where "ZWJ = 0x200d"
definition MIDDLE_DOT :: nat where "MIDDLE_DOT = 0xb7"
definition GREEK_KERAIA :: nat where "GREEK_KERAIA = 0x375"
definition HEBREW_GERESH :: nat where "HEBREW_GERESH = 0x5f3"
definition HEBREW_GERSHAYIM :: nat where "HEBREW_GERSHAYIM = 0x5f4"
definition KATAKANA_MIDDLE_DOT :: nat where "KATAKANA_MIDDLE_DOT = 0x30fb"

definition CONTEXTO_CHARS :: "nat set" where
  "CONTEXTO_CHARS = {MIDDLE_DOT, GREEK_KERAIA, HEBREW_GERESH, HEBREW_GERSHAYIM, KATAKANA_MIDDLE_DOT}"

definition PVALID_EXCEPTIONS :: "nat set" where
  "PVALID_EXCEPTIONS = {0x6fd, 0x6fe, 0xf0b}"

definition DISALLOWED_EXCEPTIONS :: "nat set" where
  "DISALLOWED_EXCEPTIONS =
     {0x640, 0x7fa, 0x302e, 0x302f, 0x3031, 0x3032, 0x3033, 0x3034, 0x3035, 0x303b}"

definition ARABIC_INDIC_DIGIT :: "nat \<Rightarrow> bool" where
  "ARABIC_INDIC_DIGIT c \<longleftrightarrow> 0x660 \<le> c \<and> c \<le> 0x669"

definition EXT_ARABIC_INDIC_DIGIT :: "nat \<Rightarrow> bool" where
  "EXT_ARABIC_INDIC_DIGIT c \<longleftrightarrow> 0x6f0 \<le> c \<and> c \<le> 0x6f9"

definition MAX_COMBINING_RUN :: nat where "MAX_COMBINING_RUN = 4"

definition violatesContextJ :: "platform \<Rightarrow> ustring \<Rightarrow> bool" where
  "violatesContextJ E label =
     (if ZWNJ \<notin> set label \<and> ZWJ \<notin> set label then False
      else case pf_toASCII_joiners E label of None \<Rightarrow> False | Some r \<Rightarrow> r = None)"

definition inScript :: "platform \<Rightarrow> string \<Rightarrow> nat option \<Rightarrow> bool" where
  "inScript E name ch = (case ch of None \<Rightarrow> False | Some c \<Rightarrow> pf_script E name c)"

definition contextOViolation :: "platform \<Rightarrow> nat list \<Rightarrow> nat option \<Rightarrow> nat \<Rightarrow> nat option \<Rightarrow> ustring option" where
  "contextOViolation E label prev ch nxt =
     (if ch = MIDDLE_DOT then
        (if prev = Some 108 \<and> nxt = Some 108 then None
         else Some (str ''U+00B7 MIDDLE DOT outside the Catalan '' @ [39] @ str ''l'' @ [183] @ str ''l''
        @ [39] @ str '' context (RFC 5892 A.3)''))
      else if ch = GREEK_KERAIA then
        (if inScript E ''Greek'' nxt then None
         else Some (str ''U+0375 GREEK LOWER NUMERAL SIGN not followed by a Greek character (RFC 5892 A.4)''))
      else if ch = HEBREW_GERESH then
        (if inScript E ''Hebrew'' prev then None
         else Some (str ''U+05F3 HEBREW PUNCTUATION GERESH not preceded by a Hebrew character (RFC 5892 A.5)''))
      else if ch = HEBREW_GERSHAYIM then
        (if inScript E ''Hebrew'' prev then None
         else Some (str ''U+05F4 HEBREW PUNCTUATION GERSHAYIM not preceded by a Hebrew character (RFC 5892 A.6)''))
      else if ch = KATAKANA_MIDDLE_DOT then
        (if list_ex (\<lambda>c. pf_script E ''Hiragana'' c \<or> pf_script E ''Katakana'' c \<or> pf_script E ''Han'' c) label then None
         else Some (str ''U+30FB KATAKANA MIDDLE DOT in a label with no Hiragana, Katakana or Han character (RFC 5892 A.7)''))
      else None)"

text \<open>The loop over the characters: the first violation, with the neighbours of each character.\<close>

fun charViolation :: "platform \<Rightarrow> nat list \<Rightarrow> nat option \<Rightarrow> nat list \<Rightarrow> ustring option" where
  "charViolation E label prev [] = None"
| "charViolation E label prev (ch # cs) =
     (let nxt = (case cs of [] \<Rightarrow> None | c # _ \<Rightarrow> Some c); continue = charViolation E label (Some ch) cs in
      if ch \<le> 0x7f then continue
      else if ch \<in> CONTEXTO_CHARS then
        (case contextOViolation E label prev ch nxt of Some v \<Rightarrow> Some v | None \<Rightarrow> continue)
      else if ch \<in> DISALLOWED_EXCEPTIONS then
        Some ((codepointOf ch) @ str '' is DISALLOWED by RFC 5892 (exception table F.4)'')
      else if ch \<in> PVALID_EXCEPTIONS then continue
      else if pf_SPZ E ch then
        Some ((codepointOf ch)
        @ str '' is a symbol/punctuation code point, DISALLOWED in an IDNA2008 label (RFC 5892 ''
        @ [167] @ str ''2.1)'')
      else continue)"

fun combiningViolation :: "platform \<Rightarrow> nat \<Rightarrow> nat list \<Rightarrow> ustring option" where
  "combiningViolation E run [] = None"
| "combiningViolation E run (ch # cs) =
     (if pf_M E ch then
        (if run + 1 > MAX_COMBINING_RUN
         then Some ((decimal (run + 1)) @ str '' combining marks stacked on one base character (limit ''
        @ (decimal MAX_COMBINING_RUN) @ str '')'')
         else combiningViolation E (run + 1) cs)
      else combiningViolation E 0 cs)"

definition labelViolation :: "platform \<Rightarrow> ustring \<Rightarrow> ustring option" where
  "labelViolation E label =
     (let chars = codePoints label in
      if label = [] \<or> \<not> hasNonAscii label then None
      else if violatesContextJ E label then
        (let joiner = (if ZWNJ \<in> set label then str ''U+200C ZWNJ'' else str ''U+200D ZWJ'') in
         Some (joiner @ str '' outside its permitted joining context (RFC 5892 A.1/A.2 CONTEXTJ)''))
      else if list_ex ARABIC_INDIC_DIGIT chars \<and> list_ex EXT_ARABIC_INDIC_DIGIT chars then
        Some (str ''mixes U+0660..U+0669 with U+06F0..U+06F9 Arabic-Indic digits (RFC 5892 A.8/A.9)'')
      else case charViolation E chars None chars of
        Some v \<Rightarrow> Some v
      | None \<Rightarrow> combiningViolation E 0 chars)"

fun firstLabelViolation :: "platform \<Rightarrow> ustring list \<Rightarrow> CollectedFinding list" where
  "firstLabelViolation E [] = []"
| "firstLabelViolation E (label # labels) =
     (case labelViolation E label of
        Some violation \<Rightarrow> [finding idna_protocol_violation
        (str ''host label '' @ quoted label @ str '' is not permitted under IDNA2008: ''
        @ violation @ str '' '' @ dash
        @ str '' the label decodes cleanly but no IDNA2008 registry issues it'')]
      | None \<Rightarrow> firstLabelViolation E labels)"

definition idnaProtocolViolation :: "platform \<Rightarrow> InspectionContext \<Rightarrow> CollectedFinding list" where
  "idnaProtocolViolation E ctx =
     (if cx_host ctx = [] \<or> cx_isIp ctx then []
      else if hasMalformedPunycode E (cx_host ctx) then []
      else firstLabelViolation E (split_on 46 (stripFinalDot (cx_hostUnicode ctx))))"

subsection \<open>The skeleton on the table of the repository\<close>

lemma CONFUSABLES_Some:
  assumes "CONFUSABLES ch = Some (target, shown)"
  shows "128 \<le> ch" "target \<noteq> []" "\<forall>c \<in> set target. c < 128"
proof -
  obtain name where "(ch, target, name) \<in> set CONFUSABLES_RAW"
    using map_of_SomeD [OF assms [unfolded CONFUSABLES_def]] by auto
  from CONFUSABLES_RAW_row [OF this] show "128 \<le> ch" "target \<noteq> []" "\<forall>c \<in> set target. c < 128"
    by (auto simp: is_digit_def is_alpha_def is_upper_def is_lower_def)
qed

lemma CONFUSABLES_ascii [simp]: "c < 128 \<Longrightarrow> CONFUSABLES c = None"
  using CONFUSABLES_Some(1) [of c] by (cases "CONFUSABLES c") fastforce+

text \<open>The pass on code points.\<close>

definition prototype :: "nat \<Rightarrow> nat list" where
  "prototype ch = (case CONFUSABLES ch of Some (target, _) \<Rightarrow> target | None \<Rightarrow> [ch])"

lemma prototype_settled: "c \<in> set (prototype ch) \<Longrightarrow> CONFUSABLES c = None"
  by (auto simp: prototype_def dest: CONFUSABLES_Some(3) split: option.splits)

lemma codePoints_low_append: "\<forall>c \<in> set t. c < 128 \<Longrightarrow> codePoints (t @ r) = t @ codePoints r"
proof (induction t)
  case (Cons c t)
  then show ?case by (cases "t @ r") (auto simp: is_high_def)
qed simp

lemma codePoints_Cons_unpaired: "\<not> (is_high h \<and> r \<noteq> [] \<and> is_low (hd r)) \<Longrightarrow> codePoints (h # r) = h # codePoints r"
  by (cases r) auto

definition substituted :: "nat \<Rightarrow> ustring" where
  "substituted ch = (case CONFUSABLES ch of Some (target, _) \<Rightarrow> target | None \<Rightarrow> utf16 ch)"

lemma mapPass_concat: "mapPass s = concat (map substituted (codePoints s))"
  by (simp add: mapPass_def substituted_def [abs_def])

lemma substituted_cases:
  obtains (hit) "substituted ch = prototype ch" "prototype ch \<noteq> []" "\<forall>c \<in> set (prototype ch). c < 128"
  | (miss) "substituted ch = utf16 ch" "prototype ch = [ch]"
proof (cases "CONFUSABLES ch")
  case None
  then show thesis using miss by (simp add: substituted_def prototype_def)
next
  case (Some a)
  then show thesis using hit CONFUSABLES_Some [of ch "fst a" "snd a"] by (simp add: substituted_def prototype_def split_beta)
qed

lemma substituted_unit: "c < 0x10000 \<Longrightarrow> substituted c = prototype c"
  by (cases rule: substituted_cases [of c]) (auto simp: utf16_unit)

lemma mapPass_head:
  assumes "\<forall>c \<in> set (l # s). c < 0x10000"
  shows "hd (mapPass (l # s)) = l \<or> hd (mapPass (l # s)) < 128"
proof -
  obtain ch cs where c: "codePoints (l # s) = ch # cs" "utf16 ch = [l] \<or> (\<exists>m. utf16 ch = [l, m])"
  proof (cases "s \<noteq> [] \<and> is_high l \<and> is_low (hd s)")
    case True
    then show thesis using that [of "(l - 0xD800) * 0x400 + (hd s - 0xDC00) + 0x10000"] by (cases s) (auto simp: utf16_pair)
  next
    case False
    then show thesis using that [of l "codePoints s"] assms by (simp add: codePoints_Cons_unpaired utf16_unit)
  qed
  then show ?thesis
    by (cases rule: substituted_cases [of ch]) (auto simp: mapPass_concat hd_append)
qed

lemma codePoints_mapPass:
  "\<forall>c \<in> set s. c < 0x10000 \<Longrightarrow> codePoints (mapPass s) = concat (map prototype (codePoints s))"
proof (induction s rule: codePoints.induct)
  case (1 h l s)
  show ?case
  proof (cases "is_high h \<and> is_low l")
    case True
    define c where "c = (h - 0xD800) * 0x400 + (l - 0xDC00) + 0x10000"
    have u: "utf16 c = [h, l]" using True by (simp add: c_def utf16_pair)
    have cp: "codePoints (h # l # r) = c # codePoints r" for r using True by (simp add: c_def)
    have "codePoints (mapPass s) = concat (map prototype (codePoints s))" using 1 True by simp
    then show ?thesis
      unfolding mapPass_concat [of "h # l # s"] cp
      by (cases rule: substituted_cases [of c]) (simp_all add: u cp codePoints_low_append mapPass_concat [symmetric] del: codePoints.simps)
  next
    case False
    have cp: "codePoints (h # l # s) = h # codePoints (l # s)" using False by (intro codePoints_Cons_unpaired) simp
    have ih: "codePoints (mapPass (l # s)) = concat (map prototype (codePoints (l # s)))" using 1 False by simp
    have m: "mapPass (h # l # s) = prototype h @ mapPass (l # s)"
      unfolding mapPass_concat [of "h # l # s"] mapPass_concat [of "l # s"] cp using 1(3) by (simp add: substituted_unit)
    have "codePoints (prototype h @ mapPass (l # s)) = prototype h @ codePoints (mapPass (l # s))"
    proof (cases rule: substituted_cases [of h])
      case hit
      then show ?thesis by (simp add: codePoints_low_append)
    next
      case miss
      have "\<not> (is_high h \<and> mapPass (l # s) \<noteq> [] \<and> is_low (hd (mapPass (l # s))))"
        using mapPass_head [of l s] 1(3) False by (auto simp: is_low_def)
      then show ?thesis by (simp add: miss codePoints_Cons_unpaired)
    qed
    then show ?thesis unfolding m cp by (simp add: ih)
  qed
next
  fix v :: nat assume "\<forall>c \<in> set [v]. c < 0x10000"
  then show "codePoints (mapPass [v]) = concat (map prototype (codePoints [v]))"
    by (cases rule: substituted_cases [of v]) (simp_all add: mapPass_concat utf16_unit codePoints_low_append [of _ "[]", simplified])
qed (simp add: mapPass_concat)

lemma mapPass_settled: "\<forall>c \<in> set s. c < 0x10000 \<Longrightarrow> ch \<in> set (codePoints (mapPass s)) \<Longrightarrow> CONFUSABLES ch = None"
  by (auto simp: codePoints_mapPass dest: prototype_settled)

lemma mapPass_units: "\<forall>c \<in> set s. c < 0x10000 \<Longrightarrow> \<forall>c \<in> set (mapPass s). c < 0x10000"
proof
  fix c assume s: "\<forall>c \<in> set s. c < 0x10000" "c \<in> set (mapPass s)"
  then obtain ch where ch: "ch \<in> set (codePoints s)" "c \<in> set (substituted ch)"
    unfolding mapPass_concat by auto
  have "utf16 ch \<in> set (map utf16 (codePoints s))" using ch(1) by simp
  then have "set (utf16 ch) \<subseteq> set (concat (map utf16 (codePoints s)))" unfolding set_concat by blast
  then have sub: "set (utf16 ch) \<subseteq> set s" unfolding concat_utf16_codePoints [OF s(1)] .
  show "c < 0x10000"
  proof (cases rule: substituted_cases [of ch])
    case hit
    with ch(2) have "c < 128" by simp
    then show ?thesis by simp
  next
    case miss
    then have "c \<in> set s" using ch(2) sub by (auto simp only:)
    then show ?thesis using s(1) by simp
  qed
qed

lemma mapPass_idem:
  assumes "\<forall>c \<in> set s. c < 0x10000"
  shows "mapPass (mapPass s) = mapPass s"
proof -
  have "mapPass (mapPass s) = concat (map utf16 (codePoints (mapPass s)))"
    unfolding mapPass_def [of "mapPass s"]
    by (rule arg_cong [of _ _ concat], rule map_cong [OF refl]) (simp add: mapPass_settled [OF assms])
  also have "\<dots> = mapPass s" by (rule concat_utf16_codePoints [OF mapPass_units [OF assms]])
  finally show ?thesis .
qed

lemma skeletonLoop_pass: "\<forall>c \<in> set s. c < 0x10000 \<Longrightarrow> 0 < n \<Longrightarrow> skeletonLoop n s = mapPass s"
  by (cases n; cases "n - 1") (auto simp: Let_def mapPass_idem)

text \<open>
  C38: The loop of up to eight passes over the confusables table is one pass: the skeleton of a string
  is one substitution between two NFD normalizations, and no code point of the substituted string is
  itself confusable. This holds for the table of the repository, on UTF-16 strings.
\<close>

theorem skeleton_single_pass:
  assumes "\<forall>c \<in> set (pf_normalize E NFD s). c < 0x10000"
  shows "skeleton E s = pf_normalize E NFD (mapPass (pf_normalize E NFD s)) \<and>
    (\<forall>ch \<in> set (codePoints (mapPass (pf_normalize E NFD s))). CONFUSABLES ch = None)"
  using skeletonLoop_pass [OF assms, of MAX_PASSES] mapPass_settled [OF assms]
  by (auto simp: skeleton_def MAX_PASSES_def)

theorem skeleton_single_pass_witness:
  "skeleton ascii_platform [0xD835, 0xDC66, 97] = mapPass [0xD835, 0xDC66, 97]"
  using skeleton_single_pass [of ascii_platform "[0xD835, 0xDC66, 97]"] by (simp add: ascii_platform_def)

end
