(* ===== verification/PayloadChecks.thy ===== *)
theory PayloadChecks
  imports HomographChecks
begin

text \<open>
  The detectors that read what a URL carries: redirect parameters in the query, the fragment or an
  Android intent (\<open>open-redirect-param.ts\<close>), and the three heuristics for agents (prompt injection,
  OAuth token flows, exfiltration). The decoder never throws, so the \<open>try\<close> blocks around it always
  take their first branch; the engine's URL parser may throw, and its \<open>None\<close> is that branch.
\<close>

subsection \<open>open-redirect-param.ts\<close>

definition REDIRECT_PARAMS :: "ustring set" where
  "REDIRECT_PARAMS = set (map str [''next'', ''url'', ''redirect'', ''redirect_uri'', ''redirect_url'', ''dest'',
     ''destination'', ''return'', ''returnurl'', ''continue'', ''u'', ''goto'', ''target''])"

definition OAUTH_REDIRECT_PARAM :: ustring where "OAUTH_REDIRECT_PARAM = str ''redirect_uri''"
definition OAUTH_CLIENT_ID_PARAM :: ustring where "OAUTH_CLIENT_ID_PARAM = str ''client_id''"

definition DANGEROUS_PAYLOAD_SCHEMES :: "ustring set" where
  "DANGEROUS_PAYLOAD_SCHEMES = set (map str [''javascript'', ''data'', ''blob'', ''file'', ''vbscript''])"

text \<open>The scheme \<open>/^([a-zA-Z][a-zA-Z0-9+.-]*):/\<close> captures, and the text after the colon.\<close>

definition schemeOf :: "ustring \<Rightarrow> (ustring \<times> ustring) option" where
  "schemeOf v = map_option (\<lambda>m. (m, drop (length m + 1) v)) (SCHEME_RE v)"

definition dangerousPayloadScheme :: "ustring \<Rightarrow> ustring option" where
  "dangerousPayloadScheme value =
     (case schemeOf (trim value) of
        None \<Rightarrow> None
      | Some (m, _) \<Rightarrow> if lower m \<in> DANGEROUS_PAYLOAD_SCHEMES then Some (lower m) else None)"

text \<open>\<open>u.hostname || null\<close> of the engine's URL parser.\<close>

definition urlHostname :: "platform \<Rightarrow> ustring \<Rightarrow> ustring option" where
  "urlHostname E v = (case pf_urlHostname E v of None \<Rightarrow> None | Some h \<Rightarrow> if h = [] then None else Some h)"

definition targetHost :: "platform \<Rightarrow> ustring \<Rightarrow> ustring option" where
  "targetHost E value =
     (let v = trim value in
      if v = [] then None
      else if startsWith [47, 47] v \<and> \<not> startsWith [47, 47, 47] v then urlHostname E (str ''https:'' @ v)
      else case schemeOf v of
        Some (_, rest) \<Rightarrow> if startsWith [47, 47] rest then urlHostname E v else None
      | None \<Rightarrow> None)"

record Authority =
  au_site :: ustring
  au_registrableDomain :: "ustring option"

definition authorityOf :: "platform \<Rightarrow> ustring \<Rightarrow> Authority option" where
  "authorityOf E host =
     (let h0 = pf_toLowerCase E (stripTrailingRootDot (trim host));
          h = (if startsWith [91] h0 \<and> endsWith [93] h0 then butlast (drop 1 h0) else h0)
      in if h = [] then None
         else case ps_registrableDomain (analyzeHost E h) of
           Some rd \<Rightarrow> Some \<lparr>au_site = pf_toLowerCase E rd, au_registrableDomain = Some rd\<rparr>
         | None \<Rightarrow>
             (case (if 58 \<in> set h then analyzeIpv6 h else None) of
                Some v6 \<Rightarrow> Some \<lparr>au_site = v6_canonical v6, au_registrableDomain = None\<rparr>
              | None \<Rightarrow>
                  (case analyzeIpv4 h of
                     Some v4 \<Rightarrow> Some \<lparr>au_site = v4_canonical v4, au_registrableDomain = None\<rparr>
                   | None \<Rightarrow> Some \<lparr>au_site = h, au_registrableDomain = None\<rparr>)))"

definition fragmentQueryLike :: "ustring option \<Rightarrow> ustring option" where
  "fragmentQueryLike fragment =
     (case fragment of
        None \<Rightarrow> None
      | Some f \<Rightarrow> if f = [] then None
                  else (case indexOf 63 f of None \<Rightarrow> Some f | Some q \<Rightarrow> Some (drop (q + 1) f)))"

text \<open>\<open>/^Intent;.*;end$/\<close>: the dot does not match a line terminator.\<close>

definition INTENT_FRAGMENT :: rexp where
  "INTENT_FRAGMENT = seqs [Bol, Lit (str ''Intent;''), Rep (Cls (\<lambda>c. c \<notin> {10, 13, 0x2028, 0x2029})),
     Lit (str '';end''), Eol]"

definition INTENT_FALLBACK_PARAMS :: "ustring set" where
  "INTENT_FALLBACK_PARAMS = {str ''browser_fallback_url'', str ''s.browser_fallback_url''}"

definition intentExtras :: "ustring option \<Rightarrow> ustring option" where
  "intentExtras fragment =
     (case fragment of
        None \<Rightarrow> None
      | Some f \<Rightarrow> if test INTENT_FRAGMENT (trim f) then Some (trim f) else None)"

definition decodedText :: "ustring \<Rightarrow> nat \<Rightarrow> ustring" where
  "decodedText s maxDecodeDepth = bd_decoded (boundedDecode s maxDecodeDepth)"

text \<open>Key and raw value of every pair that has an equals sign.\<close>

definition queryPairs :: "platform \<Rightarrow> ustring \<Rightarrow> nat \<Rightarrow> nat \<Rightarrow> (ustring \<times> ustring) list" where
  "queryPairs E query maxDecodeDepth separator =
     List.map_filter (\<lambda>pair.
       case indexOf 61 pair of
         None \<Rightarrow> None
       | Some eq \<Rightarrow> Some (pf_toLowerCase E (decodedText (take eq pair) maxDecodeDepth), drop (eq + 1) pair))
     (split_on separator query)"

record OpenRedirectPayload =
  op_param :: ustring
  op_targetSite :: ustring
  op_registrableDomain :: "ustring option"
  op_dangerousScheme :: "ustring option"

text \<open>What one pair of the query contributes.\<close>

definition redirectPayload ::
    "platform \<Rightarrow> bool \<Rightarrow> ustring \<Rightarrow> nat \<Rightarrow> ustring \<times> ustring \<Rightarrow> OpenRedirectPayload option" where
  "redirectPayload E isAuthorizationRequest site maxDecodeDepth p =
     (case p of (key, rawValue) \<Rightarrow>
      if key \<notin> REDIRECT_PARAMS \<or> rawValue = [] then None
      else (let value = decodedText rawValue maxDecodeDepth in
        case targetHost E value of
          None \<Rightarrow>
            (case dangerousPayloadScheme value of
               None \<Rightarrow> None
             | Some scheme \<Rightarrow> Some \<lparr>op_param = key, op_targetSite = scheme @ [58], op_registrableDomain = None,
                                 op_dangerousScheme = Some scheme\<rparr>)
        | Some host \<Rightarrow>
            (case authorityOf E host of
               None \<Rightarrow> None
             | Some authority \<Rightarrow>
                 if au_site authority = site then None
                 else if key = OAUTH_REDIRECT_PARAM \<and> isAuthorizationRequest \<and> au_registrableDomain authority \<noteq> None
                 then None
                 else Some \<lparr>op_param = key, op_targetSite = au_site authority,
                            op_registrableDomain = au_registrableDomain authority, op_dangerousScheme = None\<rparr>)))"

definition openRedirectParamPayloads ::
    "platform \<Rightarrow> ustring option \<Rightarrow> ustring option \<Rightarrow> nat \<Rightarrow> OpenRedirectPayload list" where
  "openRedirectParamPayloads E query inputSiteLower maxDecodeDepth =
     (if \<not> truthy query \<or> \<not> truthy inputSiteLower then []
      else (let pairs = queryPairs E (the query) maxDecodeDepth 38;
                isAuthorizationRequest = list_ex (\<lambda>(key, rawValue). key = OAUTH_CLIENT_ID_PARAM \<and> rawValue \<noteq> []) pairs
            in List.map_filter (redirectPayload E isAuthorizationRequest (the inputSiteLower) maxDecodeDepth) pairs))"

text \<open>One extra of an intent; the first that yields a payload is taken.\<close>

definition intentPayload :: "nat \<Rightarrow> ustring \<times> ustring \<Rightarrow> OpenRedirectPayload option" where
  "intentPayload maxDecodeDepth p =
     (case p of (key, rawValue) \<Rightarrow>
      if key \<notin> INTENT_FALLBACK_PARAMS \<or> rawValue = [] then None
      else map_option (\<lambda>scheme. \<lparr>op_param = key, op_targetSite = scheme @ [58], op_registrableDomain = None,
                                 op_dangerousScheme = Some scheme\<rparr>)
             (dangerousPayloadScheme (decodedText rawValue maxDecodeDepth)))"

definition firstOf :: "'a list \<Rightarrow> 'a option" where
  "firstOf xs = (case xs of [] \<Rightarrow> None | x # _ \<Rightarrow> Some x)"

definition intentFallbackPayload :: "platform \<Rightarrow> ustring option \<Rightarrow> nat \<Rightarrow> OpenRedirectPayload option" where
  "intentFallbackPayload E fragment maxDecodeDepth =
     (case intentExtras fragment of
        None \<Rightarrow> None
      | Some extras \<Rightarrow> firstOf (List.map_filter (intentPayload maxDecodeDepth) (queryPairs E extras maxDecodeDepth 59)))"

record OpenRedirectTarget =
  ot_param :: ustring
  ot_registrableDomain :: ustring

definition openRedirectParamTargets ::
    "platform \<Rightarrow> ustring option \<Rightarrow> ustring option \<Rightarrow> nat \<Rightarrow> OpenRedirectTarget list" where
  "openRedirectParamTargets E query inputRegistrableDomainLower maxDecodeDepth =
     (if inputRegistrableDomainLower = None then []
      else List.map_filter (\<lambda>p. map_option (\<lambda>rd. \<lparr>ot_param = op_param p, ot_registrableDomain = rd\<rparr>) (op_registrableDomain p))
             (openRedirectParamPayloads E query inputRegistrableDomainLower maxDecodeDepth))"

text \<open>The payloads found, in the order of the surfaces; the intent fallback is consulted last.\<close>

definition redirectFound :: "platform \<Rightarrow> InspectionContext \<Rightarrow> ustring \<Rightarrow> (string \<times> OpenRedirectPayload) list" where
  "redirectFound E ctx site =
     (let depth = rt_maxDecodeDepth (cx_runtime ctx);
          surfaces = [(''redirect parameter'', cx_query ctx),
            (''fragment redirect parameter'', fragmentQueryLike (cx_fragment ctx))];
          found = List.map_filter (\<lambda>(label, t). map_option (Pair label)
            (firstOf (openRedirectParamPayloads E t (Some site) depth))) surfaces
      in if found = [] then
           (case intentFallbackPayload E (cx_fragment ctx) depth of
              None \<Rightarrow> [] | Some p \<Rightarrow> [(''intent fallback parameter'', p)])
         else found)"

definition redirectDetail :: "string \<Rightarrow> OpenRedirectPayload \<Rightarrow> ustring \<Rightarrow> ustring" where
  "redirectDetail label payload linkHost =
     (case op_dangerousScheme payload of
        Some scheme \<Rightarrow>
        ((str label) @ str '' '' @ quoted (op_param payload)
        @ str '' carries an executable payload rather than a destination: its value is a hostless ''
        @ quoted (scheme @ [58])
        @ str '' URL, a scheme that can execute or embed content, on a link that reads as ''
        @ quoted linkHost)
      | None \<Rightarrow>
          (case op_registrableDomain payload of
             Some rd \<Rightarrow>
        ((str label) @ str '' '' @ quoted (op_param payload)
        @ str '' points off-site: its value resolves to '' @ quoted rd
        @ str '', a different registrable domain than the link host '' @ quoted linkHost)
           | None \<Rightarrow>
        ((str label) @ str '' '' @ quoted (op_param payload)
        @ str '' points off-site: its value resolves to the host ''
        @ quoted (op_targetSite payload)
        @ str '', which has no registrable domain and is a different authority than the link host ''
        @ quoted linkHost)))"

definition openRedirectParam :: "platform \<Rightarrow> InspectionContext \<Rightarrow> CollectedFinding list" where
  "openRedirectParam E ctx =
     (case authorityOf E (cx_host ctx) of
        None \<Rightarrow> []
      | Some inputAuthority \<Rightarrow>
          (case redirectFound E ctx (au_site inputAuthority) of
             [] \<Rightarrow> []
           | (label, payload) # _ \<Rightarrow>
               [finding open_redirect_param (redirectDetail label payload
                 (case cx_registrableDomain ctx of Some rd \<Rightarrow> rd | None \<Rightarrow> au_site inputAuthority))]))"

subsection \<open>prompt-injection.ts\<close>

definition PROMPT_CONTROL_PARAMS :: "ustring set" where
  "PROMPT_CONTROL_PARAMS = set (map str [''role'', ''system'', ''system_prompt'', ''systemprompt'', ''prompt'',
     ''instruction'', ''instructions'', ''assistant'', ''developer'', ''jailbreak''])"

definition word :: "string \<Rightarrow> rexp" where "word w = Lit (str w)"

text \<open>An optional plural: \<open>/words?/\<close>.\<close>

definition words_rx :: "string \<Rightarrow> rexp" where "words_rx w = Sq (word w) (Opt (word ''s''))"

definition leftEdge :: rexp where "leftEdge = Alt Bol (Lit [32])"
definition rightEdge :: rexp where "rightEdge = Alt (Lit [32]) Eol"

definition OVERRIDE_PHRASE :: rexp where
  "OVERRIDE_PHRASE =
     seqs [leftEdge, alts (word ''ignore'') (map word [''disregard'', ''forget'', ''override'']),
       Opt (Sq (Lit [32]) (alts (word ''all'') (map word [''the'', ''any'']))),
       Opt (Sq (Lit [32]) (alts (word ''previous'') (map word [''prior'', ''earlier'', ''above'']))),
       Sq (Lit [32]) (alts (words_rx ''instruction'') [words_rx ''prompt'', words_rx ''message'', word ''context'', words_rx ''rule'']),
       rightEdge]"

definition PERSONA_RESET :: rexp where
  "PERSONA_RESET =
     seqs [leftEdge, alts (word ''you are now'') [word ''act as'',
         Sq (word ''pretend '') (Alt (word ''to be'') (word ''you are'')), words_rx ''new instruction''],
       rightEdge]"

definition hasInjectionPhrase :: "ustring \<Rightarrow> bool" where
  "hasInjectionPhrase s \<longleftrightarrow> test OVERRIDE_PHRASE s \<or> test PERSONA_RESET s"

text \<open>\<open>s.replace(/[P]+/g, " ")\<close>: every maximal run of the class becomes one space.\<close>

fun collapseRuns :: "(nat \<Rightarrow> bool) \<Rightarrow> bool \<Rightarrow> ustring \<Rightarrow> ustring" where
  "collapseRuns P inRun [] = []"
| "collapseRuns P inRun (c # s) =
     (if P c then (if inRun then [] else [32]) @ collapseRuns P True s else c # collapseRuns P False s)"

definition plusToSpace :: "ustring \<Rightarrow> ustring" where
  "plusToSpace s = map (\<lambda>c. if c = 43 then 32 else c) s"

definition normalizeSegment :: "platform \<Rightarrow> ustring \<Rightarrow> nat \<Rightarrow> ustring option" where
  "normalizeSegment E raw maxDecodeDepth =
     (if raw = [] then None
      else (let decoded = decodedText (plusToSpace raw) maxDecodeDepth;
                wds = trim (collapseRuns is_space False
                  (collapseRuns (\<lambda>c. c \<in> {45, 95, 43, 46}) False (pf_toLowerCase E decoded)))
            in if wds = [] then None else Some wds))"

definition promptPair :: "platform \<Rightarrow> nat \<Rightarrow> ustring \<Rightarrow> CollectedFinding option" where
  "promptPair E depth pair =
     (case indexOf 61 pair of
        None \<Rightarrow> None
      | Some eq \<Rightarrow>
          (let rawValue = drop (eq + 1) pair; key = pf_toLowerCase E (decodedText (take eq pair) depth) in
           if rawValue = [] then None
           else if key \<in> PROMPT_CONTROL_PARAMS then Some (finding prompt_injection_url
        (str ''query parameter '' @ quoted key
        @ str '' addresses an LLM control channel (role/system/prompt) '' @ dash
        @ str '' a prompt-injection payload in the URL''))
           else case normalizeSegment E rawValue depth of
             None \<Rightarrow> None
           | Some value \<Rightarrow>
               if hasInjectionPhrase value then Some (finding prompt_injection_url
        (str ''query value of '' @ quoted key @ str '' reads as an instruction override (''
        @ quoted value @ str '') '' @ dash @ str '' a prompt-injection payload in the URL''))
               else None))"

definition promptSegment :: "platform \<Rightarrow> nat \<Rightarrow> ustring \<Rightarrow> CollectedFinding option" where
  "promptSegment E depth rawSeg =
     (case normalizeSegment E rawSeg depth of
        None \<Rightarrow> None
      | Some seg \<Rightarrow>
          if hasInjectionPhrase seg then Some (finding prompt_injection_url
        (str ''path segment '' @ quoted seg
        @ str '' reads as an instruction override (ignore/disregard previous instructions) ''
        @ dash @ str '' a prompt-injection payload in the URL''))
          else None)"

definition promptInjection :: "platform \<Rightarrow> InspectionContext \<Rightarrow> CollectedFinding list" where
  "promptInjection E ctx =
     (let depth = rt_maxDecodeDepth (cx_runtime ctx) in
      take 1 ((if truthy (cx_query ctx)
               then List.map_filter (promptPair E depth) (split_on 38 (the (cx_query ctx))) else [])
            @ (if cx_path ctx \<noteq> []
               then List.map_filter (promptSegment E depth) (split_on 47 (cx_path ctx)) else [])))"

subsection \<open>credential-harvesting.ts\<close>

definition OAUTH_PATH_MARKERS :: "string list" where
  "OAUTH_PATH_MARKERS = [''/oauth/authorize/'', ''/oauth/token/'', ''/oauth2/authorize/'', ''/oauth2/token/'',
     ''/login/oauth/authorize/'', ''/login/oauth/access_token/'', ''/connect/authorize/'', ''/connect/token/'']"

definition TOKEN_FLOW_PARAMS :: "string list" where
  "TOKEN_FLOW_PARAMS = [''redirect_uri'', ''access_token'', ''client_secret'']"

definition normalizedPath :: "platform \<Rightarrow> ustring \<Rightarrow> ustring" where
  "normalizedPath E path =
     (let p = pf_toLowerCase E path; q = (if startsWith [47] p then p else [47] @ p) in
      if endsWith [47] q then q else q @ [47])"

text \<open>Names and values; the first value of a name is kept.\<close>

definition queryParams :: "platform \<Rightarrow> ustring \<Rightarrow> (ustring \<times> ustring) list" where
  "queryParams E query =
     filter (\<lambda>(key, value). key \<noteq> [])
       (map (\<lambda>pair. case cut_at 61 pair of (rawKey, rawValue) \<Rightarrow>
              (pf_toLowerCase E rawKey, pf_toLowerCase E (orEmpty rawValue)))
         (filter (\<lambda>pair. pair \<noteq> []) (split_on 38 query)))"

definition tokenFlowFinding :: "ustring \<Rightarrow> ustring \<Rightarrow> ustring \<Rightarrow> CollectedFinding" where
  "tokenFlowFinding host registrable marker = finding credential_harvesting
        (str ''query carries an OAuth/token-flow marker ('' @ marker @ str '') on host ''
        @ quoted host @ str '' (registrable domain '' @ quoted registrable @ str '') '' @ dash
        @ str '' an authorization-code / token-flow URL shape'')"

definition pathMarkerFinding :: "ustring \<Rightarrow> ustring \<Rightarrow> string \<Rightarrow> CollectedFinding" where
  "pathMarkerFinding host registrable marker = finding credential_harvesting
        (str ''path contains an OAuth/token-flow endpoint (''
        @ quoted (str (butlast (tl marker))) @ str '') on host '' @ quoted host
        @ str '' (registrable domain '' @ quoted registrable @ str '') '' @ dash
        @ str '' an authorization-code / token-flow URL shape'')"

definition queryMarker :: "(ustring \<times> ustring) list \<Rightarrow> ustring option" where
  "queryMarker params =
     (let names = map fst params in
      case find (\<lambda>param. str param \<in> set names) TOKEN_FLOW_PARAMS of
        Some param \<Rightarrow> Some (str ''the '' @ quoted (str param) @ str '' parameter'')
      | None \<Rightarrow>
          if map_of params (str ''response_type'') = Some (str ''token'')
          then Some (quoted (str ''response_type=token'') @ str '' (implicit grant)'')
          else if str ''code'' \<in> set names \<and> str ''client_id'' \<in> set names
          then Some (str ''the '' @ quoted (str ''code'') @ str ''+'' @ quoted (str ''client_id'')
        @ str '' authorization-code pair'')
          else None)"

definition credentialHarvesting :: "platform \<Rightarrow> InspectionContext \<Rightarrow> CollectedFinding list" where
  "credentialHarvesting E ctx =
     (if cx_isIp ctx \<or> cx_host ctx = [] \<or> \<not> truthy (cx_registrableDomainLower ctx) then []
      else (let registrable = the (cx_registrableDomainLower ctx) in
        case (if cx_path ctx = [] then None
              else find (\<lambda>marker. includesStr (str marker) (normalizedPath E (cx_path ctx))) OAUTH_PATH_MARKERS) of
          Some marker \<Rightarrow> [pathMarkerFinding (cx_host ctx) registrable marker]
        | None \<Rightarrow>
            (case (if truthy (cx_query ctx) then queryMarker (queryParams E (the (cx_query ctx))) else None) of
               Some marker \<Rightarrow> [tokenFlowFinding (cx_host ctx) registrable marker]
             | None \<Rightarrow> [])))"

subsection \<open>data-exfiltration.ts\<close>

definition EXFIL_MARKER_PARAMS :: "ustring set" where
  "EXFIL_MARKER_PARAMS = set (map str [''exfil'', ''beacon'', ''dump'', ''leak'', ''payload''])"

definition OVERLONG_VALUE_LEN :: nat where "OVERLONG_VALUE_LEN = 200"
definition MIN_ALNUM_DENSITY :: rat where "MIN_ALNUM_DENSITY = fl (9 / 10)"

definition JWT_SHAPE :: rexp where
  "JWT_SHAPE = (let seg = Rep1 (Cls (\<lambda>c. is_alnum c \<or> c = 95 \<or> c = 45)) in
     seqs [Bol, seg, Lit [46], seg, Lit [46], seg, Eol])"

text \<open>Only letters, digits and opaque punctuation, and a density of letters and digits computed on doubles.\<close>

definition isOpaqueBlob :: "ustring \<Rightarrow> bool" where
  "isOpaqueBlob value \<longleftrightarrow>
     list_all (\<lambda>c. is_alnum c \<or> c \<in> {43, 47, 45, 95, 46, 61, 126}) value
     \<and> fl (of_nat (length (filter is_alnum value)) / of_nat (length value)) \<ge> MIN_ALNUM_DENSITY"

definition decodeToken :: "ustring \<Rightarrow> nat \<Rightarrow> ustring" where
  "decodeToken raw maxDepth = decodedText (plusToSpace raw) maxDepth"

definition exfilPair :: "platform \<Rightarrow> nat \<Rightarrow> ustring \<Rightarrow> CollectedFinding option" where
  "exfilPair E depth pair =
     (case cut_at 61 pair of (rawKey, rawValue') \<Rightarrow>
      (let rawValue = orEmpty rawValue'; key = pf_toLowerCase E (decodeToken rawKey depth);
           value = decodeToken rawValue depth
       in if pair = [] \<or> rawValue = [] then None
          else if key \<in> EXFIL_MARKER_PARAMS then Some (finding data_exfiltration
        (str ''query parameter '' @ quoted key
        @ str '' is a data-exfiltration marker carrying a value '' @ dash
        @ str '' the shape of context/secrets being smuggled out in the URL''))
          else if length value \<ge> OVERLONG_VALUE_LEN \<and> \<not> test JWT_SHAPE value \<and> isOpaqueBlob value
          then Some (finding data_exfiltration
        (str ''query parameter '' @ quoted key @ str '' carries an abnormally long (''
        @ (decimal (length value)) @ str ''-char) opaque base64/hex-style token '' @ dash
        @ str '' the shape of a stolen-data payload smuggled out in the URL''))
          else None))"

definition dataExfiltration :: "platform \<Rightarrow> InspectionContext \<Rightarrow> CollectedFinding list" where
  "dataExfiltration E ctx =
     (if \<not> truthy (cx_query ctx) then []
      else take 1 (List.map_filter (exfilPair E (rt_maxDecodeDepth (cx_runtime ctx))) (split_on 38 (the (cx_query ctx)))))"

end
