(* ===== verification/Checks.thy ===== *)
theory Checks
  imports PayloadChecks Inspect
begin

text \<open>
  The registry of checks (\<open>detectors/checks.ts\<close>): four structural scans and thirty-six detectors with
  the codes each declares, the two runtime lists derived from it (\<open>structural.ts\<close>, \<open>registry.ts\<close>) and
  the program's entry point, \<open>inspectWith\<close> on these lists. The properties: a check emits only codes
  it declares; the registry and the reason registry describe the same lexical codes; the agent
  codes appear only in agent mode; and detectors the code means to be exclusive are.
\<close>

subsection \<open>detectors/descriptor.ts\<close>

record CheckBase =
  ck_id :: string
  ck_layer :: Layer
  ck_emits :: "ReasonCode list"
  ck_skipReportable :: bool
  ck_agentGated :: bool

datatype CheckDescriptor =
    StructuralCheck CheckBase "ScanContext \<Rightarrow> CollectedFinding list"
  | ParsedCheck CheckBase "InspectionContext \<Rightarrow> CollectedFinding list"

fun checkBase :: "CheckDescriptor \<Rightarrow> CheckBase" where
  "checkBase (StructuralCheck b _) = b"
| "checkBase (ParsedCheck b _) = b"

definition base :: "string \<Rightarrow> ReasonCode list \<Rightarrow> bool \<Rightarrow> CheckBase" where
  "base i emits gated = \<lparr>ck_id = i, ck_layer = Lexical, ck_emits = emits, ck_skipReportable = True, ck_agentGated = gated\<rparr>"

definition structural :: "string \<Rightarrow> ReasonCode list \<Rightarrow> (ScanContext \<Rightarrow> CollectedFinding list) \<Rightarrow> CheckDescriptor" where
  "structural i emits run = StructuralCheck (base i emits False) run"

definition parsed :: "string \<Rightarrow> ReasonCode list \<Rightarrow> (InspectionContext \<Rightarrow> CollectedFinding list) \<Rightarrow> CheckDescriptor" where
  "parsed i emits run = ParsedCheck (base i emits False) run"

definition agentGated :: "string \<Rightarrow> ReasonCode list \<Rightarrow> (InspectionContext \<Rightarrow> CollectedFinding list) \<Rightarrow> CheckDescriptor" where
  "agentGated i emits run = ParsedCheck (base i emits True) run"

subsection \<open>detectors/checks.ts\<close>

definition structuralChecks :: "platform \<Rightarrow> CheckDescriptor list" where
  "structuralChecks E =
     [structural ''ambiguous_authority'' [ambiguous_authority]
        (\<lambda>ctx. scanAmbiguousAuthority (sx_prepared ctx) (sx_authority ctx)),
      structural ''separator_lookalike'' [separator_lookalike]
        (\<lambda>ctx. scanSeparatorLookalike (sx_prepared ctx) (sx_authority ctx)),
      structural ''idna_mapping_ambiguity'' [idna_mapping_ambiguity, brand_idna_collapse]
        (\<lambda>ctx. scanIdnaMappingAmbiguity E (sx_prepared ctx) (sx_authority ctx)),
      structural ''control_char'' [control_char]
        (\<lambda>ctx. scanControlChar (sx_prepared ctx) (sx_runtime ctx) (sx_authority ctx))]"

definition characterChecks :: "platform \<Rightarrow> CheckDescriptor list" where
  "characterChecks E =
     [parsed ''normalization_delta'' [normalization_delta] (normalizationDelta E),
      parsed ''confusable_char'' [confusable_char] (confusableChar E),
      parsed ''mixed_script'' [mixed_script] (mixedScript E),
      parsed ''ascii_homoglyph'' [ascii_homoglyph] (asciiHomoglyph E),
      parsed ''invisible_char'' [invisible_char] (invisibleChar E),
      parsed ''bidi_override'' [bidi_override] bidiOverride,
      parsed ''userinfo_present'' [userinfo_present] userinfoPresent,
      parsed ''ip_obfuscation'' [ip_obfuscation] ipObfuscation,
      parsed ''ip_classification'' [ip_cloud_metadata, ip_loopback, ip_link_local, ip_private, ip_reserved]
        (ipClassification E),
      parsed ''ambiguous_numeric_host'' [ambiguous_numeric_host] ambiguousNumericHost,
      parsed ''embedded_domain_in_subdomain'' [embedded_domain_in_subdomain] (embeddedDomain E)]"

definition structureChecks :: "platform \<Rightarrow> CheckDescriptor list" where
  "structureChecks E =
     [parsed ''file_extension_tld'' [file_extension_tld] (fileExtensionTld E),
      parsed ''encoding_obfuscation'' [encoding_obfuscation] encodingObfuscation,
      parsed ''dangerous_scheme'' [dangerous_scheme] dangerousScheme,
      parsed ''confusable_in_path'' [confusable_in_path] (confusableInPath E),
      parsed ''brand_homoglyph'' [brand_homoglyph] (brandHomoglyph E),
      parsed ''homograph_skeleton_collision'' [homograph_skeleton_collision] (skeletonCollision E),
      parsed ''homograph_latin_skeleton'' [homograph_latin_skeleton] (latinSkeletonHomograph E),
      parsed ''locale_case_collapse'' [locale_case_ambiguity, brand_locale_collapse] (localeCaseCollapse E),
      parsed ''idn_host'' [idn_host] (idnHost E),
      parsed ''open_redirect_param'' [open_redirect_param] (openRedirectParam E),
      parsed ''suspicious_extension'' [suspicious_extension] (suspiciousExtension E)]"

definition protocolChecks :: "platform \<Rightarrow> CheckDescriptor list" where
  "protocolChecks E =
     [parsed ''punycode_malformed'' [punycode_malformed] (punycodeMalformed E),
      parsed ''idna_protocol_violation'' [idna_protocol_violation] (idnaProtocolViolation E),
      parsed ''percent_encoding_malformed'' [percent_encoding_malformed] percentEncodingMalformed,
      parsed ''low_byte_truncation'' [low_byte_truncation] lowByteTruncation,
      parsed ''header_shaped_token'' [header_shaped_token] headerShapedToken,
      parsed ''best_fit_mapping'' [best_fit_mapping] bestFitMapping,
      parsed ''host_length_unresolvable'' [host_length_unresolvable] hostLengthUnresolvable,
      parsed ''special_use_name'' [special_use_name] (specialUseName E),
      parsed ''fqdn_root_label'' [fqdn_root_label] fqdnRootLabel,
      parsed ''excessive_subdomain_depth'' [excessive_subdomain_depth] excessiveSubdomainDepth]"

definition agentChecks :: "platform \<Rightarrow> CheckDescriptor list" where
  "agentChecks E =
     [agentGated ''prompt_injection_url'' [prompt_injection_url] (promptInjection E),
      agentGated ''credential_harvesting'' [credential_harvesting] (credentialHarvesting E),
      agentGated ''data_exfiltration'' [data_exfiltration] (dataExfiltration E),
      agentGated ''ssrf_cloud_metadata'' [ssrf_cloud_metadata] (ssrfCloudMetadata E)]"

definition CHECKS :: "platform \<Rightarrow> CheckDescriptor list" where
  "CHECKS E = structuralChecks E @ characterChecks E @ structureChecks E @ protocolChecks E @ agentChecks E"

subsection \<open>detectors/structural.ts, detectors/registry.ts\<close>

text \<open>The modelled checks are total, so a run never raises.\<close>

definition STRUCTURAL_SCANS :: "platform \<Rightarrow> StructuralScan list" where
  "STRUCTURAL_SCANS E = List.map_filter (\<lambda>c. case c of
       StructuralCheck b run \<Rightarrow> Some \<lparr>ss_id = ck_id b, ss_run = Some \<circ> run\<rparr>
     | ParsedCheck _ _ \<Rightarrow> None) (CHECKS E)"

definition DETECTORS :: "platform \<Rightarrow> Detector list" where
  "DETECTORS E = List.map_filter (\<lambda>c. case c of
       ParsedCheck b run \<Rightarrow> Some \<lparr>dt_id = ck_id b, dt_agentGated = ck_agentGated b, dt_run = Some \<circ> run\<rparr>
     | StructuralCheck _ _ \<Rightarrow> None) (CHECKS E)"

subsection \<open>inspect\<close>

definition inspect :: "platform \<Rightarrow> PslSnapshot \<Rightarrow> input_value \<Rightarrow> jsval \<Rightarrow> InspectResult option" where
  "inspect E = inspectWith (STRUCTURAL_SCANS E) (DETECTORS E) (POLICY_AXIS_DESCRIPTORS E) E"

subsection \<open>What a check emits\<close>

text \<open>At most one finding, with one of the given codes.\<close>

definition emitsOnly :: "ReasonCode list \<Rightarrow> CollectedFinding list \<Rightarrow> bool" where
  "emitsOnly codes fs \<longleftrightarrow> length fs \<le> 1 \<and> list_all (\<lambda>f. cf_code f \<in> set codes) fs"

named_theorems emits \<open>what a detector emits\<close>

lemma emitsOnly_simps [simp]:
  "emitsOnly codes []" "emitsOnly codes [f] \<longleftrightarrow> cf_code f \<in> set codes"
  by (simp_all add: emitsOnly_def)

lemma cf_code_finding [simp]: "cf_code (finding code detail) = code"
  by (simp add: finding_def)

lemma emits_normalizationDelta [emits]: "emitsOnly [normalization_delta] (normalizationDelta E ctx)"
  by (simp add: normalizationDelta_def Let_def split: option.splits list.splits)

lemma emits_bidiOverride [emits]: "emitsOnly [bidi_override] (bidiOverride ctx)"
  by (simp add: bidiOverride_def Let_def split: option.splits list.splits)

lemma emits_invisibleChar [emits]: "emitsOnly [invisible_char] (invisibleChar E ctx)"
  by (simp add: invisibleChar_def Let_def split: option.splits list.splits)

lemma emits_confusableChar [emits]: "emitsOnly [confusable_char] (confusableChar E ctx)"
  by (simp add: confusableChar_def Let_def split: option.splits list.splits)

lemma emits_confusableInPath [emits]: "emitsOnly [confusable_in_path] (confusableInPath E ctx)"
  by (simp add: confusableInPath_def Let_def split: option.splits list.splits)

lemma emits_asciiHomoglyph [emits]: "emitsOnly [ascii_homoglyph] (asciiHomoglyph E ctx)"
  by (simp add: asciiHomoglyph_def Let_def split: option.splits list.splits)

lemma emits_userinfoPresent [emits]: "emitsOnly [userinfo_present] (userinfoPresent ctx)"
  by (simp add: userinfoPresent_def Let_def split: option.splits list.splits)

lemma emits_ipObfuscation [emits]: "emitsOnly [ip_obfuscation] (ipObfuscation ctx)"
  by (simp add: ipObfuscation_def Let_def split: option.splits list.splits)

lemma emits_ambiguousNumericHost [emits]: "emitsOnly [ambiguous_numeric_host] (ambiguousNumericHost ctx)"
  by (simp add: ambiguousNumericHost_def Let_def split: option.splits list.splits)

lemma emits_embeddedDomain [emits]: "emitsOnly [embedded_domain_in_subdomain] (embeddedDomain E ctx)"
  by (simp add: embeddedDomain_def Let_def split: option.splits list.splits)

lemma emits_fileExtensionTld [emits]: "emitsOnly [file_extension_tld] (fileExtensionTld E ctx)"
  by (simp add: fileExtensionTld_def Let_def split: option.splits list.splits)

lemma emits_encodingObfuscation [emits]: "emitsOnly [encoding_obfuscation] (encodingObfuscation ctx)"
  by (simp add: encodingObfuscation_def Let_def split: option.splits list.splits)

lemma emits_dangerousScheme [emits]: "emitsOnly [dangerous_scheme] (dangerousScheme ctx)"
  by (simp add: dangerousScheme_def Let_def split: option.splits list.splits)

lemma emits_skeletonCollision [emits]: "emitsOnly [homograph_skeleton_collision] (skeletonCollision E ctx)"
  by (simp add: skeletonCollision_def Let_def split: option.splits list.splits)

lemma emits_latinSkeletonHomograph [emits]: "emitsOnly [homograph_latin_skeleton] (latinSkeletonHomograph E ctx)"
  by (simp add: latinSkeletonHomograph_def Let_def split: option.splits list.splits)

lemma emits_idnHost [emits]: "emitsOnly [idn_host] (idnHost E ctx)"
  by (simp add: idnHost_def Let_def split: option.splits list.splits)

lemma emits_openRedirectParam [emits]: "emitsOnly [open_redirect_param] (openRedirectParam E ctx)"
  by (simp add: openRedirectParam_def Let_def split: option.splits list.splits)

lemma emits_suspiciousExtension [emits]: "emitsOnly [suspicious_extension] (suspiciousExtension E ctx)"
  by (simp add: suspiciousExtension_def Let_def split: option.splits list.splits)

lemma emits_punycodeMalformed [emits]: "emitsOnly [punycode_malformed] (punycodeMalformed E ctx)"
  by (simp add: punycodeMalformed_def Let_def split: option.splits list.splits)

lemma emits_percentEncodingMalformed [emits]: "emitsOnly [percent_encoding_malformed] (percentEncodingMalformed ctx)"
  by (simp add: percentEncodingMalformed_def Let_def split: option.splits list.splits)

lemma emits_lowByteTruncation [emits]: "emitsOnly [low_byte_truncation] (lowByteTruncation ctx)"
  by (simp add: lowByteTruncation_def Let_def split: option.splits list.splits)

lemma emits_headerShapedToken [emits]: "emitsOnly [header_shaped_token] (headerShapedToken ctx)"
  by (simp add: headerShapedToken_def Let_def split: option.splits list.splits)

lemma emits_bestFitMapping [emits]: "emitsOnly [best_fit_mapping] (bestFitMapping ctx)"
  by (simp add: bestFitMapping_def Let_def split: option.splits list.splits)

lemma emits_hostLengthUnresolvable [emits]: "emitsOnly [host_length_unresolvable] (hostLengthUnresolvable ctx)"
  by (simp add: hostLengthUnresolvable_def Let_def split: option.splits list.splits)

lemma emits_specialUseName [emits]: "emitsOnly [special_use_name] (specialUseName E ctx)"
  by (simp add: specialUseName_def Let_def split: option.splits list.splits)

lemma emits_fqdnRootLabel [emits]: "emitsOnly [fqdn_root_label] (fqdnRootLabel ctx)"
  by (simp add: fqdnRootLabel_def Let_def split: option.splits list.splits)

lemma emits_excessiveSubdomainDepth [emits]: "emitsOnly [excessive_subdomain_depth] (excessiveSubdomainDepth ctx)"
  by (simp add: excessiveSubdomainDepth_def Let_def split: option.splits list.splits)

lemma emits_ssrfCloudMetadata [emits]: "emitsOnly [ssrf_cloud_metadata] (ssrfCloudMetadata E ctx)"
  by (simp add: ssrfCloudMetadata_def Let_def split: option.splits list.splits)

lemma emits_localeCaseCollapse [emits]:
  "emitsOnly [locale_case_ambiguity, brand_locale_collapse] (localeCaseCollapse E ctx)"
  by (simp add: localeCaseCollapse_def Let_def)

lemma emits_brandHomoglyph [emits]: "emitsOnly [brand_homoglyph] (brandHomoglyph E ctx)"
  by (simp add: brandHomoglyph_def brandDomainFold_def Let_def split: option.splits)

lemma emits_credentialHarvesting [emits]: "emitsOnly [credential_harvesting] (credentialHarvesting E ctx)"
  by (simp add: credentialHarvesting_def pathMarkerFinding_def tokenFlowFinding_def Let_def split: option.splits)

lemma emits_mixedScript [emits]: "emitsOnly [mixed_script] (mixedScript E ctx)"
proof -
  have "emitsOnly [mixed_script] (mixedScriptLabels E ls)" for ls
    by (induction ls) (simp_all add: Let_def split: prod.splits)
  then show ?thesis by (simp add: mixedScript_def)
qed

lemma emits_idnaProtocolViolation [emits]: "emitsOnly [idna_protocol_violation] (idnaProtocolViolation E ctx)"
proof -
  have "emitsOnly [idna_protocol_violation] (firstLabelViolation E ls)" for ls
    by (induction ls) (simp_all split: option.splits)
  then show ?thesis by (simp add: idnaProtocolViolation_def)
qed

text \<open>The detectors that report the first hit of a list.\<close>

lemma emits_take_1:
  assumes "\<And>f. f \<in> set fs \<Longrightarrow> cf_code f \<in> set codes"
  shows "emitsOnly codes (take 1 fs)"
  using assms by (cases fs) (simp_all add: emitsOnly_def)

lemma set_map_filter_imp: "x \<in> set (List.map_filter f xs) \<Longrightarrow> \<exists>y \<in> set xs. f y = Some x"
  by (auto simp: List.map_filter_def)

lemma emits_promptInjection [emits]: "emitsOnly [prompt_injection_url] (promptInjection E ctx)"
proof -
  have "cf_code f = prompt_injection_url" if "promptPair E d p = Some f \<or> promptSegment E d p = Some f" for d p f
    using that by (auto simp: promptPair_def promptSegment_def Let_def split: option.splits if_splits)
  then show ?thesis unfolding promptInjection_def Let_def
    by (intro emits_take_1) (auto dest!: set_map_filter_imp split: if_splits)
qed

lemma emits_dataExfiltration [emits]: "emitsOnly [data_exfiltration] (dataExfiltration E ctx)"
proof -
  have "cf_code f = data_exfiltration" if "exfilPair E d p = Some f" for d p f
    using that by (auto simp: exfilPair_def Let_def split: option.splits if_splits prod.splits)
  then have "emitsOnly [data_exfiltration] (take 1 (List.map_filter (exfilPair E d) ps))" for d ps
    by (intro emits_take_1) (auto dest!: set_map_filter_imp)
  then show ?thesis by (simp add: dataExfiltration_def)
qed

text \<open>The buckets of the registries and of the metadata tables.\<close>

lemma table_buckets:
  "list_all (\<lambda>r. r4_bucket r \<in> {None, Some ip_loopback, Some ip_link_local, Some ip_private, Some ip_reserved})
     (IPV4_SPECIAL_RANGES @ [MULTICAST_IPV4])"
  "list_all (\<lambda>r. r6_bucket r \<in> {None, Some ip_loopback, Some ip_link_local, Some ip_private, Some ip_reserved})
     (IPV6_SPECIAL_RANGES @ [MULTICAST_IPV6])"
  by (simp_all add: IPV4_SPECIAL_RANGES_def MULTICAST_IPV4_def row4_def IPV6_SPECIAL_RANGES_def MULTICAST_IPV6_def row6_def)

lemma range_buckets:
  "matchIpv4Range n = Some m \<Longrightarrow> rg_bucket m \<in> {ip_loopback, ip_link_local, ip_private, ip_reserved}"
  "matchIpv6Range h = Some m \<Longrightarrow> rg_bucket m \<in> {ip_loopback, ip_link_local, ip_private, ip_reserved}"
  using table_buckets
  by (fastforce simp: matchIpv4Range_def matchIpv6Range_def IPV4_RANGES_def IPV6_RANGES_def list_all_iff
      dest!: find_sorted_least(1) split: option.splits if_splits)+

lemma classify_buckets:
  "classifyIpv4 d = Some m \<Longrightarrow> bm_bucket m \<in> {ip_cloud_metadata, ip_loopback, ip_link_local, ip_private, ip_reserved}"
  "classifyIpv6 d = Some m \<Longrightarrow> bm_bucket m \<in> {ip_cloud_metadata, ip_loopback, ip_link_local, ip_private, ip_reserved}"
  by (auto simp: classifyIpv4_def classifyIpv6_def metadataMatch_def rangeMatch_def Let_def split: option.splits
      dest: range_buckets)

lemma emits_ipClassification [emits]:
  "emitsOnly [ip_cloud_metadata, ip_loopback, ip_link_local, ip_private, ip_reserved] (ipClassification E ctx)"
proof -
  have "bm_bucket (ic_match c) \<in> {ip_cloud_metadata, ip_loopback, ip_link_local, ip_private, ip_reserved}"
    if "classifyName E h = Some c" for h c
    using that
    by (auto simp: classifyName_def classifyMetadataHostname_def classifyHost_def classification_def
        split: option.splits if_splits Option.bind_splits dest: classify_buckets)
  then show ?thesis
    by (auto simp: ipClassification_def classificationFinding_def Let_def split: option.splits)
qed

lemma emits_scans [emits]:
  "emitsOnly [ambiguous_authority] (scanAmbiguousAuthority p r)"
  "emitsOnly [separator_lookalike] (scanSeparatorLookalike p r)"
  "emitsOnly [idna_mapping_ambiguity, brand_idna_collapse] (scanIdnaMappingAmbiguity E p r)"
  "emitsOnly [control_char] (scanControlChar p rt r)"
  by (simp_all add: scanAmbiguousAuthority_def scanSeparatorLookalike_def scanIdnaMappingAmbiguity_def
      scanControlChar_def differentDomains_def mapsToAscii_def Let_def split: option.splits)

lemmas check_tables = structuralChecks_def characterChecks_def structureChecks_def protocolChecks_def agentChecks_def
  structural_def parsed_def agentGated_def base_def

subsection \<open>The findings of all checks\<close>

text \<open>What a descriptor contributes to one inspection.\<close>

fun checkFindings :: "bool \<Rightarrow> ScanContext \<Rightarrow> InspectionContext \<Rightarrow> CheckDescriptor \<Rightarrow> CollectedFinding list" where
  "checkFindings am sctx ctx (StructuralCheck b run) = run sctx"
| "checkFindings am sctx ctx (ParsedCheck b run) = (if ck_agentGated b \<longrightarrow> am then run ctx else [])"

lemma checkFindings_emits:
  "list_all (\<lambda>c. emitsOnly (ck_emits (checkBase c)) (checkFindings am sctx ctx c)
     \<and> (ck_agentGated (checkBase c) \<and> \<not> am \<longrightarrow> checkFindings am sctx ctx c = [])) (CHECKS E)"
  by (simp add: CHECKS_def check_tables emits)

lemma checks_findings:
  "scanFindings (STRUCTURAL_SCANS E) runtime input @ detectorFindings (DETECTORS E) am ctx
     = concat (map (checkFindings am (scanContext runtime input) ctx) (CHECKS E))"
  by (simp add: scanFindings_def detectorFindings_def STRUCTURAL_SCANS_def DETECTORS_def CHECKS_def check_tables
      List.map_filter_simps)

lemma checks_total:
  "scanSkipped (STRUCTURAL_SCANS E) runtime input = []"
  "filter (\<lambda>d. P d \<and> dt_run d ctx = None) (DETECTORS E) = []"
  by (auto simp: scanSkipped_def filter_empty_conv STRUCTURAL_SCANS_def DETECTORS_def
      dest!: set_map_filter_imp split: CheckDescriptor.splits)

text \<open>The codes the checks declare: no code twice, and exactly the lexical codes of the registry.\<close>

definition declaredCodes :: "platform \<Rightarrow> ReasonCode list" where
  "declaredCodes E = concat (map (ck_emits \<circ> checkBase) (CHECKS E))"

lemma declaredCodes_distinct: "distinct (declaredCodes E)"
  by (simp add: declaredCodes_def CHECKS_def check_tables)

lemmas registry_eval = reasonMeta_def REASON_CODES_def informational_codes_def script_and_authority_codes_def
  structure_codes_def homograph_codes_def payload_codes_def resolution_codes_def reputation_codes_def
  policy_codes_def meta_codes_def meta_def

lemma parse_error_layer [simp]: "rm_layer (reasonMeta parse_error) = Lexical"
  by (simp add: registry_eval)

lemma declaredCodes_lexical:
  "code \<in> set (declaredCodes E) \<longleftrightarrow> rm_layer (reasonMeta code) = Lexical \<and> code \<noteq> parse_error"
  by (cases code) (simp_all add: declaredCodes_def CHECKS_def check_tables registry_eval)

lemma distinct_concat_shrink:
  "list_all2 (\<lambda>cs es. set cs \<subseteq> set es \<and> distinct cs) css ess \<Longrightarrow> distinct (concat ess) \<Longrightarrow>
     distinct (concat css) \<and> set (concat css) \<subseteq> set (concat ess)"
  by (induction rule: list_all2_induct) auto

lemma emitsOnly_codes: "emitsOnly codes fs \<Longrightarrow> set (map cf_code fs) \<subseteq> set codes \<and> distinct (map cf_code fs)"
  by (cases fs) (auto simp: emitsOnly_def)

lemma checks_codes:
  "distinct (map cf_code (concat (map (checkFindings am sctx ctx) (CHECKS E))))
   \<and> set (map cf_code (concat (map (checkFindings am sctx ctx) (CHECKS E)))) \<subseteq> set (declaredCodes E)"
proof -
  let ?css = "map (map cf_code \<circ> checkFindings am sctx ctx) (CHECKS E)"
  have "list_all2 (\<lambda>cs es. set cs \<subseteq> set es \<and> distinct cs) ?css (map (ck_emits \<circ> checkBase) (CHECKS E))"
    using checkFindings_emits [of am sctx ctx E] emitsOnly_codes
    by (fastforce simp: list_all2_conv_all_nth list_all_length simp del: set_map)
  then have "distinct (concat ?css) \<and> set (concat ?css) \<subseteq> set (declaredCodes E)"
    using distinct_concat_shrink [of ?css] declaredCodes_distinct [of E] unfolding declaredCodes_def by blast
  moreover have "map cf_code (concat (map (checkFindings am sctx ctx) (CHECKS E))) = concat ?css"
    by (simp add: map_concat comp_def)
  ultimately show ?thesis by (simp only:)
qed

lemma okReasons_codes:
  "mset (map rs_code (sortReasons (okReasons E ctx fs))) = mset (map (\<lambda>f. str (codeName (cf_code f))) fs)"
proof -
  have "mset (map rs_code (sortReasons (okReasons E ctx fs))) = mset (map rs_code (okReasons E ctx fs))"
    by (simp add: sortReasons_def)
  also have "map rs_code (okReasons E ctx fs) = map (\<lambda>f. str (codeName (cf_code f))) fs"
    by (simp add: okReasons_def applySuppressions_codes toReason_def comp_def)
  finally show ?thesis .
qed

lemma policyChannel_total:
  "snd (snd (runPolicyChannel (POLICY_AXIS_DESCRIPTORS E) cf ctx)) = []"
  "f \<in> set (fst (runPolicyChannel (POLICY_AXIS_DESCRIPTORS E) cf ctx)) \<Longrightarrow> rm_layer (reasonMeta (cf_code f)) = Policy"
  using runPolicy_layer [of f E ctx]
  by (auto simp: runPolicyChannel_def runPolicyWith_def runPolicy_def policyLoop_spec POLICY_AXIS_DESCRIPTORS_def
      Let_def split: if_splits)

lemma ungated_codes:
  assumes "f \<in> set (concat (map (checkFindings False sctx ctx) (CHECKS E)))"
  shows "cf_code f \<notin> {prompt_injection_url, credential_harvesting, data_exfiltration, ssrf_cloud_metadata}"
proof -
  from assms obtain c where c: "c \<in> set (CHECKS E)" "f \<in> set (checkFindings False sctx ctx c)" by auto
  then have "\<not> ck_agentGated (checkBase c)" "cf_code f \<in> set (ck_emits (checkBase c))"
    using checkFindings_emits [of False sctx ctx E] by (auto simp: list_all_iff emitsOnly_def)
  moreover have "list_all (\<lambda>c. ck_agentGated (checkBase c) \<or> set (ck_emits (checkBase c))
      \<inter> {prompt_injection_url, credential_harvesting, data_exfiltration, ssrf_cloud_metadata} = {}) (CHECKS E)"
    by (simp add: CHECKS_def check_tables)
  ultimately show ?thesis using c(1) by (auto simp: list_all_iff)
qed

subsection \<open>Properties\<close>

text \<open>
  C36: Every check of the registry reports, on every input, at most one finding, and only with a code
  it declares.
\<close>

theorem checks_emit_declared:
  "list_all (\<lambda>c. case c of
       StructuralCheck b run \<Rightarrow> (\<forall>sctx. emitsOnly (ck_emits b) (run sctx))
     | ParsedCheck b run \<Rightarrow> (\<forall>ctx. emitsOnly (ck_emits b) (run ctx))) (CHECKS E)"
  by (simp add: CHECKS_def check_tables emits)

text \<open>
  The registry of checks and the registry of reason codes describe the same codes: check ids are
  distinct, no code is declared by two checks, the declared codes are exactly the lexical codes
  other than the parse error, four checks run before parsing and the last four detectors are
  agent-gated.
\<close>

lemma registry_partition:
  "distinct (map (ck_id \<circ> checkBase) (CHECKS E)) \<and> distinct (declaredCodes E)
   \<and> (code \<in> set (declaredCodes E) \<longleftrightarrow> rm_layer (reasonMeta code) = Lexical \<and> code \<noteq> parse_error)
   \<and> list_all (\<lambda>c. ck_layer (checkBase c) = Lexical \<and> ck_skipReportable (checkBase c)) (CHECKS E)
   \<and> map ss_id (STRUCTURAL_SCANS E) = [''ambiguous_authority'', ''separator_lookalike'', ''idna_mapping_ambiguity'', ''control_char'']
   \<and> map dt_agentGated (DETECTORS E) = replicate 32 False @ replicate 4 True"
proof (intro conjI)
  show "distinct (map (ck_id \<circ> checkBase) (CHECKS E))" by (simp add: CHECKS_def check_tables)
  show "distinct (declaredCodes E)" by (rule declaredCodes_distinct)
  show "code \<in> set (declaredCodes E) \<longleftrightarrow> rm_layer (reasonMeta code) = Lexical \<and> code \<noteq> parse_error"
    by (rule declaredCodes_lexical)
qed (simp_all add: CHECKS_def check_tables STRUCTURAL_SCANS_def DETECTORS_def List.map_filter_simps numeral_eq_Suc)

text \<open>
  C37: What an ok result of the whole program can contain. Its reasons carry lexical and policy codes
  only, never the parse error; each lexical code occurs at most once (a policy code may occur more
  than once); the four agent codes occur only if the agent flag is exactly true. With the built-in
  checks, none of which raises on the modelled platform, the skipped checks are exactly the option
  keys that were not applied and the two layers that need the network.
\<close>

theorem inspect_codes:
  assumes "inspect E sn v opts = Some r" "ir_status r = Ok"
  shows "\<exists>codes. mset (map rs_code (ir_reasons r)) = mset (map (str \<circ> codeName) codes)
     \<and> distinct (filter (\<lambda>c. rm_layer (reasonMeta c) = Lexical) codes)
     \<and> (\<forall>c \<in> set codes. rm_layer (reasonMeta c) \<in> {Lexical, Policy} \<and> c \<noteq> parse_error)
     \<and> (getProp (oi_options (callOptions opts)) (str ''agentMode'') = Some (BoolVal True)
        \<or> set codes \<inter> {prompt_injection_url, credential_harvesting, data_exfiltration, ssrf_cloud_metadata} = {})
     \<and> ir_checksSkipped r = oi_skipped (callOptions opts) @ map str [''resolution'', ''reputation'']"
  using assms(1) unfolding inspect_def
proof (cases rule: inspectWith_cases)
  case (invalid input fs d)
  with assms(2) show ?thesis by simp
next
  case (ok input runtime ctx am cf su)
  let ?am = "am = BoolVal True"
  define lexs where "lexs = concat (map (checkFindings ?am (scanContext runtime input) ctx) (CHECKS E))"
  define pols where "pols = fst (runPolicyChannel (POLICY_AXIS_DESCRIPTORS E) cf ctx)"
  have fs: "scanFindings (STRUCTURAL_SCANS E) runtime input @ detectorFindings (DETECTORS E) ?am ctx @ pols = lexs @ pols"
    using checks_findings [of E runtime input ?am ctx] by (simp add: lexs_def)
  have reasons: "ir_reasons r = sortReasons (okReasons E ctx (lexs @ pols))"
    unfolding fs [symmetric] by (simp add: ok(7) inspectParsed_sel pols_def)
  have lex: "distinct (map cf_code lexs)" "set (map cf_code lexs) \<subseteq> set (declaredCodes E)"
    using checks_codes [of ?am "scanContext runtime input" ctx E] by (auto simp only: lexs_def)
  have layer: "rm_layer (reasonMeta (cf_code f)) = Lexical \<and> cf_code f \<noteq> parse_error" if "f \<in> set lexs" for f
    using that lex(2) by (auto simp: declaredCodes_lexical)
  have pol: "rm_layer (reasonMeta (cf_code f)) = Policy" if "f \<in> set pols" for f
    using that policyChannel_total(2) by (simp add: pols_def)
  then have pol_no_error: "cf_code f \<noteq> parse_error" if "f \<in> set pols" for f
    using that by (metis Layer.distinct(5) parse_error_layer)
  have agent: "rm_layer (reasonMeta c) = Lexical"
    if "c \<in> {prompt_injection_url, credential_harvesting, data_exfiltration, ssrf_cloud_metadata}" for c
    using that declaredCodes_lexical [of c E] by (auto simp: declaredCodes_def CHECKS_def check_tables)
  let ?codes = "map cf_code (lexs @ pols)"
  have "mset (map rs_code (ir_reasons r)) = mset (map (str \<circ> codeName) ?codes)"
    by (simp only: reasons okReasons_codes map_map comp_def)
  moreover have "filter (\<lambda>c. rm_layer (reasonMeta c) = Lexical) ?codes = map cf_code lexs"
    using layer pol by (simp add: filter_map comp_def filter_id_conv filter_empty_conv)
  moreover have "\<forall>c \<in> set ?codes. rm_layer (reasonMeta c) \<in> {Lexical, Policy} \<and> c \<noteq> parse_error"
    using layer pol pol_no_error by auto
  moreover have "?am \<or> set ?codes \<inter> {prompt_injection_url, credential_harvesting, data_exfiltration, ssrf_cloud_metadata} = {}"
    using ungated_codes [of _ "scanContext runtime input" ctx E] agent pol by (fastforce simp: lexs_def)
  moreover have "ir_checksSkipped r = oi_skipped (callOptions opts) @ map str [''resolution'', ''reputation'']"
    using ok(7) by (simp add: inspectParsed_sel checks_total policyChannel_total(1))
  ultimately show ?thesis using lex(1) ok(4) by (intro exI [of _ ?codes]) simp
qed

theorem inspect_codes_witness:
  "\<exists>r codes. inspect ascii_platform \<lparr>sn_date = None, sn_stale = None\<rparr> (StringInput (str ''http://a.b'')) (Obj True []) = Some r
     \<and> mset (map rs_code (ir_reasons r)) = mset (map (str \<circ> codeName) codes)
     \<and> set codes \<inter> {prompt_injection_url, credential_harvesting, data_exfiltration, ssrf_cloud_metadata} = {}
     \<and> ir_checksSkipped r = map str [''resolution'', ''reputation'']"
proof -
  let ?sn = "\<lparr>sn_date = None, sn_stale = None\<rparr>"
  obtain r where r: "inspect ascii_platform ?sn (StringInput (str ''http://a.b'')) (Obj True []) = Some r" "ir_status r = Ok"
    unfolding inspect_def by (rule sample_inspect)
  have o: "callOptions (Obj True []) = \<lparr>oi_options = Obj True [], oi_skipped = []\<rparr>"
    by (simp add: callOptions_def intakeOptions_def sortStrings_def dedup_def)
  from inspect_codes [OF r] show ?thesis by (auto simp: o r(1) getProp_def)
qed

subsection \<open>Detectors that exclude each other\<close>

lemma punycodeMalformed_iff: "punycodeMalformed E ctx \<noteq> [] \<longleftrightarrow> cx_host ctx \<noteq> [] \<and> hasMalformedPunycode E (cx_host ctx)"
  by (auto simp: punycodeMalformed_def analyzeMalformedPunycode_def Let_def split: option.split)

lemma cf_code_classificationFinding [simp]: "cf_code (classificationFinding c) = bm_bucket (ic_match c)"
  by (simp add: classificationFinding_def Let_def)

text \<open>
  Detectors that the code keeps apart never fire together. A host read as an obfuscated address
  is not also an ambiguous numeric host; a malformed ACE label silences the two IDN detectors; the
  agent-mode SSRF detector fires exactly when the default classification reports a cloud-metadata
  endpoint; and a vendor's metadata name is not also reported as a special-use name.
\<close>

lemma detectors_exclusive:
  "(ipObfuscation ctx = [] \<or> ambiguousNumericHost ctx = [])
   \<and> (punycodeMalformed E ctx = [] \<or> idnHost E ctx = [] \<and> idnaProtocolViolation E ctx = [])
   \<and> (ssrfCloudMetadata E ctx \<noteq> [] \<longleftrightarrow> ip_cloud_metadata \<in> set (map cf_code (ipClassification E ctx)))
   \<and> (specialUseName E ctx = [] \<or> classifyMetadataHostname E (cx_host ctx) = None)"
proof (intro conjI)
  show "ipObfuscation ctx = [] \<or> ambiguousNumericHost ctx = []"
    by (auto simp: ipObfuscation_def ambiguousNumericHost_def Let_def
        dest: stripTrailingRootDot_analyzed split: option.splits)
  show "punycodeMalformed E ctx = [] \<or> idnHost E ctx = [] \<and> idnaProtocolViolation E ctx = []"
    using punycodeMalformed_iff [of E ctx]
    by (cases "hasMalformedPunycode E (cx_host ctx)") (auto simp: idnHost_def idnaProtocolViolation_def)
  show "ssrfCloudMetadata E ctx \<noteq> [] \<longleftrightarrow> ip_cloud_metadata \<in> set (map cf_code (ipClassification E ctx))"
    by (cases "classifyName E (cx_host ctx)") (auto simp: ssrfCloudMetadata_def ipClassification_def)
  show "specialUseName E ctx = [] \<or> classifyMetadataHostname E (cx_host ctx) = None"
    by (auto simp: specialUseName_def classifyMetadataHostname_def split: option.split)
qed
end
