(* ===== verification/AsyncInspect.thy ===== *)
theory AsyncInspect
  imports AsyncPlan Compare Checks
begin

text \<open>
  The asynchronous entry point \<open>inspectAsync\<close> of \<open>inspect-async.ts\<close>: the synchronous result first, then
  the plan of the caller's enrichers, then the merge of their outcomes into the result. The options
  are a JavaScript value as for \<open>inspect\<close>. The elements of the array in the option \<open>enrichers\<close> carry
  functions, so they come with a view that gives each element as an \<open>Enricher\<close>, or nothing when the
  plan cannot read its dependencies, layer or id. What the caller's code answers is an
  environment. The promise of the call is fulfilled, rejected or, if a run without deadline hangs,
  never settled.
\<close>

subsection \<open>Options, environment and result\<close>

definition LAYER_PLACEHOLDERS :: "EnrichmentLayer list" where
  "LAYER_PLACEHOLDERS = [ResolutionLayer, ReputationLayer]"

record AsyncResult = InspectResult +
  ar_enrichment :: "jsval list option"

datatype async_result = Fulfilled AsyncResult | Rejected | Unsettled

text \<open>
  \<open>av_run i previous\<close> is what the caller's code answers during the run of enricher \<open>i\<close>, started with the
  previous outcomes; \<open>av_aborted k\<close> whether the signal is aborted at the \<open>k\<close>-th pass over the plan.
\<close>

record async_env =
  av_run :: "nat \<Rightarrow> jsval list \<Rightarrow> run_env"
  av_now :: "nat \<Rightarrow> ustring"
  av_aborted :: "nat \<Rightarrow> bool"

text \<open>Without a signal nothing is ever aborted.\<close>

definition withSignal :: "bool \<Rightarrow> async_env \<Rightarrow> async_env" where
  "withSignal signal env =
     (if signal then env
      else env\<lparr>av_run := (\<lambda>i previous. (av_run env i previous)\<lparr>rv_abort := None\<rparr>), av_aborted := (\<lambda>_. False)\<rparr>)"

subsection \<open>Merging the outcomes\<close>

definition completed :: "EnricherRun \<Rightarrow> bool" where
  "completed run = list_ex available (outcomesOf (er_report run))"

definition incomplete :: "EnricherRun \<Rightarrow> bool" where
  "incomplete run = list_ex (\<lambda>outcome. fld outcome ''status'' = strval ''skipped'' \<or> fld outcome ''status'' = strval ''failure'')
     (outcomesOf (er_report run))"

text \<open>The findings of the successful outcomes, each with the subject of its outcome.\<close>

definition enrichmentFindings :: "EnricherRun \<Rightarrow> (jsval \<times> jsval) list" where
  "enrichmentFindings run = concat (map (\<lambda>outcome.
     if fld outcome ''status'' = strval ''success''
     then map (\<lambda>finding. (finding, fld outcome ''subject'')) (elements (fld outcome ''findings'')) else [])
     (outcomesOf (er_report run)))"

definition subjectOf :: "jsval \<Rightarrow> EnrichmentSubject" where
  "subjectOf v = (if fld v ''kind'' = strval ''host'' then HostSubject (stringOf (fld v ''value''))
     else UrlSubject (stringOf (fld v ''value'')))"

text \<open>\<open>None\<close> for a code outside the registry, on which the projection would raise.\<close>

definition projectReason :: "platform \<Rightarrow> SuppressionRule list \<Rightarrow> jsval \<times> jsval \<Rightarrow> Reason option" where
  "projectReason E rules = (\<lambda>(finding, subject).
     map_option (\<lambda>code. hd (applySuppressions
         [\<lparr>rs_code = str (codeName code), rs_layer = rm_layer (reasonMeta code), rs_detail = stringOf (fld finding ''detail''),
           rs_weight = weightFor code, rs_suppressed = False\<rparr>]
         rules (suppressionSubjectHostContext E (defaultRuntime E) (subjectOf subject))))
       (reasonCodeOf (stringOf (fld finding ''code''))))"

definition componentOf :: "jsval \<Rightarrow> ConfusableComponent" where
  "componentOf v = (if v = strval ''host'' then HostComponent else if v = strval ''path'' then PathComponent else QueryComponent)"

definition confusableOf :: "jsval \<Rightarrow> Confusable" where
  "confusableOf v = \<lparr>cb_char = stringOf (fld v ''char''), cb_codepoint = stringOf (fld v ''codepoint''),
     cb_confusableWith = stringOf (fld v ''confusableWith''), cb_component = componentOf (fld v ''component''),
     cb_position = (case nonNegativeInteger (fld v ''position'') of Some n \<Rightarrow> n | None \<Rightarrow> 0)\<rparr>"

definition confidenceOf :: "jsval \<Rightarrow> rat" where
  "confidenceOf v = (case v of NumVal (Finite q) \<Rightarrow> q | _ \<Rightarrow> 1)"

definition mergeRuns :: "platform \<Rightarrow> InspectResult \<Rightarrow> Enricher list \<Rightarrow> SuppressionRule list \<Rightarrow> EnricherRun list \<Rightarrow> AsyncResult option" where
  "mergeRuns E base0 plan rules runs =
     (let findings = concat (map enrichmentFindings runs) in
      case those (map (projectReason E rules) findings) of
        None \<Rightarrow> None
      | Some enrichmentReasons \<Rightarrow>
          (let reasons = sortReasons (ir_reasons base0 @ enrichmentReasons);
               verdict = aggregate reasons
           in Some (InspectResult.extend
                (base0\<lparr>ir_reasons := reasons,
                      ir_confusables := ir_confusables base0
                        @ concat (map (\<lambda>(finding, _). map confusableOf (elements (fld finding ''confusables''))) findings),
                      ir_score := (if ir_status base0 = Ok then Some (sc_score verdict) else ir_score base0),
                      ir_severity := (if ir_status base0 = Ok then Some (sc_severity verdict) else ir_severity base0),
                      ir_confidence := fold min (map (\<lambda>(finding, _). confidenceOf (fld finding ''confidence'')) findings) (ir_confidence base0),
                      ir_checksRun := ir_checksRun base0 @ map er_token (filter completed runs),
                      ir_checksSkipped := filter (\<lambda>token. \<not> list_ex (\<lambda>l. token = str (layerName l) \<and> l \<in> en_layer ` set plan) LAYER_PLACEHOLDERS)
                          (ir_checksSkipped base0) @ map er_token (filter incomplete runs)\<rparr>)
                (AsyncResult.fields (Some (concat (map (outcomesOf \<circ> er_report) runs)))))))"

subsection \<open>inspectAsync\<close>

text \<open>
  The plan in the value of \<open>options.enrichers\<close>: none for an absent value or one of length zero, the
  elements of an array. \<open>None\<close> is the exception: a value that is not an array has no \<open>map\<close>, and an
  element that is null or undefined, or that raises on a read of the plan, ends the \<open>map\<close>.
\<close>

definition enricherPlan :: "(nat \<Rightarrow> Enricher option) \<Rightarrow> jsval \<Rightarrow> Enricher list option" where
  "enricherPlan view given = (case given of
       Undefined \<Rightarrow> Some [] | Null \<Rightarrow> Some []
     | StrVal s \<Rightarrow> if s = [] then Some [] else None
     | Obj _ _ \<Rightarrow> if getProp given (str ''length'') = Some (NumVal (Finite 0)) then Some [] else None
     | Arr xs \<Rightarrow> those (map (\<lambda>i. if xs ! i = Undefined \<or> xs ! i = Null then None else view i) [0..<length xs])
     | _ \<Rightarrow> None)"

definition asyncPlan :: "(nat \<Rightarrow> Enricher option) \<Rightarrow> jsval \<Rightarrow> Enricher list option" where
  "asyncPlan view rawOptions =
     Option.bind (getProp (usableOptions rawOptions) (str ''enrichers'')) (enricherPlan view)"

definition inspectAsync ::
    "platform \<Rightarrow> PslSnapshot \<Rightarrow> (ustring \<Rightarrow> int option) \<Rightarrow> input_value \<Rightarrow> jsval \<Rightarrow> (nat \<Rightarrow> Enricher option) \<Rightarrow> async_env \<Rightarrow> async_result" where
  "inspectAsync E snapshot dateParse value rawOptions view env =
     (case inspect E snapshot value rawOptions of
        None \<Rightarrow> Rejected
      | Some base0 \<Rightarrow>
          (let options = usableOptions rawOptions in
           case asyncPlan view rawOptions of
             None \<Rightarrow> Rejected
           | Some plan \<Rightarrow>
               if plan = [] then Fulfilled (InspectResult.extend base0 (AsyncResult.fields None))
               else case (getProp options (str ''cache''), getProp options (str ''governor''), getProp options (str ''signal'')) of
                  (Some cache, Some governor, Some signal) \<Rightarrow>
                    (let env' = withSignal (signal \<noteq> Undefined) env in
                     case executeEnrichmentPlan plan base0 (av_now env')
                       (\<lambda>i previous. map_option rr_run (runEnricher dateParse (plan ! i) base0 (cache \<noteq> Undefined) (governor \<noteq> Undefined)
                          (av_run env' i previous))) (av_aborted env') of
                       None \<Rightarrow> Unsettled
                     | Some runs \<Rightarrow>
                         (case Option.bind (getProp options (str ''suppressReasons'')) (normalizeSuppressReasons E) of
                            None \<Rightarrow> Rejected
                          | Some rules \<Rightarrow>
                              (case mergeRuns E base0 plan rules runs of None \<Rightarrow> Rejected | Some result \<Rightarrow> Fulfilled result)))
                | _ \<Rightarrow> Rejected))"

subsection \<open>The merge\<close>

text \<open>What a validated outcome guarantees to the merge.\<close>

lemma outcome_statuses:
  "isEnrichmentOutcome dateParse expected v \<Longrightarrow> available v \<or> fld v ''status'' = strval ''skipped'' \<or> fld v ''status'' = strval ''failure''"
  by (auto simp: isEnrichmentOutcome_def statusOk_def available_def split: if_splits)

definition wellFormed :: "(ustring \<Rightarrow> int option) \<Rightarrow> Enricher \<Rightarrow> EnricherRun \<Rightarrow> bool" where
  "wellFormed dateParse e run \<longleftrightarrow> er_token run = checkToken e \<and> outcomesOf (er_report run) \<noteq> []
     \<and> list_all (\<lambda>v. (available v \<or> fld v ''status'' = strval ''skipped'' \<or> fld v ''status'' = strval ''failure'')
         \<and> list_all isFinding (elements (fld v ''findings''))
         \<and> fld v ''sourceId'' = StrVal (en_id e) \<and> fld v ''layer'' = strval (layerName (en_layer e))) (outcomesOf (er_report run))"

lemma wellFormed_findings: "wellFormed dateParse e run \<Longrightarrow> (f, s) \<in> set (enrichmentFindings run) \<Longrightarrow> isFinding f"
  by (auto simp: wellFormed_def enrichmentFindings_def list_all_iff split: if_splits)

lemma wellFormed_visible: "wellFormed dateParse e run \<Longrightarrow> completed run \<or> incomplete run"
  by (cases "outcomesOf (er_report run)") (auto simp: wellFormed_def completed_def incomplete_def)

lemma wellFormed_framework:
  "er_token run = checkToken e \<Longrightarrow> er_report run = frameworkReport e base0 s c r d now \<Longrightarrow> wellFormed dateParse e run"
  by (cases s) (simp_all add: wellFormed_def frameworkReport_def frameworkOutcome_def)

lemma finishRun_token: "finishRun e base0 env st report = Some r \<Longrightarrow> er_token (rr_run r) = checkToken e"
  by (auto simp: finishRun_def)

lemma degraded_token: "degraded e base0 env st s c rt d = Some r \<Longrightarrow> er_token (rr_run r) = checkToken e"
  by (simp add: degraded_def finishRun_token)

lemma writeCache_token: "writeCache e base0 env report slot st = Some r \<Longrightarrow> er_token (rr_run r) = checkToken e"
  by (auto simp: writeCache_def Let_def split: prod.splits option.splits dest: finishRun_token)

lemma completeRun_token: "completeRun dateParse e base0 governor env slot st out = Some r \<Longrightarrow> er_token (rr_run r) = checkToken e"
  by (auto simp: completeRun_def Let_def split: option.splits if_splits dest: finishRun_token writeCache_token degraded_token)

lemma runSource_token: "runSource dateParse e base0 governor env slot g st = Some r \<Longrightarrow> er_token (rr_run r) = checkToken e"
  by (auto simp: runSource_def Let_def split: option.splits if_splits raced.splits dest: completeRun_token degraded_token)

lemma admitRun_token: "admitRun dateParse e base0 governor env slot st = Some r \<Longrightarrow> er_token (rr_run r) = checkToken e"
  by (auto simp: admitRun_def Let_def split: option.splits if_splits bool.splits dest: runSource_token degraded_token)

lemma readCache_token: "readCache dateParse e base0 governor env slot st = Some r \<Longrightarrow> er_token (rr_run r) = checkToken e"
  by (auto simp: readCache_def Let_def split: option.splits if_splits raced.splits dest: admitRun_token degraded_token finishRun_token)

lemma runEnricher_token: "runEnricher dateParse e base0 cache governor env = Some r \<Longrightarrow> er_token (rr_run r) = checkToken e"
  by (auto simp: runEnricher_def Let_def split: option.splits if_splits prod.splits dest: admitRun_token readCache_token degraded_token)

lemma runEnricher_wellFormed:
  assumes "runEnricher dateParse e base0 cache governor env = Some r" "honestClock dateParse e env"
  shows "wellFormed dateParse e (rr_run r)"
  using runEnricher_valid [OF assms] runEnricher_token [OF assms(1)]
  by (auto simp: wellFormed_def isEnrichmentReport_def outcomesOf_def list_all_iff dest: outcome_statuses)
    (auto simp: isEnrichmentOutcome_def list_all_iff)

lemma projectReason_finding:
  assumes "isFinding f"
  shows "\<exists>r. projectReason E rules (f, s) = Some r \<and> weights_ok [r]"
proof -
  obtain code where "reasonCodeOf (stringOf (fld f ''code'')) = Some code" using assms by (auto simp: isFinding_def)
  then show ?thesis using weightFor_bounds [of code] by (auto simp: projectReason_def applySuppressions_def weights_ok_def)
qed

lemma those_total: "\<forall>x \<in> set xs. \<exists>r. f x = Some r \<and> P r \<Longrightarrow> \<exists>rs. those (map f xs) = Some rs \<and> (\<forall>r \<in> set rs. P r)"
  by (induction xs) fastforce+

lemma list_all2_partner:
  "list_all2 P xs ys \<Longrightarrow> x \<in> set xs \<Longrightarrow> \<exists>y \<in> set ys. P x y"
  "list_all2 P xs ys \<Longrightarrow> y \<in> set ys \<Longrightarrow> \<exists>x \<in> set xs. P x y"
  by (induction rule: list_all2_induct) auto

lemma mergeRuns_reasons:
  assumes "list_all2 (wellFormed dateParse) plan runs"
  obtains rs where "those (map (projectReason E rules) (concat (map enrichmentFindings runs))) = Some rs" "weights_ok rs"
proof -
  have "isFinding f" if "(f, s) \<in> set (concat (map enrichmentFindings runs))" for f s
    using that list_all2_partner(2) [OF assms] by (fastforce dest: wellFormed_findings)
  then have "\<forall>x \<in> set (concat (map enrichmentFindings runs)). \<exists>r. projectReason E rules x = Some r \<and> weights_ok [r]"
    using projectReason_finding by fast
  from those_total [OF this] that show ?thesis by (auto simp: weights_ok_def)
qed

lemma fold_min_bounds:
  fixes c :: rat
  shows "fold min xs c \<le> c" "\<forall>x \<in> set xs. a \<le> x \<Longrightarrow> a \<le> c \<Longrightarrow> a \<le> fold min xs c"
  by (induction xs arbitrary: c) (auto, meson min.cobounded2 min.coboundedI2 order_trans)

subsection \<open>The synchronous base\<close>

lemma sort_by_sorted: "sorted_wrt le xs \<Longrightarrow> sort_by le xs = xs"
proof (induction xs)
  case (Cons x xs)
  then show ?case by (cases xs) (auto simp: sort_by_def)
qed (simp add: sort_by_def)

lemma sortReasons_idem: "sortReasons (sortReasons rs) = sortReasons rs"
  unfolding sortReasons_def by (rule sort_by_sorted [OF reason_order.sorted_sort_by])

lemma inspect_base:
  assumes "inspect E sn v opts = Some base0"
  shows "set (map (str \<circ> layerName) LAYER_PLACEHOLDERS) \<subseteq> set (ir_checksSkipped base0)
    \<and> (ir_status base0 = Invalid \<longrightarrow> ir_score base0 = None)
    \<and> (ir_status base0 = Ok \<longrightarrow> ir_score base0 = Some (scoreOf (sortReasons (ir_reasons base0))) \<and> weights_ok (ir_reasons base0))
    \<and> ir_confidence base0 = 1"
  using assms unfolding inspect_def
proof (cases rule: inspectWith_cases)
  case (invalid input fs d)
  then show ?thesis by (simp add: buildInvalidResult_def LAYER_PLACEHOLDERS_def Let_def)
next
  case (ok input runtime ctx am cf su)
  have "ir_confidence (inspectParsed dets axes E sn ctx st sk ag cf su) = 1" for dets axes st sk ag
    by (simp add: inspectParsed_def buildOkResult_def Let_def split: prod.split)
  then show ?thesis unfolding ok(7) by (simp add: inspectParsed_sel sortReasons_idem okReasons_weights LAYER_PLACEHOLDERS_def)
qed

subsection \<open>Properties\<close>

lemma inspectAsync_cases [consumes 1, case_names plain enriched]:
  assumes "inspectAsync E sn dateParse v opts view env = Fulfilled r"
  obtains base0 where "inspect E sn v opts = Some base0" "r = InspectResult.extend base0 (AsyncResult.fields None)"
    "asyncPlan view opts = Some []"
  | base0 plan cache governor env' runs rules where "inspect E sn v opts = Some base0"
    "\<exists>signal. env' = withSignal signal env"
    "executeEnrichmentPlan plan base0 (av_now env') (\<lambda>i previous. map_option rr_run
        (runEnricher dateParse (plan ! i) base0 cache governor (av_run env' i previous))) (av_aborted env') = Some runs"
    "mergeRuns E base0 plan rules runs = Some r" "plan \<noteq> []" "asyncPlan view opts = Some plan"
proof -
  obtain base0 plan where b: "inspect E sn v opts = Some base0" "asyncPlan view opts = Some plan"
    using assms by (auto simp: inspectAsync_def Let_def split: option.splits)
  show thesis
  proof (cases "plan = []")
    case True
    with assms b show thesis by (intro that(1) [OF b(1)]) (auto simp: inspectAsync_def Let_def)
  next
    case False
    with assms b show thesis
      by (auto simp: inspectAsync_def Let_def bind_eq_Some_conv split: option.splits intro!: that(2) [OF b(1)])
  qed
qed

text \<open>The conditions on the environment: clock readings are instants, ids are not blank.\<close>

definition honestEnv :: "(ustring \<Rightarrow> int option) \<Rightarrow> Enricher list \<Rightarrow> async_env \<Rightarrow> bool" where
  "honestEnv dateParse enrichers env \<longleftrightarrow>
     (\<forall>i < length enrichers. \<forall>previous. honestClock dateParse (enrichers ! i) (av_run env i previous))"

lemma withSignal_honest: "honestEnv dateParse enrichers env \<Longrightarrow> honestEnv dateParse enrichers (withSignal s env)"
  by (simp add: honestEnv_def withSignal_def honestClock_def)

lemma plan_wellFormed:
  assumes "executeEnrichmentPlan plan base0 now (\<lambda>i previous. map_option rr_run
        (runEnricher dateParse (plan ! i) base0 cache governor (av_run env i previous))) aborted = Some runs"
    "honestEnv dateParse plan env"
  shows "list_all2 (wellFormed dateParse) plan runs"
proof -
  have "length runs = length plan \<and> (\<forall>i < length plan. wellFormed dateParse (plan ! i) (runs ! i))"
  proof (rule executeEnrichmentPlan_runs [OF assms(1)])
    show "wellFormed dateParse (plan ! i) (planSkip (map planStep plan) base0 now i code details)" if "i < length plan" for i code details
      using that by (intro wellFormed_framework) (simp_all add: planSkip_def planStep_def Let_def)
  qed (use assms(2) in \<open>auto simp: honestEnv_def intro: runEnricher_wellFormed\<close>)
  then show ?thesis by (simp add: list_all2_conv_all_nth)
qed

lemma mergeRuns_sel:
  assumes "mergeRuns E base0 plan rules runs = Some r"
  shows "\<exists>rs. those (map (projectReason E rules) (concat (map enrichmentFindings runs))) = Some rs
      \<and> ir_reasons r = sortReasons (ir_reasons base0 @ rs)"
    "ir_status r = ir_status base0" "ir_input r = ir_input base0"
    "ir_parsed r = ir_parsed base0"
    "ir_score r = (if ir_status base0 = Ok then Some (scoreOf (ir_reasons r)) else ir_score base0)"
    "ir_confidence r = fold min (map (\<lambda>(finding, _). confidenceOf (fld finding ''confidence'')) (concat (map enrichmentFindings runs))) (ir_confidence base0)"
    "ir_checksRun r = ir_checksRun base0 @ map er_token (filter completed runs)"
    "ir_checksSkipped r = filter (\<lambda>token. \<not> list_ex (\<lambda>l. token = str (layerName l) \<and> l \<in> en_layer ` set plan) LAYER_PLACEHOLDERS)
       (ir_checksSkipped base0) @ map er_token (filter incomplete runs)"
    "ar_enrichment r = Some (concat (map (outcomesOf \<circ> er_report) runs))"
  using assms
  by (auto simp: mergeRuns_def Let_def InspectResult.defs AsyncResult.defs aggregate_def split: option.splits)

lemma mergeRuns_confidence:
  assumes "mergeRuns E base0 plan rules runs = Some r" "list_all2 (wellFormed dateParse) plan runs" "ir_confidence base0 = 1"
  shows "0 \<le> ir_confidence r" "ir_confidence r \<le> 1"
proof -
  have "0 \<le> confidenceOf (fld f ''confidence'')" if "(f, s) \<in> set (concat (map enrichmentFindings runs))" for f s
  proof -
    have "isFinding f" using that list_all2_partner(2) [OF assms(2)] by (fastforce dest: wellFormed_findings)
    then have "confidenceOk (fld f ''confidence'')" by (simp add: isFinding_def)
    then show ?thesis by (auto simp: confidenceOf_def split: jsval.split jsnum.split)
  qed
  then have "\<forall>x \<in> set (map (\<lambda>(finding, _). confidenceOf (fld finding ''confidence'')) (concat (map enrichmentFindings runs))). 0 \<le> x"
    by fastforce
  then show "0 \<le> ir_confidence r" "ir_confidence r \<le> 1"
    using fold_min_bounds assms(3) unfolding mergeRuns_sel(6) [OF assms(1)] by (metis zero_le_one)+
qed

text \<open>
  C7: Enrichment only adds. A fulfilled call has the status, the input and the parsed view of the
  synchronous result and all its reasons; an invalid input stays without a score, and the score of a
  parsed one is never below the synchronous score, whatever the enrichers report. The confidence
  lies between zero and that of the synchronous result. Without enrichers the result is exactly the
  synchronous one.
\<close>

theorem inspectAsync_only_adds:
  assumes "inspectAsync E sn dateParse v opts view env = Fulfilled r"
    and plan: "asyncPlan view opts = Some enrichers" and honest: "honestEnv dateParse enrichers env"
  shows "\<exists>base0. inspect E sn v opts = Some base0
    \<and> ir_status r = ir_status base0 \<and> ir_input r = ir_input base0 \<and> ir_parsed r = ir_parsed base0
    \<and> mset (ir_reasons base0) \<subseteq># mset (ir_reasons r)
    \<and> (ir_status r = Invalid \<longrightarrow> ir_score r = None)
    \<and> (ir_status r = Ok \<longrightarrow> (\<exists>a b. ir_score base0 = Some a \<and> ir_score r = Some b \<and> a \<le> b))
    \<and> 0 \<le> ir_confidence r \<and> ir_confidence r \<le> ir_confidence base0
    \<and> (enrichers = [] \<longrightarrow> InspectResult.truncate r = base0)"
  using assms(1)
proof (cases rule: inspectAsync_cases)
  case (plain base0)
  then show ?thesis using inspect_base [OF plain(1)]
    by (auto simp: InspectResult.defs AsyncResult.defs)
next
  case (enriched base0 plan' cache governor env' runs rules)
  then have eq: "plan' = enrichers" using plan by simp
  note enriched = enriched [unfolded eq]
  have wf: "list_all2 (wellFormed dateParse) enrichers runs"
    using plan_wellFormed [OF enriched(3)] enriched(2) withSignal_honest [OF honest] by auto
  note b = inspect_base [OF enriched(1)]
  obtain rs where rs: "those (map (projectReason E rules) (concat (map enrichmentFindings runs))) = Some rs" "weights_ok rs"
    using mergeRuns_reasons [OF wf] by blast
  have r: "ir_reasons r = sortReasons (ir_reasons base0 @ rs)" "ir_status r = ir_status base0" "ir_input r = ir_input base0"
    "ir_parsed r = ir_parsed base0" "ir_score r = (if ir_status base0 = Ok then Some (scoreOf (ir_reasons r)) else ir_score base0)"
    using rs(1) mergeRuns_sel [OF enriched(4)] by auto
  have "scoreOf (sortReasons (ir_reasons base0)) \<le> scoreOf (ir_reasons r)" if "ir_status base0 = Ok"
    unfolding r(1) using b that rs(2) by (intro scoreOf_sorted_subseq) (auto simp: weights_ok_def)
  moreover have "mset (ir_reasons r) = mset (ir_reasons base0) + mset rs" by (simp add: r(1) sortReasons_def)
  ultimately show ?thesis
    using b r(2-5) mergeRuns_confidence [OF enriched(4) wf] enriched(1,5) by (cases "ir_status base0") auto
qed

lemma checkToken_not_layer: "checkToken e \<noteq> str (layerName l)"
  by (cases "en_layer e"; cases l) (auto simp: checkToken_def str_def)

text \<open>How the merge names the enrichers, attributes their outcomes and keeps the placeholders.\<close>

lemma mergeRuns_names:
  assumes merge: "mergeRuns E base0 plan rules runs = Some r" and wf: "list_all2 (wellFormed dateParse) plan runs"
    and e: "e \<in> set plan"
  shows "checkToken e \<in> set (ir_checksRun r) \<union> set (ir_checksSkipped r)"
proof -
  obtain run where run: "run \<in> set runs" "wellFormed dateParse e run"
    using list_all2_partner(1) [OF wf e] by blast
  then have "er_token run \<in> set (ir_checksRun r) \<union> set (ir_checksSkipped r)"
    using wellFormed_visible [OF run(2)] unfolding mergeRuns_sel(7,8) [OF merge] by auto
  then show ?thesis using run(2) by (simp add: wellFormed_def)
qed

lemma mergeRuns_attributes:
  assumes merge: "mergeRuns E base0 plan rules runs = Some r" and wf: "list_all2 (wellFormed dateParse) plan runs"
    and run: "run \<in> set runs" and outcome: "outcome \<in> set (outcomesOf (er_report run))"
  shows "\<exists>e \<in> set plan. fld outcome ''sourceId'' = StrVal (en_id e) \<and> fld outcome ''layer'' = strval (layerName (en_layer e))
    \<and> checkToken e \<in> set (if available outcome then ir_checksRun r else ir_checksSkipped r)"
proof -
  obtain e where e: "e \<in> set plan" "wellFormed dateParse e run"
    using list_all2_partner(2) [OF wf run] by blast
  then have o: "fld outcome ''sourceId'' = StrVal (en_id e)" "fld outcome ''layer'' = strval (layerName (en_layer e))"
      "er_token run = checkToken e"
      "available outcome \<or> fld outcome ''status'' = strval ''skipped'' \<or> fld outcome ''status'' = strval ''failure''"
    using outcome unfolding wellFormed_def list_all_iff by blast+
  have "if available outcome then completed run else incomplete run"
    using outcome o(4) unfolding completed_def incomplete_def list_ex_iff by (cases "available outcome") auto
  then have "er_token run \<in> set (if available outcome then ir_checksRun r else ir_checksSkipped r)"
    using run unfolding mergeRuns_sel(7,8) [OF merge] by (cases "available outcome") auto
  then have "checkToken e \<in> set (if available outcome then ir_checksRun r else ir_checksSkipped r)" unfolding o(3) .
  with e(1) o(1,2) show ?thesis by blast
qed

lemma mergeRuns_placeholders:
  assumes merge: "mergeRuns E base0 plan rules runs = Some r" and wf: "list_all2 (wellFormed dateParse) plan runs"
    and seeded: "set (map (str \<circ> layerName) LAYER_PLACEHOLDERS) \<subseteq> set (ir_checksSkipped base0)"
  shows "str (layerName l) \<in> set (ir_checksSkipped r) \<longleftrightarrow> l \<notin> en_layer ` set plan"
proof -
  have "er_token run \<noteq> str (layerName l)" if "run \<in> set runs" for run
    using list_all2_partner(2) [OF wf that] by (auto simp: wellFormed_def checkToken_not_layer [symmetric])
  then have "str (layerName l) \<notin> er_token ` set (filter incomplete runs)" by force
  moreover have "str (layerName l) \<in> set (ir_checksSkipped base0)" "l \<in> set LAYER_PLACEHOLDERS"
    using seeded by (cases l; simp add: LAYER_PLACEHOLDERS_def)+
  moreover have "layerName l = layerName l' \<longleftrightarrow> l = l'" for l' by (cases l; cases l') auto
  ultimately show ?thesis unfolding mergeRuns_sel(8) [OF merge] by (auto simp: list_ex_iff)
qed

text \<open>
  C6: Nothing that was configured is silently clean. In a fulfilled call with enrichers, every enricher
  is named in the list of checks run or in that of checks skipped; every reported outcome belongs to
  one of the enrichers, which is named as run if the outcome completed and as skipped if not; and the
  placeholder of a layer is in the skip list exactly when no enricher of that layer was configured.
\<close>

theorem inspectAsync_accounts:
  assumes "inspectAsync E sn dateParse v opts view env = Fulfilled r"
    and plan: "asyncPlan view opts = Some enrichers" "enrichers \<noteq> []" and honest: "honestEnv dateParse enrichers env"
  shows "(\<forall>e \<in> set enrichers. checkToken e \<in> set (ir_checksRun r) \<union> set (ir_checksSkipped r))
    \<and> (\<exists>outcomes. ar_enrichment r = Some outcomes \<and> (\<forall>outcome \<in> set outcomes. \<exists>e \<in> set enrichers.
         fld outcome ''sourceId'' = StrVal (en_id e) \<and> fld outcome ''layer'' = strval (layerName (en_layer e))
         \<and> checkToken e \<in> set (if available outcome then ir_checksRun r else ir_checksSkipped r)))
    \<and> (\<forall>l. str (layerName l) \<in> set (ir_checksSkipped r) \<longleftrightarrow> l \<notin> en_layer ` set enrichers)"
  using assms(1)
proof (cases rule: inspectAsync_cases)
  case (plain base0)
  then show ?thesis using plan by simp
next
  case (enriched base0 plan' cache governor env' runs rules)
  then have eq: "plan' = enrichers" using plan by simp
  note enriched = enriched [unfolded eq]
  have wf: "list_all2 (wellFormed dateParse) enrichers runs"
    using plan_wellFormed [OF enriched(3)] enriched(2) withSignal_honest [OF honest] by auto
  note merged = mergeRuns_names [OF enriched(4) wf] mergeRuns_attributes [OF enriched(4) wf]
    mergeRuns_placeholders [OF enriched(4) wf conjunct1 [OF inspect_base [OF enriched(1)]]]
  then show ?thesis
    unfolding mergeRuns_sel(9) [OF enriched(4)] by (fastforce simp del: Un_iff split del: if_split)
qed

text \<open>Every enricher has its deadlines in force.\<close>

definition boundedEnv :: "Enricher list \<Rightarrow> async_env \<Rightarrow> bool" where
  "boundedEnv enrichers env \<longleftrightarrow>
     (\<forall>i < length enrichers. \<forall>previous governor. runDeadline (enrichers ! i) governor (av_run env i previous) \<noteq> None)"

lemma withSignal_bounded: "boundedEnv enrichers env \<Longrightarrow> boundedEnv enrichers (withSignal s env)"
proof -
  have "governorTimeout g (r\<lparr>rv_abort := None\<rparr>) = governorTimeout g r" for g and r :: run_env
    by (simp add: governorTimeout_def)
  then have "runDeadline e g (r\<lparr>rv_abort := None\<rparr>) = runDeadline e g r" for e g and r :: run_env
    by (simp only: runDeadline_def)
  then show "boundedEnv enrichers env \<Longrightarrow> boundedEnv enrichers (withSignal s env)"
    by (cases s) (simp_all add: boundedEnv_def withSignal_def)
qed

lemma plan_settles:
  assumes "boundedEnv plan env"
  shows "\<exists>runs. executeEnrichmentPlan plan base0 now (\<lambda>i previous. map_option rr_run
        (runEnricher dateParse (plan ! i) base0 cache governor (av_run env i previous))) aborted = Some runs"
proof (rule executeEnrichmentPlan_settles)
  fix i previous assume "i < length plan"
  then obtain b where "runDeadline (plan ! i) governor (av_run env i previous) = Some b"
    using assms unfolding boundedEnv_def by blast
  from runEnricher_deadline [OF this, of dateParse base0 cache]
  show "map_option rr_run (runEnricher dateParse (plan ! i) base0 cache governor (av_run env i previous)) \<noteq> None"
    by (auto simp: overBy_def split: option.splits)
qed

lemma mergeRuns_total: "list_all2 (wellFormed dateParse) plan runs \<Longrightarrow> \<exists>r. mergeRuns E base0 plan rules runs = Some r"
  by (elim mergeRuns_reasons [of dateParse plan runs E rules]) (auto simp: mergeRuns_def Let_def)

lemma inspectAsync_settled:
  assumes "\<forall>enrichers. asyncPlan view opts = Some enrichers \<longrightarrow> honestEnv dateParse enrichers env \<and> boundedEnv enrichers env"
  shows "inspectAsync E sn dateParse v opts view env \<noteq> Unsettled
    \<and> (inspectAsync E sn dateParse v opts view env = Rejected \<longleftrightarrow>
        inspect E sn v opts = None \<or> asyncPlan view opts = None
        \<or> asyncPlan view opts \<noteq> Some []
          \<and> ((\<exists>key \<in> {''cache'', ''governor'', ''signal''}. getProp (usableOptions opts) (str key) = None)
             \<or> Option.bind (getProp (usableOptions opts) (str ''suppressReasons'')) (normalizeSuppressReasons E) = None))"
proof (cases "inspect E sn v opts")
  case (Some base0)
  show ?thesis
  proof (cases "asyncPlan view opts")
    case plan: (Some plan)
    show ?thesis
    proof (cases "plan = []")
      case False
      have env: "honestEnv dateParse plan env" "boundedEnv plan env" using assms plan by auto
      have "\<exists>runs. executeEnrichmentPlan plan base0 (av_now (withSignal s env)) (\<lambda>i previous. map_option rr_run
          (runEnricher dateParse (plan ! i) base0 cache governor (av_run (withSignal s env) i previous))) (av_aborted (withSignal s env)) = Some runs
        \<and> (\<forall>rules. \<exists>r. mergeRuns E base0 plan rules runs = Some r)" for s cache governor
        using plan_settles [OF withSignal_bounded [OF env(2)]] plan_wellFormed [OF _ withSignal_honest [OF env(1)]] mergeRuns_total
        by metis
      then obtain runs where runs: "\<And>s cache governor. executeEnrichmentPlan plan base0 (av_now (withSignal s env)) (\<lambda>i previous. map_option rr_run
          (runEnricher dateParse (plan ! i) base0 cache governor (av_run (withSignal s env) i previous))) (av_aborted (withSignal s env)) = Some (runs s cache governor)"
        "\<And>s cache governor rules. \<exists>r. mergeRuns E base0 plan rules (runs s cache governor) = Some r"
        by metis
      have merged: "(case mergeRuns E base0 plan rules (runs s cache governor) of None \<Rightarrow> Rejected | Some result \<Rightarrow> Fulfilled result)
          \<noteq> Rejected \<and> (case mergeRuns E base0 plan rules (runs s cache governor) of None \<Rightarrow> Rejected | Some result \<Rightarrow> Fulfilled result)
          \<noteq> Unsettled" for s cache governor rules
        using runs(2) [of rules s cache governor] by auto
      show ?thesis
        using False merged by (simp add: inspectAsync_def Some plan runs(1) Let_def del: not_None_eq split: option.split)
    qed (simp add: inspectAsync_def Some plan)
  qed (simp add: inspectAsync_def Some)
qed (simp add: inspectAsync_def)


text \<open>A null element of the array rejects the call, although no code of the caller has raised.\<close>

lemma inspectAsync_null_element:
  "inspectAsync E sn dateParse v (Obj True [(str ''enrichers'', Some (Arr [Null]))]) view env = Rejected"
  by (simp add: inspectAsync_def asyncPlan_def enricherPlan_def usableOptions_def getProp_def split: option.split)

subsection \<open>A sample call\<close>

definition sampleAsync :: async_env where
  "sampleAsync = \<lparr>av_run = (\<lambda>_ _. sampleEnv), av_now = rv_now sampleEnv, av_aborted = (\<lambda>_. False)\<rparr>"

definition sampleOptions :: jsval where
  "sampleOptions = obj [(''enrichers'', Arr [Obj True []])]"

definition sampleView :: "nat \<Rightarrow> Enricher option" where
  "sampleView i = (if i = 0 then Some sampleEnricher else None)"

lemma sample_env [simp]: "honestEnv (\<lambda>_. Some 0) [sampleEnricher] sampleAsync" "boundedEnv [sampleEnricher] sampleAsync"
  using sample_clock
  by (simp_all add: honestEnv_def boundedEnv_def sampleAsync_def runDeadline_def governorTimeout_def run_eval split: option.split)

lemma sample_options: "getProp sampleOptions (str key) = Some (if key = ''enrichers'' then Arr [Obj True []] else Undefined)"
  by (simp add: sampleOptions_def obj_def getProp_def)

lemma sample_usable [simp]: "usableOptions sampleOptions = sampleOptions" "oi_options (callOptions sampleOptions) = sampleOptions"
  by (simp_all add: sampleOptions_def obj_def usableOptions_def callOptions_def intakeOptions_def Let_def)

lemma sample_base: "\<exists>base0. inspect ascii_platform sn (StringInput (str ''http://a.b'')) sampleOptions = Some base0 \<and> ir_status base0 = Ok"
proof -
  have n: "normalizeOptions ascii_platform sampleOptions \<noteq> None"
    unfolding normalizeOptions_None_iff by (simp add: sample_options)
  then obtain rt where rt: "normalizeOptions ascii_platform sampleOptions = Some rt" by blast
  obtain ctx where "parse ascii_platform (str ''http://a.b'') rt = Some ctx" by (simp add: context_eval)
  then show ?thesis
    using normalizeOptions_reads [OF rt]
    by (auto simp: inspect_def inspectWith_string rt Let_def inspectParsed_sel sample_options)
qed

lemma sample_plan [simp]: "asyncPlan sampleView sampleOptions = Some [sampleEnricher]"
  by (simp add: asyncPlan_def sample_options enricherPlan_def sampleView_def)

lemma sample_async: "\<exists>r. inspectAsync ascii_platform sn (\<lambda>_. Some 0) (StringInput (str ''http://a.b'')) sampleOptions sampleView sampleAsync = Fulfilled r"
proof -
  have "\<forall>enrichers. asyncPlan sampleView sampleOptions = Some enrichers \<longrightarrow>
      honestEnv (\<lambda>_. Some 0) enrichers sampleAsync \<and> boundedEnv enrichers sampleAsync" by simp
  from inspectAsync_settled [OF this, of ascii_platform sn "StringInput (str ''http://a.b'')"]
  show ?thesis
    using sample_base [of sn]
    by (cases "inspectAsync ascii_platform sn (\<lambda>_. Some 0) (StringInput (str ''http://a.b'')) sampleOptions sampleView sampleAsync")
      (auto simp: sample_options normalizeSuppressReasons_def)
qed


theorem inspectAsync_only_adds_witness:
  "\<exists>r base0 a b. inspectAsync ascii_platform \<lparr>sn_date = None, sn_stale = None\<rparr> (\<lambda>_. Some 0) (StringInput (str ''http://a.b'')) sampleOptions
     sampleView sampleAsync = Fulfilled r
   \<and> inspect ascii_platform \<lparr>sn_date = None, sn_stale = None\<rparr> (StringInput (str ''http://a.b'')) sampleOptions = Some base0
   \<and> ir_score base0 = Some a \<and> ir_score r = Some b \<and> a \<le> b"
proof -
  let ?sn = "\<lparr>sn_date = None, sn_stale = None\<rparr>"
  obtain r where r: "inspectAsync ascii_platform ?sn (\<lambda>_. Some 0) (StringInput (str ''http://a.b'')) sampleOptions sampleView sampleAsync = Fulfilled r"
    using sample_async by blast
  show ?thesis using inspectAsync_only_adds [OF r sample_plan sample_env(1)] sample_base [of ?sn] r by auto
qed

theorem inspectAsync_accounts_witness:
  "\<exists>r. inspectAsync ascii_platform \<lparr>sn_date = None, sn_stale = None\<rparr> (\<lambda>_. Some 0) (StringInput (str ''http://a.b'')) sampleOptions
     sampleView sampleAsync = Fulfilled r
   \<and> str ''resolution'' \<in> set (ir_checksSkipped r) \<and> str ''reputation'' \<notin> set (ir_checksSkipped r)"
proof -
  let ?sn = "\<lparr>sn_date = None, sn_stale = None\<rparr>"
  obtain r where r: "inspectAsync ascii_platform ?sn (\<lambda>_. Some 0) (StringInput (str ''http://a.b'')) sampleOptions sampleView sampleAsync = Fulfilled r"
    using sample_async by blast
  have "\<forall>l. str (layerName l) \<in> set (ir_checksSkipped r) \<longleftrightarrow> l \<notin> en_layer ` set [sampleEnricher]"
    using inspectAsync_accounts [OF r sample_plan _ sample_env(1)] by simp
  from this [THEN spec, of ResolutionLayer] this [THEN spec, of ReputationLayer] show ?thesis
    using r by (simp add: sampleEnricher_def)
qed

end
