(* ===== verification/Transport.thy ===== *)
theory Transport
  imports HostChecks
begin

text \<open>
  The safe transport of the online package (\<open>transport/\<close>): the address policy, destination pinning,
  request headers, content decoding and the session of \<open>safe-transport.ts\<close>, whose \<open>fetch\<close> is the only
  way the package talks to a destination. The ports a session is given, and \<open>node:net\<close>, \<open>node:zlib\<close>
  and the \<open>URL\<close> class, are arguments. An awaited port operation answers, raises, or loses the race
  against the session deadline; the environment of a fetch says which, and whether the caller's signal
  is aborted by then. Whatever an attempt does after it lost that race is outside its outcome.
\<close>

subsection \<open>The platform\<close>

record url_view =
  uv_href :: ustring
  uv_fullHref :: ustring
  uv_protocol :: string
  uv_username :: ustring
  uv_password :: ustring
  uv_hostname :: ustring
  uv_host :: ustring
  uv_port :: ustring
  uv_origin :: ustring

text \<open>\<open>uv_href\<close> is the serialization after \<open>hash = ""\<close>, \<open>uv_fullHref\<close> the one before. \<open>np_sameAddress\<close> is a block list of one address.\<close>

datatype zlib_result = Inflated "nat list" | OutputLimit | Corrupt

record net_platform =
  np_isIP :: "ustring \<Rightarrow> nat"
  np_inSubnet :: "string \<Rightarrow> nat \<Rightarrow> nat \<Rightarrow> ustring \<Rightarrow> bool"
  np_sameAddress :: "nat \<Rightarrow> ustring \<Rightarrow> ustring \<Rightarrow> bool"
  np_URL :: "ustring \<Rightarrow> url_view option"
  np_gunzip :: "nat list \<Rightarrow> nat \<Rightarrow> zlib_result"
  np_inflate :: "nat list \<Rightarrow> nat \<Rightarrow> zlib_result"
  np_brotli :: "nat list \<Rightarrow> nat \<Rightarrow> zlib_result"

subsection \<open>transport/address.ts\<close>

datatype TransportAddressCategory =
  CoreBucket ReasonCode | Documentation | Benchmark | Discard | Transition | InvalidAddress

record SupplementalRange =
  sp_category :: TransportAddressCategory
  sp_network :: string
  sp_prefix :: nat
  sp_family :: nat

definition supplemental :: "TransportAddressCategory \<Rightarrow> string \<Rightarrow> nat \<Rightarrow> nat \<Rightarrow> SupplementalRange" where
  "supplemental category network bits family =
     \<lparr>sp_category = category, sp_network = network, sp_prefix = bits, sp_family = family\<rparr>"

definition SUPPLEMENTAL_RANGES :: "SupplementalRange list" where
  "SUPPLEMENTAL_RANGES =
     [supplemental Documentation ''192.0.2.0'' 24 4,
      supplemental Documentation ''198.51.100.0'' 24 4,
      supplemental Documentation ''203.0.113.0'' 24 4,
      supplemental Documentation ''2001:db8::'' 32 6,
      supplemental Documentation ''3fff::'' 20 6,
      supplemental Benchmark ''198.18.0.0'' 15 4,
      supplemental Benchmark ''2001:2::'' 48 6,
      supplemental Discard ''192.0.0.0'' 24 4,
      supplemental Discard ''192.88.99.0'' 24 4,
      supplemental Discard ''100::'' 64 6,
      supplemental Discard ''5f00::'' 16 6,
      supplemental Transition ''64:ff9b::'' 96 6,
      supplemental Transition ''64:ff9b:1::'' 48 6,
      supplemental Transition ''::'' 96 6,
      supplemental Transition ''2001::'' 23 6,
      supplemental Transition ''2002::'' 16 6,
      supplemental (CoreBucket ip_reserved) ''::ffff:0:0'' 96 6,
      supplemental (CoreBucket ip_reserved) ''fec0::'' 10 6]"

record TransportAddressDecision =
  td_address :: ustring
  td_family :: "nat option"
  td_allowed :: bool
  td_category :: "TransportAddressCategory option"

definition classifyTransportAddress :: "net_platform \<Rightarrow> ustring \<Rightarrow> TransportAddressDecision" where
  "classifyTransportAddress N address0 =
     (let family = np_isIP N address0;
          refused = (\<lambda>category. \<lparr>td_address = address0, td_family = Some family, td_allowed = False, td_category = Some category\<rparr>)
      in if family \<noteq> 4 \<and> family \<noteq> 6
         then \<lparr>td_address = address0, td_family = None, td_allowed = False, td_category = Some InvalidAddress\<rparr>
         else case classifyHost address0 of
           Some c \<Rightarrow> refused (CoreBucket (bm_bucket (ic_match c)))
         | None \<Rightarrow>
             (case find (\<lambda>rule. sp_family rule = family \<and> np_inSubnet N (sp_network rule) (sp_prefix rule) family address0)
                SUPPLEMENTAL_RANGES of
                Some rule \<Rightarrow> refused (sp_category rule)
              | None \<Rightarrow> \<lparr>td_address = address0, td_family = Some family, td_allowed = True, td_category = None\<rparr>))"

definition addressesEqual :: "net_platform \<Rightarrow> ustring \<Rightarrow> ustring \<Rightarrow> bool" where
  "addressesEqual N left right =
     (let family = np_isIP N left in
      if (family \<noteq> 4 \<and> family \<noteq> 6) \<or> np_isIP N right \<noteq> family then False else np_sameAddress N family left right)"

subsection \<open>transport/pin.ts\<close>

record DnsAddress =
  da_address :: ustring
  da_family :: nat
  da_ttlSeconds :: jsnum

datatype PinResult =
    Pinned "ustring list" DnsAddress
  | Prohibited "ustring list" ustring TransportAddressCategory
  | DnsNotFound "ustring list"
  | DnsMalformed "ustring list"

fun badTtl :: "jsnum \<Rightarrow> bool" where
  "badTtl (Finite q) = (q < 0)"
| "badTtl _ = True"

definition hasMalformedAddress :: "net_platform \<Rightarrow> DnsAddress list \<Rightarrow> bool" where
  "hasMalformedAddress N addresses = list_ex (\<lambda>answer.
     (let family = np_isIP N (da_address answer) in
      family \<noteq> da_family answer \<or> (family \<noteq> 4 \<and> family \<noteq> 6) \<or> badTtl (da_ttlSeconds answer))) addresses"

definition pinAddresses :: "net_platform \<Rightarrow> DnsAddress list \<Rightarrow> PinResult" where
  "pinAddresses N addresses =
     (let resolved = map da_address addresses in
      case addresses of
        [] \<Rightarrow> DnsNotFound resolved
      | first # _ \<Rightarrow>
          if hasMalformedAddress N addresses then DnsMalformed resolved
          else (case find (\<lambda>answer. \<not> td_allowed (classifyTransportAddress N (da_address answer))) addresses of
              Some answer \<Rightarrow> Prohibited resolved (da_address answer)
                (case td_category (classifyTransportAddress N (da_address answer)) of Some c \<Rightarrow> c | None \<Rightarrow> InvalidAddress)
            | None \<Rightarrow> Pinned resolved first))"

text \<open>A literal is its own answer; only a name is handed to the resolver.\<close>

definition isLiteral :: "net_platform \<Rightarrow> ustring \<Rightarrow> bool" where
  "isLiteral N hostname \<longleftrightarrow> np_isIP N hostname = 4 \<or> np_isIP N hostname = 6"

definition literalAddress :: "net_platform \<Rightarrow> ustring \<Rightarrow> DnsAddress" where
  "literalAddress N hostname = \<lparr>da_address = hostname, da_family = np_isIP N hostname, da_ttlSeconds = Finite 0\<rparr>"

subsection \<open>transport/policy.ts\<close>

record TransportPolicy =
  tp_maxHops :: nat
  tp_maxResponseBytes :: nat
  tp_maxDecompressedBytes :: nat
  tp_maxTotalTimeMs :: nat
  tp_minThroughputBytes :: nat
  tp_minThroughputWindowMs :: nat
  tp_maxResponseHeaderBytes :: nat
  tp_maxResponseHeaderFields :: nat

definition DEFAULT_TRANSPORT_POLICY :: TransportPolicy where
  "DEFAULT_TRANSPORT_POLICY =
     \<lparr>tp_maxHops = 10, tp_maxResponseBytes = 1048576, tp_maxDecompressedBytes = 4194304, tp_maxTotalTimeMs = 10000,
      tp_minThroughputBytes = 512, tp_minThroughputWindowMs = 2000, tp_maxResponseHeaderBytes = 16384,
      tp_maxResponseHeaderFields = 128\<rparr>"

fun positiveInteger :: "jsval \<Rightarrow> nat option" where
  "positiveInteger (NumVal (Finite q)) =
     (if q \<in> \<int> \<and> 0 < q \<and> q \<le> 9007199254740991 then Some (nat \<lfloor>q\<rfloor>) else None)"
| "positiveInteger _ = None"

text \<open>
  The argument maps the own keys of the caller's partial policy to their values; \<open>None\<close> is the
  \<open>RangeError\<close>.
\<close>

definition policyField :: "(string \<rightharpoonup> jsval) \<Rightarrow> string \<Rightarrow> nat \<Rightarrow> nat option" where
  "policyField given name fallback = (case given name of None \<Rightarrow> Some fallback | Some v \<Rightarrow> positiveInteger v)"

definition resolveTransportPolicy :: "(string \<rightharpoonup> jsval) \<Rightarrow> TransportPolicy option" where
  "resolveTransportPolicy given = do {
     a \<leftarrow> policyField given ''maxHops'' (tp_maxHops DEFAULT_TRANSPORT_POLICY);
     b \<leftarrow> policyField given ''maxResponseBytes'' (tp_maxResponseBytes DEFAULT_TRANSPORT_POLICY);
     c \<leftarrow> policyField given ''maxDecompressedBytes'' (tp_maxDecompressedBytes DEFAULT_TRANSPORT_POLICY);
     d \<leftarrow> policyField given ''maxTotalTimeMs'' (tp_maxTotalTimeMs DEFAULT_TRANSPORT_POLICY);
     e \<leftarrow> policyField given ''minThroughputBytes'' (tp_minThroughputBytes DEFAULT_TRANSPORT_POLICY);
     f \<leftarrow> policyField given ''minThroughputWindowMs'' (tp_minThroughputWindowMs DEFAULT_TRANSPORT_POLICY);
     g \<leftarrow> policyField given ''maxResponseHeaderBytes'' (tp_maxResponseHeaderBytes DEFAULT_TRANSPORT_POLICY);
     h \<leftarrow> policyField given ''maxResponseHeaderFields'' (tp_maxResponseHeaderFields DEFAULT_TRANSPORT_POLICY);
     if d > 2147483647 \<or> f > 2147483647 then None
     else Some \<lparr>tp_maxHops = a, tp_maxResponseBytes = b, tp_maxDecompressedBytes = c, tp_maxTotalTimeMs = d,
       tp_minThroughputBytes = e, tp_minThroughputWindowMs = f, tp_maxResponseHeaderBytes = g, tp_maxResponseHeaderFields = h\<rparr>
   }"

subsection \<open>transport/headers.ts and transport/port.ts\<close>

definition FORWARDED_REQUEST_HEADERS :: "ustring set" where
  "FORWARDED_REQUEST_HEADERS = set (map str [''accept'', ''accept-language'', ''user-agent''])"

definition MAX_REFERER_LENGTH :: nat where "MAX_REFERER_LENGTH = 2048"

definition splitsRequest :: "ustring \<Rightarrow> bool" where
  "splitsRequest value = list_ex (\<lambda>c. c = 0 \<or> c = 13 \<or> c = 10) value"

fun forwardHeaders :: "platform \<Rightarrow> (ustring \<times> jsval) list \<Rightarrow> (ustring \<rightharpoonup> ustring) \<Rightarrow> (ustring \<rightharpoonup> ustring)" where
  "forwardHeaders E [] headers = headers"
| "forwardHeaders E ((name, value) # rest) headers =
     (let normalized = pf_toLowerCase E name in
      forwardHeaders E rest
        (case value of
           StrVal v \<Rightarrow> if normalized \<in> FORWARDED_REQUEST_HEADERS \<and> \<not> splitsRequest v then headers(normalized \<mapsto> v) else headers
         | _ \<Rightarrow> headers))"

definition destinationHeaders :: "platform \<Rightarrow> ustring \<Rightarrow> (ustring \<times> jsval) list \<Rightarrow> ustring option \<Rightarrow> (ustring \<rightharpoonup> ustring)" where
  "destinationHeaders E host input referer =
     (let headers = forwardHeaders E input
        [str ''host'' \<mapsto> host, str ''accept-encoding'' \<mapsto> str ''gzip, deflate, br'']
      in case referer of None \<Rightarrow> headers | Some r \<Rightarrow> headers(str ''referer'' \<mapsto> r))"

definition sameOriginRefererValue :: "net_platform \<Rightarrow> url_view \<Rightarrow> ustring \<Rightarrow> ustring option" where
  "sameOriginRefererValue N destination candidate =
     (if length candidate > MAX_REFERER_LENGTH then None
      else case np_URL N candidate of
        None \<Rightarrow> None
      | Some referer \<Rightarrow>
          if uv_protocol referer \<notin> {''http:'', ''https:''} then None
          else if uv_username referer \<noteq> [] \<or> uv_password referer \<noteq> [] then None
          else if uv_origin referer \<noteq> uv_origin destination then None
          else if length (uv_href referer) > MAX_REFERER_LENGTH \<or> splitsRequest (uv_href referer) then None
          else Some (uv_href referer))"

definition effectivePort :: "url_view \<Rightarrow> nat" where
  "effectivePort url = (if uv_port url \<noteq> [] then radix_val 10 (uv_port url) else if uv_protocol url = ''https:'' then 443 else 80)"

subsection \<open>transport/decompression.ts\<close>

type_synonym response_headers = "(ustring \<times> ustring list) list"

datatype decode_error = DecompressedLimitError | UnsupportedContentEncodingError | ContentDecompressionError

definition contentEncodings :: "platform \<Rightarrow> response_headers \<Rightarrow> ustring list" where
  "contentEncodings E headers =
     filter (\<lambda>v. v \<noteq> []) (map (\<lambda>v. pf_toLowerCase E (trim v)) (concat (map (split_on 44)
       (concat (map snd (filter (\<lambda>(name, _). pf_toLowerCase E name = str ''content-encoding'') headers))))))"

definition decodeStep :: "net_platform \<Rightarrow> ustring \<Rightarrow> nat \<Rightarrow> nat list \<Rightarrow> decode_error + nat list" where
  "decodeStep N encoding maxOutputBytes body =
     (let unpack = (\<lambda>r. case r of
          Inflated out \<Rightarrow> if length out > maxOutputBytes then Inl DecompressedLimitError else Inr out
        | OutputLimit \<Rightarrow> Inl DecompressedLimitError
        | Corrupt \<Rightarrow> Inl ContentDecompressionError)
      in if encoding = str ''identity'' then Inr body
         else if encoding = str ''gzip'' \<or> encoding = str ''x-gzip'' then unpack (np_gunzip N body maxOutputBytes)
         else if encoding = str ''deflate'' then unpack (np_inflate N body maxOutputBytes)
         else if encoding = str ''br'' then unpack (np_brotli N body maxOutputBytes)
         else Inl UnsupportedContentEncodingError)"

fun decodeAll :: "net_platform \<Rightarrow> ustring list \<Rightarrow> nat \<Rightarrow> nat list \<Rightarrow> decode_error + nat list" where
  "decodeAll N [] maxOutputBytes body = (if length body > maxOutputBytes then Inl DecompressedLimitError else Inr body)"
| "decodeAll N (encoding # rest) maxOutputBytes body =
     (case decodeStep N encoding maxOutputBytes body of
        Inl e \<Rightarrow> Inl e
      | Inr out \<Rightarrow> decodeAll N rest maxOutputBytes out)"

definition decodeResponseBody ::
    "platform \<Rightarrow> net_platform \<Rightarrow> nat list \<Rightarrow> response_headers \<Rightarrow> nat \<Rightarrow> decode_error + nat list" where
  "decodeResponseBody E N encoded headers maxOutputBytes =
     (if encoded = [] then Inr []
      else if maxOutputBytes = 0 then Inl DecompressedLimitError
      else decodeAll N (rev (contentEncodings E headers)) maxOutputBytes encoded)"

subsection \<open>transport/outcome-registry.ts\<close>

datatype TransportCauseCode =
    Authorization_required | Caller_abort | Connect_error | Connect_refused | Connect_timeout
  | Connection_address_mismatch | Decompressed_response_too_large | Decompression_error | Dns_error
  | Dns_malformed | Dns_not_found | Dns_timeout | Hop_limit | Http_error | Http_malformed | Http_reset
  | Http_timeout | Invalid_url | Prohibited_address | Referer_not_same_origin | Response_headers_too_large
  | Response_too_large | Response_too_slow | Deadline_timeout | Tls_certificate | Tls_handshake
  | Unsupported_content_encoding | Unsupported_method | Unsupported_scheme | Url_credentials

definition TRANSPORT_CAUSE_CODES :: "(string \<times> TransportCauseCode) list" where
  "TRANSPORT_CAUSE_CODES =
     [(''authorization-required'', Authorization_required), (''caller-aborted'', Caller_abort),
      (''connect-error'', Connect_error), (''connect-refused'', Connect_refused), (''connect-timeout'', Connect_timeout),
      (''connection-address-mismatch'', Connection_address_mismatch),
      (''decompressed-response-too-large'', Decompressed_response_too_large),
      (''decompression-error'', Decompression_error), (''dns-error'', Dns_error), (''dns-malformed'', Dns_malformed),
      (''dns-not-found'', Dns_not_found), (''dns-timeout'', Dns_timeout), (''hop-limit'', Hop_limit),
      (''http-error'', Http_error), (''http-malformed'', Http_malformed), (''http-reset'', Http_reset),
      (''http-timeout'', Http_timeout), (''invalid-url'', Invalid_url), (''prohibited-address'', Prohibited_address),
      (''referer-not-same-origin'', Referer_not_same_origin),
      (''response-headers-too-large'', Response_headers_too_large), (''response-too-large'', Response_too_large),
      (''response-too-slow'', Response_too_slow), (''timeout'', Deadline_timeout), (''tls-certificate'', Tls_certificate),
      (''tls-handshake'', Tls_handshake), (''unsupported-content-encoding'', Unsupported_content_encoding),
      (''unsupported-method'', Unsupported_method), (''unsupported-scheme'', Unsupported_scheme),
      (''url-credentials'', Url_credentials)]"

subsection \<open>transport/safe-transport.ts\<close>

datatype OperationPhase = DnsPhase | ConnectPhase | TlsPhase | HttpPhase | DecompressionPhase

text \<open>What a port raised: an object with a string \<open>code\<close>, another value, or the decoder's own error.\<close>

datatype original_error = Coded string | Uncoded | UnsupportedEncoding

datatype thrown = OperationError OperationPhase original_error | BudgetError TransportCauseCode | DeadlineError

definition STABLE_OPERATION_CODES :: "TransportCauseCode set" where
  "STABLE_OPERATION_CODES = {Dns_not_found, Dns_timeout, Dns_malformed, Connect_refused, Connect_timeout,
     Connection_address_mismatch, Tls_handshake, Tls_certificate, Http_malformed, Http_reset, Http_timeout,
     Response_headers_too_large, Decompression_error}"

definition errorCode :: "original_error \<Rightarrow> TransportCauseCode option" where
  "errorCode e = (case e of
     Coded code \<Rightarrow> (case map_of TRANSPORT_CAUSE_CODES code of
         None \<Rightarrow> None | Some c \<Rightarrow> if c \<in> STABLE_OPERATION_CODES then Some c else None)
   | _ \<Rightarrow> None)"

definition operationCause :: "OperationPhase \<Rightarrow> original_error \<Rightarrow> TransportCauseCode" where
  "operationCause phase original =
     (case errorCode original of
        Some code \<Rightarrow> code
      | None \<Rightarrow> (case phase of
            DnsPhase \<Rightarrow> Dns_error
          | ConnectPhase \<Rightarrow> Connect_error
          | TlsPhase \<Rightarrow> Tls_handshake
          | DecompressionPhase \<Rightarrow> if original = UnsupportedEncoding then Unsupported_content_encoding else Decompression_error
          | HttpPhase \<Rightarrow> Http_error))"

definition budgetDetails :: "TransportCauseCode \<Rightarrow> TransportPolicy \<Rightarrow> (string \<times> nat) list option" where
  "budgetDetails code policy =
     (case code of
        Response_too_large \<Rightarrow> Some [(''maxResponseBytes'', tp_maxResponseBytes policy)]
      | Response_too_slow \<Rightarrow> Some [(''minThroughputBytes'', tp_minThroughputBytes policy),
          (''minThroughputWindowMs'', tp_minThroughputWindowMs policy)]
      | Decompressed_response_too_large \<Rightarrow> Some [(''maxDecompressedBytes'', tp_maxDecompressedBytes policy)]
      | Response_headers_too_large \<Rightarrow> Some [(''maxResponseHeaderBytes'', tp_maxResponseHeaderBytes policy),
          (''maxResponseHeaderFields'', tp_maxResponseHeaderFields policy)]
      | _ \<Rightarrow> None)"

text \<open>The two nested loops over the header fields, with the counters so far.\<close>

fun exceedsFrom :: "TransportPolicy \<Rightarrow> nat \<Rightarrow> nat \<Rightarrow> (ustring \<times> ustring) list \<Rightarrow> bool" where
  "exceedsFrom policy count0 size0 [] = False"
| "exceedsFrom policy count0 size0 ((name, value) # rest) =
     (if count0 + 1 > tp_maxResponseHeaderFields policy then True
      else if size0 + length name + length value + 4 > tp_maxResponseHeaderBytes policy then True
      else exceedsFrom policy (count0 + 1) (size0 + length name + length value + 4) rest)"

definition exceedsHeaderBudget :: "response_headers \<Rightarrow> TransportPolicy \<Rightarrow> bool" where
  "exceedsHeaderBudget headers policy =
     exceedsFrom policy 0 0 (concat (map (\<lambda>(name, values). map (Pair name) values) headers))"

record tls_view =
  tl_authorized :: bool
  tl_serverName :: ustring

record AttemptState =
  as_subject :: ustring
  as_hop :: nat
  as_protocol :: "string option"
  as_hostname :: "ustring option"
  as_port :: "nat option"
  as_resolvedAddresses :: "ustring list option"
  as_selectedAddress :: "ustring option"
  as_tls :: "tls_view option"

record TransportConnection =
  tc_id :: ustring
  tc_protocol :: string
  tc_remoteAddress :: ustring
  tc_remotePort :: nat
  tc_tls :: "tls_view option"

datatype body_event = Chunk "nat list" | NotBytes | WindowClosed

datatype body_end = BodyDone | BodyRaised original_error | BodyCut

record HttpResponse =
  hr_status :: jsnum
  hr_headers :: response_headers
  hr_events :: "body_event list"
  hr_end :: body_end

record SafeFetchResponse =
  fr_url :: ustring
  fr_status :: nat
  fr_headers :: response_headers
  fr_body :: "nat list"
  fr_encodedBytes :: nat
  fr_decompressedBytes :: nat

datatype cause_details = NoDetails | Limits "(string \<times> nat) list" | SchemeDetail string
  | AddressDetail ustring TransportAddressCategory

datatype SafeFetchOutcome =
    FetchSuccess AttemptState SafeFetchResponse
  | FetchBlocked AttemptState TransportCauseCode cause_details
  | FetchIncomplete AttemptState TransportCauseCode cause_details

record SafeFetchRequest =
  rq_url :: ustring
  rq_authorizedUrl :: "ustring option"
  rq_method :: "string option"
  rq_headers :: "(ustring \<times> jsval) list"
  rq_sameOriginReferer :: "ustring option"

text \<open>\<open>rq_authorizedUrl\<close> is the URL of an authorization of kind \<open>destination-fetch\<close>.\<close>

datatype 'a awaited = Answered 'a | Raised original_error | DeadlineHit

record fetch_env =
  fe_aborted :: bool
  fe_remainingMs :: int
  fe_resolve :: "DnsAddress list awaited"
  fe_abortedDns :: bool
  fe_connect :: "TransportConnection awaited"
  fe_abortedConnect :: bool
  fe_request :: "HttpResponse awaited"
  fe_abortedHttp :: bool
  fe_abortedBody :: bool
  fe_late :: bool
  fe_cutClose :: bool
  fe_abortedClose :: bool

datatype port_call =
    ResolveCall ustring
  | ConnectCall string ustring ustring nat "ustring option"
  | RequestCall ustring ustring string "ustring \<rightharpoonup> ustring"
  | CloseCall ustring

record SafeSession =
  se_hops :: nat
  se_encodedBytes :: nat
  se_decompressedBytes :: nat

definition newSession :: SafeSession where
  "newSession = \<lparr>se_hops = 0, se_encodedBytes = 0, se_decompressedBytes = 0\<rparr>"

text \<open>
  The loop of \<open>readEncodedBody\<close>: the session's count of encoded bytes, the bytes of the current
  throughput window and the body so far. The second component is the new count.
\<close>

fun readEncodedBody :: "TransportPolicy \<Rightarrow> nat \<Rightarrow> nat \<Rightarrow> nat list \<Rightarrow> body_event list \<Rightarrow> body_end \<Rightarrow> (thrown + nat list) \<times> nat" where
  "readEncodedBody policy encoded window body [] fin =
     (case fin of
        BodyDone \<Rightarrow> (Inr body, encoded)
      | BodyRaised e \<Rightarrow> (Inl (OperationError HttpPhase e), encoded)
      | BodyCut \<Rightarrow> (Inl DeadlineError, encoded))"
| "readEncodedBody policy encoded window body (WindowClosed # rest) fin =
     (if window < tp_minThroughputBytes policy then (Inl (BudgetError Response_too_slow), encoded)
      else readEncodedBody policy encoded 0 body rest fin)"
| "readEncodedBody policy encoded window body (NotBytes # rest) fin =
     (Inl (OperationError HttpPhase (Coded ''http-malformed'')), encoded)"
| "readEncodedBody policy encoded window body (Chunk c # rest) fin =
     (if encoded + length c > tp_maxResponseBytes policy
      then (Inl (BudgetError Response_too_large), tp_maxResponseBytes policy)
      else readEncodedBody policy (encoded + length c) (window + length c) (body @ c) rest fin)"

datatype exit = Returned SafeFetchOutcome | Thrown thrown bool AttemptState

text \<open>From the response head to the result; the boolean of \<open>Thrown\<close> is whether the caller's signal is aborted then.\<close>

definition readResponse ::
    "platform \<Rightarrow> net_platform \<Rightarrow> TransportPolicy \<Rightarrow> fetch_env \<Rightarrow> ustring \<Rightarrow> AttemptState \<Rightarrow> HttpResponse \<Rightarrow> SafeSession \<Rightarrow> exit \<times> SafeSession" where
  "readResponse E N policy env href st response session =
     (case hr_status response of
        Finite q \<Rightarrow>
          if q \<notin> \<int> \<or> q < 100 \<or> q > 599 then (Thrown (OperationError HttpPhase (Coded ''http-malformed'')) (fe_abortedHttp env) st, session)
          else if exceedsHeaderBudget (hr_headers response) policy
          then (Thrown (BudgetError Response_headers_too_large) (fe_abortedHttp env) st, session)
          else (case readEncodedBody policy (se_encodedBytes session) 0 [] (hr_events response) (hr_end response) of
              (Inl e, n) \<Rightarrow> (Thrown e (fe_abortedBody env) st, session\<lparr>se_encodedBytes := n\<rparr>)
            | (Inr encoded, n) \<Rightarrow>
                (let charged = session\<lparr>se_encodedBytes := n\<rparr> in
                 if fe_abortedBody env then (Thrown (OperationError HttpPhase (Coded ''http-timeout'')) True st, charged)
                 else case decodeResponseBody E N encoded (hr_headers response) (tp_maxDecompressedBytes policy - se_decompressedBytes session) of
                     Inl DecompressedLimitError \<Rightarrow>
                       (Thrown (BudgetError Decompressed_response_too_large) False st,
                        charged\<lparr>se_decompressedBytes := tp_maxDecompressedBytes policy\<rparr>)
                   | Inl UnsupportedContentEncodingError \<Rightarrow> (Thrown (OperationError DecompressionPhase UnsupportedEncoding) False st, charged)
                   | Inl ContentDecompressionError \<Rightarrow> (Thrown (OperationError DecompressionPhase Uncoded) False st, charged)
                   | Inr body \<Rightarrow>
                       (let done = charged\<lparr>se_decompressedBytes := se_decompressedBytes session + length body\<rparr> in
                        if fe_late env then (Thrown DeadlineError False st, done)
                        else (Returned (FetchSuccess st
                          \<lparr>fr_url = href, fr_status = nat \<lfloor>q\<rfloor>, fr_headers = hr_headers response, fr_body = body,
                           fr_encodedBytes = length encoded, fr_decompressedBytes = length body\<rparr>), done))))
      | _ \<Rightarrow> (Thrown (OperationError HttpPhase (Coded ''http-malformed'')) (fe_abortedHttp env) st, session))"

definition connectionMatches :: "net_platform \<Rightarrow> string \<Rightarrow> nat \<Rightarrow> ustring \<Rightarrow> TransportConnection \<Rightarrow> bool" where
  "connectionMatches N protocol port pinned c \<longleftrightarrow>
     tc_protocol c = protocol \<and> tc_remotePort c = port \<and> addressesEqual N pinned (tc_remoteAddress c)"

definition identityHolds :: "string \<Rightarrow> ustring \<Rightarrow> TransportConnection \<Rightarrow> bool" where
  "identityHolds protocol hostname c \<longleftrightarrow> protocol \<noteq> ''https:'' \<or>
     (case tc_tls c of None \<Rightarrow> False | Some t \<Rightarrow> tl_authorized t \<and> tl_serverName t = hostname)"

text \<open>From the established connection on; the \<open>finally\<close> of the caller closes it.\<close>

definition useConnection ::
    "platform \<Rightarrow> net_platform \<Rightarrow> TransportPolicy \<Rightarrow> fetch_env \<Rightarrow> SafeFetchRequest \<Rightarrow> url_view \<Rightarrow> ustring option \<Rightarrow> ustring \<Rightarrow> ustring \<Rightarrow>
     AttemptState \<Rightarrow> TransportConnection \<Rightarrow> SafeSession \<Rightarrow> exit \<times> SafeSession \<times> port_call list" where
  "useConnection E N policy env request url referer hostname pinned st c session =
     (if fe_abortedConnect env then (Thrown (OperationError ConnectPhase (Coded ''connect-timeout'')) True st, session, [])
      else if \<not> connectionMatches N (uv_protocol url) (effectivePort url) pinned c
      then (Thrown (OperationError ConnectPhase (Coded ''connection-address-mismatch'')) False st, session, [])
      else if \<not> identityHolds (uv_protocol url) hostname c
      then (Thrown (OperationError TlsPhase (Coded ''tls-certificate'')) False st, session, [])
      else (let st' = (if tc_tls c \<noteq> None then st\<lparr>as_tls := tc_tls c\<rparr> else st);
                call = RequestCall (tc_id c) (uv_href url) (case rq_method request of None \<Rightarrow> ''GET'' | Some m \<Rightarrow> m)
                  (destinationHeaders E (uv_host url) (rq_headers request) referer)
            in case fe_request env of
                 DeadlineHit \<Rightarrow> (Thrown DeadlineError False st', session, [call])
               | Raised e \<Rightarrow> (Thrown (OperationError HttpPhase e) (fe_abortedHttp env) st', session, [call])
               | Answered response \<Rightarrow>
                   if fe_abortedHttp env then (Thrown (OperationError HttpPhase (Coded ''http-timeout'')) True st', session, [call])
                   else (case readResponse E N policy env (uv_href url) st' response session of
                       (out, session') \<Rightarrow> (out, session', [call]))))"

text \<open>\<open>close\<close> is awaited in the \<open>finally\<close>: the deadline may pass or the caller abort before it settles.\<close>

primrec outcomeState :: "SafeFetchOutcome \<Rightarrow> AttemptState" where
  "outcomeState (FetchSuccess st response) = st"
| "outcomeState (FetchBlocked st code details) = st"
| "outcomeState (FetchIncomplete st code details) = st"

fun afterClose :: "fetch_env \<Rightarrow> exit \<Rightarrow> exit" where
  "afterClose env (Returned outcome) =
     (if fe_cutClose env then Thrown DeadlineError False (outcomeState outcome) else Returned outcome)"
| "afterClose env (Thrown e aborted st) =
     (if fe_cutClose env then Thrown DeadlineError False st else Thrown e (aborted \<or> fe_abortedClose env) st)"

definition connectPinned ::
    "platform \<Rightarrow> net_platform \<Rightarrow> TransportPolicy \<Rightarrow> fetch_env \<Rightarrow> SafeFetchRequest \<Rightarrow> url_view \<Rightarrow> ustring option \<Rightarrow> ustring \<Rightarrow> ustring \<Rightarrow>
     AttemptState \<Rightarrow> SafeSession \<Rightarrow> exit \<times> SafeSession \<times> port_call list" where
  "connectPinned E N policy env request url referer hostname pinned st session =
     (let call = ConnectCall (uv_protocol url) hostname pinned (effectivePort url)
          (if uv_protocol url = ''https:'' then Some hostname else None) in
      case fe_connect env of
        DeadlineHit \<Rightarrow> (Thrown DeadlineError False st, session, [call])
      | Raised e \<Rightarrow> (Thrown (OperationError ConnectPhase e) (fe_abortedConnect env) st, session, [call])
      | Answered c \<Rightarrow>
          (case useConnection E N policy env request url referer hostname pinned st c session of
             (out, session', calls) \<Rightarrow> (afterClose env out, session', call # calls @ [CloseCall (tc_id c)])))"

definition unbracket :: "ustring \<Rightarrow> ustring" where
  "unbracket hostname =
     (if startsWith [91] hostname \<and> endsWith [93] hostname then butlast (tl hostname) else hostname)"

text \<open>Resolution and pinning.\<close>

definition resolveAnswers :: "net_platform \<Rightarrow> fetch_env \<Rightarrow> ustring \<Rightarrow> DnsAddress list awaited \<times> port_call list" where
  "resolveAnswers N env hostname =
     (if isLiteral N hostname then (Answered [literalAddress N hostname], [])
      else (fe_resolve env, [ResolveCall hostname]))"

definition pinAndConnect ::
    "platform \<Rightarrow> net_platform \<Rightarrow> TransportPolicy \<Rightarrow> fetch_env \<Rightarrow> SafeFetchRequest \<Rightarrow> url_view \<Rightarrow> ustring option \<Rightarrow>
     AttemptState \<Rightarrow> SafeSession \<Rightarrow> exit \<times> SafeSession \<times> port_call list" where
  "pinAndConnect E N policy env request url referer st session =
     (let hostname = unbracket (uv_hostname url) in
      case resolveAnswers N env hostname of (answers, calls) \<Rightarrow>
        (case answers of
           DeadlineHit \<Rightarrow> (Thrown DeadlineError False st, session, calls)
         | Raised e \<Rightarrow> (Thrown (OperationError DnsPhase e) (fe_abortedDns env) st, session, calls)
         | Answered addresses \<Rightarrow>
             if fe_abortedDns env then (Thrown (OperationError DnsPhase (Coded ''dns-timeout'')) True st, session, calls)
             else (let st' = st\<lparr>as_resolvedAddresses := Some (map da_address addresses)\<rparr> in
               case pinAddresses N addresses of
                 DnsNotFound _ \<Rightarrow> (Thrown (OperationError DnsPhase (Coded ''dns-not-found'')) False st', session, calls)
               | DnsMalformed _ \<Rightarrow> (Thrown (OperationError DnsPhase (Coded ''dns-malformed'')) False st', session, calls)
               | Prohibited _ refused category \<Rightarrow>
                   (Returned (FetchBlocked st' Prohibited_address (AddressDetail refused category)), session, calls)
               | Pinned _ selected \<Rightarrow>
                   (case connectPinned E N policy env request url referer hostname (da_address selected)
                        (st'\<lparr>as_selectedAddress := Some (da_address selected)\<rparr>) session of
                      (out, session', calls') \<Rightarrow> (out, session', calls @ calls')))))"

text \<open>\<open>execute\<close>: the rules on the shape of the request, before any resolution.\<close>

definition executeFetch ::
    "platform \<Rightarrow> net_platform \<Rightarrow> TransportPolicy \<Rightarrow> fetch_env \<Rightarrow> SafeFetchRequest \<Rightarrow> AttemptState \<Rightarrow> SafeSession \<Rightarrow>
     exit \<times> SafeSession \<times> port_call list" where
  "executeFetch E N policy env request st session =
     (case np_URL N (rq_url request) of
        None \<Rightarrow> (Returned (FetchBlocked st Invalid_url NoDetails), session, [])
      | Some url \<Rightarrow>
          if uv_protocol url \<noteq> ''http:'' \<and> uv_protocol url \<noteq> ''https:''
          then (Returned (FetchBlocked st Unsupported_scheme (SchemeDetail (uv_protocol url))), session, [])
          else if rq_method request \<notin> {None, Some ''GET'', Some ''HEAD''}
          then (Returned (FetchBlocked st Unsupported_method NoDetails), session, [])
          else if uv_username url \<noteq> [] \<or> uv_password url \<noteq> []
          then (Returned (FetchBlocked st Url_credentials NoDetails), session, [])
          else (let st' = st\<lparr>as_subject := uv_href url, as_protocol := Some (uv_protocol url),
                    as_hostname := Some (unbracket (uv_hostname url)), as_port := Some (effectivePort url)\<rparr>
                in case rq_sameOriginReferer request of
                  None \<Rightarrow> pinAndConnect E N policy env request url None st' session
                | Some candidate \<Rightarrow>
                    (case sameOriginRefererValue N url candidate of
                       None \<Rightarrow> (Returned (FetchBlocked st Referer_not_same_origin NoDetails), session, [])
                     | Some value \<Rightarrow> pinAndConnect E N policy env request url (Some value) st' session)))"

definition withLimits :: "(string \<times> nat) list option \<Rightarrow> cause_details" where
  "withLimits d = (case d of None \<Rightarrow> NoDetails | Some limits \<Rightarrow> Limits limits)"

text \<open>The \<open>catch\<close> of \<open>fetch\<close>.\<close>

fun settleFetch :: "TransportPolicy \<Rightarrow> exit \<Rightarrow> SafeFetchOutcome" where
  "settleFetch policy (Returned outcome) = outcome"
| "settleFetch policy (Thrown DeadlineError aborted st) = FetchIncomplete st Deadline_timeout NoDetails"
| "settleFetch policy (Thrown (BudgetError code) aborted st) =
     (if aborted then FetchIncomplete st Caller_abort NoDetails
      else FetchIncomplete st code (withLimits (budgetDetails code policy)))"
| "settleFetch policy (Thrown (OperationError phase original) aborted st) =
     (if aborted then FetchIncomplete st Caller_abort NoDetails
      else FetchIncomplete st (operationCause phase original) (withLimits (budgetDetails (operationCause phase original) policy)))"

definition fetch ::
    "platform \<Rightarrow> net_platform \<Rightarrow> TransportPolicy \<Rightarrow> fetch_env \<Rightarrow> SafeFetchRequest \<Rightarrow> SafeSession \<Rightarrow>
     SafeFetchOutcome \<times> SafeSession \<times> port_call list" where
  "fetch E N policy env request session =
     (let nextHop = se_hops session + 1;
          st = \<lparr>as_subject = rq_url request, as_hop = nextHop, as_protocol = None, as_hostname = None, as_port = None,
                as_resolvedAddresses = None, as_selectedAddress = None, as_tls = None\<rparr>
      in if rq_authorizedUrl request \<noteq> Some (rq_url request) then (FetchBlocked st Authorization_required NoDetails, session, [])
         else if nextHop > tp_maxHops policy then (FetchIncomplete st Hop_limit (Limits [(''maxHops'', tp_maxHops policy)]), session, [])
         else if fe_aborted env then (FetchIncomplete st Caller_abort NoDetails, session, [])
         else if fe_remainingMs env \<le> 0 then (FetchIncomplete st Deadline_timeout NoDetails, session, [])
         else (case executeFetch E N policy env request st (session\<lparr>se_hops := nextHop\<rparr>) of
             (out, session', calls) \<Rightarrow> (settleFetch policy out, session', calls)))"

text \<open>The fetches of one session, in order.\<close>

fun fetches ::
    "platform \<Rightarrow> net_platform \<Rightarrow> TransportPolicy \<Rightarrow> (fetch_env \<times> SafeFetchRequest) list \<Rightarrow> SafeSession \<Rightarrow>
     SafeFetchOutcome list \<times> SafeSession" where
  "fetches E N policy [] session = ([], session)"
| "fetches E N policy ((env, request) # rest) session =
     (case fetch E N policy env request session of
        (outcome, session', _) \<Rightarrow> (case fetches E N policy rest session' of (outcomes, final) \<Rightarrow> (outcome # outcomes, final)))"

subsection \<open>The address policy\<close>

text \<open>
  The destinations a session may connect to, said of the address itself: an IP literal for
  \<open>node:net\<close>, whose address, as far as core's parser reads the literal, is in no special-purpose range,
  and which is in no supplemental range. A literal that \<open>isIP\<close> accepts and core's parser does not (one
  with a zone) is judged by the supplemental ranges alone, as in the code.
\<close>

definition publicDestination :: "net_platform \<Rightarrow> ustring \<Rightarrow> bool" where
  "publicDestination N a \<longleftrightarrow>
     isLiteral N a \<and> Option.bind (address a) bucketOf = None \<and>
     list_all (\<lambda>r. sp_family r = np_isIP N a \<longrightarrow> \<not> np_inSubnet N (sp_network r) (sp_prefix r) (np_isIP N a) a) SUPPLEMENTAL_RANGES"

lemma find_Some_member: "find P xs = Some x \<Longrightarrow> x \<in> set xs \<and> P x"
  by (auto simp: find_Some_iff)

lemma classifyTransportAddress_public: "td_allowed (classifyTransportAddress N a) = publicDestination N a"
proof -
  have "Option.bind (address a) bucketOf = None \<longleftrightarrow> classifyHost a = None"
    using classifyHost_bucketOf [of a] by (metis map_option_is_None)
  then show ?thesis
    by (auto simp: classifyTransportAddress_def publicDestination_def isLiteral_def Let_def find_None_iff list_all_iff
        dest!: find_Some_member split: option.splits)
qed

lemma pinAddresses_Pinned:
  assumes "pinAddresses N answers = Pinned resolved selected"
  shows "answers \<noteq> [] \<and> selected = hd answers \<and> resolved = map da_address answers \<and>
    (\<forall>d\<in>set answers. publicDestination N (da_address d))"
  using assms
  by (auto simp: pinAddresses_def Let_def find_None_iff classifyTransportAddress_public
      split: list.splits if_splits option.splits)

lemma pinAddresses_Prohibited:
  assumes "pinAddresses N answers = Prohibited resolved a category"
  shows "a \<in> da_address ` set answers \<and> \<not> publicDestination N a"
  using assms
  by (auto simp: pinAddresses_def Let_def classifyTransportAddress_public dest!: find_Some_member
      split: list.splits if_splits option.splits)

subsection \<open>The request headers\<close>

declare str_inject [simp]

lemma forwardHeaders_ran:
  "forwardHeaders E input headers name = Some v \<Longrightarrow>
     headers name = Some v \<or> name \<in> FORWARDED_REQUEST_HEADERS \<and> \<not> splitsRequest v
       \<and> (\<exists>k. (k, StrVal v) \<in> set input \<and> pf_toLowerCase E k = name)"
  by (induction E input headers rule: forwardHeaders.induct)
    (fastforce simp: Let_def split: jsval.splits if_splits)+

lemma forwarded_names [simp]:
  "str ''host'' \<notin> FORWARDED_REQUEST_HEADERS"
  "str ''accept-encoding'' \<notin> FORWARDED_REQUEST_HEADERS"
  "str ''referer'' \<notin> FORWARDED_REQUEST_HEADERS"
  by (auto simp: FORWARDED_REQUEST_HEADERS_def)

lemma forwardHeaders_keep:
  "name \<notin> FORWARDED_REQUEST_HEADERS \<Longrightarrow> forwardHeaders E input headers name = headers name"
  by (induction E input headers rule: forwardHeaders.induct)
    (auto simp: Let_def split: jsval.splits)

lemma destinationHeaders_fixed:
  "destinationHeaders E host input referer (str ''host'') = Some host"
  "destinationHeaders E host input referer (str ''accept-encoding'') = Some (str ''gzip, deflate, br'')"
  "destinationHeaders E host input referer (str ''referer'') = referer"
  by (auto simp: destinationHeaders_def Let_def forwardHeaders_keep split: option.splits)

lemma destinationHeaders_other:
  assumes "destinationHeaders E host input referer name = Some v"
  shows "name \<in> {str ''host'', str ''accept-encoding'', str ''referer''} \<or>
    name \<in> FORWARDED_REQUEST_HEADERS \<and> \<not> splitsRequest v \<and> (\<exists>k. (k, StrVal v) \<in> set input \<and> pf_toLowerCase E k = name)"
  using assms by (auto simp: destinationHeaders_def Let_def dest!: forwardHeaders_ran split: option.splits if_splits)

lemma sameOriginRefererValue_Some:
  assumes "sameOriginRefererValue N destination candidate = Some v"
  shows "\<exists>r. np_URL N candidate = Some r \<and> v = uv_href r \<and> uv_origin r = uv_origin destination \<and>
    uv_username r = [] \<and> uv_password r = [] \<and> length v \<le> MAX_REFERER_LENGTH \<and> \<not> splitsRequest v"
  using assms by (auto simp: sameOriginRefererValue_def not_less split: option.splits if_splits)

subsection \<open>The budgets of a session\<close>

definition withinBudget :: "TransportPolicy \<Rightarrow> SafeSession \<Rightarrow> bool" where
  "withinBudget policy s \<longleftrightarrow>
     se_hops s \<le> tp_maxHops policy \<and> se_encodedBytes s \<le> tp_maxResponseBytes policy \<and>
     se_decompressedBytes s \<le> tp_maxDecompressedBytes policy"

lemma readEncodedBody_bound:
  "encoded \<le> tp_maxResponseBytes policy \<Longrightarrow>
     readEncodedBody policy encoded window body events fin = (r, n) \<Longrightarrow> encoded \<le> n \<and> n \<le> tp_maxResponseBytes policy"
  by (induction policy encoded window body events fin rule: readEncodedBody.induct)
    (fastforce split: body_end.splits if_splits)+

lemma readEncodedBody_charged:
  "readEncodedBody policy encoded window body events fin = (Inr out, n) \<Longrightarrow>
     \<exists>rest. out = body @ rest \<and> n = encoded + length rest"
  by (induction policy encoded window body events fin rule: readEncodedBody.induct)
    (fastforce split: body_end.splits if_splits)+

lemma decodeAll_bound: "decodeAll N encodings limit body = Inr out \<Longrightarrow> length out \<le> limit"
  by (induction N encodings limit body rule: decodeAll.induct) (auto split: sum.splits if_splits)

lemma decodeResponseBody_bound: "decodeResponseBody E N encoded headers limit = Inr out \<Longrightarrow> length out \<le> limit"
  by (auto simp: decodeResponseBody_def decodeAll_bound split: if_splits)

lemma readResponse_budget:
  assumes "withinBudget policy session" "readResponse E N policy env href st response session = (out, session')"
  shows "withinBudget policy session' \<and> se_hops session' = se_hops session"
proof (cases "hr_status response")
  case (Finite q)
  obtain r n where read: "readEncodedBody policy (se_encodedBytes session) 0 [] (hr_events response) (hr_end response) = (r, n)"
    by fastforce
  have "n \<le> tp_maxResponseBytes policy"
    using readEncodedBody_bound [OF _ read] assms(1) by (simp add: withinBudget_def)
  then show ?thesis
    using assms Finite read
    by (cases r) (auto simp: readResponse_def withinBudget_def Let_def split: if_splits sum.splits decode_error.splits
        dest!: decodeResponseBody_bound)
qed (use assms in \<open>auto simp: readResponse_def\<close>)

lemma useConnection_budget:
  assumes "withinBudget policy session"
    "useConnection E N policy env request url referer hostname pinned st c session = (out, session', calls)"
  shows "withinBudget policy session' \<and> se_hops session' = se_hops session"
  using assms
  by (auto simp: useConnection_def Let_def dest!: readResponse_budget [OF assms(1)] split: if_splits awaited.splits prod.splits)

lemma connectPinned_budget:
  assumes "withinBudget policy session"
    "connectPinned E N policy env request url referer hostname pinned st session = (out, session', calls)"
  shows "withinBudget policy session' \<and> se_hops session' = se_hops session"
  using assms
  by (auto simp: connectPinned_def Let_def dest!: useConnection_budget [OF assms(1)] split: awaited.splits prod.splits)

lemma pinAndConnect_budget:
  assumes "withinBudget policy session"
    "pinAndConnect E N policy env request url referer st session = (out, session', calls)"
  shows "withinBudget policy session' \<and> se_hops session' = se_hops session"
  using assms
  by (auto simp: pinAndConnect_def Let_def dest!: connectPinned_budget [OF assms(1)]
      split: awaited.splits prod.splits if_splits PinResult.splits)

lemma executeFetch_budget:
  assumes "withinBudget policy session" "executeFetch E N policy env request st session = (out, session', calls)"
  shows "withinBudget policy session' \<and> se_hops session' = se_hops session"
  using assms
  by (auto simp: executeFetch_def Let_def dest!: pinAndConnect_budget [OF assms(1)] split: option.splits if_splits)

lemma fetch_budget:
  assumes "withinBudget policy session" "fetch E N policy env request session = (outcome, session', calls)"
  shows "withinBudget policy session' \<and> se_hops session' \<le> se_hops session + 1"
proof (cases "se_hops session + 1 \<le> tp_maxHops policy")
  case True
  then have "withinBudget policy (session\<lparr>se_hops := se_hops session + 1\<rparr>)"
    using assms(1) by (simp add: withinBudget_def)
  from executeFetch_budget [OF this] show ?thesis
    using assms by (fastforce simp: fetch_def Let_def split: if_splits prod.splits)
qed (use assms in \<open>auto simp: fetch_def Let_def split: if_splits\<close>)

lemma fetches_budget:
  "withinBudget policy session \<Longrightarrow> withinBudget policy (snd (fetches E N policy steps session))"
  by (induction E N policy steps session rule: fetches.induct) (auto split: prod.splits dest: fetch_budget)

subsection \<open>The calls of a fetch\<close>

text \<open>
  The contract of the boundary as a set of call sequences: which requests may reach the network at
  all, which address is dialled, and in which order the ports are called.
\<close>

definition permitted :: "net_platform \<Rightarrow> SafeFetchRequest \<Rightarrow> url_view \<Rightarrow> ustring option \<Rightarrow> bool" where
  "permitted N request url referer \<longleftrightarrow>
     rq_authorizedUrl request = Some (rq_url request) \<and> np_URL N (rq_url request) = Some url \<and>
     uv_protocol url \<in> {''http:'', ''https:''} \<and> rq_method request \<in> {None, Some ''GET'', Some ''HEAD''} \<and>
     uv_username url = [] \<and> uv_password url = [] \<and>
     (case rq_sameOriginReferer request of
        None \<Rightarrow> referer = None
      | Some candidate \<Rightarrow> referer \<noteq> None \<and> referer = sameOriginRefererValue N url candidate)"

definition answersOf :: "net_platform \<Rightarrow> fetch_env \<Rightarrow> ustring \<Rightarrow> DnsAddress list option" where
  "answersOf N env host =
     (case fst (resolveAnswers N env host) of Answered answers \<Rightarrow> Some answers | _ \<Rightarrow> None)"

definition pinnable :: "net_platform \<Rightarrow> fetch_env \<Rightarrow> ustring \<Rightarrow> ustring \<Rightarrow> bool" where
  "pinnable N env host a \<longleftrightarrow> (\<exists>answers. answersOf N env host = Some answers \<and> answers \<noteq> [] \<and>
     a = da_address (hd answers) \<and> (\<forall>d\<in>set answers. publicDestination N (da_address d)))"

definition lookup :: "net_platform \<Rightarrow> url_view \<Rightarrow> port_call list" where
  "lookup N url = (if isLiteral N (unbracket (uv_hostname url)) then [] else [ResolveCall (unbracket (uv_hostname url))])"

definition dial :: "url_view \<Rightarrow> ustring \<Rightarrow> port_call" where
  "dial url a = ConnectCall (uv_protocol url) (unbracket (uv_hostname url)) a (effectivePort url)
     (if uv_protocol url = ''https:'' then Some (unbracket (uv_hostname url)) else None)"

definition ask :: "platform \<Rightarrow> SafeFetchRequest \<Rightarrow> url_view \<Rightarrow> ustring option \<Rightarrow> TransportConnection \<Rightarrow> port_call" where
  "ask E request url referer c =
     RequestCall (tc_id c) (uv_href url) (case rq_method request of None \<Rightarrow> ''GET'' | Some m \<Rightarrow> m)
       (destinationHeaders E (uv_host url) (rq_headers request) referer)"

inductive safeTrace :: "platform \<Rightarrow> net_platform \<Rightarrow> fetch_env \<Rightarrow> SafeFetchRequest \<Rightarrow> port_call list \<Rightarrow> bool"
  for E N env request where
  silent: "safeTrace E N env request []"
| looked_up: "permitted N request url referer \<Longrightarrow> safeTrace E N env request (lookup N url)"
| unanswered: "permitted N request url referer \<Longrightarrow> pinnable N env (unbracket (uv_hostname url)) a \<Longrightarrow>
    \<forall>c. fe_connect env \<noteq> Answered c \<Longrightarrow> safeTrace E N env request (lookup N url @ [dial url a])"
| dropped: "permitted N request url referer \<Longrightarrow> pinnable N env (unbracket (uv_hostname url)) a \<Longrightarrow>
    fe_connect env = Answered c \<Longrightarrow> safeTrace E N env request (lookup N url @ [dial url a, CloseCall (tc_id c)])"
| requested: "permitted N request url referer \<Longrightarrow> pinnable N env (unbracket (uv_hostname url)) a \<Longrightarrow>
    fe_connect env = Answered c \<Longrightarrow> connectionMatches N (uv_protocol url) (effectivePort url) a c \<Longrightarrow>
    identityHolds (uv_protocol url) (unbracket (uv_hostname url)) c \<Longrightarrow>
    safeTrace E N env request (lookup N url @ [dial url a, ask E request url referer c, CloseCall (tc_id c)])"

lemma useConnection_calls:
  assumes "useConnection E N policy env request url referer hostname pinned st c session = (out, session', calls)"
  shows "calls = [] \<or> calls = [ask E request url referer c] \<and>
    connectionMatches N (uv_protocol url) (effectivePort url) pinned c \<and> identityHolds (uv_protocol url) hostname c"
  using assms by (auto simp: useConnection_def ask_def Let_def split: if_splits awaited.splits prod.splits option.splits)

lemma connectPinned_trace:
  assumes "permitted N request url referer" "pinnable N env (unbracket (uv_hostname url)) a"
    "connectPinned E N policy env request url referer (unbracket (uv_hostname url)) a st session = (out, session', calls)"
  shows "safeTrace E N env request (lookup N url @ calls)"
proof (cases "fe_connect env")
  case (Answered c)
  obtain out' calls' where use:
    "useConnection E N policy env request url referer (unbracket (uv_hostname url)) a st c session = (out', session', calls')"
    and calls: "calls = dial url a # calls' @ [CloseCall (tc_id c)]"
    using assms(3) Answered by (auto simp: connectPinned_def dial_def Let_def split: prod.splits)
  from useConnection_calls [OF use] show ?thesis
    using calls dropped [OF assms(1,2) Answered] requested [OF assms(1,2) Answered] by auto
qed (use assms unanswered [OF assms(1,2)] in \<open>auto simp: connectPinned_def dial_def Let_def\<close>)

lemma resolveAnswers_lookup: "snd (resolveAnswers N env (unbracket (uv_hostname url))) = lookup N url"
  by (simp add: resolveAnswers_def lookup_def)

lemma pinAndConnect_trace:
  assumes ok: "permitted N request url referer"
    and run: "pinAndConnect E N policy env request url referer st session = (out, session', calls)"
  shows "safeTrace E N env request calls"
proof -
  define host where "host = unbracket (uv_hostname url)"
  obtain answers where r: "resolveAnswers N env host = (answers, lookup N url)"
    using resolveAnswers_lookup [of N env url] by (metis host_def prod.collapse)
  have looked: "safeTrace E N env request (lookup N url)" by (rule looked_up [OF ok])
  show ?thesis
  proof (cases "\<exists>addresses resolved selected. answers = Answered addresses \<and> pinAddresses N addresses = Pinned resolved selected \<and> \<not> fe_abortedDns env")
    case True
    then obtain addresses resolved selected where a: "answers = Answered addresses"
      and pin: "pinAddresses N addresses = Pinned resolved selected" and "\<not> fe_abortedDns env" by blast
    moreover have "pinnable N env host (da_address selected)"
      using pinAddresses_Pinned [OF pin] r a by (auto simp: pinnable_def answersOf_def)
    ultimately show ?thesis
      using run r connectPinned_trace [OF ok] by (fastforce simp: pinAndConnect_def host_def Let_def split: prod.splits)
  next
    case False
    then show ?thesis
      using run r looked by (auto simp: pinAndConnect_def host_def Let_def split: awaited.splits if_splits PinResult.splits)
  qed
qed

lemma fetch_safeTrace:
  assumes "fetch E N policy env request session = (outcome, session', calls)"
  shows "safeTrace E N env request calls"
proof (cases calls)
  case (Cons call rest)
  then obtain url referer st session1 out where "permitted N request url referer"
    "pinAndConnect E N policy env request url referer st session1 = (out, session', calls)"
    using assms
    by (auto simp: fetch_def executeFetch_def permitted_def Let_def split: if_splits prod.splits option.splits)
  then show ?thesis by (rule pinAndConnect_trace)
qed (simp add: silent)

subsection \<open>What a success has done\<close>

definition charge :: "SafeSession \<Rightarrow> SafeFetchResponse \<Rightarrow> SafeSession" where
  "charge s r = s\<lparr>se_encodedBytes := se_encodedBytes s + fr_encodedBytes r,
     se_decompressedBytes := se_decompressedBytes s + length (fr_body r)\<rparr>"

definition wellFormedResponse :: "ustring \<Rightarrow> SafeFetchResponse \<Rightarrow> bool" where
  "wellFormedResponse href r \<longleftrightarrow> fr_url r = href \<and> 100 \<le> fr_status r \<and> fr_status r \<le> 599 \<and>
     fr_decompressedBytes r = length (fr_body r)"

lemma status_range: "\<lbrakk>q \<in> \<int>; \<not> q < 100; \<not> 599 < q\<rbrakk> \<Longrightarrow> 100 \<le> nat \<lfloor>q\<rfloor> \<and> nat \<lfloor>q\<rfloor> \<le> 599" for q :: rat
  by (auto elim!: Ints_cases)

lemma readResponse_Returned:
  assumes "readResponse E N policy env href st response session = (Returned outcome, session')"
  shows "\<exists>r. outcome = FetchSuccess st r \<and> wellFormedResponse href r \<and> session' = charge session r"
proof (cases "hr_status response")
  case (Finite q)
  obtain x n where read: "readEncodedBody policy (se_encodedBytes session) 0 [] (hr_events response) (hr_end response) = (x, n)"
    by fastforce
  then show ?thesis
    using assms Finite status_range [of q]
    by (cases x) (auto simp: readResponse_def wellFormedResponse_def charge_def Let_def
        split: if_splits sum.splits decode_error.splits dest!: readEncodedBody_charged)
qed (use assms in \<open>auto simp: readResponse_def\<close>)

lemma useConnection_Returned:
  assumes "useConnection E N policy env request url referer hostname pinned st c session = (Returned outcome, session', calls)"
  shows "\<exists>st' r. outcome = FetchSuccess st' r \<and> as_selectedAddress st' = as_selectedAddress st \<and> wellFormedResponse (uv_href url) r \<and>
    session' = charge session r \<and> calls = [ask E request url referer c] \<and>
    connectionMatches N (uv_protocol url) (effectivePort url) pinned c \<and> identityHolds (uv_protocol url) hostname c"
  using assms
  by (auto simp: useConnection_def ask_def Let_def dest!: readResponse_Returned split: if_splits awaited.splits prod.splits option.splits)

lemma afterClose_Returned: "afterClose env out = Returned outcome \<Longrightarrow> out = Returned outcome"
  by (cases out) (auto split: if_splits)

text \<open>The whole story of a success: the destination, the connection, the calls and the charges.\<close>

definition successStory ::
    "platform \<Rightarrow> net_platform \<Rightarrow> fetch_env \<Rightarrow> SafeFetchRequest \<Rightarrow> SafeSession \<Rightarrow> AttemptState \<Rightarrow> SafeFetchResponse \<Rightarrow>
     SafeSession \<Rightarrow> port_call list \<Rightarrow> bool" where
  "successStory E N env request session st r session' calls \<longleftrightarrow>
     (\<exists>url referer a c. permitted N request url referer \<and> pinnable N env (unbracket (uv_hostname url)) a \<and>
        as_selectedAddress st = Some a \<and> fe_connect env = Answered c \<and>
        connectionMatches N (uv_protocol url) (effectivePort url) a c \<and>
        identityHolds (uv_protocol url) (unbracket (uv_hostname url)) c \<and>
        calls = lookup N url @ [dial url a, ask E request url referer c, CloseCall (tc_id c)] \<and>
        wellFormedResponse (uv_href url) r \<and> session' = charge session r)"

lemma pinAndConnect_success:
  assumes ok: "permitted N request url referer"
    and run: "pinAndConnect E N policy env request url referer st0 session = (Returned (FetchSuccess st r), session', calls)"
  shows "successStory E N env request session st r session' calls"
proof -
  define host where "host = unbracket (uv_hostname url)"
  obtain answers where res: "resolveAnswers N env host = (answers, lookup N url)"
    using resolveAnswers_lookup [of N env url] by (metis host_def prod.collapse)
  obtain addresses resolved selected calls' where a: "answers = Answered addresses"
    and pin: "pinAddresses N addresses = Pinned resolved selected"
    and con: "connectPinned E N policy env request url referer host (da_address selected)
        (st0\<lparr>as_resolvedAddresses := Some (map da_address addresses), as_selectedAddress := Some (da_address selected)\<rparr>) session =
      (Returned (FetchSuccess st r), session', calls')" and calls: "calls = lookup N url @ calls'"
    using run res
    by (auto simp: pinAndConnect_def host_def Let_def split: awaited.splits if_splits PinResult.splits prod.splits)
  have "pinnable N env host (da_address selected)"
    using pinAddresses_Pinned [OF pin] res a by (auto simp: pinnable_def answersOf_def)
  moreover obtain c calls'' where "fe_connect env = Answered c"
    "useConnection E N policy env request url referer host (da_address selected)
        (st0\<lparr>as_resolvedAddresses := Some (map da_address addresses), as_selectedAddress := Some (da_address selected)\<rparr>) c session =
      (Returned (FetchSuccess st r), session', calls'')"
    "calls' = dial url (da_address selected) # calls'' @ [CloseCall (tc_id c)]"
    using con by (auto simp: connectPinned_def dial_def host_def Let_def dest!: afterClose_Returned split: awaited.splits prod.splits)
  ultimately show ?thesis
    using ok calls
    by (auto simp: successStory_def host_def dest!: useConnection_Returned intro!: exI [of _ url] exI [of _ referer])
qed

lemma settleFetch_success: "settleFetch policy out = FetchSuccess st r \<Longrightarrow> out = Returned (FetchSuccess st r)"
  by (cases "(policy, out)" rule: settleFetch.cases) (auto split: if_splits)

lemma fetch_success:
  assumes "fetch E N policy env request session = (FetchSuccess st r, session', calls)"
  shows "successStory E N env request (session\<lparr>se_hops := se_hops session + 1\<rparr>) st r session' calls"
proof -
  obtain url referer st0 where "permitted N request url referer"
    "pinAndConnect E N policy env request url referer st0 (session\<lparr>se_hops := se_hops session + 1\<rparr>) =
      (Returned (FetchSuccess st r), session', calls)"
    using assms
    by (auto simp: fetch_def executeFetch_def permitted_def Let_def split: if_splits prod.splits option.splits
        dest!: settleFetch_success)
  then show ?thesis by (rule pinAndConnect_success)
qed

subsection \<open>What a refusal has not done\<close>

lemma connectPinned_Returned:
  assumes "connectPinned E N policy env request url referer hostname a st0 session = (Returned outcome, session', calls)"
  shows "\<exists>st r. outcome = FetchSuccess st r"
  using assms
  by (auto simp: connectPinned_def Let_def dest!: afterClose_Returned useConnection_Returned split: awaited.splits prod.splits)

lemma settleFetch_blocked: "settleFetch policy out = FetchBlocked st code d \<Longrightarrow> out = Returned (FetchBlocked st code d)"
  by (cases "(policy, out)" rule: settleFetch.cases) (auto split: if_splits)

lemma pinAndConnect_blocked:
  assumes "pinAndConnect E N policy env request url referer st0 session = (Returned (FetchBlocked st code d), session', calls)"
  shows "code = Prohibited_address \<and> session' = session \<and> calls = lookup N url \<and>
    (\<exists>a category. d = AddressDetail a category \<and> \<not> publicDestination N a \<and> (\<exists>rs. as_resolvedAddresses st = Some rs \<and> a \<in> set rs))"
proof -
  obtain answers where res: "resolveAnswers N env (unbracket (uv_hostname url)) = (answers, lookup N url)"
    using resolveAnswers_lookup [of N env url] by (metis prod.collapse)
  show ?thesis
    using assms res
    by (auto simp: pinAndConnect_def Let_def split: awaited.splits if_splits PinResult.splits prod.splits
        dest!: connectPinned_Returned pinAddresses_Prohibited)
qed

lemma fetch_blocked:
  assumes "fetch E N policy env request session = (FetchBlocked st code d, session', calls)"
  shows "(calls = [] \<or> (\<exists>host. calls = [ResolveCall host])) \<and>
    session' = (if code = Authorization_required then session else session\<lparr>se_hops := se_hops session + 1\<rparr>)"
  using assms
  by (auto simp: fetch_def executeFetch_def Let_def lookup_def split: if_splits prod.splits option.splits
      dest!: settleFetch_blocked pinAndConnect_blocked)

subsection \<open>The properties of the boundary\<close>

lemma lookup_calls: "x \<in> set (lookup N url) \<Longrightarrow> x = ResolveCall (unbracket (uv_hostname url))"
  by (auto simp: lookup_def split: if_splits)

lemma safeTrace_dial:
  assumes "safeTrace E N env request calls" and "ConnectCall protocol host a port server \<in> set calls"
  shows "(\<exists>url referer. permitted N request url referer \<and> protocol = uv_protocol url \<and>
      host = unbracket (uv_hostname url) \<and> port = effectivePort url \<and> pinnable N env host a) \<and>
    server = (if protocol = ''https:'' then Some host else None) \<and>
    (\<forall>c. fe_connect env = Answered c \<longrightarrow> last calls = CloseCall (tc_id c))"
  using assms by cases (auto simp: dial_def ask_def dest: lookup_calls)

text \<open>A network with one name, one public address and one page, for the examples.\<close>

definition demoUrl :: url_view where
  "demoUrl = \<lparr>uv_href = str ''https://example.com/'', uv_fullHref = str ''https://example.com/'', uv_protocol = ''https:'', uv_username = [], uv_password = [],
     uv_hostname = str ''example.com'', uv_host = str ''example.com'', uv_port = [], uv_origin = str ''https://example.com''\<rparr>"

definition demoNet :: net_platform where
  "demoNet = \<lparr>np_isIP = (\<lambda>s. if s = str ''8.8.8.8'' then 4 else 0), np_inSubnet = (\<lambda>_ _ _ _. False),
     np_sameAddress = (\<lambda>_ l r. l = r), np_URL = (\<lambda>s. if s = str ''https://example.com/'' then Some demoUrl else None),
     np_gunzip = (\<lambda>_ _. Corrupt), np_inflate = (\<lambda>_ _. Corrupt), np_brotli = (\<lambda>_ _. Corrupt)\<rparr>"

definition demoRequest :: SafeFetchRequest where
  "demoRequest = \<lparr>rq_url = str ''https://example.com/'', rq_authorizedUrl = Some (str ''https://example.com/''), rq_method = None,
     rq_headers = [], rq_sameOriginReferer = None\<rparr>"

definition demoConnection :: TransportConnection where
  "demoConnection = \<lparr>tc_id = str ''c1'', tc_protocol = ''https:'', tc_remoteAddress = str ''8.8.8.8'', tc_remotePort = 443,
     tc_tls = Some \<lparr>tl_authorized = True, tl_serverName = str ''example.com''\<rparr>\<rparr>"

definition demoEnv :: "string \<Rightarrow> fetch_env" where
  "demoEnv answer = \<lparr>fe_aborted = False, fe_remainingMs = 10000,
     fe_resolve = Answered [\<lparr>da_address = str answer, da_family = 4, da_ttlSeconds = Finite 60\<rparr>], fe_abortedDns = False,
     fe_connect = Answered demoConnection, fe_abortedConnect = False,
     fe_request = Answered \<lparr>hr_status = Finite 200, hr_headers = [], hr_events = [Chunk [104, 105]], hr_end = BodyDone\<rparr>,
     fe_abortedHttp = False, fe_abortedBody = False, fe_late = False, fe_cutClose = False, fe_abortedClose = False\<rparr>"

definition demoState :: AttemptState where
  "demoState = \<lparr>as_subject = str ''https://example.com/'', as_hop = 1, as_protocol = Some ''https:'',
     as_hostname = Some (str ''example.com''), as_port = Some 443, as_resolvedAddresses = Some [str ''8.8.8.8''],
     as_selectedAddress = Some (str ''8.8.8.8''), as_tls = tc_tls demoConnection\<rparr>"

definition demoResponse :: SafeFetchResponse where
  "demoResponse = \<lparr>fr_url = str ''https://example.com/'', fr_status = 200, fr_headers = [], fr_body = [104, 105],
     fr_encodedBytes = 2, fr_decompressedBytes = 2\<rparr>"

lemmas demo_defs = demoUrl_def demoNet_def demoRequest_def demoConnection_def demoEnv_def demoState_def demoResponse_def

lemma demo_unlisted: "\<forall>row\<in>set (IPV4_SPECIAL_RANGES @ [MULTICAST_IPV4]). \<not> inRange4 0x08080808 row"
  unfolding IPV4_SPECIAL_RANGES_def MULTICAST_IPV4_def
  by (simp add: row4_def inRange4_def xor_num.simps)

lemma demo_address: "address (str ''8.8.8.8'') = Some (V4 0x08080808)"
proof -
  have "map_option (dottedToInt \<circ> v4_canonical) (analyzeIpv4 (str ''8.8.8.8'')) = Some 0x08080808"
    by (simp add: ip_eval dottedToInt_def)
  then show ?thesis by (auto simp: address_def)
qed

lemma demo_bucket: "bucketOf (V4 0x08080808) = None"
proof -
  have "find (inRange4 0x08080808) IPV4_RANGES = None"
    unfolding IPV4_RANGES_def find_None_iff set_sort using demo_unlisted by blast
  then show ?thesis by (simp add: bucket4_def matchIpv4Range_def)
qed

lemma demo_public: "td_allowed (classifyTransportAddress demoNet (str ''8.8.8.8''))"
  unfolding classifyTransportAddress_public publicDestination_def demo_address Option.bind.simps demo_bucket
  by (simp add: isLiteral_def demoNet_def list_all_iff)

lemma demo_unbracket: "unbracket (str ''example.com'') = str ''example.com''"
  by code_simp

lemma demo_pin:
  "pinAddresses demoNet [\<lparr>da_address = str ''8.8.8.8'', da_family = 4, da_ttlSeconds = Finite 60\<rparr>] =
     Pinned [str ''8.8.8.8''] \<lparr>da_address = str ''8.8.8.8'', da_family = 4, da_ttlSeconds = Finite 60\<rparr>"
  using demo_public by (simp add: pinAddresses_def hasMalformedAddress_def demoNet_def)

lemma demo_net [simp]:
  "np_URL demoNet (str ''https://example.com/'') = Some demoUrl"
  "np_isIP demoNet (str ''8.8.8.8'') = 4" "np_isIP demoNet (str ''example.com'') = 0"
  "np_sameAddress demoNet family l r \<longleftrightarrow> l = r"
  by (simp_all add: demoNet_def)

lemmas transport_eval = fetch_def executeFetch_def pinAndConnect_def resolveAnswers_def isLiteral_def connectPinned_def
  useConnection_def readResponse_def connectionMatches_def identityHolds_def addressesEqual_def effectivePort_def
  exceedsHeaderBudget_def decodeResponseBody_def contentEncodings_def DEFAULT_TRANSPORT_POLICY_def newSession_def Let_def

lemma demo_fetch:
  "fetch ascii_platform demoNet DEFAULT_TRANSPORT_POLICY (demoEnv ''8.8.8.8'') demoRequest newSession =
     (FetchSuccess demoState demoResponse, \<lparr>se_hops = 1, se_encodedBytes = 2, se_decompressedBytes = 2\<rparr>,
      [ResolveCall (str ''example.com''), dial demoUrl (str ''8.8.8.8''),
       ask ascii_platform demoRequest demoUrl None demoConnection, CloseCall (str ''c1'')])"
  by (simp add: transport_eval demo_pin demo_unbracket demoUrl_def demoRequest_def demoConnection_def demoEnv_def
      demoState_def demoResponse_def dial_def ask_def)

text \<open>
  C9: A session connects only where the caller authorized it and only to a public address. Every
  connection is for an authorized http or https URL without credentials, to the host and port of that
  URL, with that host as the TLS server name exactly for https; the address is the first answer of the
  resolution of that host (or the literal itself), and every answer, not only the one used, is an IP
  literal outside the supplemental ranges and, as far as the core parser reads it, outside all
  special-purpose ranges of the core classifier. A connection that was established is closed as the
  last call.
\<close>

theorem fetch_dials_public:
  assumes "fetch E N policy env request session = (outcome, session', calls)"
    and "ConnectCall protocol host a port server \<in> set calls"
  shows "(\<exists>url referer. permitted N request url referer \<and> protocol = uv_protocol url \<and>
      host = unbracket (uv_hostname url) \<and> port = effectivePort url \<and> pinnable N env host a) \<and>
    server = (if protocol = ''https:'' then Some host else None) \<and>
    (\<forall>c. fe_connect env = Answered c \<longrightarrow> last calls = CloseCall (tc_id c))"
  using safeTrace_dial [OF fetch_safeTrace [OF assms(1)] assms(2)] .

theorem fetch_dials_public_witness:
  "\<exists>url referer. permitted demoNet demoRequest url referer \<and> ''https:'' = uv_protocol url \<and>
     str ''example.com'' = unbracket (uv_hostname url) \<and> 443 = effectivePort url \<and>
     pinnable demoNet (demoEnv ''8.8.8.8'') (str ''example.com'') (str ''8.8.8.8'')"
  using fetch_dials_public [OF demo_fetch, of "''https:''" "str ''example.com''" "str ''8.8.8.8''" 443 "Some (str ''example.com'')"]
  by (simp add: dial_def demoUrl_def effectivePort_def demo_unbracket)

lemma connectionMatches_address:
  "connectionMatches N protocol port a c \<Longrightarrow> tc_protocol c = protocol \<and> tc_remotePort c = port \<and>
     np_isIP N a \<in> {4, 6} \<and> np_isIP N (tc_remoteAddress c) = np_isIP N a \<and> np_sameAddress N (np_isIP N a) a (tc_remoteAddress c)"
  by (auto simp: connectionMatches_def addressesEqual_def Let_def split: if_splits)

lemma identityHolds_tls:
  "identityHolds ''https:'' host c \<Longrightarrow> \<exists>t. tc_tls c = Some t \<and> tl_authorized t \<and> tl_serverName t = host"
  by (auto simp: identityHolds_def split: option.splits)

lemma destinationHeaders_allowed:
  assumes "destinationHeaders E host input referer name = Some v"
  shows "name \<in> {str ''host'', str ''accept-encoding'', str ''referer''} \<or>
    name \<in> {str ''accept'', str ''accept-language'', str ''user-agent''} \<and>
    (\<exists>k. (k, StrVal v) \<in> set input \<and> pf_toLowerCase E k = name) \<and> set v \<inter> {0, 10, 13} = {}"
  using destinationHeaders_other [OF assms] by (auto simp: FORWARDED_REQUEST_HEADERS_def splitsRequest_def list_ex_iff)

lemma permitted_referer:
  assumes "permitted N request url (Some v)"
  shows "\<exists>candidate r. rq_sameOriginReferer request = Some candidate \<and> np_URL N candidate = Some r \<and> v = uv_href r \<and>
    uv_origin r = uv_origin url \<and> uv_username r = [] \<and> uv_password r = []"
  using assms sameOriginRefererValue_Some [of N url _ v]
  by (cases "rq_sameOriginReferer request") (fastforce simp: permitted_def)+

text \<open>
  C10: A request is sent only over the connection that was just made to the pinned address, after the
  reported protocol, port and remote address of that connection were found to be those of the URL and
  of the pinned address, and, for https, after the peer's certificate was authorized for the very host
  name of the URL. The URL asked for is the authorized one. The host and accept-encoding headers are the
  session's own; a referer is the address of a page of the same origin without credentials, from the
  same-origin channel; and of the caller's headers only accept, accept-language and user-agent pass,
  with the caller's value, if it contains no NUL, LF or CR.
\<close>

theorem fetch_asks_pinned_peer:
  assumes "fetch E N policy env request session = (outcome, session', calls)"
    and "RequestCall i href httpMethod headers \<in> set calls"
  shows "\<exists>url a c. rq_authorizedUrl request = Some (rq_url request) \<and> np_URL N (rq_url request) = Some url \<and>
      href = uv_href url \<and> httpMethod \<in> {''GET'', ''HEAD''} \<and> httpMethod = (case rq_method request of None \<Rightarrow> ''GET'' | Some m \<Rightarrow> m) \<and>
      dial url a \<in> set calls \<and> pinnable N env (unbracket (uv_hostname url)) a \<and> fe_connect env = Answered c \<and> i = tc_id c \<and>
      tc_protocol c = uv_protocol url \<and>
      tc_remotePort c = (if uv_port url \<noteq> [] then radix_val 10 (uv_port url) else if uv_protocol url = ''https:'' then 443 else 80) \<and>
      np_isIP N a \<in> {4, 6} \<and> np_isIP N (tc_remoteAddress c) = np_isIP N a \<and> np_sameAddress N (np_isIP N a) a (tc_remoteAddress c) \<and>
      (uv_protocol url = ''https:'' \<longrightarrow>
         (\<exists>t. tc_tls c = Some t \<and> tl_authorized t \<and> tl_serverName t = unbracket (uv_hostname url))) \<and>
      headers (str ''host'') = Some (uv_host url) \<and> headers (str ''accept-encoding'') = Some (str ''gzip, deflate, br'') \<and>
      (\<forall>v. headers (str ''referer'') = Some v \<longrightarrow> (\<exists>candidate r. rq_sameOriginReferer request = Some candidate \<and>
         np_URL N candidate = Some r \<and> v = uv_href r \<and> uv_origin r = uv_origin url \<and> uv_username r = [] \<and> uv_password r = [])) \<and>
      (\<forall>name v. headers name = Some v \<longrightarrow> name \<in> {str ''host'', str ''accept-encoding'', str ''referer''} \<or>
         name \<in> {str ''accept'', str ''accept-language'', str ''user-agent''} \<and>
         (\<exists>k. (k, StrVal v) \<in> set (rq_headers request) \<and> pf_toLowerCase E k = name) \<and> set v \<inter> {0, 10, 13} = {})"
  using fetch_safeTrace [OF assms(1)]
proof cases
  case (requested url referer a c)
  with assms(2) have call: "i = tc_id c" "href = uv_href url" "httpMethod = (case rq_method request of None \<Rightarrow> ''GET'' | Some m \<Rightarrow> m)"
    "headers = destinationHeaders E (uv_host url) (rq_headers request) referer" "dial url a \<in> set calls"
    by (auto simp: dial_def ask_def dest: lookup_calls)
  have "httpMethod \<in> {''GET'', ''HEAD''}" "rq_authorizedUrl request = Some (rq_url request)" "np_URL N (rq_url request) = Some url"
    using requested(2) call(3) by (auto simp: permitted_def)
  moreover note connectionMatches_address [OF requested(5)]
  moreover have "uv_protocol url = ''https:'' \<longrightarrow>
      (\<exists>t. tc_tls c = Some t \<and> tl_authorized t \<and> tl_serverName t = unbracket (uv_hostname url))"
    using requested(6) identityHolds_tls by metis
  moreover have "\<forall>v. headers (str ''referer'') = Some v \<longrightarrow> (\<exists>candidate r. rq_sameOriginReferer request = Some candidate \<and>
      np_URL N candidate = Some r \<and> v = uv_href r \<and> uv_origin r = uv_origin url \<and> uv_username r = [] \<and> uv_password r = [])"
    using requested(2) permitted_referer unfolding call(4) destinationHeaders_fixed(3) by blast
  moreover have "\<forall>name v. headers name = Some v \<longrightarrow> name \<in> {str ''host'', str ''accept-encoding'', str ''referer''} \<or>
      name \<in> {str ''accept'', str ''accept-language'', str ''user-agent''} \<and>
      (\<exists>k. (k, StrVal v) \<in> set (rq_headers request) \<and> pf_toLowerCase E k = name) \<and> set v \<inter> {0, 10, 13} = {}"
    unfolding call(4) using destinationHeaders_allowed by blast
  ultimately show ?thesis
    using call requested(3,4) destinationHeaders_fixed(1,2) [of E "uv_host url" "rq_headers request" referer]
    unfolding effectivePort_def by (intro exI [of _ url] exI [of _ a] exI [of _ c]) simp
qed (use assms(2) in \<open>auto simp: dial_def dest: lookup_calls\<close>)

theorem fetch_asks_pinned_peer_witness:
  "\<exists>url a c t. np_URL demoNet (rq_url demoRequest) = Some url \<and> fe_connect (demoEnv ''8.8.8.8'') = Answered c \<and>
     tc_remotePort c = 443 \<and> np_sameAddress demoNet (np_isIP demoNet a) a (tc_remoteAddress c) \<and>
     tc_tls c = Some t \<and> tl_authorized t \<and> tl_serverName t = unbracket (uv_hostname url)"
  using fetch_asks_pinned_peer [OF demo_fetch, of "str ''c1''" "str ''https://example.com/''" "''GET''"
      "destinationHeaders ascii_platform (str ''example.com'') [] None"]
  by (auto simp: ask_def demoUrl_def demoRequest_def demoConnection_def)

text \<open>
  C11: However many fetches one session makes, and whatever the ports answer, its cumulative hops,
  encoded bytes and decoded bytes stay within the three budgets of its policy.
\<close>

theorem fetches_within_budget:
  "se_hops (snd (fetches E N policy steps newSession)) \<le> tp_maxHops policy \<and>
   se_encodedBytes (snd (fetches E N policy steps newSession)) \<le> tp_maxResponseBytes policy \<and>
   se_decompressedBytes (snd (fetches E N policy steps newSession)) \<le> tp_maxDecompressedBytes policy"
  using fetches_budget [of policy newSession E N steps] by (simp add: withinBudget_def newSession_def)

text \<open>
  C16: A fetch that succeeds made exactly the calls of one exchange (the lookup of a name, one
  connection to the pinned address, one request on it, its close), reports that address, a status in
  100..599 and a body whose sizes are the ones charged to the session, and the charged session is still
  within its budgets.
\<close>

theorem fetch_success_sound:
  assumes "withinBudget policy session"
    and "fetch E N policy env request session = (FetchSuccess st r, session', calls)"
  shows "successStory E N env request (session\<lparr>se_hops := se_hops session + 1\<rparr>) st r session' calls \<and>
    withinBudget policy session'"
  using fetch_success [OF assms(2)] fetch_budget [OF assms] by simp

theorem fetch_success_sound_witness:
  "successStory ascii_platform demoNet (demoEnv ''8.8.8.8'') demoRequest (newSession\<lparr>se_hops := 1\<rparr>) demoState demoResponse
     \<lparr>se_hops = 1, se_encodedBytes = 2, se_decompressedBytes = 2\<rparr>
     [ResolveCall (str ''example.com''), dial demoUrl (str ''8.8.8.8''),
      ask ascii_platform demoRequest demoUrl None demoConnection, CloseCall (str ''c1'')]"
  using fetch_success_sound [OF _ demo_fetch]
  by (simp add: withinBudget_def newSession_def DEFAULT_TRANSPORT_POLICY_def)

text \<open>
  C17: A blocked fetch has no effect beyond a name lookup and the hop it uses up: its only call is at
  most one resolution, no connection is opened and no request is sent; a request without its own
  authorization leaves the session as it was, any other refusal consumes one hop and nothing else.
\<close>

theorem fetch_blocked_silent:
  assumes "fetch E N policy env request session = (FetchBlocked st code d, session', calls)"
  shows "(calls = [] \<or> (\<exists>host. calls = [ResolveCall host])) \<and>
    session' = (if code = Authorization_required then session else session\<lparr>se_hops := se_hops session + 1\<rparr>)"
  by (rule fetch_blocked [OF assms])

theorem fetch_blocked_silent_witness:
  "case fetch ascii_platform demoNet DEFAULT_TRANSPORT_POLICY (demoEnv ''8.8.8.8'') (demoRequest\<lparr>rq_method := Some ''POST''\<rparr>) newSession of
     (outcome, session', calls) \<Rightarrow> session' = newSession\<lparr>se_hops := 1\<rparr> \<and> (calls = [] \<or> (\<exists>host. calls = [ResolveCall host]))"
proof -
  obtain st d calls session' where run: "fetch ascii_platform demoNet DEFAULT_TRANSPORT_POLICY (demoEnv ''8.8.8.8'')
     (demoRequest\<lparr>rq_method := Some ''POST''\<rparr>) newSession = (FetchBlocked st Unsupported_method d, session', calls)"
    by (simp add: fetch_def executeFetch_def demoRequest_def demoUrl_def newSession_def demoEnv_def DEFAULT_TRANSPORT_POLICY_def Let_def)
  from fetch_blocked_silent [OF run] run show ?thesis by (simp add: newSession_def)
qed

end
