(* ===== verification/MimeSniff.thy ===== *)
theory MimeSniff
  imports Platform
begin

text \<open>
  The detection half of MIME sniffing (\<open>resolution/mime-sniff.ts\<close>): the essence computed from a bounded
  prefix of a body and the essence a header declares. A byte is a natural number below 256.
\<close>

datatype SniffMimeRule = SignatureRule | TextPlainRule | OctetStreamRule

record SniffedMimeType =
  sm_declaredEssence :: "ustring option"
  sm_computedEssence :: ustring
  sm_rule :: SniffMimeRule

definition MIME_SNIFF_PREFIX_BYTES :: nat where "MIME_SNIFF_PREFIX_BYTES = 1445"

definition WHITESPACE_BYTES :: "nat set" where "WHITESPACE_BYTES = {0x09, 0x0a, 0x0c, 0x0d, 0x20}"

definition TAG_TERMINATORS :: "nat list" where "TAG_TERMINATORS = [0x20, 0x3e]"

text \<open>A pattern byte \<open>None\<close> is masked.\<close>

definition bytes :: "string \<Rightarrow> nat option list" where "bytes literal = map Some (str literal)"

definition BINARY_SIGNATURES :: "(string \<times> nat option list) list" where
  "BINARY_SIGNATURES =
     [(''image/gif'', bytes ''GIF87a''),
      (''image/gif'', bytes ''GIF89a''),
      (''image/png'', map Some [0x89, 0x50, 0x4e, 0x47, 0x0d, 0x0a, 0x1a, 0x0a]),
      (''image/jpeg'', map Some [0xff, 0xd8, 0xff]),
      (''image/webp'', bytes ''RIFF'' @ [None, None, None, None] @ bytes ''WEBP''),
      (''image/bmp'', bytes ''BM''),
      (''image/vnd.microsoft.icon'', map Some [0x00, 0x00, 0x01, 0x00]),
      (''image/vnd.microsoft.icon'', map Some [0x00, 0x00, 0x02, 0x00]),
      (''application/pdf'', bytes ''%PDF-''),
      (''application/postscript'', bytes ''%!PS-Adobe-''),
      (''application/zip'', map Some [0x50, 0x4b, 0x03, 0x04]),
      (''application/gzip'', map Some [0x1f, 0x8b, 0x08]),
      (''application/x-rar-compressed'', map Some [0x52, 0x61, 0x72, 0x20, 0x1a, 0x07, 0x00])]"

definition HTML_TAGS :: "string list" where
  "HTML_TAGS = [''<!DOCTYPE HTML'', ''<HTML'', ''<HEAD'', ''<SCRIPT'', ''<IFRAME'', ''<H1'', ''<DIV'', ''<FONT'', ''<TABLE'',
     ''<A'', ''<STYLE'', ''<TITLE'', ''<B'', ''<BODY'', ''<BR'', ''<P'']"

text \<open>A view from an offset on is the rest of the view; a pattern that does not fit does not match.\<close>

fun matchesAt :: "nat list \<Rightarrow> nat option list \<Rightarrow> bool" where
  "matchesAt view [] = True"
| "matchesAt [] (expected # pattern) = False"
| "matchesAt (b # view) (expected # pattern) = ((expected = None \<or> expected = Some b) \<and> matchesAt view pattern)"

definition toLowerAscii :: "nat \<Rightarrow> nat" where
  "toLowerAscii b = (if 0x41 \<le> b \<and> b \<le> 0x5a then b + 0x20 else b)"

definition byteMatchesInsensitive :: "nat \<Rightarrow> nat \<Rightarrow> bool" where
  "byteMatchesInsensitive actual expected \<longleftrightarrow> toLowerAscii actual = toLowerAscii expected"

text \<open>The rest of the view after the token, \<open>None\<close> for \<open>-1\<close>.\<close>

fun matchTagTokenInsensitive :: "nat list \<Rightarrow> ustring \<Rightarrow> nat list option" where
  "matchTagTokenInsensitive view [] = Some view"
| "matchTagTokenInsensitive [] (t # token) = None"
| "matchTagTokenInsensitive (b # view) (t # token) =
     (if byteMatchesInsensitive b t then matchTagTokenInsensitive view token else None)"

definition skipWhitespace :: "nat list \<Rightarrow> nat list" where
  "skipWhitespace view = dropWhile (\<lambda>b. b \<in> WHITESPACE_BYTES) view"

definition isTagTerminator :: "nat \<Rightarrow> bool" where
  "isTagTerminator b \<longleftrightarrow> b \<in> set TAG_TERMINATORS"

definition matchesHtml :: "nat list \<Rightarrow> bool" where
  "matchesHtml view \<longleftrightarrow>
     list_ex (\<lambda>tag. case matchTagTokenInsensitive view (str tag) of Some (b # _) \<Rightarrow> isTagTerminator b | _ \<Rightarrow> False) HTML_TAGS \<or>
     (case matchTagTokenInsensitive view (str ''<!--'') of Some (b # _) \<Rightarrow> b = 0x3e | _ \<Rightarrow> False)"

definition hasBom :: "nat list \<Rightarrow> bool" where
  "hasBom view \<longleftrightarrow> matchesAt view (map Some [0xfe, 0xff]) \<or> matchesAt view (map Some [0xff, 0xfe])
     \<or> matchesAt view (map Some [0xef, 0xbb, 0xbf])"

definition isBinaryDataByte :: "nat \<Rightarrow> bool" where
  "isBinaryDataByte b \<longleftrightarrow> b \<le> 0x08 \<or> b = 0x0b \<or> (0x0e \<le> b \<and> b \<le> 0x1a) \<or> (0x1c \<le> b \<and> b \<le> 0x1f)"

definition textOrBinary :: "nat list \<Rightarrow> ustring \<times> SniffMimeRule" where
  "textOrBinary view =
     (if hasBom view then (str ''text/plain'', TextPlainRule)
      else if list_ex isBinaryDataByte view then (str ''application/octet-stream'', OctetStreamRule)
      else (str ''text/plain'', TextPlainRule))"

definition computeEssence :: "nat list \<Rightarrow> ustring \<times> SniffMimeRule" where
  "computeEssence view =
     (case find (\<lambda>(essence, pattern). matchesAt view pattern) BINARY_SIGNATURES of
        Some (essence, _) \<Rightarrow> (str essence, SignatureRule)
      | None \<Rightarrow>
          if matchesAt (skipWhitespace view) (bytes ''<?xml'') then (str ''text/xml'', SignatureRule)
          else if matchesHtml (skipWhitespace view) then (str ''text/html'', SignatureRule)
          else textOrBinary view)"

text \<open>The pattern asks for one slash between two non-empty words without slash and white space.\<close>

definition isEssence :: "ustring \<Rightarrow> bool" where
  "isEssence s = (case split_on 47 s of
     [t, u] \<Rightarrow> t \<noteq> [] \<and> u \<noteq> [] \<and> \<not> list_ex is_space t \<and> \<not> list_ex is_space u
   | _ \<Rightarrow> False)"

definition parseDeclaredEssence :: "platform \<Rightarrow> ustring option \<Rightarrow> ustring option" where
  "parseDeclaredEssence E declaredType =
     (case declaredType of
        None \<Rightarrow> None
      | Some t \<Rightarrow> (let essence = pf_toLowerCase E (trim (fst (cut_at 59 t))) in
          if isEssence essence then Some essence else None))"

definition sniffMimeType :: "platform \<Rightarrow> nat list \<Rightarrow> ustring option \<Rightarrow> SniffedMimeType" where
  "sniffMimeType E body declaredType =
     (let computed = computeEssence (take MIME_SNIFF_PREFIX_BYTES body) in
      \<lparr>sm_declaredEssence = parseDeclaredEssence E declaredType, sm_computedEssence = fst computed, sm_rule = snd computed\<rparr>)"

subsection \<open>What the rules mean\<close>

text \<open>The three rules partition the results, and a body that sniffs as text has no binary byte or starts with a mark.\<close>

lemma computeEssence_text:
  assumes "computeEssence view = (essence, TextPlainRule)"
  shows "essence = str ''text/plain'' \<and> (hasBom view \<or> (\<forall>b\<in>set view. \<not> isBinaryDataByte b))"
  using assms by (auto simp: computeEssence_def textOrBinary_def list_ex_iff split: option.splits if_splits)

lemma computeEssence_octets:
  assumes "computeEssence view = (essence, OctetStreamRule)"
  shows "essence = str ''application/octet-stream'' \<and> (\<exists>b\<in>set view. isBinaryDataByte b)"
  using assms by (auto simp: computeEssence_def textOrBinary_def list_ex_iff split: option.splits if_splits)

end
