(* ===== verification/RedirectChain.thy ===== *)
theory RedirectChain
  imports Transport Checks MimeSniff
begin

text \<open>
  The redirect-chain enricher (\<open>resolution/redirect-chain.ts\<close>): the walk from a URL along HTTP
  redirects, \<open>Refresh\<close> headers and \<open>meta\<close> refreshes, one authorized fetch of the safe transport per hop,
  every target inspected offline first. The regular expressions of the file are written as the
  scanners they denote. The resolution of a reference against a base URL and the two text decoders of
  the engine are arguments, as are the answers of the caller's authorizer. Observation times and the JSON
  layout of evidence are left out; an outcome is a typed record.
\<close>

subsection \<open>The platform and the options\<close>

record web_platform =
  wp_URL :: "ustring \<Rightarrow> ustring \<Rightarrow> url_view option"
  wp_utf8 :: "nat list \<Rightarrow> ustring"
  wp_windows1252 :: "nat list \<Rightarrow> ustring"

datatype TransitionKind = HttpRedirect | HttpRefresh | HtmlMetaRefresh

fun kindName :: "TransitionKind \<Rightarrow> string" where
  "kindName HttpRedirect = ''http-redirect''"
| "kindName HttpRefresh = ''http-refresh''"
| "kindName HtmlMetaRefresh = ''html-meta-refresh''"

record FollowTransition =
  ft_kind :: TransitionKind
  ft_targetUrl :: ustring
  ft_delayMs :: "rat option"

datatype StopStatus = SkippedStatus | FailureStatus

type_synonym details = "(string \<times> jsval) list"

datatype TransitionDecision =
    Terminal
  | Follow FollowTransition
  | StopChain StopStatus string details "ustring option"

definition DEFAULT_REDIRECT_CHAIN_MAX_HOPS :: nat where "DEFAULT_REDIRECT_CHAIN_MAX_HOPS = 10"
definition MAX_REDIRECT_CHAIN_HOPS :: nat where "MAX_REDIRECT_CHAIN_HOPS = 32"
definition DEFAULT_REFRESH_MAX_BYTES :: nat where "DEFAULT_REFRESH_MAX_BYTES = 65536"
definition DEFAULT_REFRESH_MAX_DELAY_MS :: rat where "DEFAULT_REFRESH_MAX_DELAY_MS = 5000"
definition MAX_REFRESH_BYTES :: nat where "MAX_REFRESH_BYTES = 1048576"
definition MAX_REFRESH_DELAY_MS :: rat where "MAX_REFRESH_DELAY_MS = 60000"
definition MAX_CHAIN_URL_LENGTH :: nat where "MAX_CHAIN_URL_LENGTH = 16384"
definition MAX_ALT_SVC_PROTOCOLS :: nat where "MAX_ALT_SVC_PROTOCOLS = 16"

definition REDIRECT_STATUSES :: "nat set" where "REDIRECT_STATUSES = {301, 302, 303, 307, 308}"

definition HTML_MEDIA_TYPES :: "ustring set" where
  "HTML_MEDIA_TYPES = set (map str [''text/html'', ''application/xhtml+xml''])"

record RefreshPolicy =
  rp_maxBytes :: nat
  rp_maxDelayMs :: rat

definition boundedInteger :: "jsval \<Rightarrow> nat \<Rightarrow> nat \<Rightarrow> nat" where
  "boundedInteger value fallback maximum =
     (case positiveInteger value of Some n \<Rightarrow> min n maximum | None \<Rightarrow> fallback)"

fun boundedNumber :: "jsval \<Rightarrow> rat \<Rightarrow> rat \<Rightarrow> rat" where
  "boundedNumber (NumVal (Finite q)) fallback maximum = (if 0 \<le> q then min q maximum else fallback)"
| "boundedNumber _ fallback maximum = fallback"

text \<open>What the factory reads of its options, and the values its closure keeps.\<close>

record chain_options =
  co_method :: jsval
  co_maxHops :: jsval
  co_maxRefreshBytes :: jsval
  co_maxRefreshDelayMs :: jsval
  co_headers :: "(ustring \<times> jsval) list"
  co_inspectOptions :: jsval
  co_maxDecodeDepth :: "nat option"

record chain =
  ch_method :: string
  ch_maxHops :: nat
  ch_refresh :: RefreshPolicy
  ch_headers :: "(ustring \<times> jsval) list"
  ch_inspectOptions :: jsval
  ch_maxDecodeDepth :: nat

definition createRedirectChainEnricher :: "chain_options \<Rightarrow> chain" where
  "createRedirectChainEnricher options =
     \<lparr>ch_method = (if co_method options = StrVal (str ''HEAD'') then ''HEAD'' else ''GET''),
      ch_maxHops = boundedInteger (co_maxHops options) DEFAULT_REDIRECT_CHAIN_MAX_HOPS MAX_REDIRECT_CHAIN_HOPS,
      ch_refresh = \<lparr>rp_maxBytes = boundedInteger (co_maxRefreshBytes options) DEFAULT_REFRESH_MAX_BYTES MAX_REFRESH_BYTES,
        rp_maxDelayMs = boundedNumber (co_maxRefreshDelayMs options) DEFAULT_REFRESH_MAX_DELAY_MS MAX_REFRESH_DELAY_MS\<rparr>,
      ch_headers = co_headers options,
      ch_inspectOptions = (if co_inspectOptions options \<in> {Undefined, Null} then Obj True [] else co_inspectOptions options),
      ch_maxDecodeDepth = (case co_maxDecodeDepth options of Some d \<Rightarrow> d | None \<Rightarrow> DEFAULT_MAX_DECODE_DEPTH)\<rparr>"

subsection \<open>Headers and media types\<close>

datatype SingleHeader = MissingHeader | AmbiguousHeader | HeaderValue ustring

definition singleHeader :: "platform \<Rightarrow> response_headers \<Rightarrow> string \<Rightarrow> SingleHeader" where
  "singleHeader E headers name =
     (case concat (map snd (filter (\<lambda>(headerName, _). pf_toLowerCase E headerName = str name) headers)) of
        [] \<Rightarrow> MissingHeader
      | [v] \<Rightarrow> if trim v = [] then AmbiguousHeader else HeaderValue (trim v)
      | _ \<Rightarrow> AmbiguousHeader)"

definition singleHeaderValue :: "platform \<Rightarrow> response_headers \<Rightarrow> string \<Rightarrow> ustring option" where
  "singleHeaderValue E headers name = (case singleHeader E headers name of HeaderValue v \<Rightarrow> Some v | _ \<Rightarrow> None)"

definition headerValues :: "platform \<Rightarrow> response_headers \<Rightarrow> string \<Rightarrow> ustring list" where
  "headerValues E headers name =
     filter (\<lambda>v. v \<noteq> []) (concat (map (map trim \<circ> snd) (filter (\<lambda>(headerName, _). pf_toLowerCase E headerName = str name) headers)))"

definition skipSpaces :: "ustring \<Rightarrow> ustring" where
  "skipSpaces s = dropWhile is_space s"

text \<open>A keyword of ASCII letters, in any case.\<close>

fun afterKeyword :: "ustring \<Rightarrow> ustring \<Rightarrow> ustring option" where
  "afterKeyword [] s = Some s"
| "afterKeyword (k # ks) [] = None"
| "afterKeyword (k # ks) (c # s) = (if ascii_lower c = k then afterKeyword ks s else None)"

text \<open>A text in the given quotes; the second component is what follows the closing quote.\<close>

definition quotedText :: "nat \<Rightarrow> ustring \<Rightarrow> (ustring \<times> ustring) option" where
  "quotedText q s =
     (case s of
        [] \<Rightarrow> None
      | c # s' \<Rightarrow> if c \<noteq> q then None
          else case cut_at q s' of (body, Some rest) \<Rightarrow> Some (body, rest) | _ \<Rightarrow> None)"

record ContentType =
  ct_mediaType :: ustring
  ct_charset :: "ustring option"

text \<open>
  One parameter: \<open>charset\<close>, an equals sign and a quoted or bare word, with white space around. The bare
  word is tried last and may itself start with a quote.
\<close>

definition onlySpaces :: "ustring \<Rightarrow> bool" where
  "onlySpaces s \<longleftrightarrow> list_all is_space s"

definition bareCharset :: "ustring \<Rightarrow> ustring option" where
  "bareCharset s =
     (let w = takeWhile (\<lambda>c. \<not> is_space c \<and> c \<noteq> 59) s in
      if w \<noteq> [] \<and> onlySpaces (drop (length w) s) then Some w else None)"

definition charsetValue :: "ustring \<Rightarrow> ustring option" where
  "charsetValue s =
     (case quotedText 34 s of
        Some (w, rest) \<Rightarrow> if onlySpaces rest then Some w else bareCharset s
      | None \<Rightarrow>
          (case quotedText 39 s of
             Some (w, rest) \<Rightarrow> if onlySpaces rest then Some w else bareCharset s
           | None \<Rightarrow> bareCharset s))"

definition charsetParameter :: "ustring \<Rightarrow> ustring option" where
  "charsetParameter parameter =
     (case afterKeyword (str ''charset'') (skipSpaces parameter) of
        None \<Rightarrow> None
      | Some rest \<Rightarrow> (case skipSpaces rest of
            c # s \<Rightarrow> if c = 61 then charsetValue (skipSpaces s) else None
          | [] \<Rightarrow> None))"

definition parseContentType :: "platform \<Rightarrow> ustring option \<Rightarrow> ContentType option" where
  "parseContentType E value =
     (case value of
        None \<Rightarrow> None
      | Some v \<Rightarrow>
          (case split_on 59 v of
             [] \<Rightarrow> None
           | raw # parameters \<Rightarrow>
               (let mediaType = pf_toLowerCase E (trim raw) in
                if mediaType = [] then None
                else Some \<lparr>ct_mediaType = mediaType,
                  ct_charset = foldl (\<lambda>charset parameter. case charsetParameter parameter of
                      Some w \<Rightarrow> Some (pf_toLowerCase E w) | None \<Rightarrow> charset) None parameters\<rparr>)))"

datatype DecodedHtml = DecodedText ustring | UnsupportedCharset ustring

definition decodeHtml :: "platform \<Rightarrow> web_platform \<Rightarrow> nat list \<Rightarrow> ustring option \<Rightarrow> DecodedHtml" where
  "decodeHtml E W body declaredCharset =
     (let charset = pf_toLowerCase E (case declaredCharset of Some c \<Rightarrow> c | None \<Rightarrow> str ''utf-8'') in
      if charset \<in> set (map str [''utf-8'', ''utf8'', ''us-ascii'']) then DecodedText (wp_utf8 W body)
      else if charset \<in> set (map str [''iso-8859-1'', ''latin1'', ''windows-1252'']) then DecodedText (wp_windows1252 W body)
      else UnsupportedCharset charset)"

subsection \<open>The meta refresh of a page\<close>

text \<open>The text after the first occurrence of a pattern.\<close>

fun after :: "ustring \<Rightarrow> ustring \<Rightarrow> ustring option" where
  "after p [] = (if p = [] then Some [] else None)"
| "after p (c # s) = (if startsWith p (c # s) then Some (drop (length p) (c # s)) else after p s)"

lemma after_length: "after p s = Some r \<Longrightarrow> length r \<le> length s"
  by (induction p s rule: after.induct) (auto split: if_splits)

function stripComments :: "ustring \<Rightarrow> ustring" where
  "stripComments [] = []"
| "stripComments (c # s) =
     (if startsWith (str ''<!--'') (c # s)
      then (case after (str ''-->'') (drop 4 (c # s)) of Some rest \<Rightarrow> stripComments rest | None \<Rightarrow> c # stripComments s)
      else c # stripComments s)"
  by pat_completeness auto
termination
  by (relation "measure length") (auto dest!: after_length)

definition is_word :: "nat \<Rightarrow> bool" where
  "is_word c \<longleftrightarrow> is_alpha c \<or> is_digit c \<or> c = 95"

definition wordBoundary :: "ustring \<Rightarrow> bool" where
  "wordBoundary s = (case s of [] \<Rightarrow> True | c # _ \<Rightarrow> \<not> is_word c)"

text \<open>An opening tag of the given name: the text after its closing bracket.\<close>

definition afterTag :: "string \<Rightarrow> ustring \<Rightarrow> ustring option" where
  "afterTag name s =
     (case afterKeyword (str ''<'' @ str name) s of
        None \<Rightarrow> None
      | Some rest \<Rightarrow> if wordBoundary rest then snd (cut_at 62 rest) else None)"

text \<open>The first closing tag of that name: \<open></name\<close>, white space, \<open>>\<close>.\<close>

definition closesHere :: "string \<Rightarrow> ustring \<Rightarrow> ustring option" where
  "closesHere name s =
     (case afterKeyword (str ''</'' @ str name) s of
        None \<Rightarrow> None
      | Some rest \<Rightarrow> (case skipSpaces rest of c # t \<Rightarrow> if c = 62 then Some t else None | [] \<Rightarrow> None))"

fun afterClosing :: "string \<Rightarrow> ustring \<Rightarrow> ustring option" where
  "afterClosing name [] = None"
| "afterClosing name (c # s) = (case closesHere name (c # s) of Some t \<Rightarrow> Some t | None \<Rightarrow> afterClosing name s)"

definition RAW_TEXT_ELEMENTS :: "string list" where
  "RAW_TEXT_ELEMENTS = [''script'', ''style'', ''textarea'', ''title'']"

fun firstSome :: "('a \<Rightarrow> 'b option) \<Rightarrow> 'a list \<Rightarrow> 'b option" where
  "firstSome f [] = None"
| "firstSome f (x # xs) = (case f x of Some y \<Rightarrow> Some y | None \<Rightarrow> firstSome f xs)"

definition afterRawElement :: "ustring \<Rightarrow> ustring option" where
  "afterRawElement s = firstSome (\<lambda>name. Option.bind (afterTag name s) (afterClosing name)) RAW_TEXT_ELEMENTS"

lemma afterKeyword_length: "afterKeyword k s = Some r \<Longrightarrow> length r + length k = length s"
  by (induction k s rule: afterKeyword.induct) (auto split: if_splits)

lemma cut_at_length: "snd (cut_at c s) = Some r \<Longrightarrow> length r < length s"
  by (induction s arbitrary: r) (auto simp: cut_at_def split: if_splits option.splits)

lemma afterTag_length: "afterTag name s = Some r \<Longrightarrow> length r < length s"
  by (auto simp: afterTag_def split: option.splits if_splits dest!: afterKeyword_length cut_at_length)

lemma closesHere_length: "closesHere name s = Some r \<Longrightarrow> length r \<le> length s"
proof -
  assume "closesHere name s = Some r"
  then obtain rest where "afterKeyword (str ''</'' @ str name) s = Some rest" and r: "skipSpaces rest = 62 # r"
    by (auto simp: closesHere_def split: option.splits list.splits if_splits)
  then have "length rest \<le> length s" by (auto dest!: afterKeyword_length)
  moreover have "length (skipSpaces rest) \<le> length rest" by (simp add: skipSpaces_def length_dropWhile_le)
  ultimately show ?thesis using r by simp
qed

lemma afterClosing_length: "afterClosing name s = Some r \<Longrightarrow> length r \<le> length s"
  by (induction name s rule: afterClosing.induct) (auto split: option.splits dest!: closesHere_length)

lemma firstSome_Some: "firstSome f xs = Some y \<Longrightarrow> \<exists>x\<in>set xs. f x = Some y"
  by (induction f xs rule: firstSome.induct) (auto split: option.splits)

lemma afterRawElement_length: "afterRawElement s = Some r \<Longrightarrow> length r < length s"
  by (fastforce simp: afterRawElement_def Option.bind_eq_Some_conv dest!: firstSome_Some afterTag_length afterClosing_length)

function stripRawText :: "ustring \<Rightarrow> ustring" where
  "stripRawText [] = []"
| "stripRawText (c # s) =
     (case afterRawElement (c # s) of Some rest \<Rightarrow> stripRawText rest | None \<Rightarrow> c # stripRawText s)"
  by pat_completeness auto
termination
  by (relation "measure length") (auto dest!: afterRawElement_length)

text \<open>The \<open>meta\<close> tags: what stands between the name and the closing bracket.\<close>

function metaTags :: "ustring \<Rightarrow> ustring list" where
  "metaTags [] = []"
| "metaTags (c # s) =
     (case afterKeyword (str ''<meta'') (c # s) of
        None \<Rightarrow> metaTags s
      | Some rest \<Rightarrow>
          if \<not> wordBoundary rest then metaTags s
          else (case cut_at 62 rest of (body, Some more0) \<Rightarrow> body # metaTags more0 | (_, None) \<Rightarrow> metaTags s))"
  by pat_completeness auto
termination
proof (relation "measure length")
  fix c :: nat and s rest body more0 t
  assume "afterKeyword (str ''<meta'') (c # s) = Some rest" "(body, t) = cut_at 62 rest" "t = Some more0"
  then show "(more0, c # s) \<in> measure length"
    using cut_at_length [of 62 rest more0] by (auto dest!: afterKeyword_length simp: prod_eq_iff)
qed auto

definition isAttributeChar :: "nat \<Rightarrow> bool" where
  "isAttributeChar c \<longleftrightarrow> \<not> is_space c \<and> c \<notin> {34, 39, 60, 62, 47, 61}"

definition isBareValueChar :: "nat \<Rightarrow> bool" where
  "isBareValueChar c \<longleftrightarrow> \<not> is_space c \<and> c \<notin> {34, 39, 61, 60, 62, 96}"

text \<open>The optional value of an attribute, with the text after it.\<close>

definition attributeValue :: "ustring \<Rightarrow> (ustring \<times> ustring) option" where
  "attributeValue s =
     (case skipSpaces s of
        [] \<Rightarrow> None
      | c # t \<Rightarrow> if c \<noteq> 61 then None
          else (let v = skipSpaces t in
            case quotedText 34 v of Some p \<Rightarrow> Some p
            | None \<Rightarrow> (case quotedText 39 v of Some p \<Rightarrow> Some p
              | None \<Rightarrow> (let w = takeWhile isBareValueChar v in
                  if w = [] then None else Some (w, drop (length w) v)))))"

lemma quotedText_length: "quotedText q s = Some (w, r) \<Longrightarrow> length r < length s"
  using cut_at_length [of q "tl s" r]
  by (auto simp: quotedText_def split: list.splits if_splits prod.splits option.splits)

lemma attributeValue_length: "attributeValue s = Some (w, r) \<Longrightarrow> length r \<le> length s"
proof -
  assume a: "attributeValue s = Some (w, r)"
  have le: "length (skipSpaces t) \<le> length t" for t by (simp add: skipSpaces_def length_dropWhile_le)
  from a obtain t where t: "skipSpaces s = 61 # t" and "length r \<le> length (skipSpaces t)"
    by (auto simp: attributeValue_def Let_def split: list.splits if_splits option.splits dest!: quotedText_length)
  with le [of s] le [of t] show ?thesis by simp
qed

text \<open>\<open>matchAll\<close> over the body of a tag: names with raw values, in order.\<close>

function attributeMatches :: "ustring \<Rightarrow> (ustring \<times> ustring) list" where
  "attributeMatches [] = []"
| "attributeMatches (c # s) =
     (let name = takeWhile isAttributeChar (c # s); rest = drop (length name) (c # s) in
      if name = [] then attributeMatches s
      else case attributeValue rest of
          Some (v, rest') \<Rightarrow> (name, v) # attributeMatches rest'
        | None \<Rightarrow> (name, []) # attributeMatches rest)"
  by pat_completeness auto
termination
proof (relation "measure length")
  fix c :: nat and s name rest p v rest'
  assume "name = takeWhile isAttributeChar (c # s)" "rest = drop (length name) (c # s)" "name \<noteq> []"
  then have len: "length rest < length (c # s)" by (cases name) auto
  then show "(rest, c # s) \<in> measure length" by simp
  assume "attributeValue rest = Some p" "(v, rest') = p"
  then have "length rest' \<le> length rest" using attributeValue_length [of rest v rest'] by simp
  with len show "(rest', c # s) \<in> measure length" by simp
qed auto

text \<open>Character references; the second component of an entity is the text after it.\<close>

definition NAMED_ENTITIES :: "(string \<times> nat) list" where
  "NAMED_ENTITIES = [(''amp'', 38), (''lt'', 60), (''gt'', 62), (''quot'', 34), (''apos'', 39)]"

definition numericEntity :: "nat \<Rightarrow> (nat \<Rightarrow> bool) \<Rightarrow> ustring \<Rightarrow> (ustring option \<times> ustring) option" where
  "numericEntity radix isDigit0 s =
     (let digits = takeWhile isDigit0 s; point = radix_val radix digits in
      case drop (length digits) s of
        c # rest \<Rightarrow>
          if digits = [] \<or> c \<noteq> 59 then None
          else Some (if point \<le> 0x10ffff \<and> \<not> (0xd800 \<le> point \<and> point \<le> 0xdfff) then Some (utf16 point) else None, rest)
      | [] \<Rightarrow> None)"

definition entityAfterAmp :: "ustring \<Rightarrow> (ustring option \<times> ustring) option" where
  "entityAfterAmp s =
     (case firstSome (\<lambda>(name, c). map_option (Pair (Some [c])) (afterKeyword (str name @ [59]) s)) NAMED_ENTITIES of
        Some r \<Rightarrow> Some r
      | None \<Rightarrow>
          (case s of
             [] \<Rightarrow> None
           | h # t \<Rightarrow>
               if h \<noteq> 35 then None
               else (case numericEntity 10 is_digit t of
                  Some r \<Rightarrow> Some r
                | None \<Rightarrow> (case t of x # u \<Rightarrow> if ascii_lower x = 120 then numericEntity 16 is_hex u else None | [] \<Rightarrow> None))))"

lemma numericEntity_length: "numericEntity radix f s = Some (v, r) \<Longrightarrow> length r < length s"
proof -
  assume "numericEntity radix f s = Some (v, r)"
  then obtain c where "drop (length (takeWhile f s)) s = c # r"
    by (auto simp: numericEntity_def Let_def split: list.splits if_splits)
  then have "length (drop (length (takeWhile f s)) s) = Suc (length r)" by simp
  then show ?thesis by simp
qed

lemma entityAfterAmp_length: "entityAfterAmp s = Some (v, r) \<Longrightarrow> length r < length s"
  by (auto simp: entityAfterAmp_def split: option.splits list.splits if_splits nat.splits
      dest!: firstSome_Some numericEntity_length afterKeyword_length)

function decodeHtmlEntities :: "ustring \<Rightarrow> ustring" where
  "decodeHtmlEntities [] = []"
| "decodeHtmlEntities (c # s) =
     (if c \<noteq> 38 then c # decodeHtmlEntities s
      else case entityAfterAmp s of
          None \<Rightarrow> c # decodeHtmlEntities s
        | Some (Some v, rest) \<Rightarrow> v @ decodeHtmlEntities rest
        | Some (None, rest) \<Rightarrow> c # take (length s - length rest) s @ decodeHtmlEntities rest)"
  by pat_completeness auto
termination
  by (relation "measure length") (auto dest!: entityAfterAmp_length)

text \<open>The attributes of a tag: the first of each name counts.\<close>

definition htmlAttributes :: "platform \<Rightarrow> ustring \<Rightarrow> (ustring \<rightharpoonup> ustring)" where
  "htmlAttributes E body =
     map_of (map (\<lambda>(name, v). (pf_toLowerCase E name, decodeHtmlEntities v)) (attributeMatches body))"

definition refreshContent :: "platform \<Rightarrow> ustring \<Rightarrow> ustring option" where
  "refreshContent E tag =
     (let attributes = htmlAttributes E tag in
      if map_option (pf_toLowerCase E) (attributes (str ''http-equiv'')) = Some (str ''refresh'')
      then Some (case attributes (str ''content'') of Some v \<Rightarrow> v | None \<Rightarrow> []) else None)"

definition firstMetaRefreshContent :: "platform \<Rightarrow> ustring \<Rightarrow> ustring option" where
  "firstMetaRefreshContent E html = firstSome (refreshContent E) (metaTags (stripRawText (stripComments html)))"

subsection \<open>Transitions\<close>

text \<open>
  The pattern of a refresh value: a decimal delay and optionally \<open>; url = target\<close>. The result has the
  digits before and after the point and the trimmed target.
\<close>

definition refreshTargetPart :: "ustring \<Rightarrow> ustring option option" where
  "refreshTargetPart s =
     (case skipSpaces s of
        [] \<Rightarrow> Some None
      | c # t \<Rightarrow> if c \<noteq> 59 then None
          else (case afterKeyword (str ''url'') (skipSpaces t) of
              None \<Rightarrow> None
            | Some u \<Rightarrow> (case skipSpaces u of e # v \<Rightarrow> if e = 61 then Some (Some (trim v)) else None | [] \<Rightarrow> None)))"

definition matchRefresh :: "ustring \<Rightarrow> (ustring \<times> ustring \<times> ustring option) option" where
  "matchRefresh value =
     (let s = skipSpaces value; whole = takeWhile is_digit s; rest = drop (length whole) s;
          fraction = (case rest of c # t \<Rightarrow> if c = 46 then takeWhile is_digit t else [] | [] \<Rightarrow> []);
          tail0 = (if fraction = [] then rest else drop (length fraction + 1) rest)
      in if whole = [] then None
         else map_option (\<lambda>target. (whole, fraction, target)) (refreshTargetPart tail0))"

text \<open>The double nearest to a rational, \<open>None\<close> for \<open>Infinity\<close>.\<close>

definition finiteNumber :: "rat \<Rightarrow> rat option" where
  "finiteNumber q = (if q \<ge> 2 ^ 1024 - 2 ^ 970 then None else Some (fl q))"

definition decimalValue :: "ustring \<Rightarrow> ustring \<Rightarrow> rat" where
  "decimalValue whole fraction = of_nat (radix_val 10 whole) + of_nat (radix_val 10 fraction) / 10 ^ length fraction"

definition refreshDelayMs :: "ustring \<Rightarrow> ustring \<Rightarrow> rat option" where
  "refreshDelayMs whole fraction =
     Option.bind (finiteNumber (decimalValue whole fraction)) (\<lambda>seconds. finiteNumber (seconds * 1000))"

definition unquoteRefreshTarget :: "ustring \<Rightarrow> ustring" where
  "unquoteRefreshTarget value =
     (let trimmed = trim value in
      if length trimmed \<ge> 2 \<and> hd trimmed \<in> {34, 39} \<and> last trimmed = hd trimmed
      then trim (butlast (tl trimmed)) else trimmed)"

definition mechanism :: "TransitionKind \<Rightarrow> string \<times> jsval" where
  "mechanism kind = (''mechanism'', StrVal (str (kindName kind)))"

definition resolveTransition ::
    "web_platform \<Rightarrow> TransitionKind \<Rightarrow> ustring \<Rightarrow> ustring \<Rightarrow> rat option \<Rightarrow> TransitionDecision" where
  "resolveTransition W kind rawTarget currentUrl delayMs =
     (case wp_URL W (trim rawTarget) currentUrl of
        None \<Rightarrow> StopChain FailureStatus ''invalid-target'' [mechanism kind] None
      | Some target \<Rightarrow>
          if (uv_protocol target \<noteq> ''http:'' \<and> uv_protocol target \<noteq> ''https:'') \<or> length (uv_href target) > MAX_CHAIN_URL_LENGTH
          then StopChain FailureStatus ''invalid-target'' [mechanism kind, (''scheme'', StrVal (str (uv_protocol target)))]
            (Some (uv_href target))
          else Follow \<lparr>ft_kind = kind, ft_targetUrl = uv_href target, ft_delayMs = delayMs\<rparr>)"

definition parseRefreshTransition ::
    "web_platform \<Rightarrow> TransitionKind \<Rightarrow> ustring \<Rightarrow> ustring \<Rightarrow> rat \<Rightarrow> TransitionDecision" where
  "parseRefreshTransition W kind value currentUrl maxDelayMs =
     (case matchRefresh value of
        None \<Rightarrow> StopChain FailureStatus ''invalid-refresh'' [mechanism kind] None
      | Some (whole, fraction, group2) \<Rightarrow>
          (case refreshDelayMs whole fraction of
             None \<Rightarrow> StopChain FailureStatus ''invalid-refresh'' [mechanism kind] None
           | Some delayMs \<Rightarrow>
               if delayMs > maxDelayMs
               then StopChain SkippedStatus ''refresh-delay-exceeded''
                 [mechanism kind, (''delayMs'', NumVal (Finite delayMs)), (''maxRefreshDelayMs'', NumVal (Finite maxDelayMs))] None
               else (let rawTarget = unquoteRefreshTarget (case group2 of Some t \<Rightarrow> t | None \<Rightarrow> []) in
                 resolveTransition W kind (if rawTarget = [] then currentUrl else rawTarget) currentUrl (Some delayMs))))"

definition bodyTooLarge :: "nat list \<Rightarrow> RefreshPolicy \<Rightarrow> TransitionDecision" where
  "bodyTooLarge body policy = StopChain SkippedStatus ''refresh-body-too-large''
     [(''maxRefreshBytes'', NumVal (Finite (of_nat (rp_maxBytes policy)))),
      (''observedBytes'', NumVal (Finite (of_nat (length body))))] None"

definition charsetUnsupported :: "ustring \<Rightarrow> TransitionDecision" where
  "charsetUnsupported charset =
     StopChain FailureStatus ''refresh-charset-unsupported'' [(''charset'', StrVal charset)] None"

definition isHtml :: "ContentType option \<Rightarrow> bool" where
  "isHtml contentType = (case contentType of None \<Rightarrow> False | Some ct \<Rightarrow> ct_mediaType ct \<in> HTML_MEDIA_TYPES)"

definition refreshEligibility ::
    "platform \<Rightarrow> web_platform \<Rightarrow> nat list \<Rightarrow> ContentType option \<Rightarrow> RefreshPolicy \<Rightarrow> TransitionDecision option" where
  "refreshEligibility E W body contentType policy =
     (if length body > rp_maxBytes policy then Some (bodyTooLarge body policy)
      else if \<not> isHtml contentType
      then Some (StopChain SkippedStatus ''refresh-mime-unsupported''
        [(''mediaType'', case contentType of Some ct \<Rightarrow> StrVal (ct_mediaType ct) | None \<Rightarrow> Null)] None)
      else case decodeHtml E W body (Option.bind contentType ct_charset) of
          UnsupportedCharset charset \<Rightarrow> Some (charsetUnsupported charset)
        | DecodedText _ \<Rightarrow> None)"

definition transitionFor ::
    "platform \<Rightarrow> web_platform \<Rightarrow> SafeFetchResponse \<Rightarrow> ustring \<Rightarrow> string \<Rightarrow> RefreshPolicy \<Rightarrow> TransitionDecision" where
  "transitionFor E W response currentUrl httpMethod policy =
     (if fr_status response \<in> REDIRECT_STATUSES
      then (case singleHeader E (fr_headers response) ''location'' of
          HeaderValue location \<Rightarrow> resolveTransition W HttpRedirect location currentUrl None
        | MissingHeader \<Rightarrow> StopChain FailureStatus ''invalid-target''
            [mechanism HttpRedirect, (''reason'', StrVal (str ''missing-location''))] None
        | AmbiguousHeader \<Rightarrow> StopChain FailureStatus ''invalid-target''
            [mechanism HttpRedirect, (''reason'', StrVal (str ''ambiguous-location''))] None)
      else (let contentType = parseContentType E (singleHeaderValue E (fr_headers response) ''content-type'') in
        case singleHeader E (fr_headers response) ''refresh'' of
          AmbiguousHeader \<Rightarrow>
            StopChain FailureStatus ''invalid-refresh'' [(''reason'', StrVal (str ''ambiguous-header''))] None
        | HeaderValue refresh \<Rightarrow>
            (case refreshEligibility E W (fr_body response) contentType policy of
               Some decision \<Rightarrow> decision
             | None \<Rightarrow> parseRefreshTransition W HttpRefresh refresh currentUrl (rp_maxDelayMs policy))
        | MissingHeader \<Rightarrow>
            if httpMethod = ''HEAD'' \<or> \<not> isHtml contentType then Terminal
            else if length (fr_body response) > rp_maxBytes policy then bodyTooLarge (fr_body response) policy
            else (case decodeHtml E W (fr_body response) (Option.bind contentType ct_charset) of
                UnsupportedCharset charset \<Rightarrow> charsetUnsupported charset
              | DecodedText html \<Rightarrow>
                  (case firstMetaRefreshContent E html of
                     None \<Rightarrow> Terminal
                   | Some content \<Rightarrow> parseRefreshTransition W HtmlMetaRefresh content currentUrl (rp_maxDelayMs policy)))))"

definition canonicalHttpUrl :: "net_platform \<Rightarrow> ustring \<Rightarrow> ustring option" where
  "canonicalHttpUrl N value =
     (case np_URL N value of
        None \<Rightarrow> None
      | Some url \<Rightarrow>
          if uv_protocol url \<noteq> ''http:'' \<and> uv_protocol url \<noteq> ''https:'' then None
          else if length (uv_fullHref url) > MAX_CHAIN_URL_LENGTH then None
          else Some (uv_href url))"

subsection \<open>The walk\<close>

record ChainHop =
  hp_url :: ustring
  hp_hop :: nat
  hp_method :: string
  hp_response :: SafeFetchResponse
  hp_evidence :: AttemptState
  hp_offline :: InspectResult
  hp_transition :: "FollowTransition option"

datatype stop_details = NoStopDetails | Payload details | TransportDetails cause_details

record ChainStop =
  cs_url :: ustring
  cs_status :: StopStatus
  cs_code :: string
  cs_retryable :: bool
  cs_details :: stop_details
  cs_offline :: "InspectResult option"
  cs_attempt :: "AttemptState option"

definition degradationOutcome ::
    "ustring \<Rightarrow> StopStatus \<Rightarrow> string \<Rightarrow> bool \<Rightarrow> stop_details \<Rightarrow> InspectResult option \<Rightarrow> AttemptState option \<Rightarrow> ChainStop" where
  "degradationOutcome url status code retryable details offline attempt =
     \<lparr>cs_url = url, cs_status = status, cs_code = code, cs_retryable = retryable, cs_details = details,
      cs_offline = offline, cs_attempt = attempt\<rparr>"

definition transportCodeName :: "TransportCauseCode \<Rightarrow> string" where
  "transportCodeName code =
     (case find (\<lambda>(_, c). c = code) TRANSPORT_CAUSE_CODES of Some (name, _) \<Rightarrow> name | None \<Rightarrow> [])"

definition retryableTransportCause :: "TransportCauseCode \<Rightarrow> bool" where
  "retryableTransportCause code \<longleftrightarrow>
     code \<in> {Dns_timeout, Dns_error, Connect_refused, Connect_timeout, Connect_error, Tls_handshake, Http_reset,
       Http_timeout, Http_error, Deadline_timeout}"

definition transportDegradation ::
    "StopStatus \<Rightarrow> AttemptState \<Rightarrow> TransportCauseCode \<Rightarrow> cause_details \<Rightarrow> InspectResult \<Rightarrow> ChainStop" where
  "transportDegradation status st code d offline =
     degradationOutcome (as_subject st) status (transportCodeName code) (retryableTransportCause code)
       (case d of NoDetails \<Rightarrow> NoStopDetails | _ \<Rightarrow> TransportDetails d) (Some offline) (Some st)"

datatype AuthorizationReason = Initial | Discovered TransitionKind

record AuthorizationRequest =
  az_url :: ustring
  az_hop :: nat
  az_method :: string
  az_reason :: AuthorizationReason
  az_fromUrl :: "ustring option"

text \<open>A granted authorization is the URL it is for, if its kind is \<open>destination-fetch\<close>.\<close>

datatype authorization = AuthorizerRaised | Denied | Granted "ustring option"

datatype chain_event = AuthorizeEvent AuthorizationRequest | FetchEvent SafeFetchRequest SafeFetchOutcome "port_call list"

record chain_env =
  ce_aborted :: "nat \<Rightarrow> bool"
  ce_authorize :: "AuthorizationRequest \<Rightarrow> authorization"
  ce_fetch :: "nat \<Rightarrow> fetch_env"

record walk_state =
  ws_session :: SafeSession
  ws_hops :: "ChainHop list"
  ws_seen :: "ustring list"
  ws_url :: ustring
  ws_offline :: InspectResult
  ws_reason :: AuthorizationReason
  ws_fromUrl :: "ustring option"
  ws_events :: "chain_event list"

datatype step = Done walk_state "ChainStop option" | Go walk_state | InspectRaised

text \<open>One pass of the loop, from the response of a hop on.\<close>

definition afterFetch ::
    "platform \<Rightarrow> web_platform \<Rightarrow> PslSnapshot \<Rightarrow> chain \<Rightarrow> AttemptState \<Rightarrow> SafeFetchResponse \<Rightarrow> walk_state \<Rightarrow> step" where
  "afterFetch E W snapshot c st response ws =
     (let decision = transitionFor E W response (ws_url ws) (ch_method c) (ch_refresh c);
          hop = \<lparr>hp_url = ws_url ws, hp_hop = length (ws_hops ws) + 1, hp_method = ch_method c, hp_response = response,
            hp_evidence = st, hp_offline = ws_offline ws,
            hp_transition = (case decision of Follow t \<Rightarrow> Some t | _ \<Rightarrow> None)\<rparr>;
          ws' = ws\<lparr>ws_hops := ws_hops ws @ [hop]\<rparr>
      in case decision of
           Terminal \<Rightarrow> Done ws' None
         | StopChain status code d target \<Rightarrow>
             (case target of
                None \<Rightarrow> Done ws' (Some (degradationOutcome (ws_url ws) status code False (Payload d) (Some (ws_offline ws)) None))
              | Some t \<Rightarrow>
                  (case inspect E snapshot (StringInput t) (ch_inspectOptions c) of
                     None \<Rightarrow> InspectRaised
                   | Some offline \<Rightarrow> Done ws' (Some (degradationOutcome t status code False (Payload d) (Some offline) None))))
         | Follow t \<Rightarrow>
             (case inspect E snapshot (StringInput (ft_targetUrl t)) (ch_inspectOptions c) of
                None \<Rightarrow> InspectRaised
              | Some offline \<Rightarrow>
                  Go (ws'\<lparr>ws_fromUrl := Some (ws_url ws), ws_url := ft_targetUrl t, ws_offline := offline,
                    ws_reason := Discovered (ft_kind t)\<rparr>)))"

definition chainRequest :: "chain \<Rightarrow> ustring \<Rightarrow> ustring option \<Rightarrow> SafeFetchRequest" where
  "chainRequest c url authorized =
     \<lparr>rq_url = url, rq_authorizedUrl = authorized, rq_method = Some (ch_method c), rq_headers = ch_headers c,
      rq_sameOriginReferer = None\<rparr>"

definition chainStep ::
    "platform \<Rightarrow> net_platform \<Rightarrow> web_platform \<Rightarrow> PslSnapshot \<Rightarrow> TransportPolicy \<Rightarrow> chain \<Rightarrow> chain_env \<Rightarrow> walk_state \<Rightarrow> step" where
  "chainStep E N W snapshot policy c env ws =
     (let k = length (ws_hops ws); url = ws_url ws;
          stopped = (\<lambda>ws' status code d. Done ws' (Some (degradationOutcome url status code False d (Some (ws_offline ws)) None)))
      in if ce_aborted env k then stopped ws SkippedStatus ''caller-aborted'' NoStopDetails
         else if url \<in> set (ws_seen ws) then stopped ws FailureStatus ''redirect-loop'' (Payload [(''url'', StrVal url)])
         else if k \<ge> ch_maxHops c then stopped ws FailureStatus ''hop-limit''
           (Payload [(''maxHops'', NumVal (Finite (of_nat (ch_maxHops c))))])
         else (let request = \<lparr>az_url = url, az_hop = k + 1, az_method = ch_method c, az_reason = ws_reason ws, az_fromUrl = ws_fromUrl ws\<rparr>;
                   asked = ws\<lparr>ws_events := ws_events ws @ [AuthorizeEvent request]\<rparr>
               in case ce_authorize env request of
                    AuthorizerRaised \<Rightarrow> stopped asked FailureStatus ''authorization-error'' NoStopDetails
                  | Denied \<Rightarrow> stopped asked SkippedStatus ''authorization-denied'' (Payload [(''hop'', NumVal (Finite (of_nat (k + 1))))])
                  | Granted authorized \<Rightarrow>
                      (case fetch E N policy (ce_fetch env k) (chainRequest c url authorized) (ws_session ws) of
                         (outcome, session', calls) \<Rightarrow>
                           (let fetched = asked\<lparr>ws_session := session', ws_seen := ws_seen ws @ [url],
                                  ws_events := ws_events asked @ [FetchEvent (chainRequest c url authorized) outcome calls]\<rparr>
                            in case outcome of
                                 FetchSuccess st response \<Rightarrow> afterFetch E W snapshot c st response fetched
                               | FetchBlocked st code d \<Rightarrow> Done fetched (Some (transportDegradation SkippedStatus st code d (ws_offline ws)))
                               | FetchIncomplete st code d \<Rightarrow> Done fetched (Some (transportDegradation FailureStatus st code d (ws_offline ws)))))))"

lemma afterFetch_Go:
  "afterFetch E W snapshot c st response ws = Go ws' \<Longrightarrow> length (ws_hops ws') = length (ws_hops ws) + 1"
  by (auto simp: afterFetch_def Let_def split: TransitionDecision.splits option.splits)

lemma chainStep_Go:
  "chainStep E N W snapshot policy c env ws = Go ws' \<Longrightarrow>
     length (ws_hops ws) < ch_maxHops c \<and> length (ws_hops ws') = length (ws_hops ws) + 1"
  by (auto simp: chainStep_def Let_def not_le dest!: afterFetch_Go
      split: if_splits authorization.splits prod.splits SafeFetchOutcome.splits)

function chainWalk ::
    "platform \<Rightarrow> net_platform \<Rightarrow> web_platform \<Rightarrow> PslSnapshot \<Rightarrow> TransportPolicy \<Rightarrow> chain \<Rightarrow> chain_env \<Rightarrow> walk_state \<Rightarrow>
     (walk_state \<times> ChainStop option) option" where
  "chainWalk E N W snapshot policy c env ws =
     (case chainStep E N W snapshot policy c env ws of
        Done ws' stop \<Rightarrow> Some (ws', stop)
      | Go ws' \<Rightarrow> chainWalk E N W snapshot policy c env ws'
      | InspectRaised \<Rightarrow> None)"
  by pat_completeness auto
termination
  by (relation "measure (\<lambda>(E, N, W, snapshot, policy, c, env, ws). ch_maxHops c - length (ws_hops ws))")
    (auto dest: chainStep_Go)

declare chainWalk.simps [simp del]

subsection \<open>The report\<close>

record EnricherFinding =
  ef_code :: ustring
  ef_detail :: ustring
  ef_confusables :: "Confusable list"

definition scoreOr :: "InspectResult \<Rightarrow> rat" where
  "scoreOr r = (case ir_score r of Some q \<Rightarrow> q | None \<Rightarrow> -1)"

fun worstFrom :: "ChainHop option \<Rightarrow> ChainHop list \<Rightarrow> ChainHop option" where
  "worstFrom worst [] = worst"
| "worstFrom worst (hop # hops) =
     worstFrom (case worst of
         None \<Rightarrow> Some hop
       | Some w \<Rightarrow> if scoreOr (hp_offline hop) > scoreOr (hp_offline w) then Some hop else Some w) hops"

definition worstHop :: "ChainHop list \<Rightarrow> ChainHop option" where
  "worstHop hops = worstFrom None hops"

definition registeredCodes :: "ustring list" where
  "registeredCodes = map (str \<circ> codeName \<circ> fst) REASON_CODES"

definition findingConfusables :: "InspectResult \<Rightarrow> ustring \<Rightarrow> Confusable list" where
  "findingConfusables result code =
     (if code = str ''confusable_char'' then filter (\<lambda>b. cb_component b = HostComponent) (ir_confusables result)
      else if code = str ''confusable_in_path'' then filter (\<lambda>b. cb_component b \<noteq> HostComponent) (ir_confusables result)
      else [])"

fun offlineFrom :: "InspectResult \<Rightarrow> nat \<Rightarrow> ustring list \<Rightarrow> ustring list \<Rightarrow> Reason list \<Rightarrow> EnricherFinding list" where
  "offlineFrom result hop excluded emitted [] = []"
| "offlineFrom result hop excluded emitted (reason # reasons) =
     (if rs_code reason \<notin> set registeredCodes \<or> rs_code reason \<in> set excluded \<or> rs_code reason \<in> set emitted
      then offlineFrom result hop excluded emitted reasons
      else \<lparr>ef_code = rs_code reason,
             ef_detail = str ''Resolved chain hop '' @ to_radix 10 hop @ str '': '' @ rs_detail reason,
             ef_confusables = findingConfusables result (rs_code reason)\<rparr>
           # offlineFrom result hop excluded (rs_code reason # emitted) reasons)"

definition offlineFindings :: "InspectResult \<Rightarrow> nat \<Rightarrow> ustring list \<Rightarrow> EnricherFinding list" where
  "offlineFindings result hop excluded = offlineFrom result hop excluded [] (ir_reasons result)"

record OpenRedirectCorrelation =
  oc_hop :: nat
  oc_param :: ustring
  oc_observedDomain :: ustring
  oc_inputDomain :: "ustring option"
  oc_finding :: EnricherFinding

definition registrableOf :: "InspectResult \<Rightarrow> ustring option" where
  "registrableOf r = Option.bind (ir_parsed r) pu_registrableDomain"

definition correlationFinding :: "ustring option \<Rightarrow> ustring \<Rightarrow> nat \<Rightarrow> ustring \<Rightarrow> EnricherFinding" where
  "correlationFinding inputDomain observed hop param =
     \<lparr>ef_code = str ''open_redirect_observed'',
      ef_detail = str ''Observed redirect chain left '' @ quoted (case inputDomain of Some d \<Rightarrow> d | None \<Rightarrow> str ''(none)'') @
        str '' and landed on '' @ quoted observed @ str '' at hop '' @ to_radix 10 hop @
        str '', matching the open_redirect_param payload in parameter '' @ quoted param @ str '' '' @ dash @
        str '' resolution-time corroboration of the lexical suspicion, not proof of general exploitability'',
      ef_confusables = []\<rparr>"

text \<open>The parameter of the first payload that names a domain.\<close>

definition paramByDomain :: "platform \<Rightarrow> OpenRedirectTarget list \<Rightarrow> (ustring \<rightharpoonup> ustring)" where
  "paramByDomain E targets = map_of (map (\<lambda>t. (pf_toLowerCase E (ot_registrableDomain t), ot_param t)) targets)"

definition hopCorrelation ::
    "platform \<Rightarrow> ustring option \<Rightarrow> ustring option \<Rightarrow> (ustring \<rightharpoonup> ustring) \<Rightarrow> ChainHop \<Rightarrow> OpenRedirectCorrelation option" where
  "hopCorrelation E inputDomain inputLower params hop =
     (case registrableOf (hp_offline hop) of
        None \<Rightarrow> None
      | Some observed \<Rightarrow>
          if Some (pf_toLowerCase E observed) = inputLower then None
          else map_option (\<lambda>param. \<lparr>oc_hop = hp_hop hop, oc_param = param, oc_observedDomain = observed, oc_inputDomain = inputDomain,
                 oc_finding = correlationFinding inputDomain observed (hp_hop hop) param\<rparr>)
               (params (pf_toLowerCase E observed)))"

definition correlateOpenRedirect ::
    "platform \<Rightarrow> InspectResult \<Rightarrow> ChainHop list \<Rightarrow> ustring list \<Rightarrow> nat \<Rightarrow> OpenRedirectCorrelation option" where
  "correlateOpenRedirect E base1 hops baseCodes maxDecodeDepth =
     (if str ''open_redirect_param'' \<notin> set baseCodes then None
      else (let inputDomain = registrableOf base1; inputLower = map_option (pf_toLowerCase E) inputDomain;
                targets = openRedirectParamTargets E (Option.bind (ir_parsed base1) pu_query) inputLower maxDecodeDepth
            in if targets = [] then None
               else firstSome (hopCorrelation E inputDomain inputLower (paramByDomain E targets)) hops))"

record HttpsDowngrade =
  hd_hop :: nat
  hd_kind :: TransitionKind
  hd_fromUrl :: ustring
  hd_toUrl :: ustring
  hd_transportProtocol :: "string option"
  hd_finding :: EnricherFinding

definition hopScheme :: "net_platform \<Rightarrow> ustring \<Rightarrow> string option" where
  "hopScheme N url = map_option uv_protocol (np_URL N url)"

definition downgradeFinding :: "ChainHop \<Rightarrow> FollowTransition \<Rightarrow> EnricherFinding" where
  "downgradeFinding hop transition =
     \<lparr>ef_code = str ''https_downgrade_observed'',
      ef_detail = str ''Hop '' @ to_radix 10 (hp_hop hop) @ str '' was fetched over https and its '' @
        str (kindName (ft_kind transition)) @ str '' sent the chain to the plaintext target '' @
        quoted (ft_targetUrl transition) @ str '' '' @ dash @ str '' the chain left TLS. Observed and reported, '' @
        str ''never refused: refusing buys no confidentiality (no body, cookies, or credentials are '' @
        str ''sent and the caller'' @ [39] @ str ''s Referer is stripped) while costing observation of the remaining '' @
        str ''hops. Informational (weight 0) '' @ dash @ str '' a downgrade is not itself deceptive'',
      ef_confusables = []\<rparr>"

definition httpsDowngradeFor :: "net_platform \<Rightarrow> ChainHop \<Rightarrow> HttpsDowngrade option" where
  "httpsDowngradeFor N hop =
     (case hp_transition hop of
        None \<Rightarrow> None
      | Some transition \<Rightarrow>
          if hopScheme N (hp_url hop) \<noteq> Some ''https:'' \<or> hopScheme N (ft_targetUrl transition) \<noteq> Some ''http:'' then None
          else Some \<lparr>hd_hop = hp_hop hop, hd_kind = ft_kind transition, hd_fromUrl = hp_url hop, hd_toUrl = ft_targetUrl transition,
            hd_transportProtocol = as_protocol (hp_evidence hop), hd_finding = downgradeFinding hop transition\<rparr>)"

record AltSvc =
  al_advertisements :: "ustring list"
  al_protocols :: "ustring list"
  al_cleared :: bool

definition ALT_SVC_PROTOCOL_PATTERN :: "ustring \<Rightarrow> bool" where
  "ALT_SVC_PROTOCOL_PATTERN token \<longleftrightarrow> token \<noteq> [] \<and> length token \<le> 32 \<and>
     list_all (\<lambda>ch. is_alpha ch \<or> is_digit ch \<or> ch \<in> set (str ''!#$&^_.+%-'')) token"

fun altSvcEntries :: "platform \<Rightarrow> ustring list \<Rightarrow> ustring list \<times> bool \<Rightarrow> ustring list \<times> bool" where
  "altSvcEntries E [] st = st"
| "altSvcEntries E (entry # entries) (protocols, cleared) =
     (let token = trim (fst (cut_at 61 entry)) in
      altSvcEntries E entries
        (if pf_toLowerCase E token = str ''clear'' then (protocols, True)
         else if \<not> ALT_SVC_PROTOCOL_PATTERN token \<or> token \<in> set protocols \<or> length protocols \<ge> MAX_ALT_SVC_PROTOCOLS
         then (protocols, cleared)
         else (protocols @ [token], cleared)))"

definition altSvcEvidenceFor :: "platform \<Rightarrow> ChainHop \<Rightarrow> AltSvc option" where
  "altSvcEvidenceFor E hop =
     (let advertisements = headerValues E (fr_headers (hp_response hop)) ''alt-svc'' in
      if advertisements = [] then None
      else (case altSvcEntries E (concat (map (split_on 44) advertisements)) ([], False) of
          (protocols, cleared) \<Rightarrow>
            Some \<lparr>al_advertisements = advertisements, al_protocols = protocols, al_cleared = cleared\<rparr>))"

datatype MimeEvidence =
    NoBody "ustring option" bool
  | Classified SniffedMimeType bool nat bool bool

definition mismatchFinding :: "nat \<Rightarrow> SniffedMimeType \<Rightarrow> EnricherFinding" where
  "mismatchFinding hop sniff =
     \<lparr>ef_code = str ''content_type_mismatch'',
      ef_detail = str ''Hop '' @ to_radix 10 hop @ str '' response declared '' @
        quoted (case sm_declaredEssence sniff of Some d \<Rightarrow> d | None \<Rightarrow> str ''null'') @ str '' but its bytes sniff to '' @
        quoted (sm_computedEssence sniff) @ str '' with no nosniff '' @ dash @ str '' a content-type mismatch a sniffing '' @
        str ''consumer could execute; informational corroboration, not proof of exploitation.'',
      ef_confusables = []\<rparr>"

definition mimeEvidenceFor :: "platform \<Rightarrow> ChainHop \<Rightarrow> MimeEvidence \<times> EnricherFinding option" where
  "mimeEvidenceFor E hop =
     (let headers = fr_headers (hp_response hop); declared = singleHeaderValue E headers ''content-type'';
          noSniff = (pf_toLowerCase E (trim (case singleHeaderValue E headers ''x-content-type-options'' of Some v \<Rightarrow> v | None \<Rightarrow> [])) = str ''nosniff'');
          body = fr_body (hp_response hop)
      in if hp_method hop = ''HEAD'' \<or> body = [] then (NoBody declared noSniff, None)
         else (let sniff = sniffMimeType E body declared;
                   mismatch = (sm_declaredEssence sniff \<noteq> None \<and> sm_declaredEssence sniff \<noteq> Some (sm_computedEssence sniff));
                   active = (mismatch \<and> \<not> noSniff \<and>
                     (sm_computedEssence sniff = str ''text/html'' \<or> sm_computedEssence sniff = str ''text/xml'') \<and>
                     sm_declaredEssence sniff \<noteq> Some (str ''text/html'') \<and> sm_declaredEssence sniff \<noteq> Some (str ''text/xml''))
               in (Classified sniff noSniff (min (length body) MIME_SNIFF_PREFIX_BYTES) mismatch active,
                   if active then Some (mismatchFinding (hp_hop hop) sniff) else None)))"

record HopOutcome =
  ho_hop :: ChainHop
  ho_correlation :: "OpenRedirectCorrelation option"
  ho_mime :: MimeEvidence
  ho_downgrade :: "HttpsDowngrade option"
  ho_altSvc :: "AltSvc option"
  ho_findings :: "EnricherFinding list"

datatype chain_outcome = HopOk HopOutcome | HopStop ChainStop

definition optional :: "'a option \<Rightarrow> 'a list" where
  "optional x = (case x of None \<Rightarrow> [] | Some y \<Rightarrow> [y])"

definition hopOutcome ::
    "ChainHop \<Rightarrow> EnricherFinding list \<Rightarrow> OpenRedirectCorrelation option \<Rightarrow> MimeEvidence \<times> EnricherFinding option \<Rightarrow>
     HttpsDowngrade option \<Rightarrow> AltSvc option \<Rightarrow> HopOutcome" where
  "hopOutcome hop findings correlation mime downgrade altSvc =
     \<lparr>ho_hop = hop, ho_correlation = correlation, ho_mime = fst mime, ho_downgrade = downgrade, ho_altSvc = altSvc,
      ho_findings = findings @ optional (map_option oc_finding correlation) @ optional (snd mime) @
        optional (map_option hd_finding downgrade)\<rparr>"

definition reportHop ::
    "platform \<Rightarrow> net_platform \<Rightarrow> ChainHop option \<Rightarrow> ustring list \<Rightarrow> OpenRedirectCorrelation option \<Rightarrow> ChainHop \<Rightarrow> HopOutcome" where
  "reportHop E N worst baseCodes correlation hop =
     hopOutcome hop
       (if map_option hp_hop worst = Some (hp_hop hop) then offlineFindings (hp_offline hop) (hp_hop hop) baseCodes else [])
       (if map_option oc_hop correlation = Some (hp_hop hop) then correlation else None)
       (mimeEvidenceFor E hop) (httpsDowngradeFor N hop) (altSvcEvidenceFor E hop)"

definition initialWalk :: "ustring \<Rightarrow> InspectResult \<Rightarrow> walk_state" where
  "initialWalk url offline =
     \<lparr>ws_session = newSession, ws_hops = [], ws_seen = [], ws_url = url, ws_offline = offline, ws_reason = Initial,
      ws_fromUrl = None, ws_events = []\<rparr>"

text \<open>The report of the hops and of what stopped the walk.\<close>

definition reportChain ::
    "platform \<Rightarrow> net_platform \<Rightarrow> chain \<Rightarrow> InspectResult \<Rightarrow> ChainHop list \<Rightarrow> ChainStop option \<Rightarrow> chain_outcome list" where
  "reportChain E N c base1 hops stop =
     (let worst = worstHop hops;
          baseCodes = map rs_code (filter (\<lambda>r. \<not> rs_suppressed r) (ir_reasons base1));
          correlation = correlateOpenRedirect E base1 hops baseCodes (ch_maxDecodeDepth c)
      in map (HopOk \<circ> reportHop E N worst baseCodes correlation) hops @ map HopStop (optional stop))"

text \<open>\<open>enrich\<close>: the outcomes of the report and the events of the walk; \<open>None\<close> when \<open>inspect\<close> raises.\<close>

definition enrichChain ::
    "platform \<Rightarrow> net_platform \<Rightarrow> web_platform \<Rightarrow> PslSnapshot \<Rightarrow> TransportPolicy \<Rightarrow> chain \<Rightarrow> chain_env \<Rightarrow> InspectResult \<Rightarrow>
     (chain_outcome list \<times> walk_state option) option" where
  "enrichChain E N W snapshot policy c env base1 =
     (case canonicalHttpUrl N (ir_input base1) of
        None \<Rightarrow> Some ([HopStop (degradationOutcome (ir_input base1) FailureStatus ''invalid-target'' False NoStopDetails None None)], None)
      | Some initial \<Rightarrow>
          (case inspect E snapshot (StringInput initial) (ch_inspectOptions c) of
             None \<Rightarrow> None
           | Some offline \<Rightarrow>
               (case chainWalk E N W snapshot policy c env (initialWalk initial offline) of
                  None \<Rightarrow> None
                | Some (ws, stop) \<Rightarrow> Some (reportChain E N c base1 (ws_hops ws) stop, Some ws))))"

subsection \<open>The invariant of the walk\<close>

text \<open>A fetch comes right after the authorizer granted its URL, and its calls are those of the transport.\<close>

inductive consented ::
    "platform \<Rightarrow> net_platform \<Rightarrow> TransportPolicy \<Rightarrow> chain \<Rightarrow> chain_env \<Rightarrow> chain_event list \<Rightarrow> bool" for E N policy c env where
  nothing: "consented E N policy c env []"
| asked: "consented E N policy c env events \<Longrightarrow> consented E N policy c env (events @ [AuthorizeEvent r])"
| fetched: "consented E N policy c env events \<Longrightarrow> ce_authorize env r = Granted authorized \<Longrightarrow>
    request = chainRequest c (az_url r) authorized \<Longrightarrow>
    fetch E N policy fenv request session = (outcome, session', calls) \<Longrightarrow>
    consented E N policy c env (events @ [AuthorizeEvent r, FetchEvent request outcome calls])"

fun fetchedUrl :: "chain_event \<Rightarrow> ustring list" where
  "fetchedUrl (AuthorizeEvent r) = []"
| "fetchedUrl (FetchEvent request outcome calls) = [rq_url request]"

definition fetchedUrls :: "chain_event list \<Rightarrow> ustring list" where
  "fetchedUrls events = concat (map fetchedUrl events)"

definition leadsTo :: "ChainHop \<Rightarrow> ChainHop \<Rightarrow> bool" where
  "leadsTo h h' \<longleftrightarrow> map_option ft_targetUrl (hp_transition h) = Some (hp_url h')"

text \<open>What holds of every state of the walk, with the URLs fetched so far.\<close>

definition walkedWell ::
    "platform \<Rightarrow> net_platform \<Rightarrow> TransportPolicy \<Rightarrow> chain \<Rightarrow> chain_env \<Rightarrow> ustring \<Rightarrow> walk_state \<Rightarrow> bool" where
  "walkedWell E N policy c env initial ws \<longleftrightarrow>
     consented E N policy c env (ws_events ws) \<and> fetchedUrls (ws_events ws) = ws_seen ws \<and> distinct (ws_seen ws) \<and>
     length (ws_seen ws) \<le> ch_maxHops c \<and> withinBudget policy (ws_session ws) \<and>
     map hp_url (ws_hops ws) = take (length (ws_hops ws)) (ws_seen ws) \<and> length (ws_hops ws) \<le> length (ws_seen ws) \<and>
     map hp_hop (ws_hops ws) = [1..<Suc (length (ws_hops ws))] \<and> successively leadsTo (ws_hops ws) \<and>
     (ws_seen ws \<noteq> [] \<longrightarrow> hd (ws_seen ws) = initial)"

text \<open>What holds in addition before a pass: every fetch became a hop, and the last one led here.\<close>

definition atPass ::
    "platform \<Rightarrow> net_platform \<Rightarrow> TransportPolicy \<Rightarrow> chain \<Rightarrow> chain_env \<Rightarrow> ustring \<Rightarrow> walk_state \<Rightarrow> bool" where
  "atPass E N policy c env initial ws \<longleftrightarrow>
     walkedWell E N policy c env initial ws \<and> map hp_url (ws_hops ws) = ws_seen ws \<and>
     (if ws_hops ws = [] then ws_url ws = initial
      else map_option ft_targetUrl (hp_transition (last (ws_hops ws))) = Some (ws_url ws))"

definition endsWell :: "ChainStop option \<Rightarrow> walk_state \<Rightarrow> bool" where
  "endsWell stop ws \<longleftrightarrow> stop \<noteq> None \<or> ws_hops ws \<noteq> [] \<and> hp_transition (last (ws_hops ws)) = None"

lemma fetchedUrls_simps [simp]:
  "fetchedUrls [] = []"
  "fetchedUrls (events @ [AuthorizeEvent r]) = fetchedUrls events"
  "fetchedUrls (events @ [AuthorizeEvent r, FetchEvent request outcome calls]) = fetchedUrls events @ [rq_url request]"
  by (simp_all add: fetchedUrls_def)

lemma chainRequest_url [simp]: "rq_url (chainRequest c url authorized) = url"
  by (simp add: chainRequest_def)

text \<open>The state after the request of a pass has been fetched.\<close>

definition afterRequest ::
    "walk_state \<Rightarrow> AuthorizationRequest \<Rightarrow> SafeFetchRequest \<Rightarrow> SafeFetchOutcome \<Rightarrow> SafeSession \<Rightarrow> port_call list \<Rightarrow> walk_state" where
  "afterRequest ws r request outcome session' calls =
     ws\<lparr>ws_session := session', ws_seen := ws_seen ws @ [ws_url ws],
       ws_events := ws_events ws @ [AuthorizeEvent r, FetchEvent request outcome calls]\<rparr>"

lemma atPass_length: "atPass E N policy c env initial ws \<Longrightarrow> length (ws_seen ws) = length (ws_hops ws)"
  by (metis atPass_def length_map)

lemma afterRequest_well:
  assumes inv: "atPass E N policy c env initial ws" and new: "ws_url ws \<notin> set (ws_seen ws)" and room: "length (ws_hops ws) < ch_maxHops c"
    and r: "az_url r = ws_url ws" "ce_authorize env r = Granted authorized"
    and run: "fetch E N policy fenv (chainRequest c (ws_url ws) authorized) (ws_session ws) = (outcome, session', calls)"
  shows "walkedWell E N policy c env initial
    (afterRequest ws r (chainRequest c (ws_url ws) authorized) outcome session' calls)"
proof -
  have "consented E N policy c env (ws_events ws @ [AuthorizeEvent r, FetchEvent (chainRequest c (ws_url ws) authorized) outcome calls])"
    using inv r run fetched [of E N policy c env "ws_events ws" r authorized] by (auto simp: atPass_def walkedWell_def)
  moreover have "withinBudget policy session'"
    using inv fetch_budget [OF _ run] by (simp add: atPass_def walkedWell_def)
  moreover have "hd (ws_seen ws @ [ws_url ws]) = initial"
    using inv by (cases "ws_seen ws") (auto simp: atPass_def walkedWell_def split: if_splits)
  ultimately show ?thesis
    using inv atPass_length [OF inv] new room by (auto simp: atPass_def walkedWell_def afterRequest_def)
qed

text \<open>The three ways a pass goes: it stops at once, after asking, or it fetches.\<close>

lemma chainStep_cases:
  obtains (now) stop where "chainStep E N W snapshot policy c env ws = Done ws (Some stop)"
  | (refused) r stop where "chainStep E N W snapshot policy c env ws = Done (ws\<lparr>ws_events := ws_events ws @ [AuthorizeEvent r]\<rparr>) (Some stop)"
  | (asked) r authorized outcome session' calls where "az_url r = ws_url ws" "ce_authorize env r = Granted authorized"
      "ws_url ws \<notin> set (ws_seen ws)" "length (ws_hops ws) < ch_maxHops c"
      "fetch E N policy (ce_fetch env (length (ws_hops ws))) (chainRequest c (ws_url ws) authorized) (ws_session ws) = (outcome, session', calls)"
      "chainStep E N W snapshot policy c env ws =
        (let ws' = afterRequest ws r (chainRequest c (ws_url ws) authorized) outcome session' calls in
         case outcome of
           FetchSuccess st response \<Rightarrow> afterFetch E W snapshot c st response ws'
         | FetchBlocked st code d \<Rightarrow> Done ws' (Some (transportDegradation SkippedStatus st code d (ws_offline ws)))
         | FetchIncomplete st code d \<Rightarrow> Done ws' (Some (transportDegradation FailureStatus st code d (ws_offline ws))))"
proof (cases "ce_aborted env (length (ws_hops ws)) \<or> ws_url ws \<in> set (ws_seen ws) \<or> length (ws_hops ws) \<ge> ch_maxHops c")
  case True
  then have "\<exists>stop. chainStep E N W snapshot policy c env ws = Done ws (Some stop)"
    by (auto simp: chainStep_def Let_def)
  then show ?thesis using now by blast
next
  case False
  define r where "r = \<lparr>az_url = ws_url ws, az_hop = length (ws_hops ws) + 1, az_method = ch_method c,
    az_reason = ws_reason ws, az_fromUrl = ws_fromUrl ws\<rparr>"
  have stops: "ce_authorize env r \<in> {AuthorizerRaised, Denied} \<Longrightarrow>
      \<exists>stop. chainStep E N W snapshot policy c env ws = Done (ws\<lparr>ws_events := ws_events ws @ [AuthorizeEvent r]\<rparr>) (Some stop)"
    using False by (auto simp: chainStep_def Let_def r_def)
  show ?thesis
  proof (cases "ce_authorize env r")
    case (Granted authorized)
    obtain outcome session' calls where run:
      "fetch E N policy (ce_fetch env (length (ws_hops ws))) (chainRequest c (ws_url ws) authorized) (ws_session ws) = (outcome, session', calls)"
      by (metis prod_cases3)
    show ?thesis
      using False Granted run asked [of r authorized outcome session' calls]
      by (simp add: chainStep_def Let_def r_def afterRequest_def)
  qed (use stops refused in auto)
qed

text \<open>Recording the hop of a fetch.\<close>

lemma pushHop_well:
  assumes well: "walkedWell E N policy c env initial (afterRequest ws r request outcome session' calls)"
    and inv: "atPass E N policy c env initial ws"
    and hop: "hp_url hop = ws_url ws" "hp_hop hop = length (ws_hops ws) + 1"
  shows "walkedWell E N policy c env initial ((afterRequest ws r request outcome session' calls)\<lparr>ws_hops := ws_hops ws @ [hop]\<rparr>)"
proof -
  have "successively leadsTo (ws_hops ws @ [hop])"
    using inv hop by (auto simp: atPass_def walkedWell_def successively_append_iff leadsTo_def split: if_splits)
  then show ?thesis
    using well inv atPass_length [OF inv] hop by (auto simp: walkedWell_def atPass_def afterRequest_def)
qed

lemma afterFetch_shape:
  assumes "afterFetch E W snapshot c st response ws = res"
  shows "\<exists>hop. hp_url hop = ws_url ws \<and> hp_hop hop = length (ws_hops ws) + 1 \<and>
    (case res of
       Done ws' stop \<Rightarrow> ws' = ws\<lparr>ws_hops := ws_hops ws @ [hop]\<rparr> \<and> (stop = None \<longrightarrow> hp_transition hop = None)
     | Go ws' \<Rightarrow> ws_hops ws' = ws_hops ws @ [hop] \<and> ws_seen ws' = ws_seen ws \<and> ws_events ws' = ws_events ws \<and>
         ws_session ws' = ws_session ws \<and> map_option ft_targetUrl (hp_transition hop) = Some (ws_url ws')
     | InspectRaised \<Rightarrow> True)"
proof -
  define hop where "hop = \<lparr>hp_url = ws_url ws, hp_hop = length (ws_hops ws) + 1, hp_method = ch_method c, hp_response = response,
    hp_evidence = st, hp_offline = ws_offline ws,
    hp_transition = (case transitionFor E W response (ws_url ws) (ch_method c) (ch_refresh c) of Follow t \<Rightarrow> Some t | _ \<Rightarrow> None)\<rparr>"
  show ?thesis
    using assms
    by (intro exI [of _ hop])
      (auto simp: afterFetch_def Let_def hop_def split: TransitionDecision.splits option.splits)
qed

lemma walkedWell_cong:
  "ws_hops ws' = ws_hops ws \<Longrightarrow> ws_seen ws' = ws_seen ws \<Longrightarrow> ws_events ws' = ws_events ws \<Longrightarrow> ws_session ws' = ws_session ws \<Longrightarrow>
     walkedWell E N policy c env initial ws' = walkedWell E N policy c env initial ws"
  by (simp add: walkedWell_def)

lemma chainStep_well:
  assumes inv: "atPass E N policy c env initial ws" and step: "chainStep E N W snapshot policy c env ws = res"
  shows "case res of
      Done ws' stop \<Rightarrow> walkedWell E N policy c env initial ws' \<and> endsWell stop ws'
    | Go ws' \<Rightarrow> atPass E N policy c env initial ws'
    | InspectRaised \<Rightarrow> True"
proof (cases rule: chainStep_cases [of E N W snapshot policy c env ws])
  case (now stop)
  with inv step show ?thesis by (auto simp: atPass_def endsWell_def)
next
  case (refused r stop)
  have "consented E N policy c env (ws_events ws @ [AuthorizeEvent r])"
    using inv consented.asked by (simp add: atPass_def walkedWell_def)
  with inv step refused show ?thesis by (auto simp: atPass_def walkedWell_def endsWell_def)
next
  case (asked r authorized outcome session' calls)
  define ws1 where "ws1 = afterRequest ws r (chainRequest c (ws_url ws) authorized) outcome session' calls"
  have well: "walkedWell E N policy c env initial ws1"
    unfolding ws1_def by (rule afterRequest_well [OF inv asked(3,4,1,2,5)])
  show ?thesis
  proof (cases outcome)
    case (FetchSuccess st response)
    then have run: "afterFetch E W snapshot c st response ws1 = res" using step asked(6) by (simp add: ws1_def)
    have same: "ws_url ws1 = ws_url ws" "ws_hops ws1 = ws_hops ws" "ws_seen ws1 = ws_seen ws @ [ws_url ws]"
      by (simp_all add: ws1_def afterRequest_def)
    obtain hop where hop: "hp_url hop = ws_url ws" "hp_hop hop = length (ws_hops ws) + 1"
      and shape: "case res of
         Done ws' stop \<Rightarrow> ws' = ws1\<lparr>ws_hops := ws_hops ws @ [hop]\<rparr> \<and> (stop = None \<longrightarrow> hp_transition hop = None)
       | Go ws' \<Rightarrow> ws_hops ws' = ws_hops ws @ [hop] \<and> ws_seen ws' = ws_seen ws1 \<and> ws_events ws' = ws_events ws1 \<and>
           ws_session ws' = ws_session ws1 \<and> map_option ft_targetUrl (hp_transition hop) = Some (ws_url ws')
       | InspectRaised \<Rightarrow> True"
      using afterFetch_shape [OF run] unfolding same by blast
    have pushed: "walkedWell E N policy c env initial (ws1\<lparr>ws_hops := ws_hops ws @ [hop]\<rparr>)"
      using pushHop_well [OF well [unfolded ws1_def] inv hop] by (simp add: ws1_def)
    show ?thesis
    proof (cases res)
      case (Go ws')
      then have "walkedWell E N policy c env initial ws'"
        using shape pushed walkedWell_cong [of ws' "ws1\<lparr>ws_hops := ws_hops ws @ [hop]\<rparr>"] by simp
      then show ?thesis using Go shape hop same inv by (auto simp: atPass_def)
    qed (use shape pushed in \<open>auto simp: endsWell_def\<close>)
  qed (use step asked(6) well [unfolded ws1_def] in \<open>auto simp: endsWell_def\<close>)
qed

lemma chainWalk_well:
  "atPass E N policy c env initial ws \<Longrightarrow> chainWalk E N W snapshot policy c env ws = Some (ws', stop) \<Longrightarrow>
     walkedWell E N policy c env initial ws' \<and> endsWell stop ws'"
proof (induction E N W snapshot policy c env ws rule: chainWalk.induct)
  case (1 E N W snapshot policy c env ws)
  show ?case
    using 1 chainStep_well [OF 1(2)] by (subst (asm) (2) chainWalk.simps) (force split: step.splits)
qed

lemma initialWalk_atPass: "atPass E N policy c env initial (initialWalk initial offline)"
  by (simp add: atPass_def walkedWell_def initialWalk_def consented.nothing withinBudget_def newSession_def)

subsection \<open>The properties of the chain\<close>

lemma consented_fetch:
  "consented E N policy c env events \<Longrightarrow> FetchEvent request outcome calls \<in> set events \<Longrightarrow>
     \<exists>r authorized fenv session session'. AuthorizeEvent r \<in> set events \<and> ce_authorize env r = Granted authorized \<and>
       request = chainRequest c (az_url r) authorized \<and> fetch E N policy fenv request session = (outcome, session', calls)"
  by (induction rule: consented.induct) (auto, blast+)

lemma enrichChain_walk:
  assumes "enrichChain E N W snapshot policy c env base1 = Some (outcomes, Some ws)"
  shows "\<exists>initial stop. canonicalHttpUrl N (ir_input base1) = Some initial \<and> walkedWell E N policy c env initial ws \<and> endsWell stop ws \<and>
    (\<exists>rep. outcomes = map (HopOk \<circ> rep) (ws_hops ws) @ map HopStop (optional stop) \<and> (\<forall>h. ho_hop (rep h) = h))"
proof -
  obtain initial offline stop where url: "canonicalHttpUrl N (ir_input base1) = Some initial"
    and walk: "chainWalk E N W snapshot policy c env (initialWalk initial offline) = Some (ws, stop)"
    and report: "outcomes = reportChain E N c base1 (ws_hops ws) stop"
    using assms by (auto simp: enrichChain_def split: option.splits)
  have "ho_hop (reportHop E N worst codes correlation h) = h" for worst codes correlation h
    by (simp add: reportHop_def hopOutcome_def)
  then have "\<exists>rep. outcomes = map (HopOk \<circ> rep) (ws_hops ws) @ map HopStop (optional stop) \<and> (\<forall>h. ho_hop (rep h) = h)"
    unfolding report reportChain_def Let_def by blast
  with url chainWalk_well [OF initialWalk_atPass walk] show ?thesis by blast
qed

lemma boundedInteger_le: "fallback \<le> maximum \<Longrightarrow> boundedInteger v fallback maximum \<le> maximum"
  by (simp add: boundedInteger_def split: option.split)

lemma chain_maxHops: "ch_maxHops (createRedirectChainEnricher options) \<le> 32"
  by (simp add: createRedirectChainEnricher_def boundedInteger_le DEFAULT_REDIRECT_CHAIN_MAX_HOPS_def MAX_REDIRECT_CHAIN_HOPS_def
      boundedInteger_le [of 10 32, simplified])

lemma inspect_settles:
  assumes "normalizeOptions E (oi_options (callOptions opts)) \<noteq> None"
    and "getProp (oi_options (callOptions opts)) (str ''agentMode'') \<noteq> None"
  shows "\<exists>r. inspect E snapshot (StringInput url) opts = Some r"
proof -
  have "inspect E snapshot (StringInput url) opts \<noteq> None"
    unfolding inspect_def inspectWith_None_iff using assms by (simp split: option.splits)
  then show ?thesis by auto
qed

lemma chainWalk_settles:
  assumes "\<And>url. \<exists>r. inspect E snapshot (StringInput url) (ch_inspectOptions c) = Some r"
  shows "\<exists>ws' stop. chainWalk E N W snapshot policy c env ws = Some (ws', stop)"
proof (induction "ch_maxHops c - length (ws_hops ws)" arbitrary: ws rule: less_induct)
  case less
  show ?case
  proof (cases "chainStep E N W snapshot policy c env ws")
    case (Go ws')
    with chainStep_Go [OF Go] less [of ws'] show ?thesis by (subst chainWalk.simps) auto
  next
    case InspectRaised
    have "afterFetch E W snapshot c st response ws1 \<noteq> InspectRaised" for st response ws1
      using assms by (auto simp: afterFetch_def Let_def split: TransitionDecision.splits option.splits) (metis option.distinct(1))+
    then have "chainStep E N W snapshot policy c env ws \<noteq> InspectRaised"
      by (cases rule: chainStep_cases [of E N W snapshot policy c env ws]) (auto simp: Let_def split: SafeFetchOutcome.splits)
    with InspectRaised show ?thesis by simp
  qed (subst chainWalk.simps, simp)
qed

text \<open>A chain of one page on the network of the transport examples.\<close>

definition demoWeb :: web_platform where
  "demoWeb = \<lparr>wp_URL = (\<lambda>_ _. None), wp_utf8 = (\<lambda>b. b), wp_windows1252 = (\<lambda>b. b)\<rparr>"

definition demoOptions :: chain_options where
  "demoOptions = \<lparr>co_method = Undefined, co_maxHops = Undefined, co_maxRefreshBytes = Undefined, co_maxRefreshDelayMs = Undefined,
     co_headers = [], co_inspectOptions = Obj True [], co_maxDecodeDepth = None\<rparr>"

definition demoChain :: chain where
  "demoChain = createRedirectChainEnricher demoOptions"

definition demoChainEnv :: chain_env where
  "demoChainEnv = \<lparr>ce_aborted = (\<lambda>_. False), ce_authorize = (\<lambda>r. Granted (Some (az_url r))), ce_fetch = (\<lambda>_. demoEnv ''8.8.8.8'')\<rparr>"

definition demoAsk :: AuthorizationRequest where
  "demoAsk = \<lparr>az_url = str ''https://example.com/'', az_hop = 1, az_method = ''GET'', az_reason = Initial, az_fromUrl = None\<rparr>"

definition demoSnapshot :: PslSnapshot where "demoSnapshot = \<lparr>sn_date = None, sn_stale = None\<rparr>"

definition demoChainRequest :: SafeFetchRequest where
  "demoChainRequest = chainRequest demoChain (str ''https://example.com/'') (Some (str ''https://example.com/''))"

definition demoCalls :: "port_call list" where
  "demoCalls = [ResolveCall (str ''example.com''), dial demoUrl (str ''8.8.8.8''),
     ask ascii_platform demoChainRequest demoUrl None demoConnection, CloseCall (str ''c1'')]"

lemma demoChain_fields [simp]:
  "ch_method demoChain = ''GET''" "ch_maxHops demoChain = 10" "ch_headers demoChain = []" "ch_inspectOptions demoChain = Obj True []"
  by (simp_all add: demoChain_def createRedirectChainEnricher_def demoOptions_def boundedInteger_def DEFAULT_REDIRECT_CHAIN_MAX_HOPS_def)

lemma demo_options:
  "normalizeOptions ascii_platform (oi_options (callOptions (Obj True []))) \<noteq> None"
  "getProp (oi_options (callOptions (Obj True []))) (str ''agentMode'') \<noteq> None"
proof -
  have o: "oi_options (callOptions (Obj True [])) = Obj True []" by (simp add: callOptions_def intakeOptions_def)
  show "normalizeOptions ascii_platform (oi_options (callOptions (Obj True []))) \<noteq> None"
    unfolding o normalizeOptions_None_iff by (simp add: getProp_def)
  show "getProp (oi_options (callOptions (Obj True []))) (str ''agentMode'') \<noteq> None"
    unfolding o by (simp add: getProp_def)
qed

lemma demo_inspect: "\<exists>r. inspect ascii_platform demoSnapshot (StringInput url) (Obj True []) = Some r"
  by (rule inspect_settles [OF demo_options])

lemma demo_chain_fetch:
  "fetch ascii_platform demoNet DEFAULT_TRANSPORT_POLICY (demoEnv ''8.8.8.8'') demoChainRequest newSession =
     (FetchSuccess demoState demoResponse, \<lparr>se_hops = 1, se_encodedBytes = 2, se_decompressedBytes = 2\<rparr>, demoCalls)"
  by (simp add: transport_eval demo_pin demo_unbracket demoUrl_def demoChainRequest_def chainRequest_def demoConnection_def demoEnv_def
      demoState_def demoResponse_def demoCalls_def dial_def ask_def)

lemma demo_transition: "transitionFor ascii_platform demoWeb demoResponse url ''GET'' policy = Terminal"
  by (simp add: transitionFor_def demoResponse_def REDIRECT_STATUSES_def singleHeader_def singleHeaderValue_def parseContentType_def isHtml_def)

definition demoBase :: InspectResult where
  "demoBase = \<lparr>ir_schemaVersion = SCHEMA_VERSION, ir_status = Ok, ir_input = str ''https://example.com/'', ir_parsed = None,
     ir_score = Some 0, ir_severity = Some Low, ir_confidence = 1, ir_reasons = [], ir_confusables = [], ir_checksRun = [],
     ir_checksSkipped = [], ir_dataVersions = [], ir_pslSnapshot = demoSnapshot\<rparr>"

lemma demo_canonical: "canonicalHttpUrl demoNet (ir_input demoBase) = Some (str ''https://example.com/'')"
proof -
  have "length (str s) = length s" for s by (simp add: str_def)
  then show ?thesis by (simp add: canonicalHttpUrl_def demoBase_def demoUrl_def MAX_CHAIN_URL_LENGTH_def)
qed

lemma demo_chain:
  obtains outcomes ws where
    "enrichChain ascii_platform demoNet demoWeb demoSnapshot DEFAULT_TRANSPORT_POLICY demoChain demoChainEnv demoBase =
       Some (outcomes, Some ws)"
    "ws_events ws = [AuthorizeEvent demoAsk, FetchEvent demoChainRequest (FetchSuccess demoState demoResponse) demoCalls]"
proof -
  obtain offline where off: "inspect ascii_platform demoSnapshot (StringInput (str ''https://example.com/'')) (Obj True []) = Some offline"
    using demo_inspect by blast
  have "\<exists>ws. chainWalk ascii_platform demoNet demoWeb demoSnapshot DEFAULT_TRANSPORT_POLICY demoChain demoChainEnv
        (initialWalk (str ''https://example.com/'') offline) = Some (ws, None) \<and>
      ws_events ws = [AuthorizeEvent demoAsk, FetchEvent demoChainRequest (FetchSuccess demoState demoResponse) demoCalls]"
    by (subst chainWalk.simps)
      (simp add: chainStep_def initialWalk_def Let_def demoChainEnv_def demo_chain_fetch [unfolded demoChainRequest_def]
        afterFetch_def demo_transition demoAsk_def demoChainRequest_def)
  then show thesis using that by (auto simp: enrichChain_def demo_canonical off)
qed

text \<open>
  C12: Consent along a chain. Whenever the walk opens a connection, the caller's authorizer was asked
  for that very URL and granted it, the connection goes to the host and port of that URL, with that
  host as the TLS server name exactly for https, and its address is public: outside the supplemental
  ranges and, as far as core's parser reads it, outside all special-purpose ranges. A redirect never
  widens what was granted.
\<close>

theorem chain_connects_consented:
  assumes "enrichChain E N W snapshot policy c env base1 = Some (outcomes, Some ws)"
    and "FetchEvent request outcome calls \<in> set (ws_events ws)" and "ConnectCall protocol host a port server \<in> set calls"
  shows "\<exists>r url. AuthorizeEvent r \<in> set (ws_events ws) \<and> ce_authorize env r = Granted (Some (az_url r)) \<and>
    rq_url request = az_url r \<and> np_URL N (az_url r) = Some url \<and> protocol = uv_protocol url \<and>
    host = unbracket (uv_hostname url) \<and> port = effectivePort url \<and>
    server = (if protocol = ''https:'' then Some host else None) \<and> publicDestination N a"
proof -
  have "consented E N policy c env (ws_events ws)"
    using enrichChain_walk [OF assms(1)] by (auto simp: walkedWell_def)
  from consented_fetch [OF this assms(2)] obtain r authorized fenv session session' where r: "AuthorizeEvent r \<in> set (ws_events ws)"
    "ce_authorize env r = Granted authorized" "request = chainRequest c (az_url r) authorized"
    and run: "fetch E N policy fenv request session = (outcome, session', calls)" by blast
  from safeTrace_dial [OF fetch_safeTrace [OF run] assms(3)] obtain url referer where "permitted N request url referer"
    "protocol = uv_protocol url" "host = unbracket (uv_hostname url)" "port = effectivePort url" "pinnable N fenv host a"
    and server: "server = (if protocol = ''https:'' then Some host else None)" by blast
  with r have "AuthorizeEvent r \<in> set (ws_events ws) \<and> ce_authorize env r = Granted (Some (az_url r)) \<and>
      rq_url request = az_url r \<and> np_URL N (az_url r) = Some url \<and> publicDestination N a"
    by (auto simp: permitted_def chainRequest_def pinnable_def)
  then show ?thesis
    using \<open>protocol = uv_protocol url\<close> \<open>host = unbracket (uv_hostname url)\<close> \<open>port = effectivePort url\<close> server by blast
qed

theorem chain_connects_consented_witness:
  "\<exists>r url. ce_authorize demoChainEnv r = Granted (Some (az_url r)) \<and> np_URL demoNet (az_url r) = Some url \<and>
     str ''example.com'' = unbracket (uv_hostname url) \<and> publicDestination demoNet (str ''8.8.8.8'')"
proof (rule demo_chain)
  fix outcomes ws
  assume run: "enrichChain ascii_platform demoNet demoWeb demoSnapshot DEFAULT_TRANSPORT_POLICY demoChain demoChainEnv demoBase =
      Some (outcomes, Some ws)"
    and events: "ws_events ws = [AuthorizeEvent demoAsk, FetchEvent demoChainRequest (FetchSuccess demoState demoResponse) demoCalls]"
  have "FetchEvent demoChainRequest (FetchSuccess demoState demoResponse) demoCalls \<in> set (ws_events ws)"
    "ConnectCall ''https:'' (str ''example.com'') (str ''8.8.8.8'') 443 (Some (str ''example.com'')) \<in> set demoCalls"
    by (simp_all add: events demoCalls_def dial_def demoUrl_def effectivePort_def demo_unbracket)
  from chain_connects_consented [OF run this] show ?thesis by blast
qed

text \<open>
  C13: A chain is bounded. However the servers redirect, no URL is fetched twice, at most the configured
  number of hops is fetched, which is at most 32 whatever the caller configures, and the one session
  of the chain stays within its budgets.
\<close>

theorem chain_bounded:
  assumes "enrichChain E N W snapshot policy (createRedirectChainEnricher options) env base1 = Some (outcomes, Some ws)"
  shows "distinct (fetchedUrls (ws_events ws)) \<and>
    length (fetchedUrls (ws_events ws)) \<le> ch_maxHops (createRedirectChainEnricher options) \<and>
    ch_maxHops (createRedirectChainEnricher options) \<le> 32 \<and> withinBudget policy (ws_session ws)"
  using enrichChain_walk [OF assms] chain_maxHops by (auto simp: walkedWell_def)

theorem chain_bounded_witness:
  "distinct (fetchedUrls [AuthorizeEvent demoAsk, FetchEvent demoChainRequest (FetchSuccess demoState demoResponse) demoCalls]) \<and>
   ch_maxHops (createRedirectChainEnricher demoOptions) \<le> 32"
proof (rule demo_chain)
  fix outcomes ws
  assume run: "enrichChain ascii_platform demoNet demoWeb demoSnapshot DEFAULT_TRANSPORT_POLICY demoChain demoChainEnv demoBase =
      Some (outcomes, Some ws)"
    and events: "ws_events ws = [AuthorizeEvent demoAsk, FetchEvent demoChainRequest (FetchSuccess demoState demoResponse) demoCalls]"
  from chain_bounded [OF run [unfolded demoChain_def]] events show ?thesis by simp
qed

text \<open>
  C14: The report of a chain is its history: one outcome per hop in order, numbered from one, starting
  at the canonical input, each hop's transition leading to the next hop's URL, and at most one final
  stop. A chain reported without a stop ended on a page that leads nowhere.
\<close>

theorem chain_report_linked:
  assumes "enrichChain E N W snapshot policy c env base1 = Some (outcomes, Some ws)"
  shows "\<exists>hops stops. outcomes = map HopOk hops @ map HopStop stops \<and> length stops \<le> 1 \<and> outcomes \<noteq> [] \<and>
    map ho_hop hops = ws_hops ws \<and> map hp_hop (ws_hops ws) = [1..<Suc (length hops)] \<and> successively leadsTo (ws_hops ws) \<and>
    (hops \<noteq> [] \<longrightarrow> canonicalHttpUrl N (ir_input base1) = Some (hp_url (hd (ws_hops ws)))) \<and>
    (stops = [] \<longrightarrow> hp_transition (last (ws_hops ws)) = None)"
proof -
  from enrichChain_walk [OF assms] obtain initial stop rep where url: "canonicalHttpUrl N (ir_input base1) = Some initial"
    and well: "walkedWell E N policy c env initial ws" and fin: "endsWell stop ws"
    and out: "outcomes = map (HopOk \<circ> rep) (ws_hops ws) @ map HopStop (optional stop)" and rep: "\<And>h. ho_hop (rep h) = h" by blast
  have "hp_url (hd (ws_hops ws)) = initial" if "ws_hops ws \<noteq> []"
  proof -
    have "ws_seen ws \<noteq> []" using well that by (auto simp: walkedWell_def)
    then have "hd (map hp_url (ws_hops ws)) = hd (ws_seen ws)" using well that by (simp add: walkedWell_def)
    then show ?thesis using well that \<open>ws_seen ws \<noteq> []\<close> by (simp add: walkedWell_def hd_map)
  qed
  then show ?thesis
    using url well fin out rep
    by (intro exI [of _ "map rep (ws_hops ws)"] exI [of _ "optional stop"])
      (auto simp: walkedWell_def endsWell_def optional_def comp_def split: option.splits)
qed

theorem chain_report_linked_witness:
  "\<exists>outcomes ws. enrichChain ascii_platform demoNet demoWeb demoSnapshot DEFAULT_TRANSPORT_POLICY demoChain demoChainEnv demoBase =
     Some (outcomes, Some ws) \<and> outcomes \<noteq> [] \<and> successively leadsTo (ws_hops ws)"
proof (rule demo_chain)
  fix outcomes ws
  assume run: "enrichChain ascii_platform demoNet demoWeb demoSnapshot DEFAULT_TRANSPORT_POLICY demoChain demoChainEnv demoBase =
      Some (outcomes, Some ws)"
  from chain_report_linked [OF run] run show ?thesis by blast
qed

text \<open>
  C15: The walk always ends with a non-empty report of at most one outcome per allowed hop and one
  stop, whatever servers, resolver and authorizer answer, unless reading the caller's inspection
  options raises.
\<close>

theorem chain_settles:
  assumes "normalizeOptions E (oi_options (callOptions (ch_inspectOptions c))) \<noteq> None"
    and "getProp (oi_options (callOptions (ch_inspectOptions c))) (str ''agentMode'') \<noteq> None"
  shows "\<exists>outcomes ws. enrichChain E N W snapshot policy c env base1 = Some (outcomes, ws) \<and>
    1 \<le> length outcomes \<and> length outcomes \<le> ch_maxHops c + 1"
proof -
  note settles = inspect_settles [OF assms, of snapshot]
  show ?thesis
  proof (cases "canonicalHttpUrl N (ir_input base1)")
    case (Some initial)
    obtain offline where off: "inspect E snapshot (StringInput initial) (ch_inspectOptions c) = Some offline" using settles by blast
    obtain ws stop where "chainWalk E N W snapshot policy c env (initialWalk initial offline) = Some (ws, stop)"
      using chainWalk_settles [OF settles] by blast
    then have run: "enrichChain E N W snapshot policy c env base1 = Some (reportChain E N c base1 (ws_hops ws) stop, Some ws)"
      by (simp add: enrichChain_def Some off)
    from enrichChain_walk [OF run] show ?thesis
      using run by (auto simp: walkedWell_def endsWell_def optional_def Suc_le_eq split: option.splits)
  qed (simp add: enrichChain_def)
qed

theorem chain_settles_witness:
  "\<exists>outcomes ws. enrichChain ascii_platform demoNet demoWeb demoSnapshot DEFAULT_TRANSPORT_POLICY demoChain demoChainEnv demoBase =
     Some (outcomes, ws) \<and> 1 \<le> length outcomes \<and> length outcomes \<le> 11"
  using chain_settles [of ascii_platform demoChain, unfolded demoChain_fields, OF demo_options] by simp

end
