(* ===== verification/Spec2Isabelle.thy ===== *)
theory Spec2Isabelle
  imports AsyncInspect RedirectChain
begin

text \<open>
  A verification development for linklint, a URL inspector written in TypeScript.

  \<^bold>\<open>The program.\<close> \<open>packages/core\<close> is a pure library. \<open>inspect\<close> takes one string and an untyped options
  value, tokenizes and parses the string, runs forty checks over it and returns a result: a status, a
  score in \<open>0..1\<close>, a severity, the reasons, and lists of what ran and what was skipped.
  \<open>compareUrls\<close> relates the origins and sites of two inputs. \<open>inspectAsync\<close> adds the answers of enrichers
  the caller supplies, run under deadlines, an admission governor and a cache, in the order of a
  dependency plan. \<open>packages/online\<close> holds enrichers that use the network; all of their traffic to a
  destination goes through the sessions of \<open>transport/safe-transport.ts\<close>. \<open>packages/cli\<close> and
  \<open>packages/mcp\<close> are front ends.

  \<^bold>\<open>Strings, numbers, values.\<close> A string is a list of UTF-16 code units (\<open>Prelude\<close>: \<open>ustring\<close>; \<open>str\<close>
  turns an ASCII literal into one). A number the program computes with is a rational followed by the
  rounding of IEEE binary64 (\<open>Numbers\<close>: \<open>fl\<close>); where a bound makes rounding irrelevant it is a natural
  number or an integer, and 32-bit arithmetic is done on \<open>32 word\<close>. A value the code checks at run time is a
  \<open>jsval\<close> (\<open>Options\<close>), whose property reads may raise. An exception is \<open>None\<close>, or the left of a sum where
  the code distinguishes exceptions. \<open>Regex\<close> has the regular expressions of the sources as data with
  a matcher that is proved complete for the inductive meaning of a match.

  \<^bold>\<open>Outside code.\<close> What the sources take from the engine or from packages (the Unicode tables, the
  \<open>URL\<close> class, the Public Suffix List lookup of \<open>tldts\<close>, the UTS-46 processing of \<open>tr46\<close>) is the record
  \<open>platform\<close> of \<open>Platform\<close>, an argument of every definition that uses it; \<open>ascii_platform\<close> is a concrete
  instance for examples. The network side has the record \<open>net_platform\<close> of \<open>Transport\<close>
  (\<open>node:net\<close>, \<open>node:zlib\<close>, \<open>URL\<close>) and \<open>web_platform\<close> of \<open>RedirectChain\<close> (URL resolution, text decoders). The clock, the caller's enrichers and the ports of a transport session
  are arguments: each call is given the answers it will receive, and the theorems quantify over them.

  \<^bold>\<open>Theories, in the order of the code.\<close>
  \<^item> \<open>Tokens\<close> (\<open>parse/syntax.ts\<close>, \<open>raw-tokens.ts\<close>, \<open>authority-region.ts\<close>): the tokenizer. Tokens concatenate
    back to the input.
  \<^item> \<open>Ip\<close> (\<open>parse/ip.ts\<close>): the \<open>inet_aton\<close> reading of IPv4, IPv6 with RFC 5952 rendering. Canonical forms are
    fixed points and identify the address.
  \<^item> \<open>RawParts\<close> (\<open>parse/prepare.ts\<close>, \<open>raw-parts.ts\<close>, \<open>failure.ts\<close>): the validating parser. The parts of an
    accepted authority spell it.
  \<^item> \<open>Decode\<close> (\<open>parse/decode.ts\<close>), \<open>Punycode\<close> (\<open>unicode/punycode.ts\<close>), \<open>Platform\<close> (\<open>unicode/format-chars.ts\<close>,
    \<open>idna.ts\<close>): bounded decoding stabilizes within half the length; the Punycode codec round-trips.
  \<^item> \<open>Reasons\<close>, \<open>Scoring\<close> (\<open>schema/reason-codes.ts\<close>, \<open>scoring/\<close>): the registry, the report order (the locales
    \<open>sort_order\<close> and \<open>sort_linorder\<close>), the score as a rounded probabilistic OR, with its error bound,
    and suppression.
  \<^item> \<open>Options\<close>, \<open>Context\<close> (\<open>schema/options.ts\<close>, \<open>parse/runtime.ts\<close>, \<open>psl.ts\<close>, \<open>host-facts.ts\<close>, \<open>context.ts\<close>,
    \<open>parse.ts\<close>): option intake and the inspection context.
  \<^item> \<open>PolicyAxes\<close>, \<open>Provenance\<close> (\<open>policy/\<close>, \<open>data/psl-provenance.ts\<close>): the caller's policy and the age of the
    bundled suffix list.
  \<^item> \<open>Inspect\<close> (\<open>inspect.ts\<close>, \<open>schema/serialize.ts\<close>): the entry point over arbitrary checks. The shape of every
    result, the account of every finding and option, the independence of the score from policy, and what a
    raising check costs.
  \<^item> \<open>TextChecks\<close>, \<open>IpRanges\<close>, \<open>HostChecks\<close>, \<open>HomographChecks\<close>, \<open>PayloadChecks\<close>, \<open>Confusables\<close>, \<open>Checks\<close>
    (\<open>detectors/\<close>, \<open>data/\<close>): every detector with its tables and messages, and the registry. Classification
    depends on the address alone and is a longest-prefix match; a check emits only codes it declares;
    the skeleton loop is one pass on the real table.
  \<^item> \<open>Compare\<close> (\<open>compare/compare-urls.ts\<close>): same origin implies same site.
  \<^item> \<open>Enrichment\<close> (\<open>enrichment-governor.ts\<close>, \<open>enrichment-cache.ts\<close>): the two stateful services, each a machine
    whose calls touch one key (the locale \<open>keyed_machine\<close>, interpreted for both). The governor refines
    a specification on the failure history, the cache a store that never evicts.
  \<^item> \<open>EnrichSchema\<close>, \<open>AsyncRun\<close>, \<open>AsyncPlan\<close>, \<open>AsyncInspect\<close> (\<open>schema/enrich.ts\<close>, \<open>inspect-async.ts\<close>): the validators of
    a report, one guarded run, the dependency plan, the merge. A run follows a call protocol over the
    answers it gets, counts as clean only if all of them were good, and is over by its deadlines; a step runs after its prerequisites; no enricher is silently clean;
    enrichment only adds.
  \<^item> \<open>Transport\<close> (\<open>packages/online/src/transport/\<close>): the session of the network boundary. The inductive
    predicate \<open>safeTrace\<close> is its contract on port calls; every fetch satisfies it. A connection is
    authorized and goes to a pinned public address, a request only to the checked peer, and the budgets of
    a session hold over any sequence of fetches.

  \<^item> \<open>MimeSniff\<close>, \<open>RedirectChain\<close> (\<open>packages/online/src/resolution/mime-sniff.ts\<close>, \<open>redirect-chain.ts\<close>): the enricher
    that follows redirects and refreshes through one transport session, with every target inspected
    offline. A chain connects only where its authorizer consented, fetches no URL twice and at most 32
    in all, ends, and reports its hops as they were linked.

  \<^bold>\<open>State and concurrency.\<close> The core keeps no state between calls; the governor, the cache and the
  transport session are records passed through their operations. Enrichers of one stage run
  concurrently but see only earlier stages, so a stage is the list of its results. A race with a
  deadline is decided by the environment of the call.

  \<^bold>\<open>Termination and fuel.\<close> Loops are structural recursions or functions with a measure, the plan loop,
  the cycle search, the redirect walk and the HTML scanners included. The depth cap of \<open>boundedDecode\<close> and the pass cap of the skeleton are in the
  source. Only the outer loop of the Punycode encoder has fuel, and the length of the label is shown
  to be enough. A run that never settles is \<open>None\<close>, and that it settles is a theorem under the
  hypothesis that deadlines are in force.

  \<^bold>\<open>Simplifications.\<close> The one-line summaries of the reason registry are left out. The observation
  times and the certificate carried by transport evidence are left out. What an abandoned transport
  attempt does after it lost against the deadline is outside the outcome of its fetch. The outcomes of a
  redirect chain are typed records, not the JSON of its report. The functions of the platform are total,
  so parsing and the built-in checks never raise: the \<open>catch\<close> around parsing in \<open>inspect.ts\<close> has no
  counterpart, and the built-in scans and detectors are total, while \<open>inspectWith\<close> and its theorems cover
  checks that raise. The members of an enricher that one run reads, as \<open>timeoutMs\<close>, are plain properties; a
  getter there that raises would reject \<open>inspectAsync\<close>, as would a signal whose \<open>aborted\<close> raises.

  \<^bold>\<open>Not modelled.\<close> The command line and the MCP server (argument parsing by a library, terminal
  output); the remaining \<open>packages/online\<close>: the wrapper and divergence enrichers, the reputation sources and mirrors (provider protocols and file formats over HTTP), the Node adapters of the
  ports, TLS certificate observation; the scripted ports for tests; the build tools and the
  tests. Re-export modules and type-only modules have nothing to model.
\<close>

end
